(* ===== verification/Prelude.thy ===== *)
theory Prelude
  imports Main "HOL-Library.Sublist"
begin

text \<open>
  Shared vocabulary of the development: the collections of rewrite rules the component
  theories extend, the two result types every fallible operation of the program uses, and the
  generic facts on lists and options that more than one component needs.
\<close>

section \<open>Collections of facts\<close>

named_theorems js_simps "evaluation rules of the JavaScript primitives"
named_theorems token_simps "evaluation rules of the token classes"
named_theorems authority_simps "evaluation rules of the authorities and principals"
named_theorems zpe_simps "evaluation rules of the ZPE policy engine"
named_theorems zts_simps "evaluation rules of the ZTS client and of rdl-rest"

section \<open>Exceptions and nullable references\<close>

text \<open>
  A JavaScript function that may throw returns \<open>exn + 'a\<close>: \<open>Inl\<close> is the thrown exception.
  \<open>Error\<close> is a \<^verbatim>\<open>new Error(msg)\<close> of the program, \<open>TypeError\<close> what the language
  raises when a property of \<^verbatim>\<open>null\<close> or \<^verbatim>\<open>undefined\<close> is read or a value that
  is not a function is called, and \<open>HostError\<close> an exception of the platform (file system,
  crypto library).
\<close>

datatype exn = Error string | TypeError string | SyntaxError string | HostError string

type_synonym 'a result = "exn + 'a"

definition bind_result :: "'a result \<Rightarrow> ('a \<Rightarrow> 'b result) \<Rightarrow> 'b result" where
  "bind_result r f = (case r of Inl e \<Rightarrow> Inl e | Inr x \<Rightarrow> f x)"

lemma bind_result_simps [simp]:
  "bind_result (Inl e) f = Inl e"
  "bind_result (Inr x) f = f x"
  by (simp_all add: bind_result_def)

lemma bind_result_Inr_iff:
  "bind_result r f = Inr y \<longleftrightarrow> (\<exists>x. r = Inr x \<and> f x = Inr y)"
  by (cases r) auto

text \<open>A loop that threads an accumulator and stops at the first exception.\<close>

fun fold_result :: "('x \<Rightarrow> 'a \<Rightarrow> 'a result) \<Rightarrow> 'x list \<Rightarrow> 'a \<Rightarrow> 'a result" where
  "fold_result f [] a = Inr a"
| "fold_result f (x # xs) a = bind_result (f x a) (fold_result f xs)"

lemma fold_result_append:
  "fold_result f (xs @ ys) a = bind_result (fold_result f xs a) (fold_result f ys)"
  by (induction xs arbitrary: a) (auto simp: bind_result_def split: sum.splits)

lemma fold_result_invariant:
  assumes "fold_result f xs a = Inr b" and "I a"
    and "\<And>x a b. x \<in> set xs \<Longrightarrow> I a \<Longrightarrow> f x a = Inr b \<Longrightarrow> I b"
  shows "I b"
  using assms
proof (induction xs arbitrary: a)
  case (Cons x xs)
  then obtain a' where "f x a = Inr a'" "fold_result f xs a' = Inr b"
    by (auto simp: bind_result_Inr_iff)
  with Cons show ?case by auto
qed simp

text \<open>The results of a function on the items of a list, or the first exception.\<close>

fun map_result :: "('x \<Rightarrow> 'y result) \<Rightarrow> 'x list \<Rightarrow> 'y list result" where
  "map_result f [] = Inr []"
| "map_result f (x # xs) = bind_result (f x) (\<lambda>y. bind_result (map_result f xs) (\<lambda>ys. Inr (y # ys)))"

lemma map_result_set:
  "map_result f xs = Inr ys \<Longrightarrow> y \<in> set ys \<Longrightarrow> \<exists>x\<in>set xs. f x = Inr y"
  by (induction xs arbitrary: ys) (auto simp: bind_result_Inr_iff)

text \<open>The items that satisfy a test which may throw, and whether an item does (up to the first).\<close>

fun filter_result :: "('x \<Rightarrow> bool result) \<Rightarrow> 'x list \<Rightarrow> 'x list result" where
  "filter_result p [] = Inr []"
| "filter_result p (x # xs) =
     bind_result (p x) (\<lambda>b. bind_result (filter_result p xs) (\<lambda>ys. Inr (if b then x # ys else ys)))"

fun some_result :: "('x \<Rightarrow> bool result) \<Rightarrow> 'x list \<Rightarrow> bool result" where
  "some_result p [] = Inr False"
| "some_result p (x # xs) = bind_result (p x) (\<lambda>b. if b then Inr True else some_result p xs)"

lemma filter_result_pure [simp]: "filter_result (\<lambda>x. Inr (p x)) xs = Inr (filter p xs)"
  by (induction xs) auto

lemma map_result_pure [simp]: "map_result (\<lambda>x. Inr (f x)) xs = Inr (map f xs)"
  by (induction xs) auto

text \<open>
  A reference that may be \<^verbatim>\<open>undefined\<close>, \<^verbatim>\<open>null\<close> or a value of a known type.
  The two empty values are kept apart because strict comparison (\<^verbatim>\<open>===\<close>) tells them
  apart.
\<close>

datatype 'a jsref = Undefined | Null | Val 'a

definition present :: "'a jsref \<Rightarrow> bool" where
  "present r = (case r of Val _ \<Rightarrow> True | _ \<Rightarrow> False)"

lemma present_simps [simp]:
  "present (Val x)" "\<not> present Null" "\<not> present Undefined"
  by (simp_all add: present_def)

lemma present_iff: "present r \<longleftrightarrow> (\<exists>x. r = Val x)"
  by (cases r) auto

section \<open>Lists\<close>

lemma takeWhile_append_stop:
  "\<forall>x\<in>set xs. P x \<Longrightarrow> \<not> P y \<Longrightarrow> takeWhile P (xs @ y # ys) = xs"
  by (induction xs) auto

lemma dropWhile_append_stop:
  "\<forall>x\<in>set xs. P x \<Longrightarrow> \<not> P y \<Longrightarrow> dropWhile P (xs @ y # ys) = y # ys"
  by (induction xs) auto

lemma map_of_filter_neq:
  "k \<noteq> k' \<Longrightarrow> map_of (filter (\<lambda>p. fst p \<noteq> k') kvs) k = map_of kvs k"
  by (induction kvs) auto

lemma map_of_filter_eq: "map_of (filter (\<lambda>p. fst p \<noteq> k) kvs) k = None"
  by (induction kvs) auto

lemma foldl_invariant:
  assumes "I a" and "\<And>a x. I a \<Longrightarrow> x \<in> set xs \<Longrightarrow> I (f a x)"
  shows "I (foldl f a xs)"
  using assms by (induction xs arbitrary: a) auto

lemma find_SomeD: "List.find P xs = Some x \<Longrightarrow> x \<in> set xs \<and> P x"
  by (induction xs) (auto split: if_splits)

lemma find_Some_iff_ex: "(\<exists>x. List.find P xs = Some x) \<longleftrightarrow> (\<exists>x\<in>set xs. P x)"
  by (induction xs) auto

end
