(* ===== verification/Js_Regex.thy ===== *)
theory Js_Regex
  imports Js_Strings
begin

text \<open>
  The regular expressions of the language, for the constructs the program uses: character
  classes, sequence, the greedy quantifiers \<^verbatim>\<open>*\<close> and \<^verbatim>\<open>?\<close>, and
  the anchors \<^verbatim>\<open>^\<close> and \<^verbatim>\<open>$\<close>. Matching backtracks:
  \<open>matches r n s\<close> lists what is left of \<open>s\<close> after each way to match \<open>r\<close> at its start, in the
  order the engine tries them; \<open>n\<close> is the length of the whole input, so that the start anchor
  can tell where it stands. An iteration of a quantifier that consumes nothing is rejected, as
  the language prescribes.
\<close>

section \<open>Syntax and matching\<close>

datatype regex =
    Cls "char \<Rightarrow> bool"
  | Cat regex regex
  | Star regex
  | Opt regex
  | Bol
  | Eol
  | Eps

fun matches :: "regex \<Rightarrow> nat \<Rightarrow> string \<Rightarrow> string list" where
  "matches (Cls P) n s = (case s of [] \<Rightarrow> [] | c # cs \<Rightarrow> if P c then [cs] else [])"
| "matches (Cat a b) n s = concat (map (matches b n) (matches a n s))"
| "matches (Star a) n s =
     concat (map (\<lambda>t. if length t < length s then matches (Star a) n t else []) (matches a n s))
     @ [s]"
| "matches (Opt a) n s = filter (\<lambda>t. length t < length s) (matches a n s) @ [s]"
| "matches Bol n s = (if length s = n then [s] else [])"
| "matches Eol n s = (if s = [] then [s] else [])"
| "matches Eps n s = [s]"

declare matches.simps(3) [simp del]

text \<open>
  \<open>exec r s\<close> is \<^verbatim>\<open>r.exec(s)[0]\<close>: the text of the match the engine finds first,
  trying start positions from the left; \<open>None\<close> when \<^verbatim>\<open>exec\<close> returns
  \<^verbatim>\<open>null\<close>.
\<close>

fun exec_from :: "regex \<Rightarrow> nat \<Rightarrow> string \<Rightarrow> string option" where
  "exec_from r n s =
     (case matches r n s of
        t # _ \<Rightarrow> Some (take (length s - length t) s)
      | [] \<Rightarrow> (case s of [] \<Rightarrow> None | _ # cs \<Rightarrow> exec_from r n cs))"

declare exec_from.simps [simp del]

definition exec :: "regex \<Rightarrow> string \<Rightarrow> string option" where
  "exec r s = exec_from r (length s) s"

section \<open>Matches are suffixes\<close>

lemma matches_suffix: "t \<in> set (matches r n s) \<Longrightarrow> suffix t s"
proof (induction r n s arbitrary: t rule: matches.induct)
  case (2 a b n s)
  then obtain u where "suffix u s" and "suffix t u"
    by auto
  then show ?case by (rule suffix_order.trans [rotated])
next
  case (3 a n s)
  show ?case
  proof (cases "t = s")
    case False
    then obtain u where u: "u \<in> set (matches a n s)" "length u < length s"
        "t \<in> set (matches (Star a) n u)"
      using "3.prems" by (subst (asm) matches.simps(3)) (auto split: if_splits)
    then have "suffix u s" and "suffix t u"
      using "3.IH" by blast+
    then show ?thesis by (rule suffix_order.trans [rotated])
  qed simp
next
  case (4 a n s)
  then show ?case by auto
qed (auto simp: suffix_ConsI split: list.splits if_splits)

lemma matches_length: "t \<in> set (matches r n s) \<Longrightarrow> length t \<le> length s"
  by (drule matches_suffix) (rule suffix_length_le)

lemma exec_from_length: "exec_from r n s = Some m \<Longrightarrow> length m \<le> length s"
proof (induction s)
  case Nil
  then show ?case by (auto simp: exec_from.simps [of r n "[]"] split: list.splits)
next
  case (Cons c cs)
  then show ?case
    by (auto simp: exec_from.simps [of r n "c # cs"] split: list.splits)
qed

text \<open>
  A match that is the whole input starts at its beginning and is the first one the engine
  finds there.
\<close>

lemma exec_whole_iff:
  "exec r s = Some s \<longleftrightarrow> (\<exists>ts. matches r (length s) s = [] # ts)"
proof (cases "matches r (length s) s")
  case Nil
  show ?thesis
  proof (cases s)
    case Nil
    with \<open>matches r (length s) s = []\<close> show ?thesis
      by (simp add: exec_def exec_from.simps)
  next
    case (Cons c cs)
    have "exec_from r (length s) cs \<noteq> Some s"
      using exec_from_length [of r "length s" cs s] Cons by auto
    with \<open>matches r (length s) s = []\<close> Cons show ?thesis
      by (simp add: exec_def exec_from.simps [of r "Suc (length cs)" "c # cs"])
  qed
next
  case (Cons t ts)
  then have "suffix t s"
    using matches_suffix [of t r "length s" s] by simp
  then have "take (length s - length t) s = s \<longleftrightarrow> t = []"
    by (auto simp: suffix_def)
  with Cons show ?thesis
    by (simp add: exec_def exec_from.simps [of r _ s])
qed

section \<open>Greedy runs of a character class\<close>

lemma matches_Star_Cls:
  "matches (Star (Cls P)) n s = map (\<lambda>k. drop k s) (rev [0..<Suc (length (takeWhile P s))])"
proof (induction s)
  case Nil
  show ?case by (simp add: matches.simps(3))
next
  case (Cons c cs)
  show ?case
  proof (cases "P c")
    case True
    have "matches (Star (Cls P)) n (c # cs) = matches (Star (Cls P)) n cs @ [c # cs]"
      using True by (subst matches.simps(3)) simp
    also have "\<dots> = map (\<lambda>k. drop k cs) (rev [0..<Suc (length (takeWhile P cs))]) @ [c # cs]"
      by (simp only: Cons.IH)
    also have "\<dots> = map (\<lambda>k. drop k (c # cs)) (rev (0 # map Suc [0..<Suc (length (takeWhile P cs))]))"
      by (simp add: rev_map del: upt_Suc)
    also have "0 # map Suc [0..<Suc (length (takeWhile P cs))] = [0..<Suc (length (takeWhile P (c # cs)))]"
      using True by (simp add: map_Suc_upt upt_conv_Cons del: upt_Suc)
    finally show ?thesis .
  next
    case False
    then show ?thesis by (subst matches.simps(3)) simp
  qed
qed

lemma set_matches_Star_Cls:
  "set (matches (Star (Cls P)) n s) = {t. \<exists>w. s = w @ t \<and> (\<forall>c\<in>set w. P c)}"
proof (intro set_eqI iffI)
  fix t
  assume "t \<in> set (matches (Star (Cls P)) n s)"
  then obtain k where k: "k \<le> length (takeWhile P s)" "t = drop k s"
    by (auto simp: matches_Star_Cls less_Suc_eq_le simp del: upt_Suc)
  have "take k s = take k (takeWhile P s)"
    using k(1) by (metis append_take_drop_id take_add le_add_diff_inverse takeWhile_eq_take
        take_take min.absorb1)
  then have "\<forall>c\<in>set (take k s). P c"
    by (metis in_set_takeD set_takeWhileD)
  moreover have "s = take k s @ t"
    using k(2) by simp
  ultimately show "t \<in> {t. \<exists>w. s = w @ t \<and> (\<forall>c\<in>set w. P c)}"
    by blast
next
  fix t
  assume "t \<in> {t. \<exists>w. s = w @ t \<and> (\<forall>c\<in>set w. P c)}"
  then obtain w where w: "s = w @ t" "\<forall>c\<in>set w. P c"
    by blast
  then have "length w \<le> length (takeWhile P s)"
    by (simp add: takeWhile_append)
  moreover have "t = drop (length w) s"
    using w by simp
  ultimately show "t \<in> set (matches (Star (Cls P)) n s)"
    by (auto simp: matches_Star_Cls less_Suc_eq_le simp del: upt_Suc)
qed

lemma hd_matches_Star_Cls:
  "\<exists>ts. matches (Star (Cls P)) n s = dropWhile P s # ts"
  by (simp add: matches_Star_Cls dropWhile_eq_drop)

end
