(* ===== verification/Name_Syntax.thy ===== *)
theory Name_Syntax
  imports Js_Regex
begin

text \<open>
  Dotted names and the regular expressions that check them. The name checks of
  \<^verbatim>\<open>auth_core\<close> and of the console have expressions of the same shape with different
  character classes. The locale \<open>name_syntax\<close> has what both rely on: which texts the engine, with
  its order of trying, matches as a whole.
\<close>

section \<open>Expressions and names over two character classes\<close>

text \<open>One part: a first character and then others.\<close>

definition re_name :: "(char \<Rightarrow> bool) \<Rightarrow> (char \<Rightarrow> bool) \<Rightarrow> regex" where
  "re_name start ch = Cat (Cls start) (Star (Cls ch))"

text \<open>Parts with dots between them.\<close>

definition re_dotted :: "(char \<Rightarrow> bool) \<Rightarrow> (char \<Rightarrow> bool) \<Rightarrow> regex" where
  "re_dotted start ch =
     Cat (Star (Cat (re_name start ch) (Cls (\<lambda>c. c = CHR ''.'')))) (re_name start ch)"

text \<open>An optional dotted name and a colon, then a dotted name.\<close>

definition re_qualified :: "(char \<Rightarrow> bool) \<Rightarrow> (char \<Rightarrow> bool) \<Rightarrow> regex" where
  "re_qualified start ch =
     Cat (Opt (Cat (re_dotted start ch) (Cls (\<lambda>c. c = CHR '':'')))) (re_dotted start ch)"

text \<open>The names these should accept.\<close>

definition simple_name_of :: "(char \<Rightarrow> bool) \<Rightarrow> (char \<Rightarrow> bool) \<Rightarrow> string \<Rightarrow> bool" where
  "simple_name_of start ch s = (case s of [] \<Rightarrow> False | c # cs \<Rightarrow> start c \<and> list_all ch cs)"

definition dotted_name_of :: "(char \<Rightarrow> bool) \<Rightarrow> (char \<Rightarrow> bool) \<Rightarrow> string \<Rightarrow> bool" where
  "dotted_name_of start ch s = list_all (simple_name_of start ch) (split_on (CHR ''.'') s)"

definition qualified_name_of :: "(char \<Rightarrow> bool) \<Rightarrow> (char \<Rightarrow> bool) \<Rightarrow> string \<Rightarrow> bool" where
  "qualified_name_of start ch s =
     (case split_on (CHR '':'') s of
        [p] \<Rightarrow> dotted_name_of start ch p
      | [q, p] \<Rightarrow> dotted_name_of start ch q \<and> dotted_name_of start ch p
      | _ \<Rightarrow> False)"

text \<open>A text that cannot continue a dotted name.\<close>

definition name_end_of :: "(char \<Rightarrow> bool) \<Rightarrow> string \<Rightarrow> bool" where
  "name_end_of ch r = (r = [] \<or> (\<not> ch (hd r) \<and> hd r \<noteq> CHR ''.''))"

section \<open>Character classes\<close>

text \<open>\<^verbatim>\<open>[a-zA-Z_]\<close> and \<^verbatim>\<open>[a-zA-Z0-9_-]\<close>\<close>

definition name_start :: "char \<Rightarrow> bool" where
  "name_start c = (let n = of_char c :: nat in
     (97 \<le> n \<and> n \<le> 122) \<or> (65 \<le> n \<and> n \<le> 90) \<or> c = CHR ''_'')"

definition name_char :: "char \<Rightarrow> bool" where
  "name_char c = (name_start c \<or> (48 \<le> (of_char c :: nat) \<and> (of_char c :: nat) \<le> 57) \<or> c = CHR ''-'')"

section \<open>How the engine matches them\<close>

locale name_syntax =
  fixes start ch :: "char \<Rightarrow> bool"
  assumes start_char: "start c \<Longrightarrow> ch c"
    and no_dot: "\<not> ch (CHR ''.'')" and no_colon: "\<not> ch (CHR '':'')"
begin

abbreviation simple_name :: "string \<Rightarrow> bool" where
  "simple_name \<equiv> simple_name_of start ch"

abbreviation dotted_name :: "string \<Rightarrow> bool" where
  "dotted_name \<equiv> dotted_name_of start ch"

abbreviation qualified_name :: "string \<Rightarrow> bool" where
  "qualified_name \<equiv> qualified_name_of start ch"

abbreviation name_end :: "string \<Rightarrow> bool" where
  "name_end \<equiv> name_end_of ch"

abbreviation re_simple :: regex where
  "re_simple \<equiv> re_name start ch"

abbreviation re_dot :: regex where
  "re_dot \<equiv> Cat re_simple (Cls (\<lambda>c. c = CHR ''.''))"

abbreviation re_domain :: regex where
  "re_domain \<equiv> re_dotted start ch"

abbreviation re_prefix :: regex where
  "re_prefix \<equiv> Cat re_domain (Cls (\<lambda>c. c = CHR '':''))"

abbreviation re_principal :: regex where
  "re_principal \<equiv> re_qualified start ch"

lemma not_sep [simp]:
  "\<not> ch (CHR ''.'')" "\<not> ch (CHR '':'')" "\<not> start (CHR ''.'')" "\<not> start (CHR '':'')"
  using no_dot no_colon start_char by blast+

lemma simple_name_simps [simp]:
  "\<not> simple_name []" "simple_name (c # cs) \<longleftrightarrow> start c \<and> (\<forall>x\<in>set cs. ch x)"
  by (simp_all add: simple_name_of_def list_all_iff)

lemma simple_chs: "simple_name w \<Longrightarrow> \<forall>x\<in>set w. ch x"
  by (cases w) (auto simp: start_char)

lemma simple_name_no_sep:
  "simple_name w \<Longrightarrow> CHR ''.'' \<notin> set w" "simple_name w \<Longrightarrow> CHR '':'' \<notin> set w"
  using simple_chs not_sep by blast+

lemma set_matches_simple:
  "set (matches re_simple n s) = {t. \<exists>w. s = w @ t \<and> simple_name w}"
proof (cases s)
  case Nil
  then show ?thesis by (auto simp: re_name_def)
next
  case (Cons c cs)
  show ?thesis
  proof (cases "start c")
    case True
    then have "set (matches re_simple n s) = {t. \<exists>w. cs = w @ t \<and> (\<forall>x\<in>set w. ch x)}"
      using Cons by (simp add: re_name_def set_matches_Star_Cls)
    also have "\<dots> = {t. \<exists>w. s = w @ t \<and> simple_name w}"
      using Cons True by (auto simp: Cons_eq_append_conv)
    finally show ?thesis .
  next
    case False
    with Cons show ?thesis
      by (auto simp: re_name_def Cons_eq_append_conv)
  qed
qed

lemma hd_matches_simple:
  assumes "simple_name w" and "s = [] \<or> \<not> ch (hd s)"
  shows "\<exists>ts. matches re_simple n (w @ s) = s # ts"
proof -
  obtain c cs where w: "w = c # cs" "start c" "\<forall>x\<in>set cs. ch x"
    using assms(1) by (cases w) auto
  have "dropWhile ch (cs @ s) = s"
    using w(3) assms(2) by (cases s) auto
  then show ?thesis
    using w hd_matches_Star_Cls [of ch n "cs @ s"] by (simp add: re_name_def)
qed

text \<open>How the engine matches a domain name.\<close>

lemma set_matches_dot:
  "set (matches re_dot n s) = {t. \<exists>w. s = w @ CHR ''.'' # t \<and> simple_name w}"
  by (fastforce simp: set_matches_simple split: list.splits)

lemma matches_dot_none:
  assumes "simple_name p" and "name_end r"
  shows "matches re_dot n (p @ r) = []"
proof -
  have "\<not> (p @ r = w @ CHR ''.'' # t \<and> simple_name w)" for w t
  proof
    assume eq: "p @ r = w @ CHR ''.'' # t \<and> simple_name w"
    have "dropWhile ch (p @ r) = r"
      using simple_chs [OF assms(1)] assms(2) by (cases r) (auto simp: name_end_of_def)
    moreover have "dropWhile ch (w @ CHR ''.'' # t) = CHR ''.'' # t"
      using simple_chs [of w] eq by (simp add: dropWhile_append_stop)
    ultimately show False
      using assms(2) eq by (auto simp: name_end_of_def)
  qed
  then have "set (matches re_dot n (p @ r)) = {}"
    unfolding set_matches_dot by blast
  then show ?thesis by (simp only: set_empty)
qed

lemma hd_matches_dots:
  assumes "ps \<noteq> []" and "\<forall>p\<in>set ps. simple_name p" and "name_end r"
  shows "\<exists>ts. matches (Star re_dot) n (join_with ''.'' ps @ r) = (last ps @ r) # ts"
  using assms(1,2)
proof (induction ps)
  case (Cons p ps)
  show ?case
  proof (cases ps)
    case Nil
    with Cons.prems show ?thesis
      by (subst matches.simps(3)) (simp add: matches_dot_none [OF _ assms(3)] del: matches.simps(2))
  next
    case (Cons q qs)
    let ?s = "join_with ''.'' ps @ r"
    have s: "join_with ''.'' (p # ps) @ r = p @ CHR ''.'' # ?s"
      using Cons by simp
    obtain us where "matches re_simple n (p @ CHR ''.'' # ?s) = (CHR ''.'' # ?s) # us"
      using hd_matches_simple [of p "CHR ''.'' # ?s" n] Cons.prems by auto
    then have "\<exists>vs. matches re_dot n (p @ CHR ''.'' # ?s) = ?s # vs"
      by simp
    moreover obtain ts where "matches (Star re_dot) n ?s = (last ps @ r) # ts"
      using Cons.IH Cons.prems Cons by auto
    ultimately show ?thesis
      using Cons s by (subst matches.simps(3)) (auto simp del: matches.simps(2))
  qed
qed simp

lemma matches_dots_sound:
  "t \<in> set (matches (Star re_dot) n s) \<Longrightarrow>
     \<exists>ps. (\<forall>p\<in>set ps. simple_name p) \<and> s = concat (map (\<lambda>p. p @ ''.'') ps) @ t"
proof (induction s arbitrary: t rule: length_induct)
  case (1 s)
  show ?case
  proof (cases "t = s")
    case True
    then show ?thesis by (intro exI [of _ "[]"]) simp
  next
    case False
    then obtain u where u: "u \<in> set (matches re_dot n s)" "length u < length s"
        "t \<in> set (matches (Star re_dot) n u)"
      using "1.prems" by (subst (asm) matches.simps(3)) (auto split: if_splits)
    obtain ps where ps: "\<forall>p\<in>set ps. simple_name p" "u = concat (map (\<lambda>p. p @ ''.'') ps) @ t"
      using "1.IH" u(2,3) by blast
    obtain w where "s = w @ CHR ''.'' # u" "simple_name w"
      using u(1) unfolding set_matches_dot by blast
    with ps show ?thesis by (intro exI [of _ "w # ps"]) simp
  qed
qed

lemma join_with_dots:
  "join_with ''.'' (ps @ [w]) = concat (map (\<lambda>p. p @ ''.'') ps) @ w"
  by (induction ps) (simp_all add: join_with_append [of "[_]", simplified] split: list.split)

lemma hd_matches_domain:
  assumes "ps \<noteq> []" and "\<forall>p\<in>set ps. simple_name p" and "name_end r"
  shows "\<exists>ts. matches re_domain n (join_with ''.'' ps @ r) = r # ts"
proof -
  obtain ts where "matches (Star re_dot) n (join_with ''.'' ps @ r) = (last ps @ r) # ts"
    using hd_matches_dots [OF assms] by blast
  moreover obtain us where "matches re_simple n (last ps @ r) = r # us"
    using hd_matches_simple [of "last ps" r n] assms by (auto simp: name_end_of_def)
  ultimately show ?thesis
    by (simp add: re_dotted_def)
qed

lemma matches_domain_sound:
  assumes "t \<in> set (matches re_domain n s)"
  obtains ps where "ps \<noteq> []" "\<forall>p\<in>set ps. simple_name p" "s = join_with ''.'' ps @ t"
proof -
  obtain u where u: "u \<in> set (matches (Star re_dot) n s)" "t \<in> set (matches re_simple n u)"
    using assms by (auto simp: re_dotted_def)
  obtain ps where ps: "\<forall>p\<in>set ps. simple_name p" "s = concat (map (\<lambda>p. p @ ''.'') ps) @ u"
    using matches_dots_sound [OF u(1)] by blast
  obtain w where w: "u = w @ t" "simple_name w"
    using u(2) unfolding set_matches_simple by blast
  show ?thesis
    by (rule that [of "ps @ [w]"]) (use ps w in \<open>auto simp: join_with_dots\<close>)
qed

lemma dotted_name_iff:
  "dotted_name s \<longleftrightarrow> (\<exists>ps. ps \<noteq> [] \<and> (\<forall>p\<in>set ps. simple_name p) \<and> s = join_with ''.'' ps)"
proof
  assume "dotted_name s"
  then show "\<exists>ps. ps \<noteq> [] \<and> (\<forall>p\<in>set ps. simple_name p) \<and> s = join_with ''.'' ps"
    using join_with_split_on [of "CHR ''.''" s]
    by (intro exI [of _ "split_on (CHR ''.'') s"]) (simp add: dotted_name_of_def list_all_iff)
next
  assume "\<exists>ps. ps \<noteq> [] \<and> (\<forall>p\<in>set ps. simple_name p) \<and> s = join_with ''.'' ps"
  then show "dotted_name s"
    by (auto simp: dotted_name_of_def list_all_iff split_on_join_with simple_name_no_sep)
qed

lemma dotted_name_no_colon: "dotted_name s \<Longrightarrow> CHR '':'' \<notin> set s"
  using set_join_with [of "''.''"] simple_name_no_sep(2)
  by (fastforce simp: dotted_name_iff)

lemma domain_first_match_iff:
  "(\<exists>ts. matches re_domain n s = [] # ts) \<longleftrightarrow> dotted_name s"
proof
  assume "\<exists>ts. matches re_domain n s = [] # ts"
  then have "[] \<in> set (matches re_domain n s)" by auto
  then show "dotted_name s"
    by (rule matches_domain_sound) (auto simp: dotted_name_iff)
next
  assume "dotted_name s"
  then show "\<exists>ts. matches re_domain n s = [] # ts"
    using hd_matches_domain [of _ "[]" n] by (auto simp: dotted_name_iff name_end_of_def)
qed

text \<open>How the engine matches a principal name.\<close>

lemma matches_prefix_sound:
  "t \<in> set (matches re_prefix n s) \<Longrightarrow> \<exists>q. dotted_name q \<and> s = q @ CHR '':'' # t"
  by (auto simp: dotted_name_iff elim!: matches_domain_sound split: list.splits if_splits)

lemma principal_first_match_iff:
  "(\<exists>ts. matches re_principal n s = [] # ts) \<longleftrightarrow> qualified_name s"
proof
  assume "\<exists>ts. matches re_principal n s = [] # ts"
  then have "[] \<in> set (matches re_principal n s)" by auto
  then consider "[] \<in> set (matches re_domain n s)"
    | t where "t \<in> set (matches re_prefix n s)" "[] \<in> set (matches re_domain n t)"
    by (auto simp: re_qualified_def simp del: matches.simps(2) [of re_domain])
  then show "qualified_name s"
  proof cases
    case 1
    then have "dotted_name s"
      by (rule matches_domain_sound) (auto simp: dotted_name_iff)
    then show ?thesis
      by (simp add: qualified_name_of_def split_on_clean dotted_name_no_colon)
  next
    case (2 t)
    obtain q where q: "dotted_name q" "s = q @ CHR '':'' # t"
      using matches_prefix_sound [OF 2(1)] by blast
    moreover have "dotted_name t"
      using 2(2) by (rule matches_domain_sound) (auto simp: dotted_name_iff)
    ultimately show ?thesis
      by (simp add: qualified_name_of_def split_on_append split_on_clean dotted_name_no_colon)
  qed
next
  assume q: "qualified_name s"
  show "\<exists>ts. matches re_principal n s = [] # ts"
  proof (cases "CHR '':'' \<in> set s")
    case False
    then have d: "dotted_name s"
      using q by (simp add: qualified_name_of_def split_on_clean)
    have "t \<notin> set (matches re_prefix n s)" for t
      using matches_prefix_sound [of t n s] False by (auto simp del: matches.simps)
    then have none: "matches re_prefix n s = []"
      by (meson last_in_set)
    have "matches re_principal n s = matches re_domain n s"
      unfolding re_qualified_def
      by (subst matches.simps(2)) (simp only: matches.simps(4) none, simp)
    then show ?thesis
      using d domain_first_match_iff [of n s] by simp
  next
    case True
    then obtain a b where s: "s = a @ CHR '':'' # b" "CHR '':'' \<notin> set a"
      by (meson split_list_first)
    then have "dotted_name a" "dotted_name b"
      using q by (auto simp: qualified_name_of_def split_on_append split: list.splits
          dest: arg_cong [where f = "join_with '':''"] simp: join_with_split_on)
    then obtain ps where "ps \<noteq> []" "\<forall>p\<in>set ps. simple_name p" "a = join_with ''.'' ps"
      by (auto simp: dotted_name_iff)
    then obtain us where "matches re_domain n s = (CHR '':'' # b) # us"
      using hd_matches_domain [of ps "CHR '':'' # b" n] s by (auto simp: name_end_of_def)
    then have "\<exists>vs. matches re_prefix n s = b # vs"
      by simp
    moreover obtain ts where "matches re_domain n b = [] # ts"
      using \<open>dotted_name b\<close> domain_first_match_iff by blast
    ultimately show ?thesis
      using s(1) by (auto simp: re_qualified_def simp del: matches.simps(2) [of re_domain])
  qed
qed

end

end
