(* ===== verification/Js_Numbers.thy ===== *)
theory Js_Numbers
  imports Complex_Main Js_Strings
begin

text \<open>
  Numbers of the language: finite values, the two infinities and \<open>NaN\<close>, with the comparison and
  arithmetic the program uses, the conversion \<^verbatim>\<open>Number(s)\<close> of a string and the decimal
  rendering of integers. Finite values are exact rationals. They agree with IEEE doubles on
  every integer below \<open>2 ^ 53\<close>, which covers the times, offsets and lifetimes the program
  computes with; rounding of longer literals is not modelled.
\<close>

section \<open>Values, order and arithmetic\<close>

datatype jsnum = NaN | Fin rat | PInf | NInf

instantiation jsnum :: "{zero, plus, minus, ord}"
begin

definition zero_jsnum :: jsnum where
  "0 = Fin 0"

fun plus_jsnum :: "jsnum \<Rightarrow> jsnum \<Rightarrow> jsnum" where
  "Fin a + Fin b = Fin (a + b)"
| "Fin a + PInf = PInf"
| "Fin a + NInf = NInf"
| "PInf + Fin b = PInf"
| "NInf + Fin b = NInf"
| "PInf + PInf = PInf"
| "NInf + NInf = NInf"
| "PInf + NInf = NaN"
| "NInf + PInf = NaN"
| "NaN + b = NaN"
| "a + NaN = NaN"

fun negate_jsnum :: "jsnum \<Rightarrow> jsnum" where
  "negate_jsnum (Fin a) = Fin (- a)"
| "negate_jsnum PInf = NInf"
| "negate_jsnum NInf = PInf"
| "negate_jsnum NaN = NaN"

definition minus_jsnum :: "jsnum \<Rightarrow> jsnum \<Rightarrow> jsnum" where
  "a - b = a + negate_jsnum b"

fun less_jsnum :: "jsnum \<Rightarrow> jsnum \<Rightarrow> bool" where
  "(Fin a < Fin b) = (a < b)"
| "(Fin a < PInf) = True"
| "(NInf < Fin b) = True"
| "(NInf < PInf) = True"
| "((_ :: jsnum) < _) = False"

definition less_eq_jsnum :: "jsnum \<Rightarrow> jsnum \<Rightarrow> bool" where
  "a \<le> b = (a < b \<or> (a = b \<and> a \<noteq> NaN))"

instance ..

end

text \<open>
  Strict equality: \<open>NaN\<close> differs from every value, itself included, so \<^verbatim>\<open>x !== 0\<close>
  holds for \<open>NaN\<close>. A number is truthy unless it is zero or \<open>NaN\<close>.
\<close>

definition num_eq :: "jsnum \<Rightarrow> jsnum \<Rightarrow> bool" where
  "num_eq a b = (a = b \<and> a \<noteq> NaN)"

definition num_truthy :: "jsnum \<Rightarrow> bool" where
  "num_truthy a = (a \<noteq> NaN \<and> a \<noteq> 0)"

abbreviation num_of_int :: "int \<Rightarrow> jsnum" where
  "num_of_int i \<equiv> Fin (of_int i)"

lemma minus_Fin [simp]: "Fin a - Fin b = Fin (a - b)"
  by (simp add: minus_jsnum_def)

lemma minus_special [simp]:
  "NaN - x = NaN" "PInf - Fin b = PInf" "NInf - Fin b = NInf"
  by (simp_all add: minus_jsnum_def)

lemma less_NaN [simp]: "\<not> a < NaN" "\<not> NaN < (b :: jsnum)"
  by (cases a; simp) simp

lemma num_eq_Fin [simp]: "num_eq (Fin a) (Fin b) \<longleftrightarrow> a = b"
  by (simp add: num_eq_def)

lemma num_eq_zero [simp]: "num_eq (Fin a) 0 \<longleftrightarrow> a = 0" "\<not> num_eq NaN b"
  by (simp_all add: num_eq_def zero_jsnum_def)

lemma num_truthy_Fin [simp]: "num_truthy (Fin a) \<longleftrightarrow> a \<noteq> 0" "\<not> num_truthy NaN"
  by (simp_all add: num_truthy_def zero_jsnum_def)

lemma less_zero_Fin [simp]: "Fin a < 0 \<longleftrightarrow> a < 0" "0 < Fin a \<longleftrightarrow> 0 < a"
  by (simp_all add: zero_jsnum_def)

lemma less_eq_Fin [simp]: "Fin a \<le> Fin b \<longleftrightarrow> a \<le> b"
  by (auto simp: less_eq_jsnum_def)

section \<open>Reading a number: \<^verbatim>\<open>Number(s)\<close>\<close>

definition digit_char :: "char \<Rightarrow> bool" where
  "digit_char c = (48 \<le> (of_char c :: nat) \<and> (of_char c :: nat) \<le> 57)"

definition digit_val :: "char \<Rightarrow> nat" where
  "digit_val c = (let n = of_char c :: nat in
     if 48 \<le> n \<and> n \<le> 57 then n - 48
     else if 97 \<le> n \<and> n \<le> 122 then n - 87
     else if 65 \<le> n \<and> n \<le> 90 then n - 55
     else 99)"

definition digits_val :: "nat \<Rightarrow> string \<Rightarrow> nat" where
  "digits_val base s = foldl (\<lambda>acc c. acc * base + digit_val c) 0 s"

definition space_char :: "char \<Rightarrow> bool" where
  "space_char c = ((of_char c :: nat) \<in> {9, 10, 11, 12, 13, 32, 160})"

definition trim :: "string \<Rightarrow> string" where
  "trim s = rev (dropWhile space_char (rev (dropWhile space_char s)))"

text \<open>Scaling by a power of ten with a positive or negative exponent.\<close>

definition scale10 :: "nat \<Rightarrow> int \<Rightarrow> rat" where
  "scale10 m e = (if 0 \<le> e then of_nat m * 10 ^ nat e else of_nat m / 10 ^ nat (- e))"

text \<open>The exponent part of a decimal literal: empty, or \<^verbatim>\<open>e\<close>, a sign and digits.\<close>

definition read_exponent :: "string \<Rightarrow> int option" where
  "read_exponent s =
     (case s of
        [] \<Rightarrow> Some 0
      | c # r \<Rightarrow>
          if c = CHR ''e'' \<or> c = CHR ''E'' then
            (let (neg, ds) =
               (case r of
                  [] \<Rightarrow> (False, [])
                | d # r' \<Rightarrow> if d = CHR ''-'' then (True, r')
                            else if d = CHR ''+'' then (False, r') else (False, r))
             in if ds \<noteq> [] \<and> list_all digit_char ds
                then Some (if neg then - int (digits_val 10 ds) else int (digits_val 10 ds))
                else None)
          else None)"

definition read_unsigned_decimal :: "string \<Rightarrow> jsnum" where
  "read_unsigned_decimal s =
     (if s = ''Infinity'' then PInf
      else let ip = takeWhile digit_char s; r = dropWhile digit_char s;
               (fp, r') = (case r of
                   c # q \<Rightarrow> if c = CHR ''.'' then (takeWhile digit_char q, dropWhile digit_char q)
                            else ([], r)
                 | [] \<Rightarrow> ([], []))
           in if ip = [] \<and> fp = [] then NaN
              else (case read_exponent r' of
                      None \<Rightarrow> NaN
                    | Some e \<Rightarrow> Fin (scale10 (digits_val 10 (ip @ fp)) (e - int (length fp)))))"

definition read_radix :: "nat \<Rightarrow> string \<Rightarrow> jsnum" where
  "read_radix base ds =
     (if ds \<noteq> [] \<and> list_all (\<lambda>c. digit_val c < base) ds
      then Fin (of_nat (digits_val base ds)) else NaN)"

definition string_to_number :: "string \<Rightarrow> jsnum" where
  "string_to_number s =
     (let t = trim s in
      case t of
        [] \<Rightarrow> 0
      | c # r \<Rightarrow>
          if c = CHR ''-'' then negate_jsnum (read_unsigned_decimal r)
          else if c = CHR ''+'' then read_unsigned_decimal r
          else (case (c, r) of
                  (z, x # ds) \<Rightarrow>
                    if z = CHR ''0'' \<and> (x = CHR ''x'' \<or> x = CHR ''X'') then read_radix 16 ds
                    else if z = CHR ''0'' \<and> (x = CHR ''o'' \<or> x = CHR ''O'') then read_radix 8 ds
                    else if z = CHR ''0'' \<and> (x = CHR ''b'' \<or> x = CHR ''B'') then read_radix 2 ds
                    else read_unsigned_decimal t
                | _ \<Rightarrow> read_unsigned_decimal t))"

section \<open>Printing an integer\<close>

definition digit_of :: "nat \<Rightarrow> char" where
  "digit_of d = char_of (48 + d)"

fun show_nat :: "nat \<Rightarrow> string" where
  "show_nat n = (if n < 10 then [digit_of n] else show_nat (n div 10) @ [digit_of (n mod 10)])"

declare show_nat.simps [simp del]

definition show_int :: "int \<Rightarrow> string" where
  "show_int i = (if i < 0 then CHR ''-'' # show_nat (nat (- i)) else show_nat (nat i))"

lemma digit_of_simps [js_simps]:
  "digit_of 0 = CHR ''0''" "digit_of (Suc 0) = CHR ''1''" "digit_of 1 = CHR ''1''"
  "digit_of 2 = CHR ''2''" "digit_of 3 = CHR ''3''" "digit_of 4 = CHR ''4''"
  "digit_of 5 = CHR ''5''" "digit_of 6 = CHR ''6''" "digit_of 7 = CHR ''7''"
  "digit_of 8 = CHR ''8''" "digit_of 9 = CHR ''9''"
  by code_simp+

lemma of_char_digit_of: "d < 10 \<Longrightarrow> (of_char (digit_of d) :: nat) = 48 + d"
  by (simp add: digit_of_def)

lemma digit_of_char [simp]: "d < 10 \<Longrightarrow> digit_char (digit_of d)"
  by (simp add: digit_char_def of_char_digit_of)

lemma digit_val_digit_of [simp]: "d < 10 \<Longrightarrow> digit_val (digit_of d) = d"
  by (simp add: digit_val_def of_char_digit_of Let_def)

lemma digits_val_snoc: "digits_val b (s @ [c]) = digits_val b s * b + digit_val c"
  by (simp add: digits_val_def)

lemma show_nat_not_Nil [simp]: "show_nat n \<noteq> []"
  by (subst show_nat.simps) simp

lemma show_nat_digits: "c \<in> set (show_nat n) \<Longrightarrow> digit_char c"
proof (induction n arbitrary: c rule: show_nat.induct)
  case (1 n)
  show ?case
  proof (cases "n < 10")
    case True
    with "1.prems" show ?thesis by (subst (asm) show_nat.simps) simp
  next
    case False
    then have "c \<in> set (show_nat (n div 10)) \<or> c = digit_of (n mod 10)"
      using "1.prems" by (subst (asm) show_nat.simps) auto
    with "1.IH" False show ?thesis by auto
  qed
qed

lemma digits_val_show_nat: "digits_val 10 (show_nat n) = n"
proof (induction n rule: show_nat.induct)
  case (1 n)
  show ?case
  proof (cases "n < 10")
    case True
    then show ?thesis by (subst show_nat.simps) (simp add: digits_val_def)
  next
    case False
    with "1.IH" show ?thesis
      by (subst show_nat.simps) (simp add: digits_val_snoc)
  qed
qed

lemma digit_char_not_space: "digit_char c \<Longrightarrow> \<not> space_char c"
  by (auto simp: digit_char_def space_char_def)

lemma trim_id:
  assumes "\<forall>c\<in>set s. \<not> space_char c"
  shows "trim s = s"
proof -
  have "dropWhile space_char s = s"
    using assms by (cases s) auto
  moreover have "dropWhile space_char (rev s) = rev s"
    using assms by (cases "rev s") (auto dest: arg_cong [where f = set])
  ultimately show ?thesis by (simp add: trim_def)
qed

lemma read_unsigned_decimal_digits:
  assumes "s \<noteq> []" and "\<forall>c\<in>set s. digit_char c"
  shows "read_unsigned_decimal s = Fin (of_nat (digits_val 10 s))"
proof -
  have ne: "s \<noteq> ''Infinity''"
    using assms(2) by (auto simp: digit_char_def)
  have tw: "takeWhile digit_char s = s" and dw: "dropWhile digit_char s = []"
    using assms(2) by (simp_all add: takeWhile_eq_all_conv)
  show ?thesis
    using assms(1)
    by (simp add: ne tw dw read_unsigned_decimal_def read_exponent_def scale10_def)
qed

lemma digit_char_ne:
  assumes "digit_char c"
  shows "c \<noteq> CHR ''-''" "c \<noteq> CHR ''+''" "c \<noteq> CHR ''x''" "c \<noteq> CHR ''X''"
    "c \<noteq> CHR ''o''" "c \<noteq> CHR ''O''" "c \<noteq> CHR ''b''" "c \<noteq> CHR ''B''"
    "c \<noteq> CHR '';''" "c \<noteq> CHR ''=''" "c \<noteq> CHR '',''"
  using assms by (auto simp: digit_char_def)

lemma string_to_number_digits:
  assumes "s \<noteq> []" and "\<forall>c\<in>set s. digit_char c"
  shows "string_to_number s = Fin (of_nat (digits_val 10 s))"
proof -
  have t: "trim s = s"
    using assms(2) digit_char_not_space by (simp add: trim_id)
  obtain c r where s: "s = c # r"
    using assms(1) by (cases s) auto
  have c: "digit_char c"
    using assms(2) s by simp
  have x: "\<And>x ds. r = x # ds \<Longrightarrow> digit_char x"
    using assms(2) s by simp
  have "string_to_number s = read_unsigned_decimal s"
    using t s digit_char_ne [OF c] digit_char_ne [OF x]
    by (auto simp: string_to_number_def Let_def split: list.split)
  then show ?thesis
    using assms by (simp add: read_unsigned_decimal_digits)
qed

lemma string_to_number_show_nat [simp]: "string_to_number (show_nat n) = Fin (of_nat n)"
  using string_to_number_digits [of "show_nat n"] show_nat_digits [of _ n]
  by (simp add: digits_val_show_nat)

lemma string_to_number_show_int [simp]: "string_to_number (show_int i) = num_of_int i"
proof (cases "i < 0")
  case True
  let ?n = "nat (- i)"
  have "\<not> space_char (CHR ''-'')"
    by (simp add: space_char_def)
  then have "trim (CHR ''-'' # show_nat ?n) = CHR ''-'' # show_nat ?n"
    using show_nat_digits [of _ ?n] digit_char_not_space by (simp add: trim_id)
  then have "string_to_number (show_int i) = negate_jsnum (read_unsigned_decimal (show_nat ?n))"
    using True by (simp add: string_to_number_def show_int_def)
  also have "\<dots> = num_of_int i"
    using True show_nat_digits [of _ ?n]
    by (simp add: read_unsigned_decimal_digits digits_val_show_nat)
  finally show ?thesis .
next
  case False
  then show ?thesis by (simp add: show_int_def)
qed

lemma show_int_not_Nil [simp]: "show_int i \<noteq> []"
  by (simp add: show_int_def)

lemma show_nat_clean:
  "CHR '';'' \<notin> set (show_nat n)" "CHR ''='' \<notin> set (show_nat n)" "CHR '','' \<notin> set (show_nat n)"
  using show_nat_digits [of _ n] digit_char_ne(9-11) by blast+

lemma show_int_clean [simp]:
  "CHR '';'' \<notin> set (show_int i)" "CHR ''='' \<notin> set (show_int i)" "CHR '','' \<notin> set (show_int i)"
  by (simp_all add: show_int_def show_nat_clean)

end
