(* ===== verification/Js_Values.thy ===== *)
theory Js_Values
  imports Js_Numbers "HOL-Library.List_Lexorder" "HOL-Library.Char_ord"
begin

text \<open>
  Dynamic values of the language (what \<^verbatim>\<open>JSON.parse\<close> returns and what configuration
  objects hold), truthiness, \<^verbatim>\<open>Number(v)\<close>, and objects as association lists in
  insertion order: property lookup, assignment, \<^verbatim>\<open>delete\<close>,
  \<^verbatim>\<open>Object.keys\<close> and \<^verbatim>\<open>Object.assign\<close>. A plain object also
  answers to the names of \<^verbatim>\<open>Object.prototype\<close>; \<open>proto_keys\<close> lists them.
\<close>

section \<open>Values\<close>

datatype jsval =
    JUndef
  | JNull
  | JBool bool
  | JNum jsnum
  | JStr string
  | JArr "jsval list"
  | JObj "(string \<times> jsval) list"

fun truthy :: "jsval \<Rightarrow> bool" where
  "truthy JUndef = False"
| "truthy JNull = False"
| "truthy (JBool b) = b"
| "truthy (JNum n) = num_truthy n"
| "truthy (JStr s) = (s \<noteq> [])"
| "truthy (JArr _) = True"
| "truthy (JObj _) = True"

text \<open>\<^verbatim>\<open>a || b\<close>\<close>

definition js_or :: "jsval \<Rightarrow> jsval \<Rightarrow> jsval" where
  "js_or a b = (if truthy a then a else b)"

text \<open>
  \<^verbatim>\<open>Number(v)\<close>. Arrays and objects convert through their string form, which no caller
  in the program relies on; they read as \<open>NaN\<close> here.
\<close>

fun to_number :: "jsval \<Rightarrow> jsnum" where
  "to_number JUndef = NaN"
| "to_number JNull = 0"
| "to_number (JBool b) = (if b then Fin 1 else 0)"
| "to_number (JNum n) = n"
| "to_number (JStr s) = string_to_number s"
| "to_number (JArr _) = NaN"
| "to_number (JObj _) = NaN"

text \<open>Truthiness of a nullable string and of a nullable object.\<close>

definition str_truthy :: "string jsref \<Rightarrow> bool" where
  "str_truthy r = (case r of Val s \<Rightarrow> s \<noteq> [] | _ \<Rightarrow> False)"

definition str_or :: "string jsref \<Rightarrow> string \<Rightarrow> string" where
  "str_or r d = (case r of Val s \<Rightarrow> if s = [] then d else s | _ \<Rightarrow> d)"

definition ref_of_val :: "jsval \<Rightarrow> string jsref" where
  "ref_of_val v = (case v of JStr s \<Rightarrow> Val s | JNull \<Rightarrow> Null | _ \<Rightarrow> Undefined)"

lemma str_truthy_simps [simp]:
  "str_truthy (Val s) \<longleftrightarrow> s \<noteq> []" "\<not> str_truthy Null" "\<not> str_truthy Undefined"
  by (simp_all add: str_truthy_def)

lemma str_truthy_iff: "str_truthy r \<longleftrightarrow> (\<exists>s. r = Val s \<and> s \<noteq> [])"
  by (cases r) auto

lemma str_or_simps [simp]:
  "s \<noteq> [] \<Longrightarrow> str_or (Val s) d = s" "str_or (Val []) d = d"
  "str_or Null d = d" "str_or Undefined d = d"
  by (simp_all add: str_or_def)

lemma str_or_not_Nil: "d \<noteq> [] \<Longrightarrow> str_or r d \<noteq> []"
  by (cases r) (auto simp: str_or_def)

section \<open>Objects\<close>

type_synonym 'v jsobj = "(string \<times> 'v) list"

definition obj_get :: "jsval jsobj \<Rightarrow> string \<Rightarrow> jsval" where
  "obj_get kvs k = (case map_of kvs k of None \<Rightarrow> JUndef | Some v \<Rightarrow> v)"

fun obj_put :: "string \<Rightarrow> 'v \<Rightarrow> 'v jsobj \<Rightarrow> 'v jsobj" where
  "obj_put k v [] = [(k, v)]"
| "obj_put k v ((k', v') # kvs) = (if k' = k then (k, v) # kvs else (k', v') # obj_put k v kvs)"

definition obj_del :: "string \<Rightarrow> 'v jsobj \<Rightarrow> 'v jsobj" where
  "obj_del k kvs = filter (\<lambda>p. fst p \<noteq> k) kvs"

definition obj_keys :: "'v jsobj \<Rightarrow> string list" where
  "obj_keys kvs = map fst kvs"

definition obj_assign :: "'v jsobj \<Rightarrow> 'v jsobj \<Rightarrow> 'v jsobj" where
  "obj_assign a b = foldl (\<lambda>acc (k, v). obj_put k v acc) a b"

text \<open>
  Property read on a dynamic value: \<^verbatim>\<open>undefined\<close> and \<^verbatim>\<open>null\<close> raise.
\<close>

definition get_prop :: "jsval \<Rightarrow> string \<Rightarrow> jsval result" where
  "get_prop v k =
     (case v of
        JUndef \<Rightarrow> Inl (TypeError k)
      | JNull \<Rightarrow> Inl (TypeError k)
      | JObj kvs \<Rightarrow> Inr (obj_get kvs k)
      | _ \<Rightarrow> Inr JUndef)"

text \<open>Names every plain object inherits from \<^verbatim>\<open>Object.prototype\<close>.\<close>

definition proto_keys :: "string list" where
  "proto_keys =
     [''constructor'', ''__defineGetter__'', ''__defineSetter__'', ''hasOwnProperty'',
      ''__lookupGetter__'', ''__lookupSetter__'', ''isPrototypeOf'',
      ''propertyIsEnumerable'', ''toString'', ''valueOf'', ''__proto__'', ''toLocaleString'']"

text \<open>
  The inherited functions with an empty parameter list: their \<^verbatim>\<open>length\<close> is 0.
\<close>

definition proto_nullary :: "string list" where
  "proto_nullary = [''toString'', ''valueOf'', ''toLocaleString'']"

lemma map_of_obj_put:
  "map_of (obj_put k v kvs) = (map_of kvs)(k \<mapsto> v)"
  by (induction kvs) (auto simp: fun_eq_iff)

lemma map_of_obj_del: "map_of (obj_del k kvs) = (map_of kvs)(k := None)"
  by (rule ext) (simp add: obj_del_def map_of_filter_neq map_of_filter_eq)

lemma obj_get_put [simp]:
  "obj_get (obj_put k v kvs) k' = (if k' = k then v else obj_get kvs k')"
  by (simp add: obj_get_def map_of_obj_put)

lemma obj_get_Cons [simp]:
  "obj_get ((k', v) # kvs) k = (if k = k' then v else obj_get kvs k)"
  "obj_get [] k = JUndef"
  by (simp_all add: obj_get_def)

lemma keys_obj_put: "set (obj_keys (obj_put k v kvs)) = insert k (set (obj_keys kvs))"
  by (induction k v kvs rule: obj_put.induct) (simp_all add: obj_keys_def insert_commute)

lemma distinct_obj_put: "distinct (obj_keys kvs) \<Longrightarrow> distinct (obj_keys (obj_put k v kvs))"
proof (induction kvs)
  case Nil
  show ?case by (simp add: obj_keys_def)
next
  case (Cons p kvs)
  have "set (map fst (obj_put k v kvs)) = insert k (set (map fst kvs))"
    using keys_obj_put [of k v kvs] by (simp add: obj_keys_def)
  with Cons show ?case by (cases p) (auto simp: obj_keys_def)
qed

lemma map_of_obj_assign: "map_of (obj_assign a b) = map_of a ++ map_of (rev b)"
  by (induction b arbitrary: a)
     (auto simp: obj_assign_def map_of_obj_put map_add_def fun_eq_iff split: option.splits)

lemma get_prop_simps [simp]:
  "get_prop JUndef k = Inl (TypeError k)"
  "get_prop JNull k = Inl (TypeError k)"
  "get_prop (JObj kvs) k = Inr (obj_get kvs k)"
  "get_prop (JStr s) k = Inr JUndef"
  by (simp_all add: get_prop_def)

section \<open>Text of a value, iteration\<close>

text \<open>
  \<^verbatim>\<open>String(n)\<close>: exact for integers, for the special values and for decimal
  fractions of at most twenty places; the exponent notation of very large or small numbers is not
  modelled.
\<close>

fun show_frac :: "nat \<Rightarrow> rat \<Rightarrow> string" where
  "show_frac 0 r = []"
| "show_frac (Suc n) r =
     (if r = 0 then [] else digit_of (nat \<lfloor>r * 10\<rfloor>) # show_frac n (r * 10 - of_int \<lfloor>r * 10\<rfloor>))"

definition num_text :: "jsnum \<Rightarrow> string" where
  "num_text n =
     (case n of
        NaN \<Rightarrow> ''NaN''
      | PInf \<Rightarrow> ''Infinity''
      | NInf \<Rightarrow> ''-Infinity''
      | Fin r \<Rightarrow>
          let i = \<lfloor>\<bar>r\<bar>\<rfloor> in
          (if r < 0 then ''-'' else []) @ show_int i
          @ (if \<bar>r\<bar> = of_int i then [] else ''.'' @ show_frac 20 (\<bar>r\<bar> - of_int i)))"

text \<open>\<^verbatim>\<open>String(v)\<close>, which is also the property key a value denotes.\<close>

fun js_text :: "jsval \<Rightarrow> string" where
  "js_text JUndef = ''undefined''"
| "js_text JNull = ''null''"
| "js_text (JBool b) = (if b then ''true'' else ''false'')"
| "js_text (JNum n) = num_text n"
| "js_text (JStr s) = s"
| "js_text (JArr vs) = join_with '','' (map (\<lambda>v. if v = JUndef \<or> v = JNull then [] else js_text v) vs)"
| "js_text (JObj _) = ''[object Object]''"

text \<open>The items \<^verbatim>\<open>for (x of v)\<close> visits.\<close>

definition iterate :: "jsval \<Rightarrow> jsval list result" where
  "iterate v =
     (case v of
        JArr vs \<Rightarrow> Inr vs
      | JStr s \<Rightarrow> Inr (map (\<lambda>c. JStr [c]) s)
      | _ \<Rightarrow> Inl (TypeError ''not iterable''))"

definition val_of_ref :: "string jsref \<Rightarrow> jsval" where
  "val_of_ref r = (case r of Val s \<Rightarrow> JStr s | Null \<Rightarrow> JNull | Undefined \<Rightarrow> JUndef)"

text \<open>\<^verbatim>\<open>v * 1000\<close>, which turns the seconds of a configuration into milliseconds.\<close>

definition millis :: "jsval \<Rightarrow> jsnum" where
  "millis v = (case to_number v of Fin r \<Rightarrow> Fin (r * 1000) | n \<Rightarrow> n)"

lemma iterate_simps [simp]: "iterate (JArr vs) = Inr vs"
  by (simp add: iterate_def)

end
