(* ===== verification/Validate.thy ===== *)
theory Validate
  imports Name_Syntax Js_Values
begin

text \<open>
  The module \<^verbatim>\<open>util/Validate.js\<close>: names of domains and principals checked with
  regular expressions that are not anchored, the whole name being compared with the first match.
  The theorems say which names pass: dotted sequences of simple names.
\<close>

section \<open>The module\<close>

text \<open>\<^verbatim>\<open>([a-zA-Z_][a-zA-Z0-9_-]*\.)*[a-zA-Z_][a-zA-Z0-9_-]*\<close>\<close>

definition re_domain :: regex where
  "re_domain = re_dotted name_start name_char"

text \<open>\<^verbatim>\<open>((domain):)?(domain)\<close>\<close>

definition re_principal :: regex where
  "re_principal = re_qualified name_start name_char"

text \<open>
  \<^verbatim>\<open>exec\<close> turns \<^verbatim>\<open>null\<close> and \<^verbatim>\<open>undefined\<close> into text, and
  text never equals them, so both fail.
\<close>

definition checkReg :: "regex \<Rightarrow> string jsref \<Rightarrow> bool" where
  "checkReg reg name = (case name of Val s \<Rightarrow> exec reg s = Some s | _ \<Rightarrow> False)"

definition principalName :: "string jsref \<Rightarrow> bool" where
  "principalName name = checkReg re_principal name"

definition domainName :: "string jsref \<Rightarrow> bool" where
  "domainName name = checkReg re_domain name"

section \<open>Specification\<close>

definition dotted_name :: "string \<Rightarrow> bool" where
  "dotted_name = dotted_name_of name_start name_char"

definition qualified_name :: "string \<Rightarrow> bool" where
  "qualified_name = qualified_name_of name_start name_char"

interpretation auth_names: name_syntax name_start name_char
  by unfold_locales (auto simp: name_char_def name_start_def)

section \<open>Properties\<close>

text \<open>
  \<^verbatim>\<open>Validate.domainName\<close> accepts exactly the dotted sequences of simple names:
  although its expression is not anchored, comparing the first match with the whole name makes
  it a full match.
\<close>

theorem domainName_correct:
  "domainName (Val s) = dotted_name s \<and> \<not> domainName Null \<and> \<not> domainName Undefined"
  by (simp add: domainName_def checkReg_def exec_whole_iff auth_names.domain_first_match_iff re_domain_def dotted_name_def)

text \<open>
  \<^verbatim>\<open>Validate.principalName\<close> accepts exactly a dotted name, or two of them
  joined by one colon.
\<close>

theorem principalName_correct:
  "principalName (Val s) = qualified_name s \<and> \<not> principalName Null \<and> \<not> principalName Undefined"
  by (simp add: principalName_def checkReg_def exec_whole_iff auth_names.principal_first_match_iff re_principal_def qualified_name_def)

end
