(* ===== verification/YBase64.thy ===== *)
theory YBase64
  imports Js_Values "HOL-Library.Word"
begin

text \<open>
  The module \<^verbatim>\<open>util/YBase64.js\<close>: base64 with the alphabet characters that are not
  safe in a token or a URL replaced. \<^verbatim>\<open>Buffer.toString('base64')\<close> and
  \<^verbatim>\<open>Buffer.from(s, 'base64')\<close> are modelled on byte lists; what the platform does
  with a string that is not base64 at all is the parameter \<open>lenient\<close>.
\<close>

type_synonym byte = "8 word"

section \<open>Base64\<close>

definition b64_char :: "nat \<Rightarrow> char" where
  "b64_char n =
     (if n < 26 then char_of (65 + n)
      else if n < 52 then char_of (71 + n)
      else if n < 62 then char_of (n - 4)
      else if n = 62 then CHR ''+'' else CHR ''/'')"

definition b64_val :: "char \<Rightarrow> nat option" where
  "b64_val c = (let n = of_char c :: nat in
     if 65 \<le> n \<and> n \<le> 90 then Some (n - 65)
     else if 97 \<le> n \<and> n \<le> 122 then Some (n - 71)
     else if 48 \<le> n \<and> n \<le> 57 then Some (n + 4)
     else if c = CHR ''+'' \<or> c = CHR ''-'' then Some 62
     else if c = CHR ''/'' \<or> c = CHR ''_'' then Some 63
     else None)"

fun base64_encode :: "byte list \<Rightarrow> string" where
  "base64_encode [] = []"
| "base64_encode [a] =
     [b64_char (unat a div 4), b64_char (unat a mod 4 * 16), CHR ''='', CHR ''='']"
| "base64_encode [a, b] =
     [b64_char (unat a div 4), b64_char (unat a mod 4 * 16 + unat b div 16),
      b64_char (unat b mod 16 * 4), CHR ''='']"
| "base64_encode (a # b # c # r) =
     [b64_char (unat a div 4), b64_char (unat a mod 4 * 16 + unat b div 16),
      b64_char (unat b mod 16 * 4 + unat c div 64), b64_char (unat c mod 64)]
     @ base64_encode r"

definition byte1 :: "nat \<Rightarrow> nat \<Rightarrow> byte" where
  "byte1 v w = word_of_nat (v * 4 + w div 16)"

definition byte2 :: "nat \<Rightarrow> nat \<Rightarrow> byte" where
  "byte2 w x = word_of_nat (w mod 16 * 16 + x div 4)"

definition byte3 :: "nat \<Rightarrow> nat \<Rightarrow> byte" where
  "byte3 x y = word_of_nat (x mod 4 * 64 + y)"

text \<open>The last group: two or three characters, with or without padding.\<close>

definition decode_last :: "string \<Rightarrow> byte list option" where
  "decode_last s =
     (case map b64_val s of
        [] \<Rightarrow> Some []
      | [Some v, Some w] \<Rightarrow> Some [byte1 v w]
      | [Some v, Some w, Some x] \<Rightarrow> Some [byte1 v w, byte2 w x]
      | [Some v, Some w, Some x, Some y] \<Rightarrow> Some [byte1 v w, byte2 w x, byte3 x y]
      | _ \<Rightarrow> None)"

fun strip_padding :: "string \<Rightarrow> string" where
  "strip_padding [a, b, c, d] =
     (if d = CHR ''='' then (if c = CHR ''='' then [a, b] else [a, b, c]) else [a, b, c, d])"
| "strip_padding s = s"

fun base64_decode :: "string \<Rightarrow> byte list option" where
  "base64_decode (a # b # c # d # e # r) =
     (case (decode_last [a, b, c, d], base64_decode (e # r)) of
        (Some g, Some rest) \<Rightarrow> if length g = 3 then Some (g @ rest) else None
      | _ \<Rightarrow> None)"
| "base64_decode s = decode_last (strip_padding s)"

text \<open>\<^verbatim>\<open>Buffer.from(s, 'base64')\<close>\<close>

definition buffer_from_base64 :: "(string \<Rightarrow> byte list) \<Rightarrow> string \<Rightarrow> byte list" where
  "buffer_from_base64 lenient s =
     (case base64_decode s of Some bs \<Rightarrow> bs | None \<Rightarrow> lenient s)"

text \<open>\<^verbatim>\<open>Buffer.from(s)\<close>: the UTF-8 encoding of the code units.\<close>

definition utf8_char :: "char \<Rightarrow> byte list" where
  "utf8_char c = (let n = of_char c :: nat in
     if n < 128 then [word_of_nat n]
     else [word_of_nat (192 + n div 64), word_of_nat (128 + n mod 64)])"

definition buffer_from_string :: "string \<Rightarrow> byte list" where
  "buffer_from_string s = concat (map utf8_char s)"

section \<open>The module\<close>

datatype buffer_input = Buf "byte list" | Text string

definition ybase64Encode :: "buffer_input \<Rightarrow> string" where
  "ybase64Encode input =
     (let buffer = (case input of Buf bs \<Rightarrow> bs | Text s \<Rightarrow> buffer_from_string s);
          encoded = base64_encode buffer
      in replace_char (CHR ''='') ''-''
           (replace_char (CHR ''/'') ''_'' (replace_char (CHR ''+'') ''.'' encoded)))"

definition ybase64Decode :: "(string \<Rightarrow> byte list) \<Rightarrow> string jsref \<Rightarrow> byte list result" where
  "ybase64Decode lenient input =
     (case input of
        Undefined \<Rightarrow> Inl (Error ''undefined is not string'')
      | Null \<Rightarrow> Inl (Error ''null is not string'')
      | Val s \<Rightarrow>
          (let encoded = replace_char (CHR ''-'') ''=''
             (replace_char (CHR ''_'') ''/'' (replace_char (CHR ''.'') ''+'' s))
           in Inr (buffer_from_base64 lenient encoded)))"

section \<open>Round trip\<close>

lemma char_of_nat_eq_iff:
  "m < 256 \<Longrightarrow> n < 256 \<Longrightarrow> (char_of (m :: nat) = char_of n) = (m = n)"
  by (metis of_char_of mod_less)

lemma of_char_b64_char:
  "n < 64 \<Longrightarrow> (of_char (b64_char n) :: nat) =
     (if n < 26 then 65 + n else if n < 52 then 71 + n else if n < 62 then n - 4
      else if n = 62 then 43 else 47)"
  by (simp add: b64_char_def)

lemma b64_val_char [simp]: "n < 64 \<Longrightarrow> b64_val (b64_char n) = Some n"
proof -
  assume n: "n < 64"
  consider "n < 26" | "26 \<le> n" "n < 52" | "52 \<le> n" "n < 62" | "n = 62" | "n = 63"
    using n by linarith
  then show ?thesis
    using of_char_b64_char [OF n] by cases (auto simp: b64_val_def b64_char_def Let_def)
qed

lemma b64_char_ne:
  assumes "n < 64"
  shows "b64_char n \<noteq> CHR ''=''" "b64_char n \<noteq> CHR ''.''" "b64_char n \<noteq> CHR ''_''"
    "b64_char n \<noteq> CHR ''-''" "b64_char n \<noteq> CHR '';''" "b64_char n \<noteq> CHR '',''"
proof -
  have ne: "(of_char (b64_char n) :: nat) \<notin> {61, 46, 95, 45, 59, 44}"
    using assms by (auto simp: of_char_b64_char split: if_splits)
  show "b64_char n \<noteq> CHR ''=''" "b64_char n \<noteq> CHR ''.''" "b64_char n \<noteq> CHR ''_''"
    "b64_char n \<noteq> CHR ''-''" "b64_char n \<noteq> CHR '';''" "b64_char n \<noteq> CHR '',''"
    using ne by auto
qed

lemma unat_byte [simp]: "unat (a :: byte) < 256"
  using unsigned_less [of a] by simp

lemma sextets [simp]:
  "unat (a :: byte) div 4 < 64" "unat (a :: byte) mod 4 * 16 < 64"
  "unat (a :: byte) mod 4 * 16 + unat (b :: byte) div 16 < 64"
  "unat (b :: byte) mod 16 * 4 < 64"
  "unat (b :: byte) mod 16 * 4 + unat (c :: byte) div 64 < 64"
  "unat (c :: byte) mod 64 < 64"
  using unat_byte [of a] unat_byte [of b] unat_byte [of c] by linarith+

lemma group_arith:
  fixes x y z :: nat
  assumes "y < 256" and "z < 256"
  shows "x div 4 * 4 + (x mod 4 * 16 + y div 16) div 16 = x"
    and "(x mod 4 * 16 + y div 16) mod 16 * 16 + (y mod 16 * 4 + z div 64) div 4 = y"
    and "(y mod 16 * 4 + z div 64) mod 4 * 64 + z mod 64 = z"
proof -
  have y: "y div 16 < 16" and z: "z div 64 < 4"
    using assms by linarith+
  have "(x mod 4 * 16 + y div 16) div 16 = x mod 4"
    using y by (simp add: div_add1_eq)
  then show "x div 4 * 4 + (x mod 4 * 16 + y div 16) div 16 = x"
    by simp
  have "(x mod 4 * 16 + y div 16) mod 16 = y div 16"
    and "(y mod 16 * 4 + z div 64) div 4 = y mod 16"
    using y z by simp_all
  then show "(x mod 4 * 16 + y div 16) mod 16 * 16 + (y mod 16 * 4 + z div 64) div 4 = y"
    by simp
  have "(y mod 16 * 4 + z div 64) mod 4 = z div 64"
    using z by simp
  then show "(y mod 16 * 4 + z div 64) mod 4 * 64 + z mod 64 = z"
    by simp
qed

lemma word_of_unat: "x = unat w \<Longrightarrow> word_of_nat x = (w :: byte)"
  by simp

lemma bytes_of_sextets [simp]:
  "byte1 (unat a div 4) (unat a mod 4 * 16 + unat (b :: byte) div 16) = (a :: byte)"
  "byte2 (unat a mod 4 * 16 + unat b div 16) (unat b mod 16 * 4 + unat (c :: byte) div 64) = b"
  "byte3 (unat b mod 16 * 4 + unat c div 64) (unat c mod 64) = c"
  unfolding byte1_def byte2_def byte3_def
  by (intro word_of_unat group_arith [of "unat b" "unat c"] unat_byte)+

lemma bytes_of_padded [simp]:
  "byte1 (unat a div 4) (unat a mod 4 * 16) = (a :: byte)"
  "byte2 (unat a mod 4 * 16 + unat (b :: byte) div 16) (unat b mod 16 * 4) = b"
  using bytes_of_sextets(1) [of a 0] bytes_of_sextets(2) [of a b 0] by simp_all

lemma base64_encode_not_Nil: "bs \<noteq> [] \<Longrightarrow> base64_encode bs \<noteq> []"
  by (cases bs rule: base64_encode.cases) auto

lemma base64_decode_group:
  "s \<noteq> [] \<Longrightarrow> base64_decode (a # b # c # d # s) =
     (case (decode_last [a, b, c, d], base64_decode s) of
        (Some g, Some rest) \<Rightarrow> if length g = 3 then Some (g @ rest) else None
      | _ \<Rightarrow> None)"
  by (cases s) simp_all

lemma base64_round_trip: "base64_decode (base64_encode bs) = Some bs"
proof (induction bs rule: base64_encode.induct)
  case 1
  show ?case by (simp add: decode_last_def)
next
  case (2 a)
  show ?case by (simp add: decode_last_def)
next
  case (3 a b)
  show ?case by (simp add: decode_last_def b64_char_ne(1))
next
  case (4 a b c r)
  show ?case
  proof (cases "r = []")
    case True
    then show ?thesis by (simp add: decode_last_def b64_char_ne(1))
  next
    case False
    with 4 show ?thesis
      by (simp add: base64_decode_group base64_encode_not_Nil decode_last_def)
  qed
qed

lemma base64_encode_chars:
  "x \<in> set (base64_encode bs) \<Longrightarrow> x = CHR ''='' \<or> (\<exists>n<64. x = b64_char n)"
  by (induction bs rule: base64_encode.induct) (auto intro: sextets)

definition yb64_char :: "char \<Rightarrow> char" where
  "yb64_char x = (if x = CHR ''+'' then CHR ''.'' else if x = CHR ''/'' then CHR ''_''
     else if x = CHR ''='' then CHR ''-'' else x)"

definition yb64_unchar :: "char \<Rightarrow> char" where
  "yb64_unchar x = (if x = CHR ''.'' then CHR ''+'' else if x = CHR ''_'' then CHR ''/''
     else if x = CHR ''-'' then CHR ''='' else x)"

lemma ybase64Encode_Buf: "ybase64Encode (Buf bs) = map yb64_char (base64_encode bs)"
  by (auto simp: ybase64Encode_def Let_def replace_char_single yb64_char_def)

lemma ybase64Decode_Val:
  "ybase64Decode lenient (Val s) = Inr (buffer_from_base64 lenient (map yb64_unchar s))"
proof -
  have "replace_char (CHR ''-'') ''=''
      (replace_char (CHR ''_'') ''/'' (replace_char (CHR ''.'') ''+'' s)) = map yb64_unchar s"
    by (auto simp: replace_char_single yb64_unchar_def)
  then show ?thesis
    by (simp add: ybase64Decode_def)
qed

lemma yb64_unchar_char:
  "x \<in> set (base64_encode bs) \<Longrightarrow> yb64_unchar (yb64_char x) = x"
  by (auto dest!: base64_encode_chars simp: yb64_char_def yb64_unchar_def b64_char_ne)

lemma yb64_chars_clean:
  assumes "x \<in> set (ybase64Encode (Buf bs))"
  shows "x \<noteq> CHR '';'' \<and> x \<noteq> CHR ''='' \<and> x \<noteq> CHR '',''"
  using assms
  by (auto simp: ybase64Encode_Buf yb64_char_def b64_char_ne dest!: base64_encode_chars
      split: if_splits)

end
