(* ===== verification/Crypto.thy ===== *)
theory Crypto
  imports YBase64
begin

text \<open>
  The module \<^verbatim>\<open>util/Crypto.js\<close>. The primitives of the platform's
  \<^verbatim>\<open>crypto\<close> library are the fields of a record that every operation using them
  takes as its argument; each either returns or throws. The one law the development relies on,
  stated by \<open>key_pair\<close>, is that signing with a private key returns a signature,
  not empty, which verifies with its public key.
\<close>

section \<open>Keys and platform primitives\<close>

text \<open>
  A key is the text of a PEM file, a buffer, or, when a key id collides with a name of
  \<^verbatim>\<open>Object.prototype\<close>, the inherited property that the lookup then returns.
\<close>

datatype jskey = KeyText string | KeyBuf "byte list" | KeyProto string

definition key_truthy :: "jskey jsref \<Rightarrow> bool" where
  "key_truthy k = (case k of Val (KeyText s) \<Rightarrow> s \<noteq> [] | Val _ \<Rightarrow> True | _ \<Rightarrow> False)"

record node_crypto =
  nc_hmac :: "string \<Rightarrow> string \<Rightarrow> jskey \<Rightarrow> byte list result"
  nc_sign :: "string \<Rightarrow> string jsref \<Rightarrow> jskey \<Rightarrow> byte list result"
  nc_verify :: "string \<Rightarrow> string \<Rightarrow> jskey jsref \<Rightarrow> byte list \<Rightarrow> bool result"
  nc_base64 :: "string \<Rightarrow> byte list"

definition exn_message :: "exn \<Rightarrow> string" where
  "exn_message e = (case e of Error m \<Rightarrow> m | TypeError m \<Rightarrow> m | SyntaxError m \<Rightarrow> m
     | HostError m \<Rightarrow> m)"

definition wrap_error :: "string \<Rightarrow> 'a result \<Rightarrow> 'a result" where
  "wrap_error pre r = (case r of Inl e \<Rightarrow> Inl (Error (pre @ exn_message e)) | Inr x \<Rightarrow> Inr x)"

section \<open>The module\<close>

definition Crypto_hmac :: "node_crypto \<Rightarrow> string \<Rightarrow> jskey \<Rightarrow> string result" where
  "Crypto_hmac nc message sharedSecret =
     wrap_error ''Crypto:hmac:''
       (bind_result (nc_hmac nc ''sha256'' message sharedSecret)
          (\<lambda>digest. Inr (ybase64Encode (Buf digest))))"

definition Crypto_sign :: "node_crypto \<Rightarrow> string jsref \<Rightarrow> jskey \<Rightarrow> string \<Rightarrow> string result" where
  "Crypto_sign nc message key digestAlgorithm =
     wrap_error ''Crypto:sign:''
       (bind_result (nc_sign nc digestAlgorithm message key)
          (\<lambda>sig. Inr (ybase64Encode (Buf sig))))"

definition Crypto_verify ::
  "node_crypto \<Rightarrow> string \<Rightarrow> jskey jsref \<Rightarrow> string jsref \<Rightarrow> string \<Rightarrow> bool result" where
  "Crypto_verify nc message key signature digestAlgorithm =
     wrap_error ''Crypto:verify:''
       (bind_result (ybase64Decode (nc_base64 nc) signature)
          (\<lambda>sig. nc_verify nc digestAlgorithm message key sig))"

definition hex_digit :: "nat \<Rightarrow> char" where
  "hex_digit d = (if d < 10 then char_of (48 + d) else char_of (87 + d))"

definition hex_byte :: "byte \<Rightarrow> string" where
  "hex_byte b = [hex_digit (unat b div 16), hex_digit (unat b mod 16)]"

text \<open>The four bytes \<^verbatim>\<open>crypto.randomBytes\<close> returned are the argument.\<close>

definition randomSalt :: "byte list \<Rightarrow> string" where
  "randomSalt bytes = concat (map hex_byte bytes)"

section \<open>The law of key pairs\<close>

definition key_pair :: "node_crypto \<Rightarrow> jskey \<Rightarrow> jskey \<Rightarrow> bool" where
  "key_pair nc priv pub \<longleftrightarrow>
     (\<forall>m. \<exists>sig. nc_sign nc ''SHA256'' (Val m) priv = Inr sig \<and> sig \<noteq> []
        \<and> nc_verify nc ''SHA256'' m (Val pub) sig = Inr True)"

lemma wrap_error_simps [simp]:
  "wrap_error p (Inr x) = Inr x" "wrap_error p (Inl e) = Inl (Error (p @ exn_message e))"
  by (simp_all add: wrap_error_def)

lemma key_truthy_simps [simp]:
  "\<not> key_truthy Null" "\<not> key_truthy Undefined" "key_truthy (Val (KeyBuf b))"
  "key_truthy (Val (KeyText s)) \<longleftrightarrow> s \<noteq> []" "key_truthy (Val (KeyProto p))"
  by (simp_all add: key_truthy_def)

lemma Crypto_sign_clean:
  assumes "Crypto_sign nc m k alg = Inr sig"
  shows "CHR '';'' \<notin> set sig" "CHR ''='' \<notin> set sig"
  using assms
  by (auto simp: Crypto_sign_def wrap_error_def bind_result_def dest: yb64_chars_clean
      split: sum.splits)

lemma ybase64_round_trip_Buf:
  "ybase64Decode lenient (Val (ybase64Encode (Buf bs))) = Inr bs"
proof -
  have "map yb64_unchar (map yb64_char (base64_encode bs)) = base64_encode bs"
    by (simp add: yb64_unchar_char map_idI)
  then show ?thesis
    by (simp add: ybase64Decode_Val ybase64Encode_Buf buffer_from_base64_def base64_round_trip
        del: map_map)
qed

lemma key_pair_verifies:
  assumes "key_pair nc priv pub"
  obtains sig where "Crypto_sign nc (Val m) priv ''SHA256'' = Inr sig" and "sig \<noteq> []"
    and "Crypto_verify nc m (Val pub) (Val sig) ''SHA256'' = Inr True"
proof -
  from assms obtain b where b: "nc_sign nc ''SHA256'' (Val m) priv = Inr b" "b \<noteq> []"
      "nc_verify nc ''SHA256'' m (Val pub) b = Inr True"
    unfolding key_pair_def by blast
  show ?thesis
  proof
    show "Crypto_sign nc (Val m) priv ''SHA256'' = Inr (ybase64Encode (Buf b))"
      by (simp add: Crypto_sign_def b)
    show "ybase64Encode (Buf b) \<noteq> []"
      using b(2) by (simp add: ybase64Encode_Buf base64_encode_not_Nil)
    show "Crypto_verify nc m (Val pub) (Val (ybase64Encode (Buf b))) ''SHA256'' = Inr True"
      by (simp add: Crypto_verify_def ybase64_round_trip_Buf b)
  qed
qed

text \<open>
  A concrete platform for the witnesses: the signature of a message is the message after one byte and a
  key verifies what a key with the same text signed.
\<close>

definition demo_crypto :: node_crypto where
  "demo_crypto =
     \<lparr>nc_hmac = (\<lambda>_ m _. Inr (buffer_from_string m)),
      nc_sign = (\<lambda>_ m k. case m of Val s \<Rightarrow> Inr (1 # buffer_from_string s)
                         | _ \<Rightarrow> Inl (TypeError ''update'')),
      nc_verify = (\<lambda>_ m k sig. case k of Val (KeyText _) \<Rightarrow> Inr (sig = 1 # buffer_from_string m)
                               | Val (KeyBuf _) \<Rightarrow> Inr (sig = 1 # buffer_from_string m)
                               | _ \<Rightarrow> Inl (TypeError ''verify'')),
      nc_base64 = (\<lambda>_. [])\<rparr>"

lemma demo_key_pair: "key_pair demo_crypto k (KeyText p)" "key_pair demo_crypto k (KeyBuf b)"
  by (simp_all add: key_pair_def demo_crypto_def)

section \<open>Properties\<close>

text \<open>
  Decoding with \<^verbatim>\<open>ybase64Decode\<close> what \<^verbatim>\<open>ybase64Encode\<close> made of a
  buffer gives the buffer back, and the encoding contains none of the characters that delimit
  the fields of a token.
\<close>

theorem ybase64_round_trip:
  "ybase64Decode lenient (Val (ybase64Encode (Buf bs))) = Inr bs
   \<and> {CHR '';'', CHR ''='', CHR '',''} \<inter> set (ybase64Encode (Buf bs)) = {}"
  using ybase64_round_trip_Buf yb64_chars_clean by blast

end
