(* ===== verification/Auth_Config.thy ===== *)
theory Auth_Config
  imports Js_Values
begin

text \<open>
  The configuration of auth_core: \<^verbatim>\<open>config/default-config.js\<close> and the
  \<^verbatim>\<open>setConfig\<close> that the classes of the library share. A configuration is an
  object; the section of the object passed to \<^verbatim>\<open>setConfig\<close> that concerns
  this library overrides it key by key.
\<close>

type_synonym config = "jsval jsobj"

definition thirty_days :: int where
  "thirty_days = 30 * 24 * 60 * 60"

definition config_section :: "string \<Rightarrow> config" where
  "config_section logLevel =
     [(''principalIpCheckMode'', JStr ''OPS_WRITE''),
      (''principalTokenAllowedOffset'', JStr ''300''),
      (''principalUserDomain'', JStr ''user''),
      (''principalHeader'', JStr ''Athenz-Principal-Auth''),
      (''roleTokenAllowedOffset'', JStr ''300''),
      (''roleUserDomain'', JStr ''user''),
      (''roleHeader'', JStr ''Athenz-Role-Auth''),
      (''tokenMaxExpiry'', JStr (show_int thirty_days)),
      (''tokenNoExpiry'', JBool False),
      (''logLevel'', JStr logLevel)]"

definition config_table :: "(string \<times> config) list" where
  "config_table =
     [(''development'', config_section ''debug''), (''production'', config_section ''info'')]"

definition default_to :: "string \<Rightarrow> jsval \<Rightarrow> config \<Rightarrow> config" where
  "default_to k d c = obj_put k (js_or (obj_get c k) d) c"

text \<open>
  The function the module exports, on the value of the environment variable
  \<^verbatim>\<open>SERVICE_NAME\<close>. A name that is not a section makes the first assignment raise
  (names that every object inherits, such as \<^verbatim>\<open>constructor\<close>, are not considered here).
\<close>

definition default_config :: "string jsref \<Rightarrow> config result" where
  "default_config service_name =
     (case map_of config_table (str_or service_name ''development'') of
        None \<Rightarrow> Inl (TypeError ''principalIpCheckMode'')
      | Some c \<Rightarrow> Inr (
          (default_to ''logLevel'' (JStr ''info'') \<circ>
           default_to ''tokenNoExpiry'' (JBool False) \<circ>
           default_to ''tokenMaxExpiry'' (JStr (show_int thirty_days)) \<circ>
           default_to ''roleHeader'' (JStr ''Athenz-Role-Auth'') \<circ>
           default_to ''roleUserDomain'' (JStr ''user'') \<circ>
           default_to ''roleTokenAllowedOffset'' (JStr ''300'') \<circ>
           default_to ''principalHeader'' (JStr ''Athenz-Principal-Auth'') \<circ>
           default_to ''principalUserDomain'' (JStr ''user'') \<circ>
           default_to ''principalTokenAllowedOffset'' (JStr ''300'') \<circ>
           default_to ''principalIpCheckMode'' (JStr ''OPS_WRITE'')) c))"

text \<open>\<^verbatim>\<open>config = Object.assign({}, config, c.auth_core)\<close>\<close>

definition set_config :: "config \<Rightarrow> config \<Rightarrow> config" where
  "set_config c overrides = obj_assign (obj_assign [] c) overrides"

lemma obj_get_assign:
  "obj_get (obj_assign a b) k = (case map_of (rev b) k of None \<Rightarrow> obj_get a k | Some v \<Rightarrow> v)"
  by (simp add: obj_get_def map_of_obj_assign map_add_def split: option.splits)

lemma map_of_rev_distinct: "distinct (map fst c) \<Longrightarrow> map_of (rev c) = map_of c"
  by (subst map_of_inject_set) (simp_all flip: rev_map)

lemma set_config_get:
  assumes "distinct (map fst c)"
  shows "obj_get (set_config c ov) k =
     (case map_of (rev ov) k of None \<Rightarrow> obj_get c k | Some v \<Rightarrow> v)"
proof -
  have "map_of (obj_assign [] c) = map_of c"
    using assms by (simp add: map_of_obj_assign map_of_rev_distinct)
  then have "obj_get (obj_assign [] c) k = obj_get c k"
    by (simp add: obj_get_def)
  then show ?thesis
    by (simp only: set_config_def obj_get_assign [of "obj_assign [] c"])
qed

end
