(* ===== verification/Token.thy ===== *)
theory Token
  imports Crypto Auth_Config
begin

text \<open>
  The base class of the tokens, \<^verbatim>\<open>token/Token.js\<close>: its fields, signing, time stamps
  and validation, and the reading of the \<^verbatim>\<open>key=value\<close> items that the two subclasses
  share. The module variables are the record \<open>token_module\<close>; the constructor writes them.
  \<^verbatim>\<open>Date.now()\<close> is the argument \<open>now\<close>, in milliseconds.
\<close>

section \<open>State\<close>

record token_module =
  tm_config :: config
  tm_MAX_EXPIRY :: jsnum
  tm_NO_EXPIRY :: jsval

record token =
  tok_unsignedToken :: "string jsref"
  tok_signedToken :: "string jsref"
  tok_version :: "string jsref"
  tok_salt :: "string jsref"
  tok_host :: "string jsref"
  tok_ip :: "string jsref"
  tok_domain :: "string jsref"
  tok_signature :: "string jsref"
  tok_keyId :: "string jsref"
  tok_expiryTime :: jsnum
  tok_timestamp :: jsnum
  tok_digestAlgorithm :: string

definition new_token :: token where
  "new_token =
     \<lparr>tok_unsignedToken = Null, tok_signedToken = Null, tok_version = Null, tok_salt = Null,
      tok_host = Null, tok_ip = Null, tok_domain = Null, tok_signature = Null,
      tok_keyId = Val ''0'', tok_expiryTime = 0, tok_timestamp = 0,
      tok_digestAlgorithm = ''SHA256''\<rparr>"

text \<open>The module variables after a constructor has run.\<close>

definition Token_constructor :: "token_module \<Rightarrow> token_module" where
  "Token_constructor tm =
     (let maxExpiry = to_number (obj_get (tm_config tm) ''tokenMaxExpiry'') in
      tm\<lparr>tm_MAX_EXPIRY := (if maxExpiry > num_of_int thirty_days then num_of_int thirty_days
                           else maxExpiry),
         tm_NO_EXPIRY := obj_get (tm_config tm) ''tokenNoExpiry''\<rparr>)"

definition Token_setConfig :: "config \<Rightarrow> token_module \<Rightarrow> token_module" where
  "Token_setConfig overrides tm = tm\<lparr>tm_config := set_config (tm_config tm) overrides\<rparr>"

section \<open>Operations\<close>

text \<open>Text of a nullable string in a concatenation.\<close>

definition ref_text :: "string jsref \<Rightarrow> string" where
  "ref_text r = (case r of Val s \<Rightarrow> s | Null \<Rightarrow> ''null'' | Undefined \<Rightarrow> ''undefined'')"

definition sign :: "node_crypto \<Rightarrow> jskey \<Rightarrow> 'a token_scheme \<Rightarrow> 'a token_scheme result" where
  "sign nc privateKey t =
     (case Crypto_sign nc (tok_unsignedToken t) privateKey (tok_digestAlgorithm t) of
        Inl e \<Rightarrow> Inl e
      | Inr sig \<Rightarrow>
          Inr (t\<lparr>tok_signature := Val sig,
                 tok_signedToken := Val (ref_text (tok_unsignedToken t) @ '';s='' @ sig)\<rparr>))"

definition setTimeStamp :: "int \<Rightarrow> int \<Rightarrow> int \<Rightarrow> 'a token_scheme \<Rightarrow> 'a token_scheme" where
  "setTimeStamp now issueTime expirationWindow t =
     (let ts = (if issueTime > 0 then issueTime else now div 1000) in
      t\<lparr>tok_timestamp := num_of_int ts, tok_expiryTime := num_of_int (ts + expirationWindow)\<rparr>)"

definition validate ::
  "node_crypto \<Rightarrow> token_module \<Rightarrow> int \<Rightarrow> jskey jsref \<Rightarrow> jsnum \<Rightarrow> bool \<Rightarrow> 'a token_scheme \<Rightarrow> bool"
where
  "validate nc tm now publicKey allowedOffset allowNoExpiry t =
     (if \<not> str_truthy (tok_unsignedToken t) \<or> \<not> str_truthy (tok_signature t) then False
      else if \<not> key_truthy publicKey then False
      else
        let n = num_of_int (now div 1000) in
        if \<not> num_eq (tok_timestamp t) 0 \<and> tok_timestamp t - allowedOffset > n then False
        else if (\<not> num_eq (tok_expiryTime t) 0 \<or> \<not> truthy (tm_NO_EXPIRY tm) \<or> \<not> allowNoExpiry)
                \<and> (tok_expiryTime t < n
                   \<or> tok_expiryTime t > n + tm_MAX_EXPIRY tm + allowedOffset) then False
        else
          (case Crypto_verify nc (ref_text (tok_unsignedToken t)) publicKey (tok_signature t)
                  (tok_digestAlgorithm t) of
             Inl e \<Rightarrow> False
           | Inr verified \<Rightarrow> verified))"

text \<open>The static \<^verbatim>\<open>getUnsignedToken\<close>.\<close>

definition getUnsignedToken :: "string jsref \<Rightarrow> string jsref" where
  "getUnsignedToken credential =
     (case credential of
        Val s \<Rightarrow> (case index_of '';s='' s of Some idx \<Rightarrow> Val (substring s 0 idx) | None \<Rightarrow> Val s)
      | _ \<Rightarrow> credential)"

section \<open>Reading the items of a signed token\<close>

text \<open>
  Both subclasses loop over \<^verbatim>\<open>signedToken.split(';')\<close>, split each item at
  \<^verbatim>\<open>=\<close> and dispatch on the key when there are exactly two parts. The dispatch is the
  argument \<open>setf\<close>.
\<close>

definition item_kv :: "string \<Rightarrow> (string \<times> string) option" where
  "item_kv item = (case split_on (CHR ''='') item of [k, v] \<Rightarrow> Some (k, v) | _ \<Rightarrow> None)"

definition parse_items ::
  "(string \<Rightarrow> string \<Rightarrow> 't \<Rightarrow> 't) \<Rightarrow> string list \<Rightarrow> 't \<Rightarrow> 't" where
  "parse_items setf items t =
     foldl (\<lambda>t item. case item_kv item of Some (k, v) \<Rightarrow> setf k v t | None \<Rightarrow> t) t items"

text \<open>
  The part of \<^verbatim>\<open>parseSignedToken\<close> the subclasses have in common: the text before
  the first \<^verbatim>\<open>;s=\<close>, if there is one, becomes the unsigned token (\<open>setu\<close>
  stores it), then every item of the whole text is dispatched.
\<close>

definition read_token ::
  "(string \<Rightarrow> string \<Rightarrow> 't \<Rightarrow> 't) \<Rightarrow> (string \<Rightarrow> 't \<Rightarrow> 't) \<Rightarrow> string \<Rightarrow> 't \<Rightarrow> 't" where
  "read_token setf setu signedToken t =
     parse_items setf (split_on (CHR '';'') signedToken)
       (case index_of '';s='' signedToken of
          Some idx \<Rightarrow> setu (substring signedToken 0 idx) t
        | None \<Rightarrow> t)"

definition token_kvs :: "string \<Rightarrow> (string \<times> string) list" where
  "token_kvs s = List.map_filter item_kv (split_on (CHR '';'') s)"

definition kv_text :: "string \<times> string \<Rightarrow> string" where
  "kv_text p = fst p @ ''='' @ snd p"

text \<open>A text that can stand in an item without changing how the token is read.\<close>

definition clean :: "string \<Rightarrow> bool" where
  "clean s = (CHR '';'' \<notin> set s \<and> CHR ''='' \<notin> set s)"

definition clean_ref :: "string jsref \<Rightarrow> bool" where
  "clean_ref r = (case r of Val s \<Rightarrow> clean s | _ \<Rightarrow> True)"

lemma parse_items_foldl:
  "parse_items setf items t = foldl (\<lambda>t (k, v). setf k v t) t (List.map_filter item_kv items)"
  by (induction items arbitrary: t)
     (auto simp: parse_items_def map_filter_simps split: option.splits)

text \<open>
  Interface between the reading loop and the switch of a subclass, one instance per field: the
  item with key \<open>key\<close> writes the field through \<open>conv\<close>, every other item leaves it alone.
\<close>

locale token_field =
  fixes setf :: "string \<Rightarrow> string \<Rightarrow> 't \<Rightarrow> 't"
    and get :: "'t \<Rightarrow> 'f" and key :: string and conv :: "string \<Rightarrow> 'f"
  assumes get_set: "get (setf key v t) = conv v"
    and get_other: "k \<noteq> key \<Longrightarrow> get (setf k v t) = get t"
begin

lemma get_foldl:
  "get (foldl (\<lambda>t (k, v). setf k v t) t kvs) =
     (case map_of (rev kvs) key of None \<Rightarrow> get t | Some v \<Rightarrow> conv v)"
proof (induction kvs rule: rev_induct)
  case Nil
  show ?case by simp
next
  case (snoc p kvs)
  then show ?case
    by (cases p) (auto simp: get_set get_other)
qed

text \<open>The value of the field is that of the last item with its key.\<close>

lemma get_parse:
  "get (parse_items setf (split_on (CHR '';'') s) t) =
     (case map_of (rev (token_kvs s)) key of None \<Rightarrow> get t | Some v \<Rightarrow> conv v)"
  by (simp add: parse_items_foldl get_foldl token_kvs_def)

end

text \<open>A field that no item writes.\<close>

locale token_frame =
  fixes setf :: "string \<Rightarrow> string \<Rightarrow> 't \<Rightarrow> 't" and get :: "'t \<Rightarrow> 'f"
  assumes get_any: "get (setf k v t) = get t"
begin

lemma frame_parse: "get (parse_items setf items t) = get t"
  unfolding parse_items_def
  by (induction items arbitrary: t) (auto simp: get_any split: option.splits)

end

section \<open>Well-formed token texts\<close>

lemma clean_simps [simp]:
  "clean []" "clean (c # s) \<longleftrightarrow> c \<noteq> CHR '';'' \<and> c \<noteq> CHR ''='' \<and> clean s"
  "clean (s @ t) \<longleftrightarrow> clean s \<and> clean t"
  by (auto simp: clean_def)

lemma clean_show_int [simp]: "clean (show_int i)"
  by (simp add: clean_def)

lemma clean_ref_simps [simp]:
  "clean_ref (Val s) = clean s" "clean_ref Null" "clean_ref Undefined"
  by (simp_all add: clean_ref_def)

lemma item_kv_text: "clean k \<Longrightarrow> clean v \<Longrightarrow> item_kv (kv_text (k, v)) = Some (k, v)"
  by (simp add: item_kv_def kv_text_def clean_def split_on_append split_on_clean)

lemma token_kvs_join:
  assumes "kvs \<noteq> []" and "\<forall>p\<in>set kvs. clean (fst p) \<and> clean (snd p)"
  shows "token_kvs (join_with '';'' (map kv_text kvs)) = kvs"
proof -
  have "split_on (CHR '';'') (join_with '';'' (map kv_text kvs)) = map kv_text kvs"
    using assms by (intro split_on_join_with) (auto simp: kv_text_def clean_def)
  moreover have "List.map_filter item_kv (map kv_text kvs) = kvs"
    using assms(2) by (induction kvs) (auto simp: map_filter_simps item_kv_text)
  ultimately show ?thesis by (simp add: token_kvs_def)
qed

lemma split_on_append_sep:
  "split_on c (s @ c # t) = split_on c s @ split_on c t"
  by (induction s) (auto split: list.splits)

lemma map_filter_append: "List.map_filter f (xs @ ys) = List.map_filter f xs @ List.map_filter f ys"
  by (simp add: map_filter_def)

lemma token_kvs_append: "token_kvs (s @ CHR '';'' # t) = token_kvs s @ token_kvs t"
  by (simp add: token_kvs_def split_on_append_sep map_filter_append)

lemma token_kvs_item: "clean k \<Longrightarrow> clean v \<Longrightarrow> token_kvs (k @ CHR ''='' # v) = [(k, v)]"
  using token_kvs_join [of "[(k, v)]"] by (simp add: kv_text_def)

lemma index_of_skip:
  assumes "CHR '';'' \<notin> set p"
  shows "index_of (CHR '';'' # q) (p @ CHR '';'' # r) =
    map_option ((+) (length p)) (index_of (CHR '';'' # q) (CHR '';'' # r))"
  using assms
proof (induction p)
  case Nil
  show ?case by (simp add: option.map_ident)
next
  case (Cons x p)
  then show ?case by (cases "index_of (CHR '';'' # q) (CHR '';'' # r)") auto
qed

lemma other_key_prefix:
  assumes "clean k" and "clean K" and "k \<noteq> K"
  shows "\<not> prefix (K @ ''='') (k @ CHR ''='' # u)"
proof
  assume "prefix (K @ ''='') (k @ CHR ''='' # u)"
  then obtain r where "k @ CHR ''='' # u = K @ CHR ''='' # r"
    by (auto simp: prefix_def)
  moreover have "takeWhile (\<lambda>c. c \<noteq> CHR ''='') (x @ CHR ''='' # y) = x" if "clean x" for x y
    using that by (intro takeWhile_append_stop) (auto simp: clean_def)
  ultimately show False
    using assms by metis
qed

text \<open>
  In a text made of clean items with keys other than \<open>K\<close>, followed by an item with key \<open>K\<close>,
  the first \<^verbatim>\<open>;K=\<close> is where the items end.
\<close>

lemma index_of_key:
  assumes "kvs \<noteq> []" and "\<forall>p\<in>set kvs. clean (fst p) \<and> clean (snd p) \<and> fst p \<noteq> K" and "clean K"
  shows "index_of (CHR '';'' # K @ ''='') (join_with '';'' (map kv_text kvs) @ CHR '';'' # K @ CHR ''='' # v) =
    Some (length (join_with '';'' (map kv_text kvs)))"
  using assms(1,2)
proof (induction kvs)
  case (Cons p kvs)
  have no: "CHR '';'' \<notin> set (kv_text p)"
    using Cons.prems by (simp add: kv_text_def clean_def)
  show ?case
  proof (cases kvs)
    case Nil
    then show ?thesis
      using index_of_skip [OF no, of "K @ ''=''" "K @ CHR ''='' # v"] by (simp add: prefix_def)
  next
    case (Cons q qs)
    let ?rest = "join_with '';'' (map kv_text kvs) @ CHR '';'' # K @ CHR ''='' # v"
    have q: "clean (fst q)" "fst q \<noteq> K"
      using Cons Cons.prems by auto
    obtain u where u: "?rest = fst q @ CHR ''='' # u"
      using Cons by (cases qs) (auto simp: kv_text_def)
    have "\<not> prefix (CHR '';'' # K @ ''='') (CHR '';'' # ?rest)"
      unfolding u using other_key_prefix [OF q(1) assms(3) q(2)] by simp
    moreover have "index_of (CHR '';'' # K @ ''='') ?rest = Some (length (join_with '';'' (map kv_text kvs)))"
      using Cons.IH Cons.prems Cons by simp
    ultimately have "index_of (CHR '';'' # K @ ''='') (CHR '';'' # ?rest)
        = Some (Suc (length (join_with '';'' (map kv_text kvs))))"
      by simp
    then show ?thesis
      using index_of_skip [OF no, of "K @ ''=''" ?rest] Cons by simp
  qed
qed simp

lemma index_of_signature:
  assumes "kvs \<noteq> []" and "\<forall>p\<in>set kvs. clean (fst p) \<and> clean (snd p) \<and> fst p \<noteq> ''s''"
  shows "index_of '';s='' (join_with '';'' (map kv_text kvs) @ '';s='' @ sig) =
    Some (length (join_with '';'' (map kv_text kvs)))"
  using index_of_key [OF assms, of sig] by simp

section \<open>Text appended to a signed token\<close>

text \<open>Items written after a text, each with its separator.\<close>

definition suffix_text :: "(string \<times> string) list \<Rightarrow> string" where
  "suffix_text extra = concat (map (\<lambda>p. '';'' @ kv_text p) extra)"

lemma index_of_append: "index_of p s = Some i \<Longrightarrow> index_of p (s @ u) = Some i"
proof (induction s arbitrary: i)
  case Nil
  then show ?case by (cases u) (auto split: if_splits)
next
  case (Cons x xs)
  show ?case
  proof (cases "prefix p (x # xs)")
    case True
    then have "prefix p ((x # xs) @ u)"
      by (rule prefix_prefix)
    with True Cons.prems show ?thesis by simp
  next
    case False
    then obtain j where j: "index_of p xs = Some j" "i = Suc j"
      using Cons.prems by auto
    then have "length p \<le> length xs"
      using index_of_Some [of p xs j] prefix_length_le [of p "drop j xs"] by simp
    then have "\<not> prefix p ((x # xs) @ u)"
      using False prefix_length_prefix [of p "(x # xs) @ u" "x # xs"] by auto
    with j Cons.IH show ?thesis by simp
  qed
qed

lemma token_kvs_suffix:
  "\<forall>p\<in>set extra. clean (fst p) \<and> clean (snd p) \<Longrightarrow>
     token_kvs (s @ suffix_text extra) = token_kvs s @ extra"
proof (induction extra arbitrary: s)
  case Nil
  show ?case by (simp add: suffix_text_def)
next
  case (Cons p extra)
  have "s @ suffix_text (p # extra) = (s @ CHR '';'' # kv_text p) @ suffix_text extra"
    by (simp add: suffix_text_def)
  moreover have "token_kvs (s @ CHR '';'' # kv_text p) = token_kvs s @ [p]"
    using Cons.prems token_kvs_item [of "fst p" "snd p"]
    by (simp add: token_kvs_append kv_text_def)
  ultimately show ?case
    using Cons.IH [of "s @ CHR '';'' # kv_text p"] Cons.prems by simp
qed

text \<open>
  The items appended to a text that already has a signature leave the unsigned token as it is
  and are dispatched like the others.
\<close>

lemma read_token_append:
  assumes "index_of '';s='' s = Some i" and "\<forall>p\<in>set extra. clean (fst p) \<and> clean (snd p)"
  shows "read_token setf setu (s @ suffix_text extra) t =
    foldl (\<lambda>t (k, v). setf k v t) (read_token setf setu s t) extra"
proof -
  have tk: "take i (s @ suffix_text extra) = take i s"
    using index_of_Some [OF assms(1)] by simp
  show ?thesis
    using token_kvs_suffix [OF assms(2), of s]
    by (simp only: read_token_def parse_items_foldl token_kvs_def substring_0 option.case tk
        index_of_append [OF assms(1)] assms(1) foldl_append)
qed

section \<open>What validation checks\<close>

lemma validate_verified:
  assumes "validate nc tm now pk off nx t"
  shows "key_truthy pk"
    and "Crypto_verify nc (ref_text (tok_unsignedToken t)) pk (tok_signature t)
           (tok_digestAlgorithm t) = Inr True"
  using assms by (auto simp: validate_def Let_def split: if_splits sum.splits)

text \<open>Validation reads these fields only.\<close>

lemma validate_cong:
  assumes "tok_unsignedToken t = tok_unsignedToken u" "tok_signature t = tok_signature u"
    "tok_timestamp t = tok_timestamp u" "tok_expiryTime t = tok_expiryTime u"
    "tok_digestAlgorithm t = tok_digestAlgorithm u"
  shows "validate nc tm now pk off nx t = validate nc tm now pk off nx u"
  by (simp add: validate_def assms)

end
