(* ===== verification/PrincipalToken.thy ===== *)
theory PrincipalToken
  imports Token
begin

text \<open>
  The class \<^verbatim>\<open>token/PrincipalToken.js\<close>: user and service tokens. It is built from
  options or read from its signed text, and it may carry a second signature made by a service
  the owner has authorized.
\<close>

section \<open>State\<close>

record principal_token = token +
  pt_name :: "string jsref"
  pt_originalRequestor :: "string jsref"
  pt_keyService :: "string jsref"
  pt_authorizedServices :: "string list jsref"
  pt_authorizedServiceName :: "string jsref"
  pt_authorizedServiceKeyId :: "string jsref"
  pt_authorizedServiceSignature :: "string jsref"

definition new_principal_token :: principal_token where
  "new_principal_token =
     token.extend new_token (principal_token.fields Null Null Null Null Null (Val ''0'') Null)"

record principal_options =
  po_version :: "string jsref"
  po_domain :: "string jsref"
  po_name :: "string jsref"
  po_host :: "string jsref"
  po_salt :: "string jsref"
  po_keyId :: "string jsref"
  po_ip :: "string jsref"
  po_authorizedServices :: "string jsref"
  po_keyService :: "string jsref"
  po_originalRequestor :: "string jsref"
  po_issueTime :: "int jsref"
  po_expirationWindow :: "int jsref"

text \<open>\<^verbatim>\<open>n || d\<close> for a number that may be absent\<close>

definition int_or :: "int jsref \<Rightarrow> int \<Rightarrow> int" where
  "int_or r d = (case r of Val i \<Rightarrow> if i = 0 then d else i | _ \<Rightarrow> d)"

section \<open>Reading\<close>

definition principal_switch :: "string \<Rightarrow> string \<Rightarrow> principal_token \<Rightarrow> principal_token" where
  "principal_switch k v t =
     (if k = ''a'' then t\<lparr>tok_salt := Val v\<rparr>
      else if k = ''b'' then t\<lparr>pt_authorizedServices := Val (split_on (CHR '','') v)\<rparr>
      else if k = ''bk'' then t\<lparr>pt_authorizedServiceKeyId := Val v\<rparr>
      else if k = ''bn'' then t\<lparr>pt_authorizedServiceName := Val v\<rparr>
      else if k = ''bs'' then t\<lparr>pt_authorizedServiceSignature := Val v\<rparr>
      else if k = ''d'' then t\<lparr>tok_domain := Val v\<rparr>
      else if k = ''e'' then t\<lparr>tok_expiryTime := string_to_number v\<rparr>
      else if k = ''h'' then t\<lparr>tok_host := Val v\<rparr>
      else if k = ''i'' then t\<lparr>tok_ip := Val v\<rparr>
      else if k = ''k'' then t\<lparr>tok_keyId := Val v\<rparr>
      else if k = ''n'' then t\<lparr>pt_name := Val v\<rparr>
      else if k = ''o'' then t\<lparr>pt_originalRequestor := Val v\<rparr>
      else if k = ''s'' then t\<lparr>tok_signature := Val v\<rparr>
      else if k = ''t'' then t\<lparr>tok_timestamp := string_to_number v\<rparr>
      else if k = ''v'' then t\<lparr>tok_version := Val v\<rparr>
      else if k = ''z'' then t\<lparr>pt_keyService := Val v\<rparr>
      else t)"

definition principal_parseSignedToken ::
  "string \<Rightarrow> principal_token \<Rightarrow> principal_token result" where
  "principal_parseSignedToken signedToken t =
     (if signedToken = [] then Inl (Error ''Input String signedToken must not be empty'')
      else
        let t2 = read_token principal_switch (\<lambda>u t. t\<lparr>tok_unsignedToken := Val u\<rparr>) signedToken t
        in if \<not> str_truthy (tok_domain t2)
             then Inl (Error ''SignedToken does not contain required domain component'')
           else if \<not> str_truthy (pt_name t2)
             then Inl (Error ''SignedToken does not contain required name component'')
           else Inr (t2\<lparr>tok_signedToken := Val signedToken\<rparr>))"

section \<open>Building\<close>

definition opt_part :: "string \<Rightarrow> string jsref \<Rightarrow> (string \<times> string) list" where
  "opt_part k r = (if str_truthy r then [(k, ref_text r)] else [])"

definition principal_parts :: "principal_token \<Rightarrow> int \<Rightarrow> int \<Rightarrow> (string \<times> string) list" where
  "principal_parts t ts ex =
     [(''v'', ref_text (tok_version t)), (''d'', ref_text (tok_domain t)),
      (''n'', ref_text (pt_name t))]
     @ opt_part ''h'' (tok_host t)
     @ [(''a'', ref_text (tok_salt t)), (''t'', show_int ts), (''e'', show_int ex),
        (''k'', ref_text (tok_keyId t))]
     @ opt_part ''z'' (pt_keyService t)
     @ opt_part ''o'' (pt_originalRequestor t)
     @ opt_part ''i'' (tok_ip t)
     @ (case pt_authorizedServices t of
          Val svcs \<Rightarrow> [(''b'', join_with '','' svcs)]
        | _ \<Rightarrow> [])"

definition principal_builder ::
  "byte list \<Rightarrow> int \<Rightarrow> principal_options jsref \<Rightarrow> principal_token \<Rightarrow> principal_token result" where
  "principal_builder rand now opts t =
     (case opts of
        Undefined \<Rightarrow> Inl (TypeError ''version'')
      | Null \<Rightarrow> Inl (TypeError ''version'')
      | Val options \<Rightarrow>
          if \<not> str_truthy (po_version options) \<or> \<not> str_truthy (po_domain options)
             \<or> \<not> str_truthy (po_name options)
          then Inl (Error ''version, domain and name parameters must not be null.'')
          else
            let t1 = t\<lparr>tok_version := po_version options,
                       tok_domain := po_domain options,
                       pt_name := po_name options,
                       tok_host := po_host options,
                       tok_salt := Val (str_or (po_salt options) (randomSalt rand)),
                       tok_keyId := Val (str_or (po_keyId options) ''0''),
                       tok_ip := po_ip options,
                       pt_authorizedServices :=
                         (if str_truthy (po_authorizedServices options)
                          then Val (split_on (CHR '','') (ref_text (po_authorizedServices options)))
                          else Null),
                       pt_keyService := po_keyService options,
                       pt_originalRequestor := po_originalRequestor options\<rparr>;
                issueTime = int_or (po_issueTime options) 0;
                window = int_or (po_expirationWindow options) 3600;
                ts = (if issueTime > 0 then issueTime else now div 1000);
                t2 = setTimeStamp now issueTime window t1
            in Inr (t2\<lparr>tok_unsignedToken :=
                   Val (join_with '';'' (map kv_text (principal_parts t2 ts (ts + window))))\<rparr>))"

datatype 'o token_input = TokenText string | TokenOptions "'o jsref"

text \<open>The constructor: \<^verbatim>\<open>super()\<close>, then parse a string or build from options.\<close>

definition PrincipalToken_new ::
  "byte list \<Rightarrow> int \<Rightarrow> principal_options token_input \<Rightarrow> principal_token result" where
  "PrincipalToken_new rand now input =
     (case input of
        TokenText s \<Rightarrow> principal_parseSignedToken s new_principal_token
      | TokenOptions opts \<Rightarrow> principal_builder rand now opts new_principal_token)"

section \<open>Authorized services\<close>

definition signForAuthorizedService ::
  "node_crypto \<Rightarrow> string \<Rightarrow> string \<Rightarrow> jskey \<Rightarrow> principal_token \<Rightarrow> principal_token result" where
  "signForAuthorizedService nc svcName svcKeyId privateKey t =
     (case pt_authorizedServices t of
        Val svcs \<Rightarrow>
          if svcName \<notin> set svcs
          then Inl (Error ''Authorized Service is not valid for this token'')
          else
            let t1 = t\<lparr>pt_authorizedServiceKeyId := Val svcKeyId\<rparr>;
                tokenToSign = ref_text (tok_signedToken t) @ '';bk='' @ svcKeyId;
                (t2, tokenToSign2) =
                  (if length svcs > 1
                   then (t1\<lparr>pt_authorizedServiceName := Val svcName\<rparr>,
                         tokenToSign @ '';bn='' @ svcName)
                   else (t1, tokenToSign))
            in (case Crypto_sign nc (Val tokenToSign2) privateKey (tok_digestAlgorithm t) of
                  Inl e \<Rightarrow> Inl e
                | Inr sig \<Rightarrow>
                    Inr (t2\<lparr>pt_authorizedServiceSignature := Val sig,
                            tok_signedToken := Val (tokenToSign2 @ '';bs='' @ sig)\<rparr>))
      | _ \<Rightarrow> Inl (Error ''Authorized Service is not valid for this token''))"

definition validateForAuthorizedService ::
  "node_crypto \<Rightarrow> jskey jsref \<Rightarrow> principal_token \<Rightarrow> bool result" where
  "validateForAuthorizedService nc publicKey t =
     (if \<not> str_truthy (pt_authorizedServiceSignature t) then Inr False
      else
        (case tok_signedToken t of
           Val s \<Rightarrow>
             (case index_of '';bs='' s of
                None \<Rightarrow> Inr False
              | Some idx \<Rightarrow>
                  if \<not> key_truthy publicKey then Inr False
                  else
                    (case Crypto_verify nc (substring s 0 idx) publicKey
                            (pt_authorizedServiceSignature t) (tok_digestAlgorithm t) of
                       Inl e \<Rightarrow> Inr False
                     | Inr verified \<Rightarrow> Inr verified))
         | _ \<Rightarrow> Inl (TypeError ''indexOf'')))"

definition isValidAuthorizedServiceToken :: "principal_token \<Rightarrow> bool" where
  "isValidAuthorizedServiceToken t =
     (case pt_authorizedServices t of
        Val svcs \<Rightarrow>
          if \<not> str_truthy (pt_authorizedServiceSignature t) then False
          else if str_truthy (pt_authorizedServiceName t)
            then ref_text (pt_authorizedServiceName t) \<in> set svcs
          else length svcs = 1
      | _ \<Rightarrow> \<not> str_truthy (pt_authorizedServiceSignature t))"

section \<open>The switch writes one field per key\<close>

interpretation p_salt: token_field principal_switch tok_salt "''a''" Val
  by unfold_locales (auto simp: principal_switch_def)
interpretation p_services: token_field principal_switch pt_authorizedServices "''b''"
    "\<lambda>v. Val (split_on (CHR '','') v)"
  by unfold_locales (auto simp: principal_switch_def)
interpretation p_svcKeyId: token_field principal_switch pt_authorizedServiceKeyId "''bk''" Val
  by unfold_locales (auto simp: principal_switch_def)
interpretation p_svcName: token_field principal_switch pt_authorizedServiceName "''bn''" Val
  by unfold_locales (auto simp: principal_switch_def)
interpretation p_svcSig: token_field principal_switch pt_authorizedServiceSignature "''bs''" Val
  by unfold_locales (auto simp: principal_switch_def)
interpretation p_domain: token_field principal_switch tok_domain "''d''" Val
  by unfold_locales (auto simp: principal_switch_def)
interpretation p_expiry: token_field principal_switch tok_expiryTime "''e''" string_to_number
  by unfold_locales (auto simp: principal_switch_def)
interpretation p_host: token_field principal_switch tok_host "''h''" Val
  by unfold_locales (auto simp: principal_switch_def)
interpretation p_ip: token_field principal_switch tok_ip "''i''" Val
  by unfold_locales (auto simp: principal_switch_def)
interpretation p_keyId: token_field principal_switch tok_keyId "''k''" Val
  by unfold_locales (auto simp: principal_switch_def)
interpretation p_name: token_field principal_switch pt_name "''n''" Val
  by unfold_locales (auto simp: principal_switch_def)
interpretation p_requestor: token_field principal_switch pt_originalRequestor "''o''" Val
  by unfold_locales (auto simp: principal_switch_def)
interpretation p_sig: token_field principal_switch tok_signature "''s''" Val
  by unfold_locales (auto simp: principal_switch_def)
interpretation p_time: token_field principal_switch tok_timestamp "''t''" string_to_number
  by unfold_locales (auto simp: principal_switch_def)
interpretation p_version: token_field principal_switch tok_version "''v''" Val
  by unfold_locales (auto simp: principal_switch_def)
interpretation p_keyService: token_field principal_switch pt_keyService "''z''" Val
  by unfold_locales (auto simp: principal_switch_def)
interpretation p_unsigned: token_frame principal_switch tok_unsignedToken
  by unfold_locales (auto simp: principal_switch_def)
interpretation p_signed: token_frame principal_switch tok_signedToken
  by unfold_locales (auto simp: principal_switch_def)
interpretation p_digest: token_frame principal_switch tok_digestAlgorithm
  by unfold_locales (auto simp: principal_switch_def)

lemmas principal_field_parse =
  p_salt.get_parse p_services.get_parse p_svcKeyId.get_parse p_svcName.get_parse
  p_svcSig.get_parse p_domain.get_parse p_expiry.get_parse p_host.get_parse p_ip.get_parse
  p_keyId.get_parse p_name.get_parse p_requestor.get_parse p_sig.get_parse p_time.get_parse
  p_version.get_parse p_keyService.get_parse

lemmas principal_frame_parse =
  p_unsigned.frame_parse p_signed.frame_parse p_digest.frame_parse

section \<open>Tokens as the builder makes them\<close>

definition clean_principal_options :: "principal_options \<Rightarrow> bool" where
  "clean_principal_options opts =
     (clean_ref (po_version opts) \<and> clean_ref (po_domain opts) \<and> clean_ref (po_name opts)
      \<and> clean_ref (po_host opts) \<and> clean_ref (po_salt opts) \<and> clean_ref (po_keyId opts)
      \<and> clean_ref (po_ip opts) \<and> clean_ref (po_authorizedServices opts)
      \<and> clean_ref (po_keyService opts) \<and> clean_ref (po_originalRequestor opts))"

definition well_built :: "principal_token \<Rightarrow> int \<Rightarrow> int \<Rightarrow> bool" where
  "well_built t ts ex \<longleftrightarrow>
     tok_unsignedToken t = Val (join_with '';'' (map kv_text (principal_parts t ts ex)))
     \<and> tok_timestamp t = num_of_int ts \<and> tok_expiryTime t = num_of_int ex
     \<and> str_truthy (tok_version t) \<and> str_truthy (tok_domain t) \<and> str_truthy (pt_name t)
     \<and> present (tok_salt t) \<and> present (tok_keyId t)
     \<and> tok_digestAlgorithm t = ''SHA256''
     \<and> (\<forall>r\<in>{tok_version t, tok_domain t, pt_name t, tok_host t, tok_salt t, tok_keyId t,
           tok_ip t, pt_keyService t, pt_originalRequestor t}. clean_ref r)
     \<and> pt_authorizedServices t \<noteq> Undefined
     \<and> (\<forall>svcs. pt_authorizedServices t = Val svcs \<longrightarrow>
          clean (join_with '','' svcs) \<and> split_on (CHR '','') (join_with '','' svcs) = svcs)
     \<and> pt_authorizedServiceName t = Null \<and> pt_authorizedServiceKeyId t = Val ''0''
     \<and> pt_authorizedServiceSignature t = Null"

lemma hex_digit_clean: "d < 16 \<Longrightarrow> clean [hex_digit d]"
proof -
  assume "d < 16"
  then have "(of_char (hex_digit d) :: nat) = (if d < 10 then 48 + d else 87 + d)"
    by (simp add: hex_digit_def)
  then have "(of_char (hex_digit d) :: nat) \<notin> {59, 61}"
    using \<open>d < 16\<close> by auto
  then show ?thesis by auto
qed

lemma randomSalt_clean [simp]: "clean (randomSalt bytes)"
proof (induction bytes)
  case Nil
  show ?case by (simp add: randomSalt_def)
next
  case (Cons b bytes)
  have "unat b div 16 < 16" and "unat b mod 16 < 16"
    using unat_byte [of b] by linarith+
  then have "clean (hex_byte b)"
    using hex_digit_clean by (simp add: hex_byte_def)
  with Cons show ?case by (simp add: randomSalt_def)
qed

lemma clean_str_or: "clean_ref r \<Longrightarrow> clean d \<Longrightarrow> clean (str_or r d)"
  by (cases r) (auto simp: str_or_def)

lemma principal_builder_built:
  assumes "principal_builder rand now (Val opts) new_principal_token = Inr t"
    and "clean_principal_options opts"
  obtains ts ex where "well_built t ts ex"
proof -
  define issueTime where "issueTime = int_or (po_issueTime opts) 0"
  define ts where "ts = (if issueTime > 0 then issueTime else now div 1000)"
  define ex where "ex = ts + int_or (po_expirationWindow opts) 3600"
  have svcs: "clean (ref_text (po_authorizedServices opts))
      \<or> \<not> str_truthy (po_authorizedServices opts)"
    using assms(2) by (cases "po_authorizedServices opts")
      (auto simp: clean_principal_options_def ref_text_def)
  have "well_built t ts ex"
    using assms svcs unfolding well_built_def
    by (auto simp: principal_builder_def clean_principal_options_def Let_def setTimeStamp_def
        new_principal_token_def new_token_def token.defs principal_token.defs principal_parts_def
        ts_def ex_def issueTime_def clean_str_or join_with_split_on split: if_splits)
  then show thesis by (rule that)
qed

lemma map_of_opt_part:
  "map_of (opt_part k r) k' = (if k' = k \<and> str_truthy r then Some (ref_text r) else None)"
  by (simp add: opt_part_def)

lemma rev_opt_part [simp]: "rev (opt_part k r) = opt_part k r"
  by (simp add: opt_part_def)

lemma set_opt_part: "p \<in> set (opt_part k r) \<Longrightarrow> p = (k, ref_text r) \<and> str_truthy r"
  by (simp add: opt_part_def split: if_splits)

lemma clean_ref_text: "clean_ref r \<Longrightarrow> clean (ref_text r)"
  by (cases r) (auto simp: ref_text_def)

text \<open>An item that reads back as it was written and is not the signature.\<close>

definition clean_item :: "string \<times> string \<Rightarrow> bool" where
  "clean_item p = (clean (fst p) \<and> clean (snd p) \<and> fst p \<noteq> ''s'')"

lemma clean_item_opt_part:
  "clean_item (k, []) \<Longrightarrow> clean_ref r \<Longrightarrow> list_all clean_item (opt_part k r)"
  by (simp add: opt_part_def clean_item_def clean_ref_text)

lemma clean_item_services:
  assumes "\<forall>svcs. r = Val svcs \<longrightarrow> clean (join_with '','' svcs) \<and> P svcs"
  shows "list_all clean_item (case r of Val svcs \<Rightarrow> [(''b'', join_with '','' svcs)] | _ \<Rightarrow> [])"
  using assms by (cases r) (simp_all add: clean_item_def)

lemma clean_item_Val: "clean_item (k, []) \<Longrightarrow> clean_ref r \<Longrightarrow> clean_item (k, ref_text r)"
  by (simp add: clean_item_def clean_ref_text)

lemma principal_parts_clean:
  assumes "well_built t ts ex"
  shows "list_all clean_item (principal_parts t ts ex)"
proof -
  have keys: "clean_item (''v'', [])" "clean_item (''d'', [])" "clean_item (''n'', [])"
    "clean_item (''h'', [])" "clean_item (''a'', [])" "clean_item (''k'', [])"
    "clean_item (''z'', [])" "clean_item (''o'', [])" "clean_item (''i'', [])"
    "clean_item (''t'', show_int ts)" "clean_item (''e'', show_int ex)"
    by (simp_all add: clean_item_def)
  have refs: "clean_ref (tok_version t)" "clean_ref (tok_domain t)" "clean_ref (pt_name t)"
    "clean_ref (tok_host t)" "clean_ref (tok_salt t)" "clean_ref (tok_keyId t)"
    "clean_ref (tok_ip t)" "clean_ref (pt_keyService t)" "clean_ref (pt_originalRequestor t)"
    and svcs: "\<forall>svcs. pt_authorizedServices t = Val svcs \<longrightarrow> clean (join_with '','' svcs) \<and> True"
    using assms by (auto simp: well_built_def)
  show ?thesis
    by (simp add: principal_parts_def keys refs clean_item_opt_part
        clean_item_services [OF svcs] clean_item_Val)
qed

section \<open>What a token says\<close>

text \<open>
  The content of a token: an optional field that is absent and one that is empty say the same,
  and the empty value the builder leaves (\<^verbatim>\<open>undefined\<close>) is the one the parser
  leaves (\<^verbatim>\<open>null\<close>).
\<close>

definition opt_norm :: "string jsref \<Rightarrow> string jsref" where
  "opt_norm r = (if str_truthy r then r else Null)"

record principal_view =
  pv_unsigned :: "string jsref"
  pv_signature :: "string jsref"
  pv_identity :: "string jsref \<times> string jsref \<times> string jsref"
  pv_times :: "jsnum \<times> jsnum"
  pv_key :: "string jsref \<times> string jsref"
  pv_optional :: "string jsref list"
  pv_services :: "string list jsref"

definition principal_view :: "principal_token \<Rightarrow> principal_view" where
  "principal_view t =
     \<lparr>pv_unsigned = tok_unsignedToken t,
      pv_signature = tok_signature t,
      pv_identity = (tok_version t, tok_domain t, pt_name t),
      pv_times = (tok_timestamp t, tok_expiryTime t),
      pv_key = (tok_salt t, tok_keyId t),
      pv_optional = map opt_norm [tok_host t, tok_ip t, pt_keyService t, pt_originalRequestor t],
      pv_services = pt_authorizedServices t\<rparr>"

text \<open>The item each key of a built and signed token has.\<close>

definition principal_lookup ::
  "principal_token \<Rightarrow> int \<Rightarrow> int \<Rightarrow> string \<Rightarrow> string \<Rightarrow> string option" where
  "principal_lookup t ts ex sig k =
     map_of (rev (principal_parts t ts ex @ [(''s'', sig)])) k"

lemma principal_lookup_simps:
  "principal_lookup t ts ex sig ''s'' = Some sig"
  "principal_lookup t ts ex sig ''b'' = (case pt_authorizedServices t of Val svcs \<Rightarrow> Some (join_with '','' svcs) | _ \<Rightarrow> None)"
  "principal_lookup t ts ex sig ''i'' = map_of (opt_part ''i'' (tok_ip t)) ''i''"
  "principal_lookup t ts ex sig ''o'' = map_of (opt_part ''o'' (pt_originalRequestor t)) ''o''"
  "principal_lookup t ts ex sig ''z'' = map_of (opt_part ''z'' (pt_keyService t)) ''z''"
  "principal_lookup t ts ex sig ''k'' = Some (ref_text (tok_keyId t))"
  "principal_lookup t ts ex sig ''e'' = Some (show_int ex)"
  "principal_lookup t ts ex sig ''t'' = Some (show_int ts)"
  "principal_lookup t ts ex sig ''a'' = Some (ref_text (tok_salt t))"
  "principal_lookup t ts ex sig ''h'' = map_of (opt_part ''h'' (tok_host t)) ''h''"
  "principal_lookup t ts ex sig ''n'' = Some (ref_text (pt_name t))"
  "principal_lookup t ts ex sig ''d'' = Some (ref_text (tok_domain t))"
  "principal_lookup t ts ex sig ''v'' = Some (ref_text (tok_version t))"
  "principal_lookup t ts ex sig ''bk'' = None"
  "principal_lookup t ts ex sig ''bn'' = None"
  "principal_lookup t ts ex sig ''bs'' = None"
  by (simp_all add: principal_lookup_def principal_parts_def map_of_opt_part map_add_def
      split: jsref.splits)

lemma opt_norm_parse:
  "(case map_of (opt_part k r) k of None \<Rightarrow> Null | Some v \<Rightarrow> Val v) = opt_norm r"
  by (cases r) (auto simp: opt_norm_def map_of_opt_part ref_text_def)

lemma opt_norm_idem [simp]: "opt_norm (opt_norm r) = opt_norm r"
  by (simp add: opt_norm_def)

lemma present_ref_text: "present r \<Longrightarrow> Val (ref_text r) = r"
  by (cases r) (auto simp: ref_text_def)

lemma str_truthy_present: "str_truthy r \<Longrightarrow> present r"
  by (cases r) auto

section \<open>Reading back what was built and signed\<close>

lemma sign_result:
  assumes "sign nc priv t = Inr t'"
  obtains sig where "Crypto_sign nc (tok_unsignedToken t) priv (tok_digestAlgorithm t) = Inr sig"
    and "t' = t\<lparr>tok_signature := Val sig,
               tok_signedToken := Val (ref_text (tok_unsignedToken t) @ '';s='' @ sig)\<rparr>"
  using assms by (auto simp: sign_def split: sum.splits)

lemma principal_parts_not_Nil [simp]: "principal_parts t ts ex \<noteq> []"
  by (simp add: principal_parts_def)

lemma signed_text:
  assumes "kvs \<noteq> []"
  shows "join_with '';'' (map kv_text kvs) @ '';s='' @ sig
    = join_with '';'' (map kv_text (kvs @ [(''s'', sig)]))"
  using assms join_with_snoc [of "map kv_text kvs" "'';''"] by (simp add: kv_text_def)

text \<open>
  The text of a well built token followed by its signature: where the signature starts and
  which items it has.
\<close>

lemma principal_signed_text:
  assumes "well_built t ts ex" and "clean sig"
  defines "s \<equiv> ref_text (tok_unsignedToken t) @ '';s='' @ sig"
  shows "index_of '';s='' s = Some (length (ref_text (tok_unsignedToken t)))"
    and "map_of (rev (token_kvs s)) = principal_lookup t ts ex sig"
proof -
  let ?kvs = "principal_parts t ts ex"
  have u: "ref_text (tok_unsignedToken t) = join_with '';'' (map kv_text ?kvs)"
    using assms(1) by (simp add: well_built_def ref_text_def)
  have c: "\<forall>p\<in>set ?kvs. clean (fst p) \<and> clean (snd p) \<and> fst p \<noteq> ''s''"
    using principal_parts_clean [OF assms(1)] by (simp add: list_all_iff clean_item_def)
  show "index_of '';s='' s = Some (length (ref_text (tok_unsignedToken t)))"
    unfolding s_def u by (rule index_of_signature) (use c in simp_all)
  have "token_kvs s = ?kvs @ [(''s'', sig)]"
    unfolding s_def u signed_text [OF principal_parts_not_Nil]
    using c assms(2) by (intro token_kvs_join) auto
  then show "map_of (rev (token_kvs s)) = principal_lookup t ts ex sig"
    by (simp only: principal_lookup_def fun_eq_iff) simp
qed

lemma principal_parse_signed:
  assumes wb: "well_built t ts ex" and "clean sig"
  defines "s \<equiv> ref_text (tok_unsignedToken t) @ '';s='' @ sig"
  obtains p where "principal_parseSignedToken s new_principal_token = Inr p"
    and "principal_view p = principal_view (t\<lparr>tok_signature := Val sig\<rparr>)"
    and "tok_signedToken p = Val s" and "tok_digestAlgorithm p = ''SHA256''"
    and "pt_authorizedServiceSignature p = Null" and "pt_authorizedServiceName p = Null"
proof -
  define t1 where "t1 = new_principal_token\<lparr>tok_unsignedToken := tok_unsignedToken t\<rparr>"
  define p where "p = parse_items principal_switch (split_on (CHR '';'') s) t1"
  note tk = principal_signed_text [OF wb assms(2), folded s_def]
  note wbs = wb [unfolded well_built_def]
  have start: "new_principal_token\<lparr>tok_unsignedToken :=
      Val (substring s 0 (length (ref_text (tok_unsignedToken t))))\<rparr> = t1"
    using wbs by (simp add: t1_def s_def ref_text_def)
  have vals: "Val (ref_text (tok_version t)) = tok_version t"
      "Val (ref_text (tok_domain t)) = tok_domain t" "Val (ref_text (pt_name t)) = pt_name t"
      "Val (ref_text (tok_salt t)) = tok_salt t" "Val (ref_text (tok_keyId t)) = tok_keyId t"
    using wbs by (simp_all add: present_ref_text str_truthy_present)
  have init: "tok_host t1 = Null" "tok_ip t1 = Null" "pt_keyService t1 = Null"
      "pt_originalRequestor t1 = Null" "pt_authorizedServices t1 = Null"
      "pt_authorizedServiceSignature t1 = Null" "pt_authorizedServiceName t1 = Null"
      "tok_digestAlgorithm t1 = ''SHA256''" "tok_unsignedToken t1 = tok_unsignedToken t"
    by (simp_all add: t1_def new_principal_token_def new_token_def token.defs principal_token.defs)
  note fields = principal_field_parse [of s t1, folded p_def, unfolded tk(2)
      principal_lookup_simps init opt_norm_parse option.case vals string_to_number_show_int]
  have frames: "tok_unsignedToken p = tok_unsignedToken t" "tok_digestAlgorithm p = ''SHA256''"
    by (simp_all add: p_def principal_frame_parse init)
  have svcs: "pt_authorizedServices p = pt_authorizedServices t"
    using wbs by (cases "pt_authorizedServices t") (simp_all add: fields)
  have "s \<noteq> []"
    by (simp add: s_def)
  moreover have "str_truthy (tok_domain p)" and "str_truthy (pt_name p)"
    using wbs by (simp_all add: fields)
  ultimately have "principal_parseSignedToken s new_principal_token = Inr (p\<lparr>tok_signedToken := Val s\<rparr>)"
    using tk(1) start by (simp add: principal_parseSignedToken_def read_token_def p_def)
  moreover have "principal_view (p\<lparr>tok_signedToken := Val s\<rparr>) = principal_view (t\<lparr>tok_signature := Val sig\<rparr>)"
    using wbs svcs by (simp add: principal_view_def fields frames)
  ultimately show thesis
    by (rule that) (simp_all add: fields frames)
qed

text \<open>
  C1. A token built from options whose texts hold neither \<^verbatim>\<open>;\<close> nor
  \<^verbatim>\<open>=\<close>, and then signed, reads back from its signed text as a token with
  the same content.
\<close>

theorem principal_round_trip:
  assumes "principal_builder rand now (Val opts) new_principal_token = Inr t"
    and "clean_principal_options opts"
    and "sign nc priv t = Inr t'"
  shows "\<exists>p. principal_parseSignedToken (ref_text (tok_signedToken t')) new_principal_token = Inr p
           \<and> principal_view p = principal_view t'
           \<and> tok_signedToken p = tok_signedToken t'"
proof -
  obtain ts ex where wb: "well_built t ts ex"
    using principal_builder_built [OF assms(1,2)] .
  obtain sig where sig: "Crypto_sign nc (tok_unsignedToken t) priv (tok_digestAlgorithm t) = Inr sig"
      and t': "t' = t\<lparr>tok_signature := Val sig,
                tok_signedToken := Val (ref_text (tok_unsignedToken t) @ '';s='' @ sig)\<rparr>"
    using sign_result [OF assms(3)] .
  have "clean sig"
    using Crypto_sign_clean [OF sig] by (simp add: clean_def)
  then obtain p where "principal_parseSignedToken (ref_text (tok_signedToken t')) new_principal_token = Inr p"
      "principal_view p = principal_view (t\<lparr>tok_signature := Val sig\<rparr>)"
      "tok_signedToken p = tok_signedToken t'"
    using principal_parse_signed [OF wb] t' by (auto simp: ref_text_def)
  then show ?thesis
    by (auto simp: t' principal_view_def)
qed

text \<open>A concrete service token for the witnesses.\<close>

definition demo_principal_options :: principal_options where
  "demo_principal_options =
     \<lparr>po_version = Val ''S1'', po_domain = Val ''sports'', po_name = Val ''storage'',
      po_host = Undefined, po_salt = Val ''aabb'', po_keyId = Val ''0'', po_ip = Undefined,
      po_authorizedServices = Val ''sports.fe,sports.be'', po_keyService = Undefined,
      po_originalRequestor = Undefined, po_issueTime = Val 100, po_expirationWindow = Val 50\<rparr>"

lemma demo_principal_clean: "clean_principal_options demo_principal_options"
  by (simp add: clean_principal_options_def demo_principal_options_def)

lemma demo_principal_built:
  "\<exists>t. principal_builder [] 0 (Val demo_principal_options) new_principal_token = Inr t
     \<and> tok_unsignedToken t =
         Val ''v=S1;d=sports;n=storage;a=aabb;t=100;e=150;k=0;b=sports.fe,sports.be''
     \<and> tok_digestAlgorithm t = ''SHA256''
     \<and> pt_authorizedServices t = Val [''sports.fe'', ''sports.be'']"
  by (simp add: principal_builder_def demo_principal_options_def new_principal_token_def
      new_token_def token.defs principal_token.defs principal_parts_def opt_part_def
      setTimeStamp_def int_or_def ref_text_def kv_text_def show_int_def show_nat.simps js_simps)

lemma demo_sign: "tok_unsignedToken t = Val u \<Longrightarrow> \<exists>t'. sign demo_crypto k t = Inr t'"
  by (simp add: sign_def Crypto_sign_def demo_crypto_def)

theorem principal_round_trip_witness:
  "\<exists>t t' p. principal_builder [] 0 (Val demo_principal_options) new_principal_token = Inr t
     \<and> sign demo_crypto (KeyText ''key'') t = Inr t'
     \<and> principal_parseSignedToken (ref_text (tok_signedToken t')) new_principal_token = Inr p
     \<and> principal_view p = principal_view t'"
proof -
  obtain t where t: "principal_builder [] 0 (Val demo_principal_options) new_principal_token = Inr t"
      and "tok_unsignedToken t =
         Val ''v=S1;d=sports;n=storage;a=aabb;t=100;e=150;k=0;b=sports.fe,sports.be''"
    using demo_principal_built by blast
  then obtain t' where t': "sign demo_crypto (KeyText ''key'') t = Inr t'"
    using demo_sign by blast
  show ?thesis
    using t t' principal_round_trip [OF t demo_principal_clean t'] by blast
qed

section \<open>Items after the signature\<close>

abbreviation principal_dispatch :: "principal_token \<Rightarrow> (string \<times> string) list \<Rightarrow> principal_token" where
  "principal_dispatch \<equiv> foldl (\<lambda>t (k, v). principal_switch k v t)"

lemma principal_parse_Inr:
  assumes "principal_parseSignedToken s t0 = Inr p"
  shows "s \<noteq> []"
    and "p = (read_token principal_switch (\<lambda>u t. t\<lparr>tok_unsignedToken := Val u\<rparr>) s t0)
               \<lparr>tok_signedToken := Val s\<rparr>"
    and "str_truthy (tok_domain p)" and "str_truthy (pt_name p)"
  using assms by (auto simp: principal_parseSignedToken_def Let_def split: if_splits)

lemma principal_switch_signed:
  "principal_switch k v (t\<lparr>tok_signedToken := x\<rparr>) = (principal_switch k v t)\<lparr>tok_signedToken := x\<rparr>"
  by (simp add: principal_switch_def)

lemma principal_dispatch_signed:
  "principal_dispatch (t\<lparr>tok_signedToken := x\<rparr>) kvs = (principal_dispatch t kvs)\<lparr>tok_signedToken := x\<rparr>"
  by (induction kvs arbitrary: t) (auto simp: principal_switch_signed)

lemma principal_parse_append:
  assumes "principal_parseSignedToken s t0 = Inr p" and "index_of '';s='' s = Some i"
    and "\<forall>q\<in>set extra. clean (fst q) \<and> clean (snd q)"
    and "str_truthy (tok_domain (principal_dispatch p extra))"
    and "str_truthy (pt_name (principal_dispatch p extra))"
  shows "principal_parseSignedToken (s @ suffix_text extra) t0 =
    Inr ((principal_dispatch p extra)\<lparr>tok_signedToken := Val (s @ suffix_text extra)\<rparr>)"
  using principal_parse_Inr [OF assms(1)] assms(4,5)
  by (simp add: principal_parseSignedToken_def read_token_append [OF assms(2,3)]
      principal_dispatch_signed)

lemmas principal_dispatch_fields =
  p_domain.get_foldl p_name.get_foldl p_sig.get_foldl p_time.get_foldl p_expiry.get_foldl
  p_services.get_foldl p_svcName.get_foldl p_svcSig.get_foldl p_svcKeyId.get_foldl
  p_keyId.get_foldl p_ip.get_foldl p_keyService.get_foldl p_requestor.get_foldl
  p_salt.get_foldl p_version.get_foldl p_host.get_foldl

lemma principal_dispatch_frame:
  "tok_unsignedToken (principal_dispatch t kvs) = tok_unsignedToken t"
  "tok_digestAlgorithm (principal_dispatch t kvs) = tok_digestAlgorithm t"
  by (induction kvs arbitrary: t) (auto simp: p_unsigned.get_any p_digest.get_any)

lemma principal_parse_append_name:
  assumes "principal_parseSignedToken s new_principal_token = Inr p"
    and "index_of '';s='' s = Some i" and "clean name" and "name \<noteq> []"
  shows "principal_parseSignedToken (s @ '';n='' @ name) new_principal_token =
    Inr (p\<lparr>pt_name := Val name, tok_signedToken := Val (s @ '';n='' @ name)\<rparr>)"
proof -
  let ?x = "[(''n'', name)]"
  have "principal_parseSignedToken (s @ suffix_text ?x) new_principal_token =
      Inr ((principal_dispatch p ?x)\<lparr>tok_signedToken := Val (s @ suffix_text ?x)\<rparr>)"
    using principal_parse_Inr [OF assms(1)] assms(3,4)
    by (intro principal_parse_append [OF assms(1,2)]) (simp_all add: principal_switch_def)
  then show ?thesis
    by (simp add: suffix_text_def kv_text_def principal_switch_def)
qed

text \<open>
  C40. A name appended after the signature of a token is read like the signed one and is not
  covered by the signature: whoever holds a token can append a name of their choice, and the
  token so changed carries that name and passes validation exactly when the original does.
\<close>

theorem principal_suffix_not_signed:
  assumes "principal_parseSignedToken s new_principal_token = Inr p"
    and "index_of '';s='' s = Some i" and "clean name" and "name \<noteq> []"
  shows "\<exists>q. principal_parseSignedToken (s @ '';n='' @ name) new_principal_token = Inr q
           \<and> pt_name q = Val name \<and> tok_domain q = tok_domain p \<and> tok_keyId q = tok_keyId p
           \<and> (\<forall>nc tm now pk off nx. validate nc tm now pk off nx q = validate nc tm now pk off nx p)"
  by (rule exI, rule conjI, rule principal_parse_append_name [OF assms])
     (simp add: validate_def)

definition demo_user_text :: string where
  "demo_user_text = ''v=U1;d=user;n=joe;a=aabb;t=100;e=150;k=0;s=abcd''"

theorem principal_suffix_not_signed_witness:
  "\<exists>p q. principal_parseSignedToken demo_user_text new_principal_token = Inr p
     \<and> pt_name p = Val ''joe''
     \<and> principal_parseSignedToken (demo_user_text @ '';n=root'') new_principal_token = Inr q
     \<and> pt_name q = Val ''root''
     \<and> (\<forall>nc tm now pk off nx. validate nc tm now pk off nx q = validate nc tm now pk off nx p)"
proof -
  obtain p where p: "principal_parseSignedToken demo_user_text new_principal_token = Inr p"
      "pt_name p = Val ''joe''"
    by (simp add: principal_parseSignedToken_def read_token_def parse_items_def item_kv_def
        demo_user_text_def principal_switch_def new_principal_token_def new_token_def token.defs
        principal_token.defs)
  have i: "index_of '';s='' demo_user_text = Some 40"
    by (simp add: demo_user_text_def)
  show ?thesis
    using p principal_suffix_not_signed [OF p(1) i, of "''root''"] by auto
qed

section \<open>Round trip of an authorized service token\<close>

text \<open>The items \<^verbatim>\<open>signForAuthorizedService\<close> adds before its signature.\<close>

definition service_items :: "string list \<Rightarrow> string \<Rightarrow> string \<Rightarrow> (string \<times> string) list" where
  "service_items svcs svcName svcKeyId =
     (''bk'', svcKeyId) # (if length svcs > 1 then [(''bn'', svcName)] else [])"

lemma suffix_text_simps [simp]:
  "suffix_text [] = []" "suffix_text (p # ps) = CHR '';'' # kv_text p @ suffix_text ps"
  "suffix_text (ps @ qs) = suffix_text ps @ suffix_text qs"
  by (simp_all add: suffix_text_def)

lemma signForAuthorizedService_result:
  assumes "signForAuthorizedService nc svcName svcKeyId priv t = Inr t2"
  obtains svcs sig where "pt_authorizedServices t = Val svcs" "svcName \<in> set svcs"
    and "Crypto_sign nc
           (Val (ref_text (tok_signedToken t) @ suffix_text (service_items svcs svcName svcKeyId)))
           priv (tok_digestAlgorithm t) = Inr sig"
    and "tok_signedToken t2 = Val (ref_text (tok_signedToken t)
           @ suffix_text (service_items svcs svcName svcKeyId @ [(''bs'', sig)]))"
  using assms
  by (auto simp: signForAuthorizedService_def service_items_def kv_text_def Let_def
      split: jsref.splits if_splits sum.splits)

lemma join_suffix_text:
  "kvs \<noteq> [] \<Longrightarrow> join_with '';'' (map kv_text kvs) @ suffix_text extra
     = join_with '';'' (map kv_text (kvs @ extra))"
proof (induction extra arbitrary: kvs)
  case Nil
  then show ?case by simp
next
  case (Cons p extra)
  have "join_with '';'' (map kv_text (kvs @ [p])) = join_with '';'' (map kv_text kvs) @ CHR '';'' # kv_text p"
    using Cons.prems join_with_snoc [of "map kv_text kvs" "'';''"] by simp
  with Cons.IH [of "kvs @ [p]"] show ?case by simp
qed

lemma index_of_service_signature:
  fixes svcs :: "string list"
  assumes "well_built t ts ex" and "clean sig" and "clean svcName" and "clean svcKeyId"
  defines "s \<equiv> ref_text (tok_unsignedToken t) @ '';s='' @ sig
             @ suffix_text (service_items svcs svcName svcKeyId)"
  shows "index_of '';bs='' (s @ '';bs='' @ bsig) = Some (length s)"
proof -
  let ?kvs = "principal_parts t ts ex @ (''s'', sig) # service_items svcs svcName svcKeyId"
  have s: "s = join_with '';'' (map kv_text ?kvs)"
    using assms(1) join_suffix_text [of "principal_parts t ts ex" "(''s'', sig) # service_items svcs svcName svcKeyId"]
    by (simp add: s_def well_built_def ref_text_def kv_text_def)
  have "p \<in> set (principal_parts t ts ex) \<Longrightarrow> fst p \<noteq> ''bs''" for p
    by (auto simp: principal_parts_def dest!: set_opt_part split: jsref.splits)
  then have "\<forall>p\<in>set ?kvs. clean (fst p) \<and> clean (snd p) \<and> fst p \<noteq> ''bs''"
    using principal_parts_clean [OF assms(1)] assms(2-4)
    by (auto simp: list_all_iff clean_item_def service_items_def)
  then show ?thesis
    using index_of_key [of ?kvs "''bs''" bsig] s by simp
qed

text \<open>
  A signed token \<open>p\<close> with text \<open>s\<close>, to which the items of a service and its signature are
  appended, reads back as \<open>p\<close> with those items, and the service's signature verifies.
\<close>

lemma service_signed_parse:
  assumes "principal_parseSignedToken s new_principal_token = Inr p"
    and "index_of '';s='' s = Some i"
    and "pt_authorizedServices p = Val svcs" and "pt_authorizedServiceName p = Null"
    and "clean svcName" and "clean svcKeyId" and "clean bsig"
  defines "extra \<equiv> service_items svcs svcName svcKeyId @ [(''bs'', bsig)]"
  obtains q where "principal_parseSignedToken (s @ suffix_text extra) new_principal_token = Inr q"
    and "pt_authorizedServices q = Val svcs" and "pt_authorizedServiceKeyId q = Val svcKeyId"
    and "pt_authorizedServiceSignature q = Val bsig"
    and "pt_authorizedServiceName q = (if length svcs > 1 then Val svcName else Null)"
    and "tok_signedToken q = Val (s @ suffix_text extra)"
    and "tok_digestAlgorithm q = tok_digestAlgorithm p"
proof -
  have cextra: "\<forall>q\<in>set extra. clean (fst q) \<and> clean (snd q)"
    using assms(5-7) by (auto simp: extra_def service_items_def)
  have fields: "tok_domain (principal_dispatch p extra) = tok_domain p"
      "pt_name (principal_dispatch p extra) = pt_name p"
      "pt_authorizedServices (principal_dispatch p extra) = Val svcs"
      "pt_authorizedServiceKeyId (principal_dispatch p extra) = Val svcKeyId"
      "pt_authorizedServiceSignature (principal_dispatch p extra) = Val bsig"
      "pt_authorizedServiceName (principal_dispatch p extra) =
         (if length svcs > 1 then Val svcName else Null)"
    using assms(3,4) by (simp_all add: extra_def service_items_def principal_switch_def)
  have parsed: "principal_parseSignedToken (s @ suffix_text extra) new_principal_token =
      Inr ((principal_dispatch p extra)\<lparr>tok_signedToken := Val (s @ suffix_text extra)\<rparr>)"
    by (rule principal_parse_append [OF assms(1,2) cextra])
       (simp_all only: fields principal_parse_Inr(3,4) [OF assms(1)])
  define d where "d = principal_dispatch p extra"
  have dd: "tok_digestAlgorithm d = tok_digestAlgorithm p"
    by (simp only: d_def principal_dispatch_frame)
  show thesis
    by (rule that [OF parsed [folded d_def]]) (simp_all add: fields [folded d_def] dd)
qed

lemma isValidAuthorizedServiceToken_named:
  assumes "pt_authorizedServices q = Val svcs" and "svcName \<in> set svcs"
    and "pt_authorizedServiceSignature q = Val bsig" and "bsig \<noteq> []" and "svcName \<noteq> []"
    and "pt_authorizedServiceName q = (if length svcs > 1 then Val svcName else Null)"
  shows "isValidAuthorizedServiceToken q"
proof -
  have "length svcs = 1 \<or> length svcs > 1"
    using assms(2) by (cases svcs) auto
  then show ?thesis
    using assms by (auto simp: isValidAuthorizedServiceToken_def ref_text_def)
qed

lemma clean_service_name:
  assumes "well_built t ts ex" and "pt_authorizedServices t = Val svcs" and "svcName \<in> set svcs"
  shows "clean svcName"
  using assms set_in_join_with [of svcName svcs "'',''"] by (auto simp: well_built_def clean_def)

lemma Crypto_sign_clean_text: "Crypto_sign nc m k alg = Inr sig \<Longrightarrow> clean sig"
  using Crypto_sign_clean by (simp add: clean_def)

text \<open>The same, for a token as the builder and \<^verbatim>\<open>sign\<close> leave it.\<close>

lemma built_service_parse:
  assumes wb: "well_built t ts ex" and "clean sig" and "clean svcKeyId" and "clean bsig"
    and svcs: "pt_authorizedServices t = Val svcs" "svcName \<in> set svcs"
  defines "s \<equiv> ref_text (tok_unsignedToken t) @ '';s='' @ sig"
  defines "pre \<equiv> s @ suffix_text (service_items svcs svcName svcKeyId)"
  obtains q where "principal_parseSignedToken (pre @ '';bs='' @ bsig) new_principal_token = Inr q"
    and "pt_authorizedServices q = Val svcs" and "pt_authorizedServiceKeyId q = Val svcKeyId"
    and "pt_authorizedServiceSignature q = Val bsig"
    and "pt_authorizedServiceName q = (if length svcs > 1 then Val svcName else Null)"
    and "tok_signedToken q = Val (pre @ '';bs='' @ bsig)"
    and "tok_digestAlgorithm q = ''SHA256''"
    and "index_of '';bs='' (pre @ '';bs='' @ bsig) = Some (length pre)"
proof -
  obtain p where p: "principal_parseSignedToken s new_principal_token = Inr p"
      and view: "principal_view p = principal_view (t\<lparr>tok_signature := Val sig\<rparr>)"
      and pd: "tok_digestAlgorithm p = ''SHA256''" and pn: "pt_authorizedServiceName p = Null"
    using principal_parse_signed [OF wb assms(2), folded s_def] by metis
  have psv: "pt_authorizedServices p = Val svcs"
    using view svcs by (simp add: principal_view_def)
  note cname = clean_service_name [OF wb svcs]
  have pre: "s @ suffix_text (service_items svcs svcName svcKeyId @ [(''bs'', bsig)])
      = pre @ '';bs='' @ bsig"
    by (simp add: pre_def kv_text_def)
  have idx: "index_of '';bs='' (pre @ '';bs='' @ bsig) = Some (length pre)"
    using index_of_service_signature [OF wb assms(2) cname assms(3), of svcs bsig]
    by (simp add: pre_def s_def)
  obtain q where "principal_parseSignedToken (pre @ '';bs='' @ bsig) new_principal_token = Inr q"
      "pt_authorizedServices q = Val svcs" "pt_authorizedServiceKeyId q = Val svcKeyId"
      "pt_authorizedServiceSignature q = Val bsig"
      "pt_authorizedServiceName q = (if length svcs > 1 then Val svcName else Null)"
      "tok_signedToken q = Val (pre @ '';bs='' @ bsig)" "tok_digestAlgorithm q = ''SHA256''"
    using service_signed_parse [OF p principal_signed_text(1) [OF wb assms(2), folded s_def]
        psv pn cname assms(3,4), unfolded pre pd] .
  then show thesis
    using idx by (rule that)
qed

text \<open>
  C28. A token built, signed by its owner and then signed for one of its authorized services
  reads back as a valid authorized service token whose second signature verifies with the public
  key of that service, and which names the service when several are authorized.
\<close>

theorem authorized_service_round_trip:
  assumes "principal_builder rand now (Val opts) new_principal_token = Inr t"
    and "clean_principal_options opts"
    and "sign nc priv t = Inr t1"
    and "signForAuthorizedService nc svcName svcKeyId svcPriv t1 = Inr t2"
    and "svcName \<noteq> []" and "clean svcKeyId"
    and "key_pair nc svcPriv svcPub" and "key_truthy (Val svcPub)"
  shows "\<exists>p. principal_parseSignedToken (ref_text (tok_signedToken t2)) new_principal_token = Inr p
           \<and> isValidAuthorizedServiceToken p
           \<and> validateForAuthorizedService nc (Val svcPub) p = Inr True
           \<and> pt_authorizedServiceKeyId p = Val svcKeyId
           \<and> pt_authorizedServices p = pt_authorizedServices t"
proof -
  obtain ts ex where wb: "well_built t ts ex"
    using principal_builder_built [OF assms(1,2)] .
  obtain sig where sig: "Crypto_sign nc (tok_unsignedToken t) priv (tok_digestAlgorithm t) = Inr sig"
      and t1: "t1 = t\<lparr>tok_signature := Val sig,
                tok_signedToken := Val (ref_text (tok_unsignedToken t) @ '';s='' @ sig)\<rparr>"
    using sign_result [OF assms(3)] .
  define s where "s = ref_text (tok_unsignedToken t) @ '';s='' @ sig"
  have t1s: "ref_text (tok_signedToken t1) = s" "pt_authorizedServices t1 = pt_authorizedServices t"
      "tok_digestAlgorithm t1 = ''SHA256''"
    using wb by (simp_all add: t1 s_def ref_text_def well_built_def)
  obtain svcs bsig where svcs: "pt_authorizedServices t = Val svcs" "svcName \<in> set svcs"
      and bsig: "Crypto_sign nc (Val (s @ suffix_text (service_items svcs svcName svcKeyId)))
                   svcPriv ''SHA256'' = Inr bsig"
      and t2: "tok_signedToken t2
                 = Val (s @ suffix_text (service_items svcs svcName svcKeyId @ [(''bs'', bsig)]))"
    using signForAuthorizedService_result [OF assms(4), unfolded t1s] .
  define pre where "pre = s @ suffix_text (service_items svcs svcName svcKeyId)"
  have ver: "bsig \<noteq> []" "Crypto_verify nc pre (Val svcPub) (Val bsig) ''SHA256'' = Inr True"
    using key_pair_verifies [OF assms(7), of pre] bsig by (auto simp: pre_def)
  obtain q where q: "principal_parseSignedToken (pre @ '';bs='' @ bsig) new_principal_token = Inr q"
      "pt_authorizedServices q = Val svcs" "pt_authorizedServiceKeyId q = Val svcKeyId"
      "pt_authorizedServiceSignature q = Val bsig"
      "pt_authorizedServiceName q = (if length svcs > 1 then Val svcName else Null)"
      "tok_signedToken q = Val (pre @ '';bs='' @ bsig)" "tok_digestAlgorithm q = ''SHA256''"
      "index_of '';bs='' (pre @ '';bs='' @ bsig) = Some (length pre)"
    using built_service_parse [OF wb Crypto_sign_clean_text [OF sig] assms(6)
        Crypto_sign_clean_text [OF bsig] svcs, folded s_def, folded pre_def] .
  have "validateForAuthorizedService nc (Val svcPub) q = Inr True"
    using ver assms(8) q(8) by (simp add: validateForAuthorizedService_def q(4,6,7))
  then show ?thesis
    using q t2 svcs isValidAuthorizedServiceToken_named [OF q(2) svcs(2) q(4) ver(1) assms(5) q(5)]
    by (simp add: ref_text_def pre_def kv_text_def)
qed

lemma sign_services:
  assumes "sign nc priv t = Inr t1"
  shows "pt_authorizedServices t1 = pt_authorizedServices t"
  by (rule sign_result [OF assms]) simp

lemma demo_signForAuthorizedService:
  assumes "pt_authorizedServices t = Val [''sports.fe'', ''sports.be'']"
  shows "\<exists>t2. signForAuthorizedService demo_crypto ''sports.be'' ''1'' k t = Inr t2"
proof -
  have "\<exists>sig. Crypto_sign demo_crypto (Val u) k alg = Inr sig" for u alg
    by (simp add: Crypto_sign_def demo_crypto_def)
  then obtain sig where
    "Crypto_sign demo_crypto (Val (ref_text (tok_signedToken t) @ '';bk=1;bn=sports.be'')) k
       (tok_digestAlgorithm t) = Inr sig" by blast
  then show ?thesis
    by (simp add: signForAuthorizedService_def assms)
qed

theorem authorized_service_round_trip_witness:
  "\<exists>t t1 t2 p. principal_builder [] 0 (Val demo_principal_options) new_principal_token = Inr t
     \<and> sign demo_crypto (KeyText ''key'') t = Inr t1
     \<and> signForAuthorizedService demo_crypto ''sports.be'' ''1'' (KeyText ''svc'') t1 = Inr t2
     \<and> principal_parseSignedToken (ref_text (tok_signedToken t2)) new_principal_token = Inr p
     \<and> isValidAuthorizedServiceToken p
     \<and> validateForAuthorizedService demo_crypto (Val (KeyText ''svc.pub'')) p = Inr True"
proof -
  obtain t where t: "principal_builder [] 0 (Val demo_principal_options) new_principal_token = Inr t"
      and u: "tok_unsignedToken t =
         Val ''v=S1;d=sports;n=storage;a=aabb;t=100;e=150;k=0;b=sports.fe,sports.be''"
      and svcs: "pt_authorizedServices t = Val [''sports.fe'', ''sports.be'']"
    using demo_principal_built by blast
  obtain t1 where t1: "sign demo_crypto (KeyText ''key'') t = Inr t1"
    using demo_sign [OF u] by blast
  then have "pt_authorizedServices t1 = Val [''sports.fe'', ''sports.be'']"
    using svcs by (simp add: sign_services [OF t1])
  then obtain t2 where
    t2: "signForAuthorizedService demo_crypto ''sports.be'' ''1'' (KeyText ''svc'') t1 = Inr t2"
    using demo_signForAuthorizedService by blast
  have k: "key_truthy (Val (KeyText ''svc.pub''))" "clean ''1''" "''sports.be'' \<noteq> []"
    by simp_all
  show ?thesis
    using t t1 t2 authorized_service_round_trip [OF t demo_principal_clean t1 t2 k(3,2)
        demo_key_pair(1) k(1)] by blast
qed

end
