(* ===== verification/RoleToken.thy ===== *)
theory RoleToken
  imports PrincipalToken
begin

text \<open>
  The class \<^verbatim>\<open>token/RoleToken.js\<close>: the tokens ZTS issues, which list the roles
  their holder has in a domain.
\<close>

section \<open>State\<close>

record role_token = token +
  rt_roles :: "string list jsref"
  rt_principal :: "string jsref"
  rt_proxyUser :: "string jsref"
  rt_domainCompleteRoleSet :: "bool jsref"

definition new_role_token :: role_token where
  "new_role_token = token.extend new_token (role_token.fields Null Null Null Null)"

record role_options =
  ro_version :: "string jsref"
  ro_domain :: "string jsref"
  ro_roles :: "string list jsref"
  ro_principal :: "string jsref"
  ro_proxyUser :: "string jsref"
  ro_domainCompleteRoleSet :: "bool jsref"
  ro_salt :: "string jsref"
  ro_host :: "string jsref"
  ro_ip :: "string jsref"
  ro_keyId :: "string jsref"
  ro_issueTime :: "int jsref"
  ro_expirationWindow :: "int jsref"

section \<open>Reading\<close>

text \<open>The loop also fills the local variable \<^verbatim>\<open>roleNames\<close>, the second component.\<close>

type_synonym role_reader = "role_token \<times> string jsref"

definition role_switch :: "string \<Rightarrow> string \<Rightarrow> role_reader \<Rightarrow> role_reader" where
  "role_switch k v st =
     (let (t, roleNames) = st in
      if k = ''a'' then (t\<lparr>tok_salt := Val v\<rparr>, roleNames)
      else if k = ''c'' then
        (if num_eq (string_to_number v) (Fin 1)
         then (t\<lparr>rt_domainCompleteRoleSet := Val True\<rparr>, roleNames) else (t, roleNames))
      else if k = ''d'' then (t\<lparr>tok_domain := Val v\<rparr>, roleNames)
      else if k = ''e'' then (t\<lparr>tok_expiryTime := string_to_number v\<rparr>, roleNames)
      else if k = ''h'' then (t\<lparr>tok_host := Val v\<rparr>, roleNames)
      else if k = ''i'' then (t\<lparr>tok_ip := Val v\<rparr>, roleNames)
      else if k = ''k'' then (t\<lparr>tok_keyId := Val v\<rparr>, roleNames)
      else if k = ''p'' then (t\<lparr>rt_principal := Val v\<rparr>, roleNames)
      else if k = ''r'' then (t, Val v)
      else if k = ''s'' then (t\<lparr>tok_signature := Val v\<rparr>, roleNames)
      else if k = ''t'' then (t\<lparr>tok_timestamp := string_to_number v\<rparr>, roleNames)
      else if k = ''proxy'' then (t\<lparr>rt_proxyUser := Val v\<rparr>, roleNames)
      else if k = ''v'' then (t\<lparr>tok_version := Val v\<rparr>, roleNames)
      else (t, roleNames))"

definition set_role_unsigned :: "string \<Rightarrow> role_reader \<Rightarrow> role_reader" where
  "set_role_unsigned u st = ((fst st)\<lparr>tok_unsignedToken := Val u\<rparr>, snd st)"

definition role_parseSignedToken :: "string \<Rightarrow> role_token \<Rightarrow> role_token result" where
  "role_parseSignedToken signedToken t =
     (if signedToken = [] then Inl (Error ''Input String signedToken must not be empty'')
      else
        let (t2, roleNames) = read_token role_switch set_role_unsigned signedToken (t, Null)
        in if \<not> str_truthy (tok_domain t2)
             then Inl (Error ''SignedToken does not contain required domain component'')
           else if \<not> str_truthy roleNames
             then Inl (Error ''SignedToken does not contain required roles component'')
           else Inr (t2\<lparr>rt_roles := Val (split_on (CHR '','') (ref_text roleNames)),
                        tok_signedToken := Val signedToken\<rparr>))"

section \<open>Building\<close>

definition role_parts :: "role_token \<Rightarrow> int \<Rightarrow> int \<Rightarrow> (string \<times> string) list" where
  "role_parts t ts ex =
     [(''v'', ref_text (tok_version t)), (''d'', ref_text (tok_domain t)),
      (''r'', join_with '','' (case rt_roles t of Val rs \<Rightarrow> rs | _ \<Rightarrow> []))]
     @ (if rt_domainCompleteRoleSet t = Val True then [(''c'', ''1'')] else [])
     @ opt_part ''p'' (rt_principal t)
     @ opt_part ''h'' (tok_host t)
     @ opt_part ''proxy'' (rt_proxyUser t)
     @ [(''a'', ref_text (tok_salt t)), (''t'', show_int ts), (''e'', show_int ex),
        (''k'', ref_text (tok_keyId t))]
     @ opt_part ''i'' (tok_ip t)"

definition role_builder ::
  "byte list \<Rightarrow> int \<Rightarrow> role_options jsref \<Rightarrow> role_token \<Rightarrow> role_token result" where
  "role_builder rand now opts t =
     (case opts of
        Undefined \<Rightarrow> Inl (TypeError ''version'')
      | Null \<Rightarrow> Inl (TypeError ''version'')
      | Val options \<Rightarrow>
          if \<not> str_truthy (ro_version options) \<or> \<not> str_truthy (ro_domain options)
             \<or> \<not> present (ro_roles options)
          then Inl (Error ''version, domain and roles parameters must not be null.'')
          else if ro_roles options = Val []
          then Inl (Error ''version, domain and roles parameters must have values.'')
          else
            let t1 = t\<lparr>tok_version := ro_version options,
                       tok_domain := ro_domain options,
                       rt_roles := ro_roles options,
                       rt_principal := ro_principal options,
                       rt_proxyUser := ro_proxyUser options,
                       rt_domainCompleteRoleSet := Val (ro_domainCompleteRoleSet options = Val True),
                       tok_salt := Val (str_or (ro_salt options) (randomSalt rand)),
                       tok_host := ro_host options,
                       tok_ip := ro_ip options,
                       tok_keyId := Val (str_or (ro_keyId options) ''0'')\<rparr>;
                issueTime = int_or (ro_issueTime options) 0;
                window = int_or (ro_expirationWindow options) 3600;
                ts = (if issueTime > 0 then issueTime else now div 1000);
                t2 = setTimeStamp now issueTime window t1
            in Inr (t2\<lparr>tok_unsignedToken :=
                   Val (join_with '';'' (map kv_text (role_parts t2 ts (ts + window))))\<rparr>))"

definition RoleToken_new ::
  "byte list \<Rightarrow> int \<Rightarrow> role_options token_input \<Rightarrow> role_token result" where
  "RoleToken_new rand now input =
     (case input of
        TokenText s \<Rightarrow> role_parseSignedToken s new_role_token
      | TokenOptions opts \<Rightarrow> role_builder rand now opts new_role_token)"

section \<open>The switch writes one field per key\<close>

lemmas role_switch_simps = role_switch_def Let_def split_beta

interpretation r_salt: token_field role_switch "\<lambda>st. tok_salt (fst st)" "''a''" Val
  by unfold_locales (auto simp: role_switch_simps)
interpretation r_domain: token_field role_switch "\<lambda>st. tok_domain (fst st)" "''d''" Val
  by unfold_locales (auto simp: role_switch_simps)
interpretation r_expiry: token_field role_switch "\<lambda>st. tok_expiryTime (fst st)" "''e''" string_to_number
  by unfold_locales (auto simp: role_switch_simps)
interpretation r_host: token_field role_switch "\<lambda>st. tok_host (fst st)" "''h''" Val
  by unfold_locales (auto simp: role_switch_simps)
interpretation r_ip: token_field role_switch "\<lambda>st. tok_ip (fst st)" "''i''" Val
  by unfold_locales (auto simp: role_switch_simps)
interpretation r_keyId: token_field role_switch "\<lambda>st. tok_keyId (fst st)" "''k''" Val
  by unfold_locales (auto simp: role_switch_simps)
interpretation r_principal: token_field role_switch "\<lambda>st. rt_principal (fst st)" "''p''" Val
  by unfold_locales (auto simp: role_switch_simps)
interpretation r_roles: token_field role_switch snd "''r''" Val
  by unfold_locales (auto simp: role_switch_simps)
interpretation r_sig: token_field role_switch "\<lambda>st. tok_signature (fst st)" "''s''" Val
  by unfold_locales (auto simp: role_switch_simps)
interpretation r_time: token_field role_switch "\<lambda>st. tok_timestamp (fst st)" "''t''" string_to_number
  by unfold_locales (auto simp: role_switch_simps)
interpretation r_proxy: token_field role_switch "\<lambda>st. rt_proxyUser (fst st)" "''proxy''" Val
  by unfold_locales (auto simp: role_switch_simps)
interpretation r_version: token_field role_switch "\<lambda>st. tok_version (fst st)" "''v''" Val
  by unfold_locales (auto simp: role_switch_simps)
interpretation r_unsigned: token_frame role_switch "\<lambda>st. tok_unsignedToken (fst st)"
  by unfold_locales (auto simp: role_switch_simps)
interpretation r_digest: token_frame role_switch "\<lambda>st. tok_digestAlgorithm (fst st)"
  by unfold_locales (auto simp: role_switch_simps)

lemmas role_field_parse =
  r_salt.get_parse r_domain.get_parse r_expiry.get_parse r_host.get_parse r_ip.get_parse
  r_keyId.get_parse r_principal.get_parse r_roles.get_parse r_sig.get_parse r_time.get_parse
  r_proxy.get_parse r_version.get_parse

lemmas role_frame_parse = r_unsigned.frame_parse r_digest.frame_parse

text \<open>
  The flag \<^verbatim>\<open>c\<close> is only ever set: it is true when some item has the value 1.
\<close>

lemma complete_set_foldl:
  "rt_domainCompleteRoleSet (fst (foldl (\<lambda>t (k, v). role_switch k v t) st kvs)) =
     (if \<exists>v. (''c'', v) \<in> set kvs \<and> num_eq (string_to_number v) (Fin 1) then Val True
      else rt_domainCompleteRoleSet (fst st))"
proof (induction kvs arbitrary: st)
  case Nil
  show ?case by simp
next
  case (Cons p kvs)
  obtain k v where p: "p = (k, v)" by force
  have "rt_domainCompleteRoleSet (fst (role_switch k v st)) =
      (if k = ''c'' \<and> num_eq (string_to_number v) (Fin 1) then Val True
       else rt_domainCompleteRoleSet (fst st))"
    by (simp add: role_switch_simps)
  with Cons.IH [of "role_switch k v st"] p show ?case by auto
qed

section \<open>Tokens as the builder makes them\<close>

definition clean_role_options :: "role_options \<Rightarrow> bool" where
  "clean_role_options opts =
     (clean_ref (ro_version opts) \<and> clean_ref (ro_domain opts) \<and> clean_ref (ro_principal opts)
      \<and> clean_ref (ro_proxyUser opts) \<and> clean_ref (ro_salt opts) \<and> clean_ref (ro_host opts)
      \<and> clean_ref (ro_ip opts) \<and> clean_ref (ro_keyId opts)
      \<and> (\<forall>rs. ro_roles opts = Val rs \<longrightarrow>
           rs \<noteq> [[]] \<and> (\<forall>r\<in>set rs. clean r \<and> CHR '','' \<notin> set r)))"

definition role_built :: "role_token \<Rightarrow> int \<Rightarrow> int \<Rightarrow> bool" where
  "role_built t ts ex \<longleftrightarrow>
     tok_unsignedToken t = Val (join_with '';'' (map kv_text (role_parts t ts ex)))
     \<and> tok_timestamp t = num_of_int ts \<and> tok_expiryTime t = num_of_int ex
     \<and> str_truthy (tok_version t) \<and> str_truthy (tok_domain t)
     \<and> present (tok_salt t) \<and> present (tok_keyId t)
     \<and> tok_digestAlgorithm t = ''SHA256''
     \<and> (\<forall>r\<in>{tok_version t, tok_domain t, tok_host t, tok_salt t, tok_keyId t, tok_ip t,
           rt_principal t, rt_proxyUser t}. clean_ref r)
     \<and> (\<exists>rs. rt_roles t = Val rs \<and> rs \<noteq> [] \<and> rs \<noteq> [[]] \<and> (\<forall>r\<in>set rs. clean r \<and> CHR '','' \<notin> set r))
     \<and> present (rt_domainCompleteRoleSet t)"

lemma role_builder_built:
  assumes "role_builder rand now (Val opts) new_role_token = Inr t"
    and "clean_role_options opts"
  obtains ts ex where "role_built t ts ex"
proof -
  define issueTime where "issueTime = int_or (ro_issueTime opts) 0"
  define ts where "ts = (if issueTime > 0 then issueTime else now div 1000)"
  define ex where "ex = ts + int_or (ro_expirationWindow opts) 3600"
  have "role_built t ts ex"
    using assms unfolding role_built_def
    by (auto simp: role_builder_def clean_role_options_def Let_def setTimeStamp_def
        new_role_token_def new_token_def token.defs role_token.defs role_parts_def
        ts_def ex_def issueTime_def clean_str_or present_iff split: if_splits)
  then show thesis by (rule that)
qed

lemma clean_join: "\<forall>r\<in>set rs. clean r \<Longrightarrow> clean (join_with '','' rs)"
  using set_join_with [of "'',''" rs] by (fastforce simp: clean_def)

lemma join_with_Nil_iff: "join_with '','' rs = [] \<longleftrightarrow> rs = [] \<or> rs = [[]]"
  by (cases rs rule: join_with.cases [where x = "([CHR '','' ], _)", simplified]) auto

lemma role_parts_clean:
  assumes "role_built t ts ex"
  shows "list_all clean_item (role_parts t ts ex)"
proof -
  have keys: "clean_item (''v'', [])" "clean_item (''d'', [])" "clean_item (''p'', [])"
    "clean_item (''h'', [])" "clean_item (''a'', [])" "clean_item (''k'', [])"
    "clean_item (''proxy'', [])" "clean_item (''i'', [])" "clean_item (''c'', ''1'')"
    "clean_item (''t'', show_int ts)" "clean_item (''e'', show_int ex)"
    by (simp_all add: clean_item_def)
  have refs: "clean_ref (tok_version t)" "clean_ref (tok_domain t)" "clean_ref (rt_principal t)"
    "clean_ref (tok_host t)" "clean_ref (tok_salt t)" "clean_ref (tok_keyId t)"
    "clean_ref (tok_ip t)" "clean_ref (rt_proxyUser t)"
    and roles: "clean_item (''r'', join_with '','' (case rt_roles t of Val rs \<Rightarrow> rs | _ \<Rightarrow> []))"
    using assms by (auto simp: role_built_def clean_item_def clean_join)
  show ?thesis
    by (simp add: role_parts_def keys refs roles clean_item_opt_part clean_item_Val)
qed

lemma role_parts_not_Nil [simp]: "role_parts t ts ex \<noteq> []"
  by (simp add: role_parts_def)

definition role_lookup :: "role_token \<Rightarrow> int \<Rightarrow> int \<Rightarrow> string \<Rightarrow> string \<Rightarrow> string option" where
  "role_lookup t ts ex sig k = map_of (rev (role_parts t ts ex @ [(''s'', sig)])) k"

lemma role_lookup_simps:
  "role_lookup t ts ex sig ''s'' = Some sig"
  "role_lookup t ts ex sig ''i'' = map_of (opt_part ''i'' (tok_ip t)) ''i''"
  "role_lookup t ts ex sig ''p'' = map_of (opt_part ''p'' (rt_principal t)) ''p''"
  "role_lookup t ts ex sig ''proxy'' = map_of (opt_part ''proxy'' (rt_proxyUser t)) ''proxy''"
  "role_lookup t ts ex sig ''h'' = map_of (opt_part ''h'' (tok_host t)) ''h''"
  "role_lookup t ts ex sig ''k'' = Some (ref_text (tok_keyId t))"
  "role_lookup t ts ex sig ''e'' = Some (show_int ex)"
  "role_lookup t ts ex sig ''t'' = Some (show_int ts)"
  "role_lookup t ts ex sig ''a'' = Some (ref_text (tok_salt t))"
  "role_lookup t ts ex sig ''r'' =
     Some (join_with '','' (case rt_roles t of Val rs \<Rightarrow> rs | _ \<Rightarrow> []))"
  "role_lookup t ts ex sig ''d'' = Some (ref_text (tok_domain t))"
  "role_lookup t ts ex sig ''v'' = Some (ref_text (tok_version t))"
  by (simp_all add: role_lookup_def role_parts_def map_of_opt_part map_add_def)

section \<open>Reading back what was built and signed\<close>

definition role_view :: "role_token \<Rightarrow> principal_view \<times> bool" where
  "role_view t =
     (\<lparr>pv_unsigned = tok_unsignedToken t,
       pv_signature = tok_signature t,
       pv_identity = (tok_version t, tok_domain t, opt_norm (rt_principal t)),
       pv_times = (tok_timestamp t, tok_expiryTime t),
       pv_key = (tok_salt t, tok_keyId t),
       pv_optional = map opt_norm [tok_host t, tok_ip t, rt_proxyUser t],
       pv_services = rt_roles t\<rparr>,
      rt_domainCompleteRoleSet t = Val True)"

lemma role_signed_text:
  assumes "role_built t ts ex" and "clean sig"
  defines "s \<equiv> ref_text (tok_unsignedToken t) @ '';s='' @ sig"
  shows "index_of '';s='' s = Some (length (ref_text (tok_unsignedToken t)))"
    and "token_kvs s = role_parts t ts ex @ [(''s'', sig)]"
    and "map_of (rev (token_kvs s)) = role_lookup t ts ex sig"
proof -
  let ?kvs = "role_parts t ts ex"
  have u: "ref_text (tok_unsignedToken t) = join_with '';'' (map kv_text ?kvs)"
    using assms(1) by (simp add: role_built_def ref_text_def)
  have c: "\<forall>p\<in>set ?kvs. clean (fst p) \<and> clean (snd p) \<and> fst p \<noteq> ''s''"
    using role_parts_clean [OF assms(1)] by (simp add: list_all_iff clean_item_def)
  show "index_of '';s='' s = Some (length (ref_text (tok_unsignedToken t)))"
    unfolding s_def u by (rule index_of_signature) (use c in simp_all)
  show *: "token_kvs s = ?kvs @ [(''s'', sig)]"
    unfolding s_def u signed_text [OF role_parts_not_Nil]
    using c assms(2) by (intro token_kvs_join) auto
  show "map_of (rev (token_kvs s)) = role_lookup t ts ex sig"
    by (simp only: role_lookup_def fun_eq_iff *) simp
qed

lemma role_parts_complete:
  "(\<exists>v. (''c'', v) \<in> set (role_parts t ts ex @ [(''s'', sig)]) \<and> num_eq (string_to_number v) (Fin 1))
     \<longleftrightarrow> rt_domainCompleteRoleSet t = Val True"
proof -
  have "(''c'', v) \<in> set (role_parts t ts ex @ [(''s'', sig)])
      \<longleftrightarrow> rt_domainCompleteRoleSet t = Val True \<and> v = ''1''" for v
    by (auto simp: role_parts_def dest: set_opt_part)
  moreover have "num_eq (string_to_number ''1'') (Fin 1)"
    using string_to_number_show_int [of 1]
    by (simp add: show_int_def show_nat.simps js_simps num_eq_def)
  ultimately show ?thesis by simp
qed

lemma role_parse_signed:
  assumes wb: "role_built t ts ex" and "clean sig"
  defines "s \<equiv> ref_text (tok_unsignedToken t) @ '';s='' @ sig"
  obtains p where "role_parseSignedToken s new_role_token = Inr p"
    and "role_view p = role_view (t\<lparr>tok_signature := Val sig\<rparr>)"
    and "tok_signedToken p = Val s" and "tok_digestAlgorithm p = ''SHA256''"
proof -
  define t1 where "t1 = new_role_token\<lparr>tok_unsignedToken := tok_unsignedToken t\<rparr>"
  define p where "p = parse_items role_switch (split_on (CHR '';'') s) (t1, Null)"
  note tk = role_signed_text [OF wb assms(2), folded s_def]
  note wbs = wb [unfolded role_built_def]
  obtain rs where rs: "rt_roles t = Val rs" "rs \<noteq> []" "rs \<noteq> [[]]" "\<forall>r\<in>set rs. CHR '','' \<notin> set r"
    using wbs by blast
  have start: "set_role_unsigned (substring s 0 (length (ref_text (tok_unsignedToken t))))
      (new_role_token, Null) = (t1, Null)"
    using wbs by (simp add: t1_def s_def ref_text_def set_role_unsigned_def)
  have vals: "Val (ref_text (tok_version t)) = tok_version t"
      "Val (ref_text (tok_domain t)) = tok_domain t"
      "Val (ref_text (tok_salt t)) = tok_salt t" "Val (ref_text (tok_keyId t)) = tok_keyId t"
    using wbs by (simp_all add: present_ref_text str_truthy_present)
  have init: "tok_host t1 = Null" "tok_ip t1 = Null" "rt_proxyUser t1 = Null"
      "rt_principal t1 = Null" "rt_domainCompleteRoleSet t1 = Null"
      "tok_digestAlgorithm t1 = ''SHA256''" "tok_unsignedToken t1 = tok_unsignedToken t"
    by (simp_all add: t1_def new_role_token_def new_token_def token.defs role_token.defs)
  note fields = role_field_parse [of s "(t1, Null)", folded p_def, unfolded tk(3) fst_conv snd_conv
      role_lookup_simps init opt_norm_parse option.case vals string_to_number_show_int rs(1) jsref.case]
  have complete: "rt_domainCompleteRoleSet (fst p) = Val True \<longleftrightarrow> rt_domainCompleteRoleSet t = Val True"
    using role_parts_complete [of t ts ex sig]
    by (simp only: p_def parse_items_foldl tk(2) [unfolded token_kvs_def] complete_set_foldl)
       (simp add: init)
  have frames: "tok_unsignedToken (fst p) = tok_unsignedToken t" "tok_digestAlgorithm (fst p) = ''SHA256''"
    by (simp_all add: p_def role_frame_parse init)
  have "str_truthy (snd p)" and sp: "split_on (CHR '','') (ref_text (snd p)) = rs"
    using rs by (simp_all add: fields(8) ref_text_def join_with_Nil_iff split_on_join_with)
  moreover have "s \<noteq> []" "str_truthy (tok_domain (fst p))"
    using wbs by (simp_all add: s_def fields)
  ultimately have "role_parseSignedToken s new_role_token
      = Inr ((fst p)\<lparr>rt_roles := Val rs, tok_signedToken := Val s\<rparr>)"
    using tk(1) start
    by (simp add: role_parseSignedToken_def read_token_def p_def [symmetric] split_beta)
  moreover have "role_view ((fst p)\<lparr>rt_roles := Val rs, tok_signedToken := Val s\<rparr>)
      = role_view (t\<lparr>tok_signature := Val sig\<rparr>)"
    using wbs rs(1) complete by (simp add: role_view_def fields frames)
  ultimately show thesis
    by (rule that) (simp_all add: frames)
qed

text \<open>
  C27. A role token built from options whose texts hold none of the delimiters, and then signed,
  reads back from its signed text as a token with the same domain, roles, principal, times and
  signature.
\<close>

theorem role_round_trip:
  assumes "role_builder rand now (Val opts) new_role_token = Inr t"
    and "clean_role_options opts"
    and "sign nc priv t = Inr t'"
  shows "\<exists>p. role_parseSignedToken (ref_text (tok_signedToken t')) new_role_token = Inr p
           \<and> role_view p = role_view t' \<and> tok_signedToken p = tok_signedToken t'"
proof -
  obtain ts ex where wb: "role_built t ts ex"
    using role_builder_built [OF assms(1,2)] .
  obtain sig where sig: "Crypto_sign nc (tok_unsignedToken t) priv (tok_digestAlgorithm t) = Inr sig"
      and t': "t' = t\<lparr>tok_signature := Val sig,
                tok_signedToken := Val (ref_text (tok_unsignedToken t) @ '';s='' @ sig)\<rparr>"
    using sign_result [OF assms(3)] .
  obtain p where "role_parseSignedToken (ref_text (tok_signedToken t')) new_role_token = Inr p"
      "role_view p = role_view (t\<lparr>tok_signature := Val sig\<rparr>)"
      "tok_signedToken p = tok_signedToken t'"
    using role_parse_signed [OF wb Crypto_sign_clean_text [OF sig]] t' by (auto simp: ref_text_def)
  then show ?thesis
    by (auto simp: t' role_view_def)
qed

definition demo_role_options :: role_options where
  "demo_role_options =
     \<lparr>ro_version = Val ''Z1'', ro_domain = Val ''sports'', ro_roles = Val [''readers'', ''writers''],
      ro_principal = Val ''user.joe'', ro_proxyUser = Undefined,
      ro_domainCompleteRoleSet = Val True, ro_salt = Val ''aabb'', ro_host = Undefined,
      ro_ip = Undefined, ro_keyId = Val ''0'', ro_issueTime = Val 100,
      ro_expirationWindow = Val 50\<rparr>"

lemma demo_role_clean: "clean_role_options demo_role_options"
  by (simp add: clean_role_options_def demo_role_options_def)

lemma demo_role_built:
  "\<exists>t. role_builder [] 0 (Val demo_role_options) new_role_token = Inr t
     \<and> tok_unsignedToken t =
         Val ''v=Z1;d=sports;r=readers,writers;c=1;p=user.joe;a=aabb;t=100;e=150;k=0''"
  by (simp add: role_builder_def demo_role_options_def new_role_token_def
      new_token_def token.defs role_token.defs role_parts_def opt_part_def
      setTimeStamp_def int_or_def ref_text_def kv_text_def show_int_def show_nat.simps js_simps)

theorem role_round_trip_witness:
  "\<exists>t t' p. role_builder [] 0 (Val demo_role_options) new_role_token = Inr t
     \<and> sign demo_crypto (KeyText ''key'') t = Inr t'
     \<and> role_parseSignedToken (ref_text (tok_signedToken t')) new_role_token = Inr p
     \<and> role_view p = role_view t'"
proof -
  obtain t where t: "role_builder [] 0 (Val demo_role_options) new_role_token = Inr t"
      and u: "tok_unsignedToken t =
         Val ''v=Z1;d=sports;r=readers,writers;c=1;p=user.joe;a=aabb;t=100;e=150;k=0''"
    using demo_role_built by blast
  obtain t' where t': "sign demo_crypto (KeyText ''key'') t = Inr t'"
    using demo_sign [OF u] by blast
  show ?thesis
    using t t' role_round_trip [OF t demo_role_clean t'] by blast
qed

section \<open>Items after the signature\<close>

lemma role_parse_Inr:
  assumes "role_parseSignedToken s t0 = Inr p"
  obtains t2 roleNames where "s \<noteq> []"
    and "read_token role_switch set_role_unsigned s (t0, Null) = (t2, roleNames)"
    and "str_truthy (tok_domain t2)" and "str_truthy roleNames"
    and "p = t2\<lparr>rt_roles := Val (split_on (CHR '','') (ref_text roleNames)),
               tok_signedToken := Val s\<rparr>"
  using assms by (auto simp: role_parseSignedToken_def Let_def split: if_splits prod.splits)

lemma role_parse_signature:
  assumes "role_parseSignedToken u new_role_token = Inr t"
  shows "tok_digestAlgorithm t = ''SHA256''"
    and "tok_unsignedToken t =
      (case index_of '';s='' u of Some i \<Rightarrow> Val (substring u 0 i) | None \<Rightarrow> Null)"
proof -
  have "tok_digestAlgorithm t = ''SHA256'' \<and> tok_unsignedToken t =
      (case index_of '';s='' u of Some i \<Rightarrow> Val (substring u 0 i) | None \<Rightarrow> Null)"
  proof (rule role_parse_Inr [OF assms])
    fix t2 rn
    assume r: "read_token role_switch set_role_unsigned u (new_role_token, Null) = (t2, rn)"
      and t: "t = t2\<lparr>rt_roles := Val (split_on (CHR '','') (ref_text rn)), tok_signedToken := Val u\<rparr>"
    have "t2 = fst (read_token role_switch set_role_unsigned u (new_role_token, Null))"
      by (simp add: r)
    then show ?thesis
      by (simp add: t read_token_def role_frame_parse set_role_unsigned_def new_role_token_def
          new_token_def token.defs role_token.defs split: option.splits)
  qed
  then show "tok_digestAlgorithm t = ''SHA256''" and "tok_unsignedToken t =
      (case index_of '';s='' u of Some i \<Rightarrow> Val (substring u 0 i) | None \<Rightarrow> Null)"
    by blast+
qed

lemma role_parse_append_roles:
  assumes "role_parseSignedToken s t0 = Inr p" and "index_of '';s='' s = Some i"
    and "clean names" and "names \<noteq> []"
  shows "role_parseSignedToken (s @ '';r='' @ names) t0 =
    Inr (p\<lparr>rt_roles := Val (split_on (CHR '','') names), tok_signedToken := Val (s @ '';r='' @ names)\<rparr>)"
proof -
  obtain t2 rn where p: "s \<noteq> []"
      "read_token role_switch set_role_unsigned s (t0, Null) = (t2, rn)"
      "str_truthy (tok_domain t2)"
      "p = t2\<lparr>rt_roles := Val (split_on (CHR '','') (ref_text rn)), tok_signedToken := Val s\<rparr>"
    using role_parse_Inr [OF assms(1)] by metis
  have "read_token role_switch set_role_unsigned (s @ '';r='' @ names) (t0, Null) = (t2, Val names)"
    using read_token_append [OF assms(2), of "[(''r'', names)]" role_switch set_role_unsigned "(t0, Null)"]
      assms(3) p(2)
    by (simp add: kv_text_def role_switch_def)
  then show ?thesis
    using p assms(4) by (simp add: role_parseSignedToken_def ref_text_def)
qed

text \<open>
  The same gap in role tokens: a role list appended after the signature replaces the signed
  one, and the token so changed passes validation exactly when the original does.
\<close>

theorem role_suffix_not_signed:
  assumes "role_parseSignedToken s new_role_token = Inr p"
    and "index_of '';s='' s = Some i" and "clean names" and "names \<noteq> []"
  shows "\<exists>q. role_parseSignedToken (s @ '';r='' @ names) new_role_token = Inr q
           \<and> rt_roles q = Val (split_on (CHR '','') names) \<and> tok_domain q = tok_domain p
           \<and> tok_keyId q = tok_keyId p \<and> rt_principal q = rt_principal p
           \<and> (\<forall>nc tm now pk off nx. validate nc tm now pk off nx q = validate nc tm now pk off nx p)"
  by (rule exI, rule conjI, rule role_parse_append_roles [OF assms])
     (simp add: validate_def)

definition demo_role_text :: string where
  "demo_role_text = ''v=Z1;d=sports;r=readers;p=user.joe;a=aabb;t=100;e=150;k=0;s=abcd''"

lemma demo_role_parsed:
  "\<exists>p. role_parseSignedToken demo_role_text new_role_token = Inr p
     \<and> rt_roles p = Val [''readers'']"
  by (simp add: role_parseSignedToken_def read_token_def parse_items_def item_kv_def
      demo_role_text_def role_switch_def new_role_token_def new_token_def token.defs
      role_token.defs set_role_unsigned_def ref_text_def)

theorem role_suffix_not_signed_witness:
  "\<exists>p q. role_parseSignedToken demo_role_text new_role_token = Inr p
     \<and> rt_roles p = Val [''readers'']
     \<and> role_parseSignedToken (demo_role_text @ '';r=admin'') new_role_token = Inr q
     \<and> rt_roles q = Val [''admin'']
     \<and> (\<forall>nc tm now pk off nx. validate nc tm now pk off nx q = validate nc tm now pk off nx p)"
proof -
  obtain p where p: "role_parseSignedToken demo_role_text new_role_token = Inr p"
      "rt_roles p = Val [''readers'']"
    using demo_role_parsed by blast
  have i: "index_of '';s='' demo_role_text = Some 57"
    by (simp add: demo_role_text_def)
  show ?thesis
    using p role_suffix_not_signed [OF p(1) i, of "''admin''"] by auto
qed

end
