(* ===== verification/Token_Validity.thy ===== *)
theory Token_Validity
  imports RoleToken
begin

text \<open>
  What \<^verbatim>\<open>Token.validate\<close> decides, for numeric times and for times that do not
  read as numbers, and that a token its issuer built and signed is accepted by whoever reads it
  with the matching public key while it lasts.
\<close>

section \<open>The time window\<close>

text \<open>
  The window a token with numeric times is accepted in, in whole seconds: not issued in the
  future, not yet expired, and not expiring too far ahead, unless it has no expiry and the
  configuration and the caller both allow that.
\<close>

definition in_window :: "int \<Rightarrow> rat \<Rightarrow> rat \<Rightarrow> bool \<Rightarrow> rat \<Rightarrow> rat \<Rightarrow> bool" where
  "in_window now off maxExpiry noExpiry ts ex \<longleftrightarrow>
     (ts = 0 \<or> ts \<le> of_int (now div 1000) + off)
     \<and> (ex = 0 \<and> noExpiry
        \<or> of_int (now div 1000) \<le> ex \<and> ex \<le> of_int (now div 1000) + maxExpiry + off)"

lemma validate_window:
  assumes "tok_timestamp t = Fin ts" and "tok_expiryTime t = Fin ex"
    and "tm_MAX_EXPIRY tm = Fin maxExpiry"
  shows "validate nc tm now pk (Fin off) allowNoExpiry t \<longleftrightarrow>
     str_truthy (tok_unsignedToken t) \<and> str_truthy (tok_signature t) \<and> key_truthy pk
     \<and> in_window now off maxExpiry (truthy (tm_NO_EXPIRY tm) \<and> allowNoExpiry) ts ex
     \<and> Crypto_verify nc (ref_text (tok_unsignedToken t)) pk (tok_signature t)
         (tok_digestAlgorithm t) = Inr True"
  using assms by (auto simp: validate_def in_window_def Let_def algebra_simps split: sum.splits)

text \<open>
  C8. On a token with numeric times, \<^verbatim>\<open>validate\<close> returns true exactly when the
  token has data and a signature, a key is given, the time lies in the token's window, and the
  signature verifies over the unsigned text with that key.
\<close>

theorem validate_iff:
  assumes "tok_timestamp t = Fin ts" and "tok_expiryTime t = Fin ex"
    and "tm_MAX_EXPIRY tm = Fin maxExpiry"
  shows "validate nc tm now pk (Fin off) allowNoExpiry t \<longleftrightarrow>
     str_truthy (tok_unsignedToken t) \<and> str_truthy (tok_signature t) \<and> key_truthy pk
     \<and> in_window now off maxExpiry (truthy (tm_NO_EXPIRY tm) \<and> allowNoExpiry) ts ex
     \<and> Crypto_verify nc (ref_text (tok_unsignedToken t)) pk (tok_signature t)
         (tok_digestAlgorithm t) = Inr True"
  using assms by (rule validate_window)

theorem validate_iff_witness:
  "\<exists>t :: token. tok_timestamp t = Fin 100 \<and> tok_expiryTime t = Fin 200
     \<and> (validate demo_crypto (Token_constructor \<lparr>tm_config = config_section ''info'',
            tm_MAX_EXPIRY = NaN, tm_NO_EXPIRY = JUndef\<rparr>) 150000 (Val (KeyText ''k'')) (Fin 300) False t
        \<longleftrightarrow> Crypto_verify demo_crypto ''d=x'' (Val (KeyText ''k'')) (Val ''ab'') ''SHA256'' = Inr True)"
proof -
  define t where "t = new_token\<lparr>tok_unsignedToken := Val ''d=x'', tok_signature := Val ''ab'',
    tok_timestamp := Fin 100, tok_expiryTime := Fin 200\<rparr>"
  define tm where "tm = Token_constructor \<lparr>tm_config = config_section ''info'',
            tm_MAX_EXPIRY = NaN, tm_NO_EXPIRY = JUndef\<rparr>"
  have m: "tm_MAX_EXPIRY tm = Fin 2592000"
    by (simp add: tm_def Token_constructor_def config_section_def thirty_days_def)
  have t: "tok_timestamp t = Fin 100" "tok_expiryTime t = Fin 200"
    by (simp_all add: t_def)
  show ?thesis
    by (rule exI [of _ t])
       (simp add: validate_iff [OF t m] tm_def [symmetric] t in_window_def,
        simp add: t_def new_token_def ref_text_def)
qed

text \<open>
  A token whose expiry item does not read as a number never expires: once it validates, it
  validates at every later time.
\<close>

theorem nan_expiry_never_expires:
  assumes "tok_expiryTime t = NaN" and "tok_timestamp t = Fin ts"
    and "validate nc tm now pk (Fin off) allowNoExpiry t" and "now \<le> later"
  shows "validate nc tm later pk (Fin off) allowNoExpiry t"
proof -
  have "now div 1000 \<le> later div 1000"
    using assms(4) by (rule zdiv_mono1) simp
  then show ?thesis
    using assms(1-3) by (auto simp: validate_def Let_def split: if_splits sum.splits)
qed

lemma string_to_number_never: "string_to_number ''never'' = NaN"
  by (simp add: string_to_number_def trim_def space_char_def read_unsigned_decimal_def digit_char_def)

definition accept_all :: node_crypto where
  "accept_all = demo_crypto\<lparr>nc_verify := \<lambda>_ _ _ _. Inr True\<rparr>"

definition demo_module :: token_module where
  "demo_module = \<lparr>tm_config = [], tm_MAX_EXPIRY = Fin 1000, tm_NO_EXPIRY = JBool False\<rparr>"

theorem nan_expiry_never_expires_witness:
  "\<exists>p. principal_parseSignedToken ''v=U1;d=user;n=joe;t=100;e=never;k=0;s=AWQ-'' new_principal_token = Inr p
     \<and> tok_expiryTime p = NaN
     \<and> validate accept_all demo_module 200000 (Val (KeyText ''k'')) (Fin 300) False p
     \<and> validate accept_all demo_module 900000000000 (Val (KeyText ''k'')) (Fin 300) False p"
proof -
  obtain p where p: "principal_parseSignedToken ''v=U1;d=user;n=joe;t=100;e=never;k=0;s=AWQ-''
        new_principal_token = Inr p"
      and e: "tok_expiryTime p = NaN" and t: "tok_timestamp p = Fin 100"
      and s: "tok_unsignedToken p = Val ''v=U1;d=user;n=joe;t=100;e=never;k=0''"
             "tok_signature p = Val ''AWQ-''"
    using string_to_number_show_int [of 100] string_to_number_never
    by (simp add: principal_parseSignedToken_def read_token_def parse_items_def item_kv_def
        principal_switch_def new_principal_token_def new_token_def token.defs
        principal_token.defs show_int_def show_nat.simps js_simps)
  have "validate accept_all demo_module 200000 (Val (KeyText ''k'')) (Fin 300) False p"
    by (simp add: validate_def e t s Crypto_verify_def ybase64Decode_Val accept_all_def demo_module_def)
  with nan_expiry_never_expires [OF e t this, of 900000000000] p e show ?thesis by auto
qed

section \<open>Tokens read by their audience\<close>

lemma built_token_accepted:
  assumes "principal_builder rand issued (Val opts) new_principal_token = Inr t"
    and "clean_principal_options opts"
    and "sign nc priv t = Inr t'"
    and "key_pair nc priv pub" and "key_truthy (Val pub)"
    and "tok_timestamp t = num_of_int ts" and "tok_expiryTime t = num_of_int ex"
    and "tm_MAX_EXPIRY tm = Fin maxExpiry" and "of_int (ex - ts) \<le> maxExpiry" and "0 \<le> off"
    and "ts \<le> now div 1000" and "now div 1000 \<le> ex"
  obtains p where "principal_parseSignedToken (ref_text (tok_signedToken t')) new_principal_token = Inr p"
    and "principal_view p = principal_view t'"
    and "pt_authorizedServiceSignature p = Null"
    and "\<And>nx. validate nc tm now (Val pub) (Fin off) nx p"
proof -
  obtain ts' ex' where wb: "well_built t ts' ex'"
    using principal_builder_built [OF assms(1,2)] .
  then obtain u where u: "tok_unsignedToken t = Val u" "u \<noteq> []" "tok_digestAlgorithm t = ''SHA256''"
    by (auto simp: well_built_def principal_parts_def)
  obtain sig where sig: "Crypto_sign nc (tok_unsignedToken t) priv (tok_digestAlgorithm t) = Inr sig"
      and t': "t' = t\<lparr>tok_signature := Val sig,
                tok_signedToken := Val (ref_text (tok_unsignedToken t) @ '';s='' @ sig)\<rparr>"
    using sign_result [OF assms(3)] .
  have ver: "sig \<noteq> []" "Crypto_verify nc u (Val pub) (Val sig) ''SHA256'' = Inr True"
    using key_pair_verifies [OF assms(4), of u] sig u by auto
  obtain p where p: "principal_parseSignedToken (ref_text (tok_signedToken t')) new_principal_token = Inr p"
      and view: "principal_view p = principal_view (t\<lparr>tok_signature := Val sig\<rparr>)"
      and pd: "tok_digestAlgorithm p = ''SHA256''" and svc: "pt_authorizedServiceSignature p = Null"
    using principal_parse_signed [OF wb Crypto_sign_clean_text [OF sig]] t' by (auto simp: ref_text_def)
  have f: "tok_timestamp p = num_of_int ts" "tok_expiryTime p = num_of_int ex"
      "tok_unsignedToken p = Val u" "tok_signature p = Val sig"
    using view u assms(6,7) by (simp_all add: principal_view_def)
  have "(of_int ts :: rat) \<le> of_int (now div 1000)" "(of_int (now div 1000) :: rat) \<le> of_int ex"
    using assms(11,12) by (simp_all only: of_int_le_iff)
  then have "in_window now off maxExpiry (truthy (tm_NO_EXPIRY tm) \<and> nx) (of_int ts) (of_int ex)" for nx
    using assms(9,10) by (auto simp: in_window_def)
  then have "validate nc tm now (Val pub) (Fin off) nx p" for nx
    using f u(2) ver assms(5) by (auto simp: validate_window [OF f(1,2) assms(8)] pd ref_text_def)
  with p svc view show thesis
    by (intro that) (auto simp: t' principal_view_def)
qed

text \<open>
  A token built, signed and read back by someone who holds the signer's public key is
  accepted at every moment from its issue time to its expiry, when its window is no longer than
  the configured maximum.
\<close>

theorem signed_token_accepted:
  assumes "principal_builder rand issued (Val opts) new_principal_token = Inr t"
    and "clean_principal_options opts"
    and "sign nc priv t = Inr t'"
    and "key_pair nc priv pub" and "key_truthy (Val pub)"
    and "tok_timestamp t = num_of_int ts" and "tok_expiryTime t = num_of_int ex"
    and "tm_MAX_EXPIRY tm = Fin maxExpiry" and "of_int (ex - ts) \<le> maxExpiry" and "0 \<le> off"
    and "ts \<le> now div 1000" and "now div 1000 \<le> ex"
  shows "\<exists>p. principal_parseSignedToken (ref_text (tok_signedToken t')) new_principal_token = Inr p
           \<and> validate nc tm now (Val pub) (Fin off) False p"
  using built_token_accepted [OF assms] by blast

lemma demo_principal_times:
  "principal_builder [] 0 (Val demo_principal_options) new_principal_token = Inr t \<Longrightarrow>
     tok_timestamp t = num_of_int 100 \<and> tok_expiryTime t = num_of_int 150"
  by (auto simp: principal_builder_def demo_principal_options_def setTimeStamp_def int_or_def Let_def)

theorem signed_token_accepted_witness:
  "\<exists>t t' p. principal_builder [] 0 (Val demo_principal_options) new_principal_token = Inr t
     \<and> sign demo_crypto (KeyText ''key'') t = Inr t'
     \<and> principal_parseSignedToken (ref_text (tok_signedToken t')) new_principal_token = Inr p
     \<and> validate demo_crypto demo_module 120000 (Val (KeyText ''pub'')) (Fin 300) False p"
proof -
  obtain t where t: "principal_builder [] 0 (Val demo_principal_options) new_principal_token = Inr t"
      and u: "tok_unsignedToken t =
         Val ''v=S1;d=sports;n=storage;a=aabb;t=100;e=150;k=0;b=sports.fe,sports.be''"
    using demo_principal_built by blast
  obtain t' where t': "sign demo_crypto (KeyText ''key'') t = Inr t'"
    using demo_sign [OF u] by blast
  have m: "tm_MAX_EXPIRY demo_module = Fin 1000" "key_truthy (Val (KeyText ''pub''))"
    by (simp_all add: demo_module_def)
  have "\<exists>p. principal_parseSignedToken (ref_text (tok_signedToken t')) new_principal_token = Inr p
     \<and> validate demo_crypto demo_module 120000 (Val (KeyText ''pub'')) (Fin 300) False p"
    by (rule signed_token_accepted [OF t demo_principal_clean t' demo_key_pair(1) m(2)
          conjunct1 [OF demo_principal_times [OF t]] conjunct2 [OF demo_principal_times [OF t]] m(1)])
       simp_all
  then show ?thesis
    using t t' by blast
qed

end
