(* ===== verification/SimplePrincipal.thy ===== *)
theory SimplePrincipal
  imports Token_Validity
begin

text \<open>
  The class \<^verbatim>\<open>impl/SimplePrincipal.js\<close>, the result of authentication, and the key
  store interface the authorities ask for public keys (\<^verbatim>\<open>impl/KeyStore.js\<close>).
  The factory methods only warn in the log about names that do not validate, so validation does
  not appear in them. The one method a principal calls of its authority is
  \<^verbatim>\<open>getDomain\<close>.
\<close>

section \<open>State\<close>

text \<open>The two authority classes; a principal refers to an instance of one of them.\<close>

datatype authority = PrincipalAuthorityObj | RoleAuthorityObj

definition PrincipalAuthority_getDomain :: "string jsref" where
  "PrincipalAuthority_getDomain = Null"

definition RoleAuthority_getDomain :: "string jsref" where
  "RoleAuthority_getDomain = Val ''sys.auth''"

definition getDomain :: "authority \<Rightarrow> string jsref" where
  "getDomain a = (case a of PrincipalAuthorityObj \<Rightarrow> PrincipalAuthority_getDomain
     | RoleAuthorityObj \<Rightarrow> RoleAuthority_getDomain)"

record simple_principal =
  sp_domain :: "string jsref"
  sp_name :: "string jsref"
  sp_creds :: "string jsref"
  sp_roles :: "string list jsref"
  sp_issueTime :: jsnum
  sp_authority :: "authority jsref"
  sp_fullName :: "string jsref"
  sp_unsignedCreds :: "string jsref"
  sp_ip :: "string jsref"
  sp_authorizedService :: "string jsref"
  sp_originalRequestor :: "string jsref"
  sp_keyService :: "string jsref"
  sp_keyId :: "string jsref"
  sp_x509Certificate :: jsval

definition SimplePrincipal_new ::
  "string jsref \<Rightarrow> string jsref \<Rightarrow> string jsref \<Rightarrow> string list jsref \<Rightarrow> jsval \<Rightarrow> authority jsref
    \<Rightarrow> simple_principal" where
  "SimplePrincipal_new domain name creds roles issueTime authority =
     \<lparr>sp_domain = domain, sp_name = name, sp_creds = creds, sp_roles = roles,
      sp_issueTime = to_number issueTime, sp_authority = authority, sp_fullName = Null,
      sp_unsignedCreds = Null, sp_ip = Null, sp_authorizedService = Null,
      sp_originalRequestor = Null, sp_keyService = Null, sp_keyId = Null,
      sp_x509Certificate = JNull\<rparr>"

section \<open>Factory methods\<close>

definition simplePrincipal ::
  "string jsref \<Rightarrow> string jsref \<Rightarrow> string jsref \<Rightarrow> jsval \<Rightarrow> authority jsref \<Rightarrow> simple_principal" where
  "simplePrincipal domain name creds issueTime authority =
     SimplePrincipal_new domain name creds Null issueTime authority"

definition simplePrincipalByRoles ::
  "string jsref \<Rightarrow> string jsref \<Rightarrow> string list jsref \<Rightarrow> authority jsref \<Rightarrow> simple_principal" where
  "simplePrincipalByRoles domain creds roles authority =
     SimplePrincipal_new domain Null creds roles (JNum 0) authority"

text \<open>\<open>None\<close> is the \<^verbatim>\<open>null\<close> returned on a domain mismatch.\<close>

definition createByUserIdentity ::
  "string jsref \<Rightarrow> string jsref \<Rightarrow> string jsref \<Rightarrow> jsval \<Rightarrow> authority jsref
    \<Rightarrow> simple_principal option" where
  "createByUserIdentity domain name creds issueTime authority =
     (let matchDomain = (case authority of Val a \<Rightarrow> getDomain a | _ \<Rightarrow> Null) in
      if str_truthy domain
      then (if str_truthy matchDomain \<and> domain \<noteq> matchDomain then None
            else Some (simplePrincipal domain name creds issueTime authority))
      else if present authority \<and> str_truthy matchDomain then None
      else Some (simplePrincipal domain name creds issueTime authority))"

definition create :: "string jsref \<Rightarrow> string jsref \<Rightarrow> string jsref \<Rightarrow> simple_principal option" where
  "create domain name creds = createByUserIdentity domain name creds (JNum 0) Null"

definition createByRoles ::
  "string jsref \<Rightarrow> string jsref \<Rightarrow> string list jsref \<Rightarrow> authority jsref \<Rightarrow> simple_principal" where
  "createByRoles domain creds roles authority = simplePrincipalByRoles domain creds roles authority"

definition createByIdentity ::
  "string jsref \<Rightarrow> string jsref \<Rightarrow> string jsref \<Rightarrow> authority jsref \<Rightarrow> simple_principal option" where
  "createByIdentity domain name creds authority =
     createByUserIdentity domain name creds (JStr ''0'') authority"

definition createByHostIdentity ::
  "string jsref \<Rightarrow> string jsref \<Rightarrow> authority jsref \<Rightarrow> simple_principal" where
  "createByHostIdentity appId creds authority = simplePrincipal Null appId creds (JNum 0) authority"

section \<open>Methods\<close>

definition setUnsignedCreds :: "string jsref \<Rightarrow> simple_principal \<Rightarrow> simple_principal" where
  "setUnsignedCreds v p = p\<lparr>sp_unsignedCreds := v\<rparr>"

definition setAuthorizedService :: "string jsref \<Rightarrow> simple_principal \<Rightarrow> simple_principal" where
  "setAuthorizedService v p = p\<lparr>sp_authorizedService := v\<rparr>"

definition setIP :: "string jsref \<Rightarrow> simple_principal \<Rightarrow> simple_principal" where
  "setIP v p = p\<lparr>sp_ip := v\<rparr>"

definition setOriginalRequestor :: "string jsref \<Rightarrow> simple_principal \<Rightarrow> simple_principal" where
  "setOriginalRequestor v p = p\<lparr>sp_originalRequestor := v\<rparr>"

definition setKeyService :: "string jsref \<Rightarrow> simple_principal \<Rightarrow> simple_principal" where
  "setKeyService v p = p\<lparr>sp_keyService := v\<rparr>"

definition setKeyId :: "string jsref \<Rightarrow> simple_principal \<Rightarrow> simple_principal" where
  "setKeyId v p = p\<lparr>sp_keyId := v\<rparr>"

definition setX509Certificate :: "jsval \<Rightarrow> simple_principal \<Rightarrow> simple_principal" where
  "setX509Certificate v p = p\<lparr>sp_x509Certificate := v\<rparr>"

lemmas principal_setters = setUnsignedCreds_def setAuthorizedService_def setIP_def
  setOriginalRequestor_def setKeyService_def setKeyId_def setX509Certificate_def

text \<open>The full name is computed once and kept; a principal with neither part has none.\<close>

definition getFullName :: "simple_principal \<Rightarrow> simple_principal \<times> string jsref" where
  "getFullName p =
     (let p' =
        (if str_truthy (sp_fullName p) then p
         else if str_truthy (sp_domain p) \<and> str_truthy (sp_name p)
           then p\<lparr>sp_fullName := Val (ref_text (sp_domain p) @ ''.'' @ ref_text (sp_name p))\<rparr>
         else if str_truthy (sp_domain p) then p\<lparr>sp_fullName := sp_domain p\<rparr>
         else if str_truthy (sp_name p) then p\<lparr>sp_fullName := sp_name p\<rparr>
         else p)
      in (p', sp_fullName p'))"

definition principal_toString :: "simple_principal \<Rightarrow> string" where
  "principal_toString p =
     (case sp_roles p of
        Val roles \<Rightarrow> ''ZToken_'' @ ref_text (sp_domain p) @ ''~''
          @ replace_first '']'' [] (replace_first ''['' [] (join_with '','' roles))
      | _ \<Rightarrow> ref_text (sp_domain p) @ ''.'' @ ref_text (sp_name p))"

section \<open>Key stores\<close>

text \<open>
  An authority asks its key store for the key of a service; any object with the method may be
  passed to \<^verbatim>\<open>setKeyStore\<close>, so the method is a parameter.
\<close>

type_synonym key_store = "string jsref \<Rightarrow> string jsref \<Rightarrow> string jsref \<Rightarrow> jskey jsref result"

text \<open>\<^verbatim>\<open>KeyStore.getPublicKey\<close>; \<open>readFileSync\<close> is the file system.\<close>

definition KeyStore_getPublicKey :: "(string \<Rightarrow> byte list result) \<Rightarrow> key_store" where
  "KeyStore_getPublicKey readFileSync domain service keyId =
     (if \<not> str_truthy domain \<or> \<not> str_truthy service \<or> \<not> str_truthy keyId then Inr Null
      else bind_result
        (readFileSync (''keys/'' @ to_lower (ref_text domain) @ ''.'' @ to_lower (ref_text service)
           @ ''.v'' @ ref_text keyId @ ''.*''))
        (\<lambda>b. Inr (Val (KeyBuf b))))"

section \<open>Facts\<close>

lemma createByUserIdentity_PrincipalAuthority [authority_simps]:
  "createByUserIdentity d n c i (Val PrincipalAuthorityObj)
     = Some (simplePrincipal d n c i (Val PrincipalAuthorityObj))"
  by (simp add: createByUserIdentity_def getDomain_def PrincipalAuthority_getDomain_def)

text \<open>A principal made for an authority that has a domain is in that domain.\<close>

lemma createByUserIdentity_domain:
  assumes "createByUserIdentity d n c i (Val a) = Some p" and "str_truthy (getDomain a)"
  shows "sp_domain p = getDomain a"
  using assms
  by (auto simp: createByUserIdentity_def simplePrincipal_def SimplePrincipal_new_def Let_def
      split: if_splits)

lemma getFullName_idem: "getFullName (fst (getFullName p)) = getFullName p"
  by (auto simp: getFullName_def Let_def)

section \<open>Authorities\<close>

text \<open>
  What every authority promises of a credential it accepts: the principal carries the credential
  and the text before its signature, and that text verifies with a key the key store gave.
\<close>

locale token_authority =
  fixes auth :: "node_crypto \<Rightarrow> key_store \<Rightarrow> token_module \<Rightarrow> int \<Rightarrow> string jsref \<Rightarrow> string jsref
    \<Rightarrow> string jsref \<Rightarrow> simple_principal option result"
  assumes accepted: "auth nc ks tm now s addr m = Inr (Some p) \<Longrightarrow>
    \<exists>u i. s = Val u \<and> index_of '';s='' u = Some i \<and> sp_creds p = s
      \<and> sp_unsignedCreds p = Val (substring u 0 i)
      \<and> (\<exists>d v k pk sig. ks d v k = Inr pk \<and> key_truthy pk
           \<and> Crypto_verify nc (substring u 0 i) pk sig ''SHA256'' = Inr True)"
begin

lemma no_keys_no_principal:
  assumes "\<And>d v k. ks d v k = Inr Null"
  shows "auth nc ks tm now s addr m \<noteq> Inr (Some p)"
  using accepted [of nc ks tm now s addr m p] assms by auto

lemma unsigned_rejected:
  assumes "index_of '';s='' u = None"
  shows "auth nc ks tm now (Val u) addr m \<noteq> Inr (Some p)"
  using accepted [of nc ks tm now "Val u" addr m p] assms by auto

text \<open>When the keys of the store verify only what their owners signed, only that is accepted.\<close>

lemma only_signed:
  assumes "auth nc ks tm now s addr m = Inr (Some p)"
    and "\<And>d v k pk msg sig. ks d v k = Inr pk \<Longrightarrow>
           Crypto_verify nc msg pk sig ''SHA256'' = Inr True \<Longrightarrow> msg \<in> issued"
  shows "\<exists>u\<in>issued. sp_unsignedCreds p = Val u"
  using accepted [OF assms(1)] assms(2) by blast

end

end
