(* ===== verification/PrincipalAuthority.thy ===== *)
theory PrincipalAuthority
  imports SimplePrincipal
begin

text \<open>
  The class \<^verbatim>\<open>impl/PrincipalAuthority.js\<close>: it authenticates user and service
  tokens. Logging apart, its methods are translated whole; the network address of the
  client and the HTTP method are nullable strings.
\<close>

section \<open>State\<close>

record principal_authority =
  pa_keyStore :: "key_store jsref"
  pa_allowedOffset :: jsnum
  pa_ipCheckMode :: jsval
  pa_userDomain :: jsval
  pa_headerName :: jsval

text \<open>
  The allowed offset of an authority, from its configured value: a value that is zero or not a
  number, or a negative one, gives five minutes.
\<close>

definition offset_of :: "jsval \<Rightarrow> jsnum" where
  "offset_of v =
     (let n = to_number v;
          off = (if num_truthy n then n else Fin 300)
      in if off < 0 then Fin 300 else off)"

definition PrincipalAuthority_new :: "config \<Rightarrow> principal_authority" where
  "PrincipalAuthority_new config =
     \<lparr>pa_keyStore = Null,
      pa_allowedOffset = offset_of (obj_get config ''principalTokenAllowedOffset''),
      pa_ipCheckMode = js_or (obj_get config ''principalIpCheckMode'') (JStr ''OPS_WRITE''),
      pa_userDomain = js_or (obj_get config ''principalUserDomain'') (JStr ''user''),
      pa_headerName = js_or (obj_get config ''principalHeader'') (JStr ''Athenz-Principal-Auth'')\<rparr>"

definition PrincipalAuthority_setKeyStore ::
  "key_store \<Rightarrow> principal_authority \<Rightarrow> principal_authority" where
  "PrincipalAuthority_setKeyStore ks pa = pa\<lparr>pa_keyStore := Val ks\<rparr>"

text \<open>
  \<^verbatim>\<open>setConfig\<close>: the module's own configuration and that of the token classes,
  whose last constructor call set the two expiry variables.
\<close>

definition PrincipalAuthority_setConfig ::
  "config \<Rightarrow> config \<times> token_module \<Rightarrow> config \<times> token_module" where
  "PrincipalAuthority_setConfig overrides st =
     (set_config (fst st) overrides, Token_setConfig overrides (snd st))"

section \<open>Operations\<close>

definition isWriteOperation :: "string jsref \<Rightarrow> bool" where
  "isWriteOperation httpMethod =
     (case httpMethod of
        Val m \<Rightarrow> to_upper m = ''PUT'' \<or> to_upper m = ''POST'' \<or> to_upper m = ''DELETE''
      | _ \<Rightarrow> False)"

definition remoteIpCheck ::
  "jsval \<Rightarrow> string jsref \<Rightarrow> bool \<Rightarrow> principal_token \<Rightarrow> string jsref \<Rightarrow> bool" where
  "remoteIpCheck ipCheckMode remoteAddr writeOp serviceToken authorizedServiceName =
     (if ipCheckMode = JStr ''OPS_ALL'' then remoteAddr = tok_ip serviceToken
      else if ipCheckMode = JStr ''OPS_WRITE''
        then \<not> (writeOp \<and> remoteAddr \<noteq> tok_ip serviceToken \<and> \<not> str_truthy authorizedServiceName)
      else ipCheckMode = JStr ''OPS_NONE'')"

text \<open>\<^verbatim>\<open>this._keyStore.getPublicKey(...)\<close>, with no key store set or one\<close>

definition ask_key_store ::
  "key_store jsref \<Rightarrow> string jsref \<Rightarrow> string jsref \<Rightarrow> string jsref \<Rightarrow> jskey jsref result" where
  "ask_key_store ks domain service keyId =
     (case ks of Val f \<Rightarrow> f domain service keyId | _ \<Rightarrow> Inl (TypeError ''getPublicKey''))"

text \<open>The domain and service whose key signs a token.\<close>

definition key_owner :: "string \<Rightarrow> string \<Rightarrow> string jsref \<Rightarrow> bool \<Rightarrow> string \<times> string" where
  "key_owner tokenDomain tokenName keyService userToken =
     (if str_truthy keyService
      then (if keyService = Val ''zms'' then (''sys.auth'', ''zms'')
            else if keyService = Val ''zts'' then (''sys.auth'', ''zts'')
            else (tokenDomain, tokenName))
      else if userToken then (''sys.auth'', ''zms'')
      else (tokenDomain, tokenName))"

definition getPublicKey ::
  "key_store jsref \<Rightarrow> string \<Rightarrow> string \<Rightarrow> string jsref \<Rightarrow> string jsref \<Rightarrow> bool \<Rightarrow> jskey jsref result" where
  "getPublicKey ks tokenDomain tokenName keyService keyId userToken =
     (let (publicKeyDomain, publicKeyService) = key_owner tokenDomain tokenName keyService userToken
      in ask_key_store ks (Val publicKeyDomain) (Val publicKeyService) keyId)"

text \<open>\<^verbatim>\<open>_getAuthorizedServiceName\<close>; \<open>None\<close> is \<^verbatim>\<open>null\<close>.\<close>

definition getAuthorizedServiceName :: "string list \<Rightarrow> string jsref \<Rightarrow> string option" where
  "getAuthorizedServiceName authorizedServices authorizedServiceName =
     (if \<not> str_truthy authorizedServiceName
      then (case authorizedServices of [s] \<Rightarrow> Some s | _ \<Rightarrow> None)
      else if ref_text authorizedServiceName \<in> set authorizedServices
        then Some (ref_text authorizedServiceName)
      else None)"

text \<open>
  \<^verbatim>\<open>_validateAuthorizeService\<close>: the name of the service the token is signed for,
  whose last dot separates its domain from its name.
\<close>

definition authorized_name :: "principal_token \<Rightarrow> string option" where
  "authorized_name t =
     (if str_truthy (pt_authorizedServiceName t) then Some (ref_text (pt_authorizedServiceName t))
      else (case pt_authorizedServices t of Val [s] \<Rightarrow> Some s | _ \<Rightarrow> None))"

definition validateAuthorizeService ::
  "node_crypto \<Rightarrow> key_store jsref \<Rightarrow> principal_token \<Rightarrow> string jsref result" where
  "validateAuthorizeService nc ks t =
     (case authorized_name t of
        None \<Rightarrow> Inr Null
      | Some name \<Rightarrow>
          (case last_index_of (CHR ''.'') name of
             None \<Rightarrow> Inr Null
           | Some idx \<Rightarrow>
               if idx = 0 \<or> idx = length name - 1 then Inr Null
               else bind_result
                 (ask_key_store ks (Val (substring name 0 idx)) (Val (substring_from name (idx + 1)))
                    (pt_authorizedServiceKeyId t))
                 (\<lambda>publicKey. bind_result (validateForAuthorizedService nc publicKey t)
                    (\<lambda>ok. Inr (if ok then Val name else Null)))))"

text \<open>
  The part of \<^verbatim>\<open>authenticate\<close> after the token has been read. \<open>tm\<close> holds the module
  variables as the token's constructor left them.
\<close>

definition authenticate_token ::
  "node_crypto \<Rightarrow> token_module \<Rightarrow> int \<Rightarrow> principal_authority \<Rightarrow> string jsref \<Rightarrow> string jsref
    \<Rightarrow> string jsref \<Rightarrow> principal_token \<Rightarrow> simple_principal option result" where
  "authenticate_token nc tm now pa signedToken remoteAddr httpMethod t =
     (if \<not> isValidAuthorizedServiceToken t then Inr None
      else
        let tokenDomain = to_lower (ref_text (tok_domain t));
            tokenName = to_lower (ref_text (pt_name t));
            keyService = pt_keyService t;
            userToken = (JStr tokenDomain = pa_userDomain pa)
        in bind_result (getPublicKey (pa_keyStore pa) tokenDomain tokenName keyService (tok_keyId t) userToken)
          (\<lambda>publicKey.
            let writeOp = isWriteOperation httpMethod in
            if \<not> validate nc tm now publicKey (pa_allowedOffset pa) (\<not> writeOp) t then Inr None
            else bind_result
              (if str_truthy (pt_authorizedServiceSignature t)
               then validateAuthorizeService nc (pa_keyStore pa) t else Inr Null)
              (\<lambda>authorizedServiceName.
                if str_truthy (pt_authorizedServiceSignature t) \<and> \<not> str_truthy authorizedServiceName
                then Inr None
                else if userToken \<and> \<not> remoteIpCheck (pa_ipCheckMode pa) remoteAddr writeOp t authorizedServiceName
                then Inr None
                else
                  (case createByUserIdentity (Val tokenDomain) (Val tokenName) signedToken
                          (JNum (tok_timestamp t)) (Val PrincipalAuthorityObj) of
                     None \<Rightarrow> Inl (TypeError ''setUnsignedCreds'')
                   | Some princ \<Rightarrow>
                       Inr (Some (setKeyId (tok_keyId t)
                         (setIP (tok_ip t)
                         (setKeyService keyService
                         (setOriginalRequestor (pt_originalRequestor t)
                         (setAuthorizedService authorizedServiceName
                         (setUnsignedCreds (tok_unsignedToken t) princ)))))))))))"

text \<open>
  \<^verbatim>\<open>authenticate\<close>, with the module variables it leaves. A token that cannot be read
  gives \<^verbatim>\<open>null\<close>; an argument that is not a string goes to the builder, which raises
  on it.
\<close>

definition PrincipalAuthority_authenticate ::
  "node_crypto \<Rightarrow> token_module \<Rightarrow> int \<Rightarrow> principal_authority \<Rightarrow> string jsref \<Rightarrow> string jsref
    \<Rightarrow> string jsref \<Rightarrow> token_module \<times> simple_principal option result" where
  "PrincipalAuthority_authenticate nc tm now pa signedToken remoteAddr httpMethod =
     (let tm' = Token_constructor tm in
      (tm', case signedToken of
              Val s \<Rightarrow>
                (case PrincipalToken_new [] now (TokenText s) of
                   Inl e \<Rightarrow> Inr None
                 | Inr t \<Rightarrow> authenticate_token nc tm' now pa signedToken remoteAddr httpMethod t)
            | _ \<Rightarrow> Inr None))"

section \<open>What a successful authentication means\<close>

text \<open>The conditions under which a token that was read is accepted.\<close>

lemma authenticate_token_Some:
  assumes "authenticate_token nc tm now pa s addr m t = Inr (Some p)"
  defines "domain \<equiv> to_lower (ref_text (tok_domain t))"
    and "name \<equiv> to_lower (ref_text (pt_name t))"
  obtains pk svc where "isValidAuthorizedServiceToken t"
    and "getPublicKey (pa_keyStore pa) domain name (pt_keyService t) (tok_keyId t)
           (JStr domain = pa_userDomain pa) = Inr pk"
    and "validate nc tm now pk (pa_allowedOffset pa) (\<not> isWriteOperation m) t"
    and "if str_truthy (pt_authorizedServiceSignature t)
         then validateAuthorizeService nc (pa_keyStore pa) t = Inr svc \<and> str_truthy svc
         else svc = Null"
    and "JStr domain = pa_userDomain pa \<longrightarrow>
           remoteIpCheck (pa_ipCheckMode pa) addr (isWriteOperation m) t svc"
    and "p = (simplePrincipal (Val domain) (Val name) s (JNum (tok_timestamp t)) (Val PrincipalAuthorityObj))
             \<lparr>sp_unsignedCreds := tok_unsignedToken t, sp_authorizedService := svc,
              sp_originalRequestor := pt_originalRequestor t, sp_keyService := pt_keyService t,
              sp_ip := tok_ip t, sp_keyId := tok_keyId t\<rparr>"
proof -
  obtain pk where valid: "isValidAuthorizedServiceToken t"
      and pk: "getPublicKey (pa_keyStore pa) domain name (pt_keyService t) (tok_keyId t)
           (JStr domain = pa_userDomain pa) = Inr pk"
      and v: "validate nc tm now pk (pa_allowedOffset pa) (\<not> isWriteOperation m) t"
    using assms(1) unfolding authenticate_token_def domain_def name_def
    by (auto simp: bind_result_Inr_iff Let_def split: if_splits)
  obtain svc where svc: "(if str_truthy (pt_authorizedServiceSignature t)
         then validateAuthorizeService nc (pa_keyStore pa) t else Inr Null) = Inr svc"
      and s2: "str_truthy (pt_authorizedServiceSignature t) \<longrightarrow> str_truthy svc"
      and ip: "JStr domain = pa_userDomain pa \<longrightarrow>
           remoteIpCheck (pa_ipCheckMode pa) addr (isWriteOperation m) t svc"
      and p: "p = (simplePrincipal (Val domain) (Val name) s (JNum (tok_timestamp t)) (Val PrincipalAuthorityObj))
             \<lparr>sp_unsignedCreds := tok_unsignedToken t, sp_authorizedService := svc,
              sp_originalRequestor := pt_originalRequestor t, sp_keyService := pt_keyService t,
              sp_ip := tok_ip t, sp_keyId := tok_keyId t\<rparr>"
    using assms(1) pk v valid unfolding authenticate_token_def domain_def name_def
    by (auto simp: bind_result_Inr_iff Let_def authority_simps principal_setters split: if_splits)
  show thesis
    using that [OF valid pk v _ ip p] svc s2 by (auto split: if_splits)
qed

lemma authenticate_Some:
  assumes "snd (PrincipalAuthority_authenticate nc tm now pa s addr m) = Inr (Some p)"
  obtains u t where "s = Val u"
    and "principal_parseSignedToken u new_principal_token = Inr t"
    and "authenticate_token nc (Token_constructor tm) now pa s addr m t = Inr (Some p)"
  using assms
  by (auto simp: PrincipalAuthority_authenticate_def PrincipalToken_new_def Let_def
      split: jsref.splits sum.splits)

lemma principal_parse_signature:
  assumes "principal_parseSignedToken u new_principal_token = Inr t"
  shows "tok_digestAlgorithm t = ''SHA256''"
    and "tok_unsignedToken t =
      (case index_of '';s='' u of Some i \<Rightarrow> Val (substring u 0 i) | None \<Rightarrow> Null)"
  using principal_parse_Inr(2) [OF assms]
  by (simp_all add: read_token_def principal_frame_parse new_principal_token_def new_token_def
      token.defs principal_token.defs split: option.splits)

lemma getPublicKey_eq:
  "getPublicKey (Val ks) d n z k usr =
     ks (Val (fst (key_owner d n z usr))) (Val (snd (key_owner d n z usr))) k"
  by (simp add: getPublicKey_def ask_key_store_def split_beta)

lemma authenticate_accepted:
  assumes "snd (PrincipalAuthority_authenticate nc tm now (PrincipalAuthority_setKeyStore ks pa) s addr m)
    = Inr (Some p)"
  obtains u t pk where "s = Val u"
    and "principal_parseSignedToken u new_principal_token = Inr t"
    and "sp_domain p = Val (to_lower (ref_text (tok_domain t)))"
    and "sp_name p = Val (to_lower (ref_text (pt_name t)))"
    and "sp_creds p = s" and "sp_unsignedCreds p = tok_unsignedToken t"
    and "getPublicKey (Val ks) (to_lower (ref_text (tok_domain t))) (to_lower (ref_text (pt_name t)))
           (pt_keyService t) (tok_keyId t)
           (JStr (to_lower (ref_text (tok_domain t))) = pa_userDomain pa) = Inr pk"
    and "validate nc (Token_constructor tm) now pk (pa_allowedOffset pa) (\<not> isWriteOperation m) t"
proof -
  obtain u t where s: "s = Val u" "principal_parseSignedToken u new_principal_token = Inr t"
    and t: "authenticate_token nc (Token_constructor tm) now (PrincipalAuthority_setKeyStore ks pa)
      s addr m t = Inr (Some p)"
    using authenticate_Some [OF assms] .
  from t show thesis
    by (rule authenticate_token_Some, intro that [OF s])
       (auto simp: PrincipalAuthority_setKeyStore_def simplePrincipal_def SimplePrincipal_new_def)
qed

interpretation pauth: token_authority
  "\<lambda>nc ks tm now s addr m.
     snd (PrincipalAuthority_authenticate nc tm now (PrincipalAuthority_setKeyStore ks pa) s addr m)"
  for pa
proof
  fix nc ks tm now s addr m p
  assume "snd (PrincipalAuthority_authenticate nc tm now (PrincipalAuthority_setKeyStore ks pa) s addr m)
    = Inr (Some p)"
  then obtain u t pk where a: "s = Val u" "principal_parseSignedToken u new_principal_token = Inr t"
    "sp_creds p = s" "sp_unsignedCreds p = tok_unsignedToken t"
    and pk: "getPublicKey (Val ks) (to_lower (ref_text (tok_domain t))) (to_lower (ref_text (pt_name t)))
           (pt_keyService t) (tok_keyId t)
           (JStr (to_lower (ref_text (tok_domain t))) = pa_userDomain pa) = Inr pk"
    and v: "validate nc (Token_constructor tm) now pk (pa_allowedOffset pa) (\<not> isWriteOperation m) t"
    by (rule authenticate_accepted)
  have "str_truthy (tok_unsignedToken t)"
    using v by (auto simp: validate_def split: if_splits)
  then obtain i where i: "index_of '';s='' u = Some i" "tok_unsignedToken t = Val (substring u 0 i)"
    using principal_parse_signature(2) [OF a(2)] by (auto split: option.splits)
  have ver: "Crypto_verify nc (substring u 0 i) pk (tok_signature t) ''SHA256'' = Inr True"
    using validate_verified(2) [OF v] by (simp add: principal_parse_signature(1) [OF a(2)] i ref_text_def)
  show "\<exists>u i. s = Val u \<and> index_of '';s='' u = Some i \<and> sp_creds p = s
      \<and> sp_unsignedCreds p = Val (substring u 0 i)
      \<and> (\<exists>d v k pk sig. ks d v k = Inr pk \<and> key_truthy pk
           \<and> Crypto_verify nc (substring u 0 i) pk sig ''SHA256'' = Inr True)"
    using a(1,3,4) i ver validate_verified(1) [OF v] pk [unfolded getPublicKey_eq] by metis
qed

text \<open>
  C4. When \<^verbatim>\<open>PrincipalAuthority.authenticate\<close> returns a principal, its name and
  domain are the token's in lower case, and the signature of the token verifies over its unsigned
  text with the key that the key store holds for the owner of the token: ZMS for user tokens, the
  service named by the token otherwise.
\<close>

theorem principal_authenticate_verified:
  assumes "snd (PrincipalAuthority_authenticate nc tm now (PrincipalAuthority_setKeyStore ks pa) s addr m)
    = Inr (Some p)"
  shows "\<exists>u t d n pk. s = Val u \<and> principal_parseSignedToken u new_principal_token = Inr t
    \<and> d = to_lower (ref_text (tok_domain t)) \<and> n = to_lower (ref_text (pt_name t))
    \<and> sp_domain p = Val d \<and> sp_name p = Val n \<and> sp_unsignedCreds p = tok_unsignedToken t
    \<and> ks (Val (fst (key_owner d n (pt_keyService t) (JStr d = pa_userDomain pa))))
         (Val (snd (key_owner d n (pt_keyService t) (JStr d = pa_userDomain pa)))) (tok_keyId t) = Inr pk
    \<and> key_truthy pk
    \<and> Crypto_verify nc (ref_text (tok_unsignedToken t)) pk (tok_signature t) ''SHA256'' = Inr True"
proof -
  obtain u t pk where a: "s = Val u" "principal_parseSignedToken u new_principal_token = Inr t"
    "sp_domain p = Val (to_lower (ref_text (tok_domain t)))"
    "sp_name p = Val (to_lower (ref_text (pt_name t)))" "sp_unsignedCreds p = tok_unsignedToken t"
    and pk: "getPublicKey (Val ks) (to_lower (ref_text (tok_domain t))) (to_lower (ref_text (pt_name t)))
           (pt_keyService t) (tok_keyId t)
           (JStr (to_lower (ref_text (tok_domain t))) = pa_userDomain pa) = Inr pk"
    and v: "validate nc (Token_constructor tm) now pk (pa_allowedOffset pa) (\<not> isWriteOperation m) t"
    using assms by (rule authenticate_accepted)
  show ?thesis
    using a validate_verified [OF v] pk [unfolded getPublicKey_eq] principal_parse_signature(1) [OF a(2)]
    by auto
qed

definition demo_key_store :: key_store where
  "demo_key_store d v k =
     (if d = Val ''sys.auth'' \<and> v = Val ''zms'' then Inr (Val (KeyText ''zms key'')) else Inr Null)"

definition demo_authority :: principal_authority where
  "demo_authority = PrincipalAuthority_new (config_section ''info'')"

definition demo_token_module :: token_module where
  "demo_token_module = \<lparr>tm_config = config_section ''info'', tm_MAX_EXPIRY = NaN, tm_NO_EXPIRY = JUndef\<rparr>"

abbreviation demo_authenticate where
  "demo_authenticate s addr m \<equiv> snd (PrincipalAuthority_authenticate accept_all demo_token_module 120000
     (PrincipalAuthority_setKeyStore demo_key_store demo_authority) s addr m)"

lemma demo_token_module_constructed [simp]:
  "tm_MAX_EXPIRY (Token_constructor demo_token_module) = Fin 2592000"
  "tm_NO_EXPIRY (Token_constructor demo_token_module) = JBool False"
  by (simp_all add: demo_token_module_def Token_constructor_def config_section_def thirty_days_def)

lemma demo_authority_fields [simp]:
  "pa_allowedOffset demo_authority = Fin 300" "pa_userDomain demo_authority = JStr ''user''"
  "pa_ipCheckMode demo_authority = JStr ''OPS_WRITE''"
  using string_to_number_show_int [of 300]
  by (simp_all add: demo_authority_def PrincipalAuthority_new_def config_section_def js_or_def
      offset_of_def Let_def show_int_def show_nat.simps js_simps)

lemma demo_user_parsed:
  "\<exists>t. principal_parseSignedToken demo_user_text new_principal_token = Inr t
     \<and> tok_domain t = Val ''user'' \<and> pt_name t = Val ''joe'' \<and> tok_timestamp t = Fin 100
     \<and> tok_expiryTime t = Fin 150 \<and> pt_keyService t = Null \<and> tok_keyId t = Val ''0''
     \<and> tok_unsignedToken t = Val ''v=U1;d=user;n=joe;a=aabb;t=100;e=150;k=0''
     \<and> tok_signature t = Val ''abcd'' \<and> pt_authorizedServiceSignature t = Null
     \<and> pt_authorizedServices t = Null \<and> tok_ip t = Null"
  using string_to_number_show_int [of 100] string_to_number_show_int [of 150]
  by (simp add: principal_parseSignedToken_def read_token_def parse_items_def item_kv_def
      demo_user_text_def principal_switch_def new_principal_token_def new_token_def token.defs
      principal_token.defs show_int_def show_nat.simps js_simps)

lemma demo_user_authenticated:
  assumes "addr = Null \<or> \<not> isWriteOperation m"
  shows "\<exists>p. demo_authenticate (Val demo_user_text) addr m = Inr (Some p)
     \<and> sp_domain p = Val ''user'' \<and> sp_name p = Val ''joe'' \<and> sp_keyService p = Null
     \<and> sp_authorizedService p = Null \<and> sp_ip p = Null"
proof -
  obtain t where t: "principal_parseSignedToken demo_user_text new_principal_token = Inr t"
     "tok_domain t = Val ''user''" "pt_name t = Val ''joe''" "tok_timestamp t = Fin 100"
     "tok_expiryTime t = Fin 150" "pt_keyService t = Null" "tok_keyId t = Val ''0''"
     "tok_unsignedToken t = Val ''v=U1;d=user;n=joe;a=aabb;t=100;e=150;k=0''"
     "tok_signature t = Val ''abcd''" "pt_authorizedServiceSignature t = Null"
     "pt_authorizedServices t = Null" "tok_ip t = Null"
    using demo_user_parsed by blast
  have v: "validate accept_all (Token_constructor demo_token_module) 120000 (Val (KeyText ''zms key''))
      (Fin 300) nx t" for nx
    by (simp add: validate_def t accept_all_def Crypto_verify_def ybase64Decode_Val)
  have ip: "remoteIpCheck (JStr ''OPS_WRITE'') addr (isWriteOperation m) t Null"
    using assms t by (auto simp: remoteIpCheck_def)
  have lower: "to_lower ''user'' = ''user''" "to_lower ''joe'' = ''joe''"
    by (simp_all add: to_lower_def lower_char_def Let_def)
  have "getPublicKey (Val demo_key_store) ''user'' ''joe'' Null (Val ''0'') True
      = Inr (Val (KeyText ''zms key''))"
    by (simp add: getPublicKey_eq key_owner_def demo_key_store_def)
  then show ?thesis
    using v ip
    by (simp add: PrincipalAuthority_authenticate_def PrincipalToken_new_def t authenticate_token_def
        isValidAuthorizedServiceToken_def PrincipalAuthority_setKeyStore_def ref_text_def lower
        authority_simps principal_setters simplePrincipal_def SimplePrincipal_new_def)
qed

theorem principal_authenticate_verified_witness:
  "\<exists>p t. demo_authenticate (Val demo_user_text) Null (Val ''GET'') = Inr (Some p)
     \<and> principal_parseSignedToken demo_user_text new_principal_token = Inr t
     \<and> sp_name p = Val ''joe''
     \<and> Crypto_verify accept_all (ref_text (tok_unsignedToken t)) (Val (KeyText ''zms key''))
         (tok_signature t) ''SHA256'' = Inr True"
proof -
  obtain p where p: "demo_authenticate (Val demo_user_text) Null (Val ''GET'') = Inr (Some p)"
      "sp_name p = Val ''joe''"
    using demo_user_authenticated by blast
  obtain t d v k pk where t: "principal_parseSignedToken demo_user_text new_principal_token = Inr t"
      "demo_key_store d v k = Inr pk" "key_truthy pk"
      "Crypto_verify accept_all (ref_text (tok_unsignedToken t)) pk (tok_signature t) ''SHA256'' = Inr True"
    using principal_authenticate_verified [OF p(1)] by auto
  from t(2,3) have "pk = Val (KeyText ''zms key'')"
    by (auto simp: demo_key_store_def split: if_splits)
  with p t show ?thesis by blast
qed

section \<open>The address check\<close>

lemma validateAuthorizeService_name:
  assumes "validateAuthorizeService nc ks t = Inr (Val svc)"
  obtains idx pk where "authorized_name t = Some svc"
    and "last_index_of (CHR ''.'') svc = Some idx"
    and "ask_key_store ks (Val (substring svc 0 idx)) (Val (substring_from svc (idx + 1)))
           (pt_authorizedServiceKeyId t) = Inr pk"
    and "validateForAuthorizedService nc pk t = Inr True"
  using assms
  by (auto simp: validateAuthorizeService_def bind_result_Inr_iff
      split: option.splits if_splits)

text \<open>
  C30. In the mode \<^verbatim>\<open>OPS_WRITE\<close>, a user token authenticates a write from an address
  other than the one in the token only when the token carries the signature of an authorized
  service, verified with that service's key; in the mode \<^verbatim>\<open>OPS_ALL\<close> it
  authenticates nothing from another address.
\<close>

theorem user_write_address_check:
  assumes "snd (PrincipalAuthority_authenticate nc tm now pa s addr m) = Inr (Some p)"
    and "sp_domain p = Val d" and "pa_userDomain pa = JStr d" and "addr \<noteq> sp_ip p"
  shows "pa_ipCheckMode pa \<noteq> JStr ''OPS_ALL''
    \<and> (pa_ipCheckMode pa = JStr ''OPS_WRITE'' \<and> isWriteOperation m \<longrightarrow>
       (\<exists>u t svc idx pk. s = Val u \<and> principal_parseSignedToken u new_principal_token = Inr t
          \<and> sp_authorizedService p = Val svc \<and> last_index_of (CHR ''.'') svc = Some idx
          \<and> ask_key_store (pa_keyStore pa) (Val (substring svc 0 idx))
               (Val (substring_from svc (idx + 1))) (pt_authorizedServiceKeyId t) = Inr pk
          \<and> validateForAuthorizedService nc pk t = Inr True))"
proof -
  obtain u t where s: "s = Val u" "principal_parseSignedToken u new_principal_token = Inr t"
    and t: "authenticate_token nc (Token_constructor tm) now pa s addr m t = Inr (Some p)"
    using authenticate_Some [OF assms(1)] .
  from t show ?thesis
  proof (rule authenticate_token_Some)
    fix pk svc
    assume svc: "if str_truthy (pt_authorizedServiceSignature t)
         then validateAuthorizeService nc (pa_keyStore pa) t = Inr svc \<and> str_truthy svc
         else svc = Null"
      and ip: "JStr (to_lower (ref_text (tok_domain t))) = pa_userDomain pa \<longrightarrow>
           remoteIpCheck (pa_ipCheckMode pa) addr (isWriteOperation m) t svc"
      and p: "p = (simplePrincipal (Val (to_lower (ref_text (tok_domain t))))
               (Val (to_lower (ref_text (pt_name t)))) s (JNum (tok_timestamp t)) (Val PrincipalAuthorityObj))
             \<lparr>sp_unsignedCreds := tok_unsignedToken t, sp_authorizedService := svc,
              sp_originalRequestor := pt_originalRequestor t, sp_keyService := pt_keyService t,
              sp_ip := tok_ip t, sp_keyId := tok_keyId t\<rparr>"
    have f: "sp_domain p = Val (to_lower (ref_text (tok_domain t)))" "sp_ip p = tok_ip t"
        "sp_authorizedService p = svc"
      by (simp_all add: p simplePrincipal_def SimplePrincipal_new_def)
    have chk: "remoteIpCheck (pa_ipCheckMode pa) addr (isWriteOperation m) t svc"
      using ip assms(2,3) f(1) by simp
    moreover have "\<exists>v idx pk. svc = Val v \<and> last_index_of (CHR ''.'') v = Some idx
          \<and> ask_key_store (pa_keyStore pa) (Val (substring v 0 idx))
               (Val (substring_from v (idx + 1))) (pt_authorizedServiceKeyId t) = Inr pk
          \<and> validateForAuthorizedService nc pk t = Inr True" if name: "str_truthy svc"
    proof -
      obtain v where "svc = Val v" and "validateAuthorizeService nc (pa_keyStore pa) t = Inr (Val v)"
        using name svc by (auto simp: str_truthy_iff split: if_splits)
      then show ?thesis
        by (auto elim!: validateAuthorizeService_name simp del: substring_0)
    qed
    ultimately show ?thesis
      using assms(4) s by (fastforce simp: remoteIpCheck_def f)
  qed
qed

text \<open>
  A user token that was issued to the address \<^verbatim>\<open>10.0.0.9\<close> for use by the service
  \<^verbatim>\<open>sports.api\<close>, which signed it, and a key store with the keys of ZMS and of that service.
\<close>

definition demo_service_text :: string where
  "demo_service_text = ''v=U1;d=user;n=joe;i=10.0.0.9;b=sports.api;a=aabb;t=100;e=150;k=0;s=abcd;bk=1;bs=abcd''"

definition service_key_store :: key_store where
  "service_key_store d v k =
     (if d = Val ''sports'' \<and> v = Val ''api'' \<and> k = Val ''1'' then Inr (Val (KeyText ''api key'')) else demo_key_store d v k)"

abbreviation service_authority :: principal_authority where
  "service_authority \<equiv> PrincipalAuthority_setKeyStore service_key_store demo_authority"

abbreviation service_authenticate where
  "service_authenticate s addr m \<equiv> snd (PrincipalAuthority_authenticate accept_all demo_token_module 120000 service_authority s addr m)"

lemma demo_service_parsed:
  "\<exists>t. principal_parseSignedToken demo_service_text new_principal_token = Inr t
     \<and> tok_domain t = Val ''user'' \<and> pt_name t = Val ''joe'' \<and> tok_timestamp t = Fin 100
     \<and> tok_expiryTime t = Fin 150 \<and> pt_keyService t = Null \<and> tok_keyId t = Val ''0''
     \<and> tok_unsignedToken t = Val ''v=U1;d=user;n=joe;i=10.0.0.9;b=sports.api;a=aabb;t=100;e=150;k=0''
     \<and> tok_signature t = Val ''abcd'' \<and> pt_authorizedServiceSignature t = Val ''abcd''
     \<and> pt_authorizedServices t = Val [''sports.api''] \<and> tok_ip t = Val ''10.0.0.9''
     \<and> pt_authorizedServiceName t = Null \<and> pt_authorizedServiceKeyId t = Val ''1''
     \<and> tok_signedToken t = Val demo_service_text"
  using string_to_number_show_int [of 100] string_to_number_show_int [of 150]
  by (simp add: principal_parseSignedToken_def read_token_def parse_items_def item_kv_def
      demo_service_text_def principal_switch_def new_principal_token_def new_token_def token.defs
      principal_token.defs show_int_def show_nat.simps js_simps)

lemma demo_service_authenticated:
  "\<exists>p. service_authenticate (Val demo_service_text) (Val ''10.0.0.1'') (Val ''PUT'') = Inr (Some p)
     \<and> sp_domain p = Val ''user'' \<and> sp_ip p = Val ''10.0.0.9'' \<and> sp_authorizedService p = Val ''sports.api''"
proof -
  obtain t where t: "principal_parseSignedToken demo_service_text new_principal_token = Inr t"
     "tok_domain t = Val ''user''" "pt_name t = Val ''joe''" "tok_timestamp t = Fin 100"
     "tok_expiryTime t = Fin 150" "pt_keyService t = Null" "tok_keyId t = Val ''0''"
     "tok_unsignedToken t = Val ''v=U1;d=user;n=joe;i=10.0.0.9;b=sports.api;a=aabb;t=100;e=150;k=0''"
     "tok_signature t = Val ''abcd''" "pt_authorizedServiceSignature t = Val ''abcd''"
     "pt_authorizedServices t = Val [''sports.api'']" "tok_ip t = Val ''10.0.0.9''"
     "pt_authorizedServiceName t = Null" "pt_authorizedServiceKeyId t = Val ''1''" "tok_signedToken t = Val demo_service_text"
    using demo_service_parsed by blast
  have v: "validate accept_all (Token_constructor demo_token_module) 120000 (Val (KeyText ''zms key''))
      (Fin 300) nx t" for nx
    by (simp add: validate_def t accept_all_def Crypto_verify_def ybase64Decode_Val)
  have "validateForAuthorizedService accept_all (Val (KeyText ''api key'')) t = Inr True"
    by (simp add: validateForAuthorizedService_def t demo_service_text_def accept_all_def Crypto_verify_def ybase64Decode_Val)
  then have svc: "validateAuthorizeService accept_all (Val service_key_store) t = Inr (Val ''sports.api'')"
    by (simp add: validateAuthorizeService_def authorized_name_def t ask_key_store_def service_key_store_def substring_def
        substring_from_def)
  have ip: "remoteIpCheck (JStr ''OPS_WRITE'') addr wr t (Val ''sports.api'')" for addr wr
    by (simp add: remoteIpCheck_def)
  have lower: "to_lower ''user'' = ''user''" "to_lower ''joe'' = ''joe''"
    by (simp_all add: to_lower_def lower_char_def Let_def)
  have "getPublicKey (Val service_key_store) ''user'' ''joe'' Null (Val ''0'') True = Inr (Val (KeyText ''zms key''))"
    by (simp add: getPublicKey_eq key_owner_def demo_key_store_def service_key_store_def)
  then show ?thesis
    using v ip svc
    by (simp add: PrincipalAuthority_authenticate_def PrincipalToken_new_def t authenticate_token_def
        isValidAuthorizedServiceToken_def PrincipalAuthority_setKeyStore_def ref_text_def lower
        authority_simps principal_setters simplePrincipal_def SimplePrincipal_new_def)
qed

theorem user_write_address_check_witness:
  "\<exists>p t idx pk. service_authenticate (Val demo_service_text) (Val ''10.0.0.1'') (Val ''PUT'') = Inr (Some p)
     \<and> sp_ip p = Val ''10.0.0.9'' \<and> isWriteOperation (Val ''PUT'') \<and> pa_ipCheckMode service_authority = JStr ''OPS_WRITE''
     \<and> sp_authorizedService p = Val ''sports.api'' \<and> last_index_of (CHR ''.'') ''sports.api'' = Some idx
     \<and> ask_key_store (pa_keyStore service_authority) (Val (substring ''sports.api'' 0 idx))
          (Val (substring_from ''sports.api'' (idx + 1))) (pt_authorizedServiceKeyId t) = Inr pk
     \<and> validateForAuthorizedService accept_all pk t = Inr True"
proof -
  have put: "isWriteOperation (Val ''PUT'')"
    by (simp add: isWriteOperation_def to_upper_def upper_char_def Let_def)
  obtain p where p: "service_authenticate (Val demo_service_text) (Val ''10.0.0.1'') (Val ''PUT'') = Inr (Some p)"
      and f: "sp_domain p = Val ''user''" "sp_ip p = Val ''10.0.0.9''" "sp_authorizedService p = Val ''sports.api''"
    using demo_service_authenticated by blast
  have ip: "Val ''10.0.0.1'' \<noteq> sp_ip p"
    by (simp add: f)
  have "pa_userDomain service_authority = JStr ''user''" and mode: "pa_ipCheckMode service_authority = JStr ''OPS_WRITE''"
    by (simp_all add: PrincipalAuthority_setKeyStore_def)
  then show ?thesis
    using p f mode put user_write_address_check [OF p f(1) _ ip] by auto
qed

section \<open>Names appended to a user token\<close>

lemma validateAuthorizeService_append:
  assumes "validateAuthorizeService nc ks t = Inr svc" and "str_truthy svc"
    and "tok_signedToken t = Val u"
  shows "validateAuthorizeService nc ks (t\<lparr>pt_name := n, tok_signedToken := Val (u @ x)\<rparr>) = Inr svc"
proof -
  let ?t = "t\<lparr>pt_name := n, tok_signedToken := Val (u @ x)\<rparr>"
  have v: "validateForAuthorizedService nc pk ?t = Inr True"
    if ok: "validateForAuthorizedService nc pk t = Inr True" for pk
  proof -
    obtain i where i: "index_of '';bs='' u = Some i"
      using ok assms(3) by (auto simp: validateForAuthorizedService_def split: if_splits option.splits)
    have "take i (u @ x) = take i u"
      using index_of_Some [OF i] by simp
    then show ?thesis
      using ok assms(3) i index_of_append [OF i, of x]
      by (auto simp: validateForAuthorizedService_def simp del: take_append split: if_splits)
  qed
  have "authorized_name ?t = authorized_name t"
    by (simp add: authorized_name_def)
  then show ?thesis
    using assms(1,2) v unfolding validateAuthorizeService_def
    by (auto simp: bind_result_Inr_iff bind_result_def split: option.splits if_splits sum.splits)
qed

lemma authenticate_renamed:
  assumes a: "authenticate_token nc tm now pa s addr m t = Inr (Some p)"
    and "JStr (to_lower (ref_text (tok_domain t))) = pa_userDomain pa"
    and "\<not> str_truthy (pt_keyService t)" and "tok_signedToken t = Val u"
  shows "authenticate_token nc tm now pa s' addr m (t\<lparr>pt_name := Val n, tok_signedToken := Val (u @ x)\<rparr>)
    = Inr (Some (p\<lparr>sp_name := Val (to_lower n), sp_creds := s'\<rparr>))"
  using a
proof (rule authenticate_token_Some)
  let ?t = "t\<lparr>pt_name := Val n, tok_signedToken := Val (u @ x)\<rparr>"
  fix pk svc
  assume valid0: "isValidAuthorizedServiceToken t"
    and pk: "getPublicKey (pa_keyStore pa) (to_lower (ref_text (tok_domain t))) (to_lower (ref_text (pt_name t)))
        (pt_keyService t) (tok_keyId t) (JStr (to_lower (ref_text (tok_domain t))) = pa_userDomain pa) = Inr pk"
    and v: "validate nc tm now pk (pa_allowedOffset pa) (\<not> isWriteOperation m) t"
    and svc: "if str_truthy (pt_authorizedServiceSignature t)
         then validateAuthorizeService nc (pa_keyStore pa) t = Inr svc \<and> str_truthy svc
         else svc = Null"
    and ip: "JStr (to_lower (ref_text (tok_domain t))) = pa_userDomain pa \<longrightarrow>
           remoteIpCheck (pa_ipCheckMode pa) addr (isWriteOperation m) t svc"
    and p: "p = (simplePrincipal (Val (to_lower (ref_text (tok_domain t))))
               (Val (to_lower (ref_text (pt_name t)))) s (JNum (tok_timestamp t)) (Val PrincipalAuthorityObj))
             \<lparr>sp_unsignedCreds := tok_unsignedToken t, sp_authorizedService := svc,
              sp_originalRequestor := pt_originalRequestor t, sp_keyService := pt_keyService t,
              sp_ip := tok_ip t, sp_keyId := tok_keyId t\<rparr>"
  have valid: "isValidAuthorizedServiceToken ?t"
    using valid0
    by (cases "pt_authorizedServices t") 
       (simp_all add: isValidAuthorizedServiceToken_def split: if_splits)
  have pk': "getPublicKey (pa_keyStore pa) (to_lower (ref_text (tok_domain t))) (to_lower n)
        (pt_keyService t) (tok_keyId t) True = Inr pk"
    using pk assms(2,3) by (simp add: getPublicKey_def key_owner_def)
  have v': "validate nc tm now pk (pa_allowedOffset pa) (\<not> isWriteOperation m) ?t"
    using v by (subst validate_cong [of _ t]) simp_all
  have ip': "remoteIpCheck (pa_ipCheckMode pa) addr (isWriteOperation m) ?t svc"
    using ip assms(2) by (simp add: remoteIpCheck_def)
  have svc': "(if str_truthy (pt_authorizedServiceSignature t)
       then validateAuthorizeService nc (pa_keyStore pa) ?t else Inr Null) = Inr svc"
    using svc validateAuthorizeService_append [OF _ _ assms(4)] by auto
  have name: "ref_text (Val n) = n"
    by (simp add: ref_text_def)
  show ?thesis
    using valid pk' v' ip' svc' svc assms(2)
    by (simp add: authenticate_token_def authority_simps principal_setters simplePrincipal_def
        SimplePrincipal_new_def p name split: if_splits)
qed

text \<open>
  The consequence for authentication of items that no signature covers: whoever holds a user token that the authority
  accepts can append \<^verbatim>\<open>;n=\<close> and the name of another user, and the authority
  accepts the result as that user.
\<close>

theorem user_impersonation:
  assumes "snd (PrincipalAuthority_authenticate nc tm now pa (Val u) addr m) = Inr (Some p)"
    and "sp_domain p = Val d" and "pa_userDomain pa = JStr d"
    and "\<not> str_truthy (sp_keyService p)" and "clean name" and "name \<noteq> []"
  shows "snd (PrincipalAuthority_authenticate nc tm now pa (Val (u @ '';n='' @ name)) addr m)
    = Inr (Some (p\<lparr>sp_name := Val (to_lower name), sp_creds := Val (u @ '';n='' @ name)\<rparr>))"
proof -
  obtain t where parsed: "principal_parseSignedToken u new_principal_token = Inr t"
    and t: "authenticate_token nc (Token_constructor tm) now pa (Val u) addr m t = Inr (Some p)"
    using authenticate_Some [OF assms(1)] by blast
  have f: "sp_domain p = Val (to_lower (ref_text (tok_domain t)))" "sp_keyService p = pt_keyService t"
      "str_truthy (tok_unsignedToken t)"
    using t by (auto elim!: authenticate_token_Some simp: simplePrincipal_def SimplePrincipal_new_def
        validate_def split: if_splits)
  obtain i where i: "index_of '';s='' u = Some i"
    using f(3) principal_parse_signature(2) [OF parsed] by (auto split: option.splits)
  have "JStr (to_lower (ref_text (tok_domain t))) = pa_userDomain pa" "\<not> str_truthy (pt_keyService t)"
      "tok_signedToken t = Val u"
    using assms(2-4) f principal_parse_Inr(2) [OF parsed] by auto
  from authenticate_renamed [OF t this] show ?thesis
    by (simp add: PrincipalAuthority_authenticate_def PrincipalToken_new_def
        principal_parse_append_name [OF parsed i assms(5,6), simplified])
qed

theorem user_impersonation_witness:
  "\<exists>p q. demo_authenticate (Val demo_user_text) Null (Val ''PUT'') = Inr (Some p)
     \<and> sp_name p = Val ''joe''
     \<and> demo_authenticate (Val (demo_user_text @ '';n=root'')) Null (Val ''PUT'') = Inr (Some q)
     \<and> sp_name q = Val ''root'' \<and> sp_domain q = Val ''user''"
proof -
  obtain p where p: "demo_authenticate (Val demo_user_text) Null (Val ''PUT'') = Inr (Some p)"
      "sp_domain p = Val ''user''" "sp_name p = Val ''joe''" "sp_keyService p = Null"
    using demo_user_authenticated by blast
  have dom: "pa_userDomain (PrincipalAuthority_setKeyStore demo_key_store demo_authority) = JStr ''user''"
    by (simp add: PrincipalAuthority_setKeyStore_def)
  have lower: "to_lower ''root'' = ''root''"
    by (simp add: to_lower_def lower_char_def Let_def)
  have "demo_authenticate (Val (demo_user_text @ '';n='' @ ''root'')) Null (Val ''PUT'')
      = Inr (Some (p\<lparr>sp_name := Val ''root'', sp_creds := Val (demo_user_text @ '';n='' @ ''root'')\<rparr>))"
    using user_impersonation [OF p(1,2) dom, of "''root''"] p(4) by (simp add: lower)
  then show ?thesis
    using p by auto
qed

end
