(* ===== verification/RoleAuthority.thy ===== *)
theory RoleAuthority
  imports PrincipalAuthority
begin

text \<open>
  The class \<^verbatim>\<open>impl/RoleAuthority.js\<close>: it authenticates role tokens, which ZTS
  signs. Its \<^verbatim>\<open>_isWriteOperation\<close> is the one of the principal authority, word for
  word.
\<close>

section \<open>State and operations\<close>

record role_authority =
  ra_keyStore :: "key_store jsref"
  ra_allowedOffset :: jsnum
  ra_userDomain :: jsval
  ra_headerName :: jsval

definition RoleAuthority_new :: "config \<Rightarrow> role_authority" where
  "RoleAuthority_new config =
     \<lparr>ra_keyStore = Null,
      ra_allowedOffset = offset_of (obj_get config ''roleTokenAllowedOffset''),
      ra_userDomain = js_or (obj_get config ''roleUserDomain'') (JStr ''user''),
      ra_headerName = js_or (obj_get config ''roleHeader'') (JStr ''Athenz-Role-Auth'')\<rparr>"

definition RoleAuthority_setKeyStore :: "key_store \<Rightarrow> role_authority \<Rightarrow> role_authority" where
  "RoleAuthority_setKeyStore ks ra = ra\<lparr>ra_keyStore := Val ks\<rparr>"

definition RoleAuthority_setConfig ::
  "config \<Rightarrow> config \<times> token_module \<Rightarrow> config \<times> token_module" where
  "RoleAuthority_setConfig overrides st =
     (set_config (fst st) overrides, Token_setConfig overrides (snd st))"

definition RoleAuthority_isWriteOperation :: "string jsref \<Rightarrow> bool" where
  "RoleAuthority_isWriteOperation httpMethod =
     (case httpMethod of
        Val m \<Rightarrow> to_upper m = ''PUT'' \<or> to_upper m = ''POST'' \<or> to_upper m = ''DELETE''
      | _ \<Rightarrow> False)"

text \<open>
  The check of the client's address, before the signature is looked at: false means that the
  token is refused.
\<close>

definition role_address_check ::
  "role_authority \<Rightarrow> string jsref \<Rightarrow> string jsref \<Rightarrow> role_token \<Rightarrow> bool result" where
  "role_address_check ra remoteAddr httpMethod t =
     (if remoteAddr \<noteq> tok_ip t \<and> RoleAuthority_isWriteOperation httpMethod
      then (case rt_principal t of
              Val tokenPrincipal \<Rightarrow>
                (case last_index_of (CHR ''.'') tokenPrincipal of
                   None \<Rightarrow> Inr False
                 | Some idx \<Rightarrow>
                     if idx = 0 \<or> idx = length tokenPrincipal - 1 then Inr False
                     else Inr (JStr (to_lower (substring tokenPrincipal 0 idx)) \<noteq> ra_userDomain ra))
            | _ \<Rightarrow> Inl (TypeError ''lastIndexOf''))
      else Inr True)"

definition authenticate_role_token ::
  "node_crypto \<Rightarrow> token_module \<Rightarrow> int \<Rightarrow> role_authority \<Rightarrow> string jsref \<Rightarrow> string jsref
    \<Rightarrow> string jsref \<Rightarrow> role_token \<Rightarrow> simple_principal option result" where
  "authenticate_role_token nc tm now ra signedToken remoteAddr httpMethod t =
     bind_result (role_address_check ra remoteAddr httpMethod t)
       (\<lambda>ok. if \<not> ok then Inr None
         else bind_result (ask_key_store (ra_keyStore ra) (Val ''sys.auth'') (Val ''zts'') (tok_keyId t))
           (\<lambda>publicKey.
             if \<not> validate nc tm now publicKey (ra_allowedOffset ra) False t then Inr None
             else Inr (Some (setUnsignedCreds (tok_unsignedToken t)
               (createByRoles (tok_domain t) signedToken (rt_roles t) (Val RoleAuthorityObj))))))"

definition RoleAuthority_authenticate ::
  "node_crypto \<Rightarrow> token_module \<Rightarrow> int \<Rightarrow> role_authority \<Rightarrow> string jsref \<Rightarrow> string jsref
    \<Rightarrow> string jsref \<Rightarrow> token_module \<times> simple_principal option result" where
  "RoleAuthority_authenticate nc tm now ra signedToken remoteAddr httpMethod =
     (let tm' = Token_constructor tm in
      (tm', case signedToken of
              Val s \<Rightarrow>
                (case RoleToken_new [] now (TokenText s) of
                   Inl e \<Rightarrow> Inr None
                 | Inr t \<Rightarrow> authenticate_role_token nc tm' now ra signedToken remoteAddr httpMethod t)
            | _ \<Rightarrow> Inr None))"

section \<open>What authentication decides\<close>

text \<open>Writes need the address in the token, except for principals outside the user domain.\<close>

definition address_allowed ::
  "role_authority \<Rightarrow> string jsref \<Rightarrow> string jsref \<Rightarrow> role_token \<Rightarrow> bool" where
  "address_allowed ra addr m t \<longleftrightarrow>
     addr = tok_ip t \<or> \<not> isWriteOperation m
     \<or> (\<exists>pr idx. rt_principal t = Val pr \<and> last_index_of (CHR ''.'') pr = Some idx
          \<and> 0 < idx \<and> idx < length pr - 1 \<and> JStr (to_lower (take idx pr)) \<noteq> ra_userDomain ra)"

lemma role_isWrite_eq: "RoleAuthority_isWriteOperation m = isWriteOperation m"
  by (simp add: RoleAuthority_isWriteOperation_def isWriteOperation_def)

lemma last_index_of_less: "last_index_of c s = Some i \<Longrightarrow> i < length s"
  by (induction s arbitrary: i) (auto split: option.splits if_splits)

lemma role_address_check_iff:
  "role_address_check ra addr m t = Inr True \<longleftrightarrow> address_allowed ra addr m t"
proof (cases "addr \<noteq> tok_ip t \<and> isWriteOperation m")
  case True
  show ?thesis
  proof (cases "\<exists>pr idx. rt_principal t = Val pr \<and> last_index_of (CHR ''.'') pr = Some idx")
    case True
    then obtain pr idx where "rt_principal t = Val pr" "last_index_of (CHR ''.'') pr = Some idx"
      by blast
    then show ?thesis
      using \<open>addr \<noteq> tok_ip t \<and> isWriteOperation m\<close> last_index_of_less [of "CHR ''.''" pr idx]
      by (auto simp: role_address_check_def address_allowed_def role_isWrite_eq)
  next
    case False
    then show ?thesis
      using \<open>addr \<noteq> tok_ip t \<and> isWriteOperation m\<close>
      by (auto simp: role_address_check_def address_allowed_def role_isWrite_eq
          split: jsref.splits option.splits)
  qed
next
  case False
  then show ?thesis
    by (auto simp: role_address_check_def address_allowed_def role_isWrite_eq)
qed

lemma role_authenticate_Some:
  "snd (RoleAuthority_authenticate nc tm now (RoleAuthority_setKeyStore ks ra) s addr m) = Inr (Some p) \<longleftrightarrow>
     (\<exists>u t pk. s = Val u \<and> role_parseSignedToken u new_role_token = Inr t
        \<and> address_allowed ra addr m t
        \<and> ks (Val ''sys.auth'') (Val ''zts'') (tok_keyId t) = Inr pk
        \<and> validate nc (Token_constructor tm) now pk (ra_allowedOffset ra) False t
        \<and> p = (createByRoles (tok_domain t) s (rt_roles t) (Val RoleAuthorityObj))
              \<lparr>sp_unsignedCreds := tok_unsignedToken t\<rparr>)"
proof -
  have chk: "role_address_check (RoleAuthority_setKeyStore ks ra) addr m t = role_address_check ra addr m t"
    for t
    by (auto simp: role_address_check_def RoleAuthority_setKeyStore_def split: jsref.splits option.splits)
  define made where "made t = (createByRoles (tok_domain t) s (rt_roles t) (Val RoleAuthorityObj))
              \<lparr>sp_unsignedCreds := tok_unsignedToken t\<rparr>" for t :: role_token
  have tok: "authenticate_role_token nc tm' now (RoleAuthority_setKeyStore ks ra) s addr m t = Inr (Some p) \<longleftrightarrow>
      (\<exists>pk. address_allowed ra addr m t \<and> ks (Val ''sys.auth'') (Val ''zts'') (tok_keyId t) = Inr pk
        \<and> validate nc tm' now pk (ra_allowedOffset ra) False t \<and> p = made t)" for tm' t
    unfolding role_address_check_iff [symmetric]
    by (cases "role_address_check ra addr m t"; cases "ks (Val ''sys.auth'') (Val ''zts'') (tok_keyId t)")
       (auto simp: authenticate_role_token_def chk [unfolded RoleAuthority_setKeyStore_def]
          ask_key_store_def RoleAuthority_setKeyStore_def
          setUnsignedCreds_def made_def)
  show ?thesis
  proof (cases s)
    case (Val u)
    then show ?thesis
      using tok by (cases "role_parseSignedToken u new_role_token")
        (simp_all add: RoleAuthority_authenticate_def RoleToken_new_def Let_def made_def)
  qed (simp_all add: RoleAuthority_authenticate_def Let_def)
qed

interpretation rauth: token_authority
  "\<lambda>nc ks tm now s addr m.
     snd (RoleAuthority_authenticate nc tm now (RoleAuthority_setKeyStore ks ra) s addr m)"
  for ra
proof
  fix nc ks tm now s addr m p
  assume "snd (RoleAuthority_authenticate nc tm now (RoleAuthority_setKeyStore ks ra) s addr m)
    = Inr (Some p)"
  then obtain u t pk where a: "s = Val u" "role_parseSignedToken u new_role_token = Inr t"
      "ks (Val ''sys.auth'') (Val ''zts'') (tok_keyId t) = Inr pk"
    and v: "validate nc (Token_constructor tm) now pk (ra_allowedOffset ra) False t"
    and p: "p = (createByRoles (tok_domain t) s (rt_roles t) (Val RoleAuthorityObj))
              \<lparr>sp_unsignedCreds := tok_unsignedToken t\<rparr>"
    unfolding role_authenticate_Some by blast
  have "str_truthy (tok_unsignedToken t)"
    using v by (auto simp: validate_def split: if_splits)
  then obtain i where i: "index_of '';s='' u = Some i" "tok_unsignedToken t = Val (substring u 0 i)"
    using role_parse_signature(2) [OF a(2)] by (auto split: option.splits)
  have ver: "Crypto_verify nc (substring u 0 i) pk (tok_signature t) ''SHA256'' = Inr True"
    using validate_verified(2) [OF v] by (simp add: role_parse_signature(1) [OF a(2)] i ref_text_def)
  have "sp_creds p = s" "sp_unsignedCreds p = tok_unsignedToken t"
    by (simp_all add: p createByRoles_def simplePrincipalByRoles_def SimplePrincipal_new_def)
  then show "\<exists>u i. s = Val u \<and> index_of '';s='' u = Some i \<and> sp_creds p = s
      \<and> sp_unsignedCreds p = Val (substring u 0 i)
      \<and> (\<exists>d v k pk sig. ks d v k = Inr pk \<and> key_truthy pk
           \<and> Crypto_verify nc (substring u 0 i) pk sig ''SHA256'' = Inr True)"
    using a i ver validate_verified(1) [OF v] by metis
qed

text \<open>
  C29. \<^verbatim>\<open>RoleAuthority.authenticate\<close> returns a principal exactly when the token
  reads, its address rule allows the request, and it validates with the ZTS key of its key id;
  the principal then holds the token's domain as it is written there, the roles and the unsigned
  text. A comment in the code asks for a domain in lower case, but the domain is not changed.
\<close>

theorem role_authenticate_iff:
  "snd (RoleAuthority_authenticate nc tm now (RoleAuthority_setKeyStore ks ra) s addr m) = Inr (Some p) \<longleftrightarrow>
     (\<exists>u t pk. s = Val u \<and> role_parseSignedToken u new_role_token = Inr t
        \<and> address_allowed ra addr m t
        \<and> ks (Val ''sys.auth'') (Val ''zts'') (tok_keyId t) = Inr pk
        \<and> validate nc (Token_constructor tm) now pk (ra_allowedOffset ra) False t
        \<and> p = (createByRoles (tok_domain t) s (rt_roles t) (Val RoleAuthorityObj))
              \<lparr>sp_unsignedCreds := tok_unsignedToken t\<rparr>)"
  by (rule role_authenticate_Some)

text \<open>
  On a write from another address, a role token that names no principal makes
  \<^verbatim>\<open>authenticate\<close> throw instead of refusing it.
\<close>

theorem role_without_principal_throws:
  assumes "role_parseSignedToken u new_role_token = Inr t" and "\<not> present (rt_principal t)"
    and "addr \<noteq> tok_ip t" and "isWriteOperation m"
  shows "snd (RoleAuthority_authenticate nc tm now ra (Val u) addr m) = Inl (TypeError ''lastIndexOf'')"
  using assms
  by (cases "rt_principal t")
     (simp_all add: RoleAuthority_authenticate_def RoleToken_new_def authenticate_role_token_def
        role_address_check_def role_isWrite_eq)

theorem role_without_principal_throws_witness:
  "snd (RoleAuthority_authenticate demo_crypto demo_token_module 0 (RoleAuthority_new [])
     (Val ''d=sports;r=readers;s=ab'') (Val ''10.0.0.1'') (Val ''POST'')) = Inl (TypeError ''lastIndexOf'')"
proof -
  have "\<exists>t. role_parseSignedToken ''d=sports;r=readers;s=ab'' new_role_token = Inr t
      \<and> rt_principal t = Null \<and> tok_ip t = Null"
    by (simp add: role_parseSignedToken_def read_token_def parse_items_def item_kv_def
        role_switch_def new_role_token_def new_token_def token.defs role_token.defs
        set_role_unsigned_def ref_text_def)
  then obtain t where "role_parseSignedToken ''d=sports;r=readers;s=ab'' new_role_token = Inr t"
      "\<not> present (rt_principal t)" "Val ''10.0.0.1'' \<noteq> tok_ip t" by auto
  moreover have "isWriteOperation (Val ''POST'')"
    by (simp add: isWriteOperation_def to_upper_def upper_char_def Let_def)
  ultimately show ?thesis
    by (rule role_without_principal_throws)
qed

end
