(* ===== verification/ServiceIdentity.thy ===== *)
theory ServiceIdentity
  imports RoleAuthority
begin

text \<open>
  The class \<^verbatim>\<open>impl/SimpleServiceIdentityProvider.js\<close>: it issues tokens for one
  service, signed with the service's private key. \<^verbatim>\<open>os.hostname()\<close> is a
  parameter.
\<close>

section \<open>State and operations\<close>

record identity_provider =
  ip_domain :: string
  ip_service :: string
  ip_key :: jskey
  ip_tokenTimeout :: int
  ip_keyId :: string
  ip_host :: "string jsref"

text \<open>\<^verbatim>\<open>x.toString().toLowerCase()\<close>\<close>

definition lower_of :: "string jsref \<Rightarrow> string result" where
  "lower_of r = (case r of Val s \<Rightarrow> Inr (to_lower s) | _ \<Rightarrow> Inl (TypeError ''toString''))"

definition getServerHostName :: "string result \<Rightarrow> string" where
  "getServerHostName hostname = (case hostname of Inr h \<Rightarrow> h | Inl e \<Rightarrow> ''localhost'')"

definition setHost :: "string jsref \<Rightarrow> identity_provider \<Rightarrow> identity_provider" where
  "setHost host ip = ip\<lparr>ip_host := host\<rparr>"

definition setTokenTimeout :: "int \<Rightarrow> identity_provider \<Rightarrow> identity_provider" where
  "setTokenTimeout tokenTimeout ip = ip\<lparr>ip_tokenTimeout := tokenTimeout\<rparr>"

definition SimpleServiceIdentityProvider_new ::
  "string result \<Rightarrow> string jsref \<Rightarrow> string jsref \<Rightarrow> jskey \<Rightarrow> string jsref \<Rightarrow> identity_provider result" where
  "SimpleServiceIdentityProvider_new hostname domainName serviceName privateKey keyId =
     bind_result (lower_of domainName) (\<lambda>d.
     bind_result (lower_of serviceName) (\<lambda>s.
     bind_result (lower_of keyId) (\<lambda>k.
       Inr (setHost (Val (getServerHostName hostname))
         \<lparr>ip_domain = d, ip_service = s, ip_key = privateKey, ip_tokenTimeout = 3600,
          ip_keyId = k, ip_host = Undefined\<rparr>))))"

definition token_options :: "identity_provider \<Rightarrow> string \<Rightarrow> string \<Rightarrow> principal_options" where
  "token_options ip domainName serviceName =
     \<lparr>po_version = Val ''S1'', po_domain = Val domainName, po_name = Val serviceName,
      po_host = ip_host ip, po_salt = Undefined, po_keyId = Val (ip_keyId ip), po_ip = Undefined,
      po_authorizedServices = Undefined, po_keyService = Undefined,
      po_originalRequestor = Undefined, po_issueTime = Undefined,
      po_expirationWindow = Val (ip_tokenTimeout ip)\<rparr>"

definition getIdentity ::
  "node_crypto \<Rightarrow> byte list \<Rightarrow> int \<Rightarrow> identity_provider \<Rightarrow> string jsref \<Rightarrow> string jsref
    \<Rightarrow> simple_principal option result" where
  "getIdentity nc rand now ip domainName serviceName =
     bind_result (lower_of domainName) (\<lambda>domainName.
     bind_result (lower_of serviceName) (\<lambda>serviceName.
       if domainName \<noteq> ip_domain ip \<or> serviceName \<noteq> ip_service ip then Inr None
       else
         bind_result (PrincipalToken_new rand now
             (TokenOptions (Val (token_options ip domainName serviceName)))) (\<lambda>t.
         bind_result (sign nc (ip_key ip) t) (\<lambda>token.
           (case createByUserIdentity (Val domainName) (Val serviceName) (tok_signedToken token)
                   (JNum (num_of_int (now div 1000))) (Val PrincipalAuthorityObj) of
              None \<Rightarrow> Inl (TypeError ''setUnsignedCreds'')
            | Some princ \<Rightarrow> Inr (Some (setUnsignedCreds (tok_unsignedToken token) princ)))))))"

section \<open>The identities it issues\<close>

lemma provider_fields:
  assumes "SimpleServiceIdentityProvider_new (Inr host) (Val d) (Val v) priv (Val k) = Inr ip"
  shows "ip_domain ip = to_lower d" "ip_service ip = to_lower v" "ip_key ip = priv"
    "ip_keyId ip = to_lower k" "ip_host ip = Val host" "ip_tokenTimeout ip = 3600"
  using assms by (auto simp: SimpleServiceIdentityProvider_new_def lower_of_def setHost_def getServerHostName_def)

lemma lower_char_delim:
  "lower_char c = CHR '';'' \<Longrightarrow> c = CHR '';''" "lower_char c = CHR ''='' \<Longrightarrow> c = CHR ''=''"
  using of_char_lower_char [of c]
  by (cases "65 \<le> (of_char c :: nat) \<and> (of_char c :: nat) \<le> 90";
      auto simp: lower_char_def Let_def split: if_splits)+

lemma clean_to_lower: "clean s \<Longrightarrow> clean (to_lower s)"
  by (induction s) (auto simp: to_lower_def dest: lower_char_delim)

text \<open>The token \<^verbatim>\<open>getIdentity\<close> builds and signs for its own service.\<close>

lemma getIdentity_own:
  assumes "key_pair nc (ip_key ip) pub"
    and "ip_domain ip = to_lower d" "ip_service ip = to_lower v" "d \<noteq> []" "v \<noteq> []"
  obtains t token p where
    "principal_builder rand now (Val (token_options ip (to_lower d) (to_lower v))) new_principal_token = Inr t"
    and "sign nc (ip_key ip) t = Inr token"
    and "getIdentity nc rand now ip (Val d) (Val v) = Inr (Some p)"
    and "sp_creds p = tok_signedToken token" and "sp_domain p = Val (to_lower d)"
    and "sp_name p = Val (to_lower v)"
    and "tok_timestamp t = num_of_int (now div 1000)"
    and "tok_expiryTime t = num_of_int (now div 1000 + int_or (Val (ip_tokenTimeout ip)) 3600)"
    and "present (tok_signedToken token)"
proof -
  obtain t where t: "principal_builder rand now
        (Val (token_options ip (to_lower d) (to_lower v))) new_principal_token = Inr t"
      and f: "tok_timestamp t = num_of_int (now div 1000)"
        "tok_expiryTime t = num_of_int (now div 1000 + int_or (Val (ip_tokenTimeout ip)) 3600)"
        "tok_digestAlgorithm t = ''SHA256''" "present (tok_unsignedToken t)"
    using assms(4,5)
    by (simp add: principal_builder_def token_options_def Let_def setTimeStamp_def int_or_def
        new_principal_token_def new_token_def token.defs principal_token.defs)
  obtain u where u: "tok_unsignedToken t = Val u"
    using f(4) by (auto simp: present_iff)
  obtain sig where "Crypto_sign nc (Val u) (ip_key ip) ''SHA256'' = Inr sig"
    using key_pair_verifies [OF assms(1)] by metis
  then obtain token where token: "sign nc (ip_key ip) t = Inr token" "present (tok_signedToken token)"
    using f u by (simp add: sign_def)
  obtain p where "getIdentity nc rand now ip (Val d) (Val v) = Inr (Some p)"
      "sp_creds p = tok_signedToken token" "sp_domain p = Val (to_lower d)" "sp_name p = Val (to_lower v)"
    by (simp add: getIdentity_def lower_of_def assms(2,3) PrincipalToken_new_def t token(1)
          authority_simps principal_setters simplePrincipal_def SimplePrincipal_new_def)
  then show thesis
    using that [OF t token(1) _ _ _ _ f(1,2) token(2)] by blast
qed

text \<open>A service token whose signature and times are right is accepted as that service.\<close>

lemma service_token_authenticated:
  assumes "principal_parseSignedToken u new_principal_token = Inr t"
    and "tok_domain t = Val d" and "pt_name t = Val v" and "to_lower d = d" and "to_lower v = v"
    and "\<not> str_truthy (pt_keyService t)" and "JStr d \<noteq> pa_userDomain pa"
    and "\<not> present (pt_authorizedServices t)" and "pt_authorizedServiceSignature t = Null"
    and "ks (Val d) (Val v) (tok_keyId t) = Inr pk"
    and "validate nc (Token_constructor tm) now pk (pa_allowedOffset pa) (\<not> isWriteOperation m) t"
  shows "\<exists>q. snd (PrincipalAuthority_authenticate nc tm now (PrincipalAuthority_setKeyStore ks pa) (Val u) addr m)
      = Inr (Some q) \<and> sp_domain q = Val d \<and> sp_name q = Val v"
proof -
  have "isValidAuthorizedServiceToken t"
    using assms(8,9) by (cases "pt_authorizedServices t") (simp_all add: isValidAuthorizedServiceToken_def)
  moreover have "getPublicKey (Val ks) d v (pt_keyService t) (tok_keyId t) False = Inr pk"
    using assms(6,10) by (simp add: getPublicKey_eq key_owner_def)
  moreover have "ref_text (tok_domain t) = d" "ref_text (pt_name t) = v"
    using assms(2,3) by (simp_all add: ref_text_def)
  ultimately show ?thesis
    using assms
    by (simp add: PrincipalAuthority_authenticate_def PrincipalToken_new_def authenticate_token_def
        PrincipalAuthority_setKeyStore_def authority_simps principal_setters simplePrincipal_def
        SimplePrincipal_new_def)
qed

lemma identity_accepted:
  assumes "SimpleServiceIdentityProvider_new (Inr host) (Val d) (Val v) priv (Val k) = Inr ip"
    and "clean host" and "clean d" and "clean v" and "clean k"
    and "d \<noteq> []" and "v \<noteq> []" and "k \<noteq> []"
    and "key_pair nc priv pub" and "key_truthy (Val pub)"
    and "ks (Val (to_lower d)) (Val (to_lower v)) (Val (to_lower k)) = Inr (Val pub)"
    and "JStr (to_lower d) \<noteq> pa_userDomain pa"
    and "pa_allowedOffset pa = Fin off" and "0 \<le> off"
    and "tm_MAX_EXPIRY (Token_constructor tm) = Fin maxExpiry" and "3600 \<le> maxExpiry"
    and "issued div 1000 \<le> now div 1000" and "now div 1000 \<le> issued div 1000 + 3600"
  shows "\<exists>p q. getIdentity nc rand issued ip (Val d) (Val v) = Inr (Some p)
    \<and> snd (PrincipalAuthority_authenticate nc tm now (PrincipalAuthority_setKeyStore ks pa)
            (sp_creds p) addr m) = Inr (Some q)
    \<and> sp_domain q = sp_domain p \<and> sp_name q = sp_name p"
proof -
  note ip = provider_fields [OF assms(1)]
  obtain t token p where t:
    "principal_builder rand issued (Val (token_options ip (to_lower d) (to_lower v))) new_principal_token = Inr t"
      and token: "sign nc (ip_key ip) t = Inr token"
      and p: "getIdentity nc rand issued ip (Val d) (Val v) = Inr (Some p)"
        "sp_creds p = tok_signedToken token" "sp_domain p = Val (to_lower d)" "sp_name p = Val (to_lower v)"
      and times: "tok_timestamp t = num_of_int (issued div 1000)"
        "tok_expiryTime t = num_of_int (issued div 1000 + int_or (Val (ip_tokenTimeout ip)) 3600)"
      and txt': "present (tok_signedToken token)"
    using getIdentity_own [OF assms(9) [folded ip(3)] ip(1,2) assms(6,7)] .
  have clean: "clean_principal_options (token_options ip (to_lower d) (to_lower v))"
    using assms(2-5) by (simp add: clean_principal_options_def token_options_def ip clean_to_lower)
  obtain q where q: "principal_parseSignedToken (ref_text (tok_signedToken token)) new_principal_token = Inr q"
      and view: "principal_view q = principal_view token"
      and svc: "pt_authorizedServiceSignature q = Null"
      and val: "\<And>nx. validate nc (Token_constructor tm) now (Val pub) (Fin off) nx q"
    using built_token_accepted [OF t clean token assms(9) [folded ip(3)] assms(10) times assms(15)
        _ assms(14,17)] assms(16,18) by (auto simp: ip int_or_def)
  have tt: "tok_domain token = Val (to_lower d)" "pt_name token = Val (to_lower v)"
      "tok_keyId token = Val (to_lower k)" "pt_keyService token = Undefined"
      "pt_authorizedServices token = Null"
    using t token assms(6-8)
    by (auto simp: principal_builder_def token_options_def Let_def setTimeStamp_def sign_def ip
        new_principal_token_def new_token_def token.defs principal_token.defs split: sum.splits)
  have fq: "tok_domain q = Val (to_lower d)" "pt_name q = Val (to_lower v)"
      "tok_keyId q = Val (to_lower k)" "\<not> str_truthy (pt_keyService q)"
      "\<not> present (pt_authorizedServices q)"
    using view tt by (auto simp: principal_view_def opt_norm_def split: if_splits)
  have key: "ks (Val (to_lower d)) (Val (to_lower v)) (tok_keyId q) = Inr (Val pub)"
    by (simp add: fq(3) assms(11))
  have "\<exists>q. snd (PrincipalAuthority_authenticate nc tm now (PrincipalAuthority_setKeyStore ks pa)
        (Val (ref_text (tok_signedToken token))) addr m) = Inr (Some q)
      \<and> sp_domain q = Val (to_lower d) \<and> sp_name q = Val (to_lower v)"
    by (rule service_token_authenticated [where ks = ks, OF q fq(1,2) _ _ fq(4) assms(12) fq(5) svc key])
       (simp_all only: to_lower_idem val assms(13))
  then show ?thesis
    using p txt' by (auto simp: present_ref_text)
qed

text \<open>
  C9. End to end: the identity a provider issues for its own service is accepted by every
  authority whose key store holds the service's public key under the same key id, as a principal
  of the same domain and name, from the moment it is issued until it expires.
\<close>

theorem issued_identity_accepted:
  assumes "SimpleServiceIdentityProvider_new (Inr host) (Val d) (Val v) priv (Val k) = Inr ip"
    and "clean host" and "clean d" and "clean v" and "clean k"
    and "d \<noteq> []" and "v \<noteq> []" and "k \<noteq> []"
    and "key_pair nc priv pub" and "key_truthy (Val pub)"
    and "ks (Val (to_lower d)) (Val (to_lower v)) (Val (to_lower k)) = Inr (Val pub)"
    and "JStr (to_lower d) \<noteq> pa_userDomain pa"
    and "pa_allowedOffset pa = Fin off" and "0 \<le> off"
    and "tm_MAX_EXPIRY (Token_constructor tm) = Fin maxExpiry" and "3600 \<le> maxExpiry"
    and "issued div 1000 \<le> now div 1000" and "now div 1000 \<le> issued div 1000 + 3600"
  shows "\<exists>p q. getIdentity nc rand issued ip (Val d) (Val v) = Inr (Some p)
    \<and> snd (PrincipalAuthority_authenticate nc tm now (PrincipalAuthority_setKeyStore ks pa)
            (sp_creds p) addr m) = Inr (Some q)
    \<and> sp_domain q = sp_domain p \<and> sp_name q = sp_name p"
  using assms by (rule identity_accepted)

theorem issued_identity_accepted_witness:
  "\<exists>ip p q. SimpleServiceIdentityProvider_new (Inr ''web1'') (Val ''Sports'') (Val ''api'')
       (KeyText ''priv'') (Val ''0'') = Inr ip
     \<and> getIdentity demo_crypto [1, 2, 3, 4] 1000000 ip (Val ''Sports'') (Val ''api'') = Inr (Some p)
     \<and> snd (PrincipalAuthority_authenticate demo_crypto demo_token_module 1100000
          (PrincipalAuthority_setKeyStore (\<lambda>_ _ _. Inr (Val (KeyText ''pub''))) demo_authority)
          (sp_creds p) Null (Val ''GET'')) = Inr (Some q)
     \<and> sp_domain q = sp_domain p \<and> sp_name q = sp_name p"
proof -
  obtain ip where ip: "SimpleServiceIdentityProvider_new (Inr ''web1'') (Val ''Sports'') (Val ''api'')
       (KeyText ''priv'') (Val ''0'') = Inr ip"
    by (simp add: SimpleServiceIdentityProvider_new_def lower_of_def)
  have "JStr (to_lower ''Sports'') \<noteq> pa_userDomain demo_authority"
    by (simp add: to_lower_def)
  from issued_identity_accepted [OF ip _ _ _ _ _ _ _ demo_key_pair(1) [of _ "''pub''"] _ _ this,
      where off = 300 and ks = "\<lambda>_ _ _. Inr (Val (KeyText ''pub''))" and tm = demo_token_module
      and maxExpiry = 2592000 and issued = 1000000 and now = 1100000 and rand = "[1, 2, 3, 4]"
      and addr = Null and m = "Val ''GET''"]
  show ?thesis
    using ip by simp
qed

end
