(* ===== verification/Js_State.thy ===== *)
theory Js_State
  imports Js_Values
begin

text \<open>
  Code that reads and writes module state and may throw: an action takes the state and returns
  a result together with the state it leaves, also when it throws. Also the interface of the
  package \<^verbatim>\<open>memory-cache\<close>, whose code is not part of the repository: its operations
  are a parameter, and \<open>cache_laws\<close> states what its documentation promises.
\<close>

section \<open>Actions\<close>

type_synonym ('s, 'a) action = "'s \<Rightarrow> 'a result \<times> 's"

definition ret :: "'a \<Rightarrow> ('s, 'a) action" where
  "ret x s = (Inr x, s)"

definition throw :: "exn \<Rightarrow> ('s, 'a) action" where
  "throw e s = (Inl e, s)"

definition bind_action :: "('s, 'a) action \<Rightarrow> ('a \<Rightarrow> ('s, 'b) action) \<Rightarrow> ('s, 'b) action" where
  "bind_action m f s = (case m s of (Inl e, s') \<Rightarrow> (Inl e, s') | (Inr x, s') \<Rightarrow> f x s')"

definition lift_result :: "'a result \<Rightarrow> ('s, 'a) action" where
  "lift_result r s = (r, s)"

definition read_state :: "('s \<Rightarrow> 'a) \<Rightarrow> ('s, 'a) action" where
  "read_state f s = (Inr (f s), s)"

definition update_state :: "('s \<Rightarrow> 's) \<Rightarrow> ('s, unit) action" where
  "update_state f s = (Inr (), f s)"

text \<open>A loop over a list for its effects.\<close>

fun each :: "('x \<Rightarrow> ('s, unit) action) \<Rightarrow> 'x list \<Rightarrow> ('s, unit) action" where
  "each f [] = ret ()"
| "each f (x # xs) = bind_action (f x) (\<lambda>_. each f xs)"

lemma action_simps [simp]:
  "ret x s = (Inr x, s)" "throw e s = (Inl e, s)" "lift_result r s = (r, s)"
  "read_state f s = (Inr (f s), s)" "update_state g s = (Inr (), g s)"
  by (simp_all add: ret_def throw_def lift_result_def read_state_def update_state_def)

lemma bind_action_simps [simp]:
  "m s = (Inr x, s') \<Longrightarrow> bind_action m f s = f x s'"
  "m s = (Inl e, s') \<Longrightarrow> bind_action m f s = (Inl e, s')"
  by (simp_all add: bind_action_def)

lemma bind_action_prim [simp]:
  "bind_action (ret x) f s = f x s"
  "bind_action (throw e) f s = (Inl e, s)"
  "bind_action (read_state g) f s = f (g s) s"
  "bind_action (update_state g') f' s = f' () (g' s)"
  "bind_action (lift_result (Inr y)) f'' s = f'' y s"
  "bind_action (lift_result (Inl e)) f'' s = (Inl e, s)"
  by (simp_all add: bind_action_def)

lemma bind_action_Inr:
  assumes "bind_action m f s = (Inr y, s'')"
  obtains x s' where "m s = (Inr x, s')" and "f x s' = (Inr y, s'')"
  using assms by (cases "m s" rule: prod.exhaust; cases "fst (m s)") (auto simp: bind_action_def)

text \<open>An action that keeps an invariant of the state, whether it returns or throws.\<close>

definition keeps :: "('s \<Rightarrow> bool) \<Rightarrow> ('s, 'a) action \<Rightarrow> bool" where
  "keeps I m \<longleftrightarrow> (\<forall>s r s'. I s \<longrightarrow> m s = (r, s') \<longrightarrow> I s')"

named_theorems keeps_rules "rules that show that an action keeps an invariant"

lemma keepsD: "keeps I m \<Longrightarrow> m s = (r, s') \<Longrightarrow> I s \<Longrightarrow> I s'"
  by (auto simp: keeps_def)

lemma keeps_prim [keeps_rules]:
  "keeps I (ret x)" "keeps I (throw e)" "keeps I (lift_result q)" "keeps I (read_state f)"
  by (auto simp: keeps_def)

lemma keeps_update: "(\<And>s. I s \<Longrightarrow> I (f s)) \<Longrightarrow> keeps I (update_state f)"
  by (auto simp: keeps_def)

text \<open>The second action may rely on what the first one returned from a state with the invariant.\<close>

lemma keeps_bind_post:
  assumes "keeps I m" and "\<And>x s s'. I s \<Longrightarrow> m s = (Inr x, s') \<Longrightarrow> keeps I (f x)"
  shows "keeps I (bind_action m f)"
  unfolding keeps_def
proof (intro allI impI)
  fix s r s''
  assume s: "I s" "bind_action m f s = (r, s'')"
  obtain q s' where q: "m s = (q, s')" by force
  have s': "I s'"
    by (rule keepsD [OF assms(1) q s(1)])
  show "I s''"
  proof (cases q)
    case (Inl e)
    then show ?thesis
      using s(2) q s' by simp
  next
    case (Inr x)
    then have run: "f x s' = (r, s'')"
      using s(2) q by simp
    have "keeps I (f x)"
      using assms(2) [OF s(1)] q Inr by simp
    then show ?thesis
      using run s' by (rule keepsD)
  qed
qed

lemma keeps_bind [keeps_rules]:
  "keeps I m \<Longrightarrow> (\<And>x. keeps I (f x)) \<Longrightarrow> keeps I (bind_action m f)"
  by (rule keeps_bind_post)

lemma keeps_if [keeps_rules]: "keeps I m \<Longrightarrow> keeps I n \<Longrightarrow> keeps I (if b then m else n)"
  by simp

lemma keeps_each [keeps_rules]: "(\<And>x. keeps I (f x)) \<Longrightarrow> keeps I (each f xs)"
  by (induction xs) (auto intro: keeps_rules)

lemma keeps_cases [keeps_rules]:
  "keeps I m \<Longrightarrow> (\<And>x. keeps I (f x)) \<Longrightarrow> keeps I (case v of None \<Rightarrow> m | Some x \<Rightarrow> f x)"
  "(\<And>x. keeps I (g x)) \<Longrightarrow> (\<And>y. keeps I (h y)) \<Longrightarrow> keeps I (case w of Inl x \<Rightarrow> g x | Inr y \<Rightarrow> h y)"
  "keeps I k \<Longrightarrow> keeps I l \<Longrightarrow> (\<And>x. keeps I (j x)) \<Longrightarrow>
     keeps I (case r of Undefined \<Rightarrow> k | Null \<Rightarrow> l | Val x \<Rightarrow> j x)"
  "(\<And>x y. keeps I (p x y)) \<Longrightarrow> keeps I (case q of (x, y) \<Rightarrow> p x y)"
  by (simp_all split: option.splits sum.splits jsref.splits prod.splits)

section \<open>The cache\<close>

record ('c, 'v) cache_ops =
  ca_get :: "int \<Rightarrow> string \<Rightarrow> 'c \<Rightarrow> 'v option"
  ca_put :: "int \<Rightarrow> string \<Rightarrow> 'v \<Rightarrow> jsnum \<Rightarrow> 'c \<Rightarrow> 'c result"
  ca_del :: "int \<Rightarrow> string \<Rightarrow> 'c \<Rightarrow> 'c"
  ca_clear :: "'c \<Rightarrow> 'c"

text \<open>
  The first argument is the current time in milliseconds. A lifetime that is not a positive
  number raises. An entry put with a positive lifetime
  is found until the lifetime is over and nothing else is found under its key, other keys are not affected by \<^verbatim>\<open>put\<close> and
  \<^verbatim>\<open>del\<close>, a deleted key is not found, and nothing is found after
  \<^verbatim>\<open>clear\<close>.
\<close>

definition put_law :: "('c, 'v) cache_ops \<Rightarrow> int \<Rightarrow> string \<Rightarrow> 'v \<Rightarrow> rat \<Rightarrow> 'c \<Rightarrow> 'c \<Rightarrow> bool" where
  "put_law ops now k v ms c c' \<longleftrightarrow>
     (\<forall>t. now \<le> t \<and> of_int (t - now) < ms \<longrightarrow> ca_get ops t k c' = Some v)
     \<and> (\<forall>t. ca_get ops t k c' = Some v \<or> ca_get ops t k c' = None)
     \<and> (\<forall>t k'. k' \<noteq> k \<longrightarrow> ca_get ops t k' c' = ca_get ops t k' c)"

definition cache_laws :: "('c, 'v) cache_ops \<Rightarrow> bool" where
  "cache_laws ops \<longleftrightarrow>
     (\<forall>now k v ms c. 0 < ms \<longrightarrow> (\<exists>c'. ca_put ops now k v (Fin ms) c = Inr c' \<and> put_law ops now k v ms c c'))
     \<and> (\<forall>now k v ms c. (\<nexists>r. ms = Fin r \<and> 0 < r) \<longrightarrow> (\<exists>e. ca_put ops now k v ms c = Inl e))
     \<and> (\<forall>now k c t. ca_get ops t k (ca_del ops now k c) = None)
     \<and> (\<forall>now k k' c t. k' \<noteq> k \<longrightarrow> ca_get ops t k' (ca_del ops now k c) = ca_get ops t k' c)
     \<and> (\<forall>k c t. ca_get ops t k (ca_clear ops c) = None)"

lemma cache_put:
  assumes "cache_laws ops" and "0 < ms"
  obtains c' where "ca_put ops now k v (Fin ms) c = Inr c'" and "put_law ops now k v ms c c'"
  using assms(1) [unfolded cache_laws_def, THEN conjunct1, rule_format, OF assms(2)] that by blast

lemma put_law_get:
  "put_law ops now k v ms c c' \<Longrightarrow> now \<le> t \<Longrightarrow> of_int (t - now) < ms \<Longrightarrow> ca_get ops t k c' = Some v"
  by (simp add: put_law_def)

lemma cache_put_Inr:
  assumes "cache_laws ops" and "ca_put ops now k v ms c = Inr c'"
  shows "ca_get ops t k c' = Some v \<or> ca_get ops t k c' = None"
    and "k' \<noteq> k \<Longrightarrow> ca_get ops t k' c' = ca_get ops t k' c"
proof -
  obtain r where r: "ms = Fin r" "0 < r"
    using assms(1) [unfolded cache_laws_def, THEN conjunct2, THEN conjunct1, rule_format, of ms now k v c]
      assms(2) by auto
  obtain c'' where c'': "ca_put ops now k v (Fin r) c = Inr c''" "put_law ops now k v r c c''"
    using cache_put [OF assms(1) r(2)] by blast
  then have "put_law ops now k v r c c'"
    using assms(2) r(1) by simp
  then show "ca_get ops t k c' = Some v \<or> ca_get ops t k c' = None"
    and "k' \<noteq> k \<Longrightarrow> ca_get ops t k' c' = ca_get ops t k' c"
    by (simp_all add: put_law_def)
qed

lemma cache_del:
  assumes "cache_laws ops"
  shows "ca_get ops t k (ca_del ops now k c) = None"
    and "k' \<noteq> k \<Longrightarrow> ca_get ops t k' (ca_del ops now k c) = ca_get ops t k' c"
  using assms by (auto simp: cache_laws_def)

lemma cache_clear: "cache_laws ops \<Longrightarrow> ca_get ops t k (ca_clear ops c) = None"
  by (simp add: cache_laws_def)

text \<open>A concrete cache: an association list of values with the time they expire at.\<close>

type_synonym 'v alist_cache = "(string \<times> 'v \<times> rat) list"

definition alist_cache :: "('v alist_cache, 'v) cache_ops" where
  "alist_cache =
     \<lparr>ca_get = (\<lambda>now k c. case map_of c k of
         Some (v, t) \<Rightarrow> if of_int now < t then Some v else None
       | None \<Rightarrow> None),
      ca_put = (\<lambda>now k v ms c. case ms of
         Fin r \<Rightarrow> if 0 < r then Inr ((k, v, of_int now + r) # c)
           else Inl (Error ''Cache timeout must be a positive number'')
       | _ \<Rightarrow> Inl (Error ''Cache timeout must be a positive number'')),
      ca_del = (\<lambda>now k c. filter (\<lambda>e. fst e \<noteq> k) c),
      ca_clear = (\<lambda>c. [])\<rparr>"

lemma alist_cache_empty [simp]: "ca_get alist_cache now k [] = None"
  by (simp add: alist_cache_def)

lemma alist_cache_put_error:
  "(\<nexists>r. ms = Fin r \<and> 0 < r) \<Longrightarrow> \<exists>e. ca_put alist_cache now k v ms c = Inl e"
  by (cases ms) (auto simp: alist_cache_def)

lemma alist_cache_put:
  assumes "0 < ms"
  shows "\<exists>c'. ca_put alist_cache now k v (Fin ms) c = Inr c' \<and> put_law alist_cache now k v ms c c'"
  using assms by (auto simp: alist_cache_def put_law_def of_int_diff algebra_simps split: option.splits)

lemma alist_cache_laws: "cache_laws alist_cache"
  unfolding cache_laws_def
  by (intro conjI allI impI alist_cache_put_error alist_cache_put)
     (auto simp: alist_cache_def map_of_filter_eq map_of_filter_neq)

end
