(* ===== verification/ZPEMatch.thy ===== *)
theory ZPEMatch
  imports Js_Regex
begin

text \<open>
  The matchers of the policy engine: \<^verbatim>\<open>ZPEMatch.js\<close> and the choice among them,
  \<^verbatim>\<open>_getMatchObject\<close> of \<^verbatim>\<open>ZPEUpdater.js\<close>. A matcher is chosen once, when
  a policy is loaded, from the shape of the pattern. The general one rewrites the pattern to the
  source text of a regular expression, which \<open>re_parse\<close> compiles and \<open>exec\<close> runs.
\<close>

section \<open>Compiling the source text of a regular expression\<close>

text \<open>
  The characters the program escapes, which include every syntax character of the language but
  \<^verbatim>\<open>*\<close>, \<^verbatim>\<open>?\<close> and \<^verbatim>\<open>/\<close>. The dot matches all but the line
  terminators.
\<close>

definition meta_chars :: string where
  "meta_chars = ''.+^$[]'' @ [CHR 0x5C] @ ''(){}|-''"

definition dot :: "char \<Rightarrow> bool" where
  "dot c = (c \<noteq> CHR 0x0A \<and> c \<noteq> CHR 0x0D)"

text \<open>
  \<^verbatim>\<open>new RegExp(src)\<close> for the constructs that occur: anchors, escaped syntax
  characters, the dot alone or under a star, and other characters, which stand for themselves.
  \<open>None\<close> is a source text outside this fragment.
\<close>

fun re_parse :: "string \<Rightarrow> regex option" where
  "re_parse [] = Some Eps"
| "re_parse (c # r) =
     (if c = CHR ''^'' then map_option (Cat Bol) (re_parse r)
      else if c = CHR ''$'' then map_option (Cat Eol) (re_parse r)
      else if c = CHR 0x5C then
        (case r of
           [] \<Rightarrow> None
         | d # r' \<Rightarrow> if d \<in> set meta_chars then map_option (Cat (Cls (\<lambda>x. x = d))) (re_parse r')
                    else None)
      else if c = CHR ''.'' then
        (case r of
           [] \<Rightarrow> map_option (Cat (Cls dot)) (re_parse r)
         | d # r' \<Rightarrow> if d = CHR ''*'' then map_option (Cat (Star (Cls dot))) (re_parse r')
                    else map_option (Cat (Cls dot)) (re_parse r))
      else if c \<in> set meta_chars \<or> c = CHR ''*'' \<or> c = CHR ''?'' then None
      else map_option (Cat (Cls (\<lambda>x. x = c))) (re_parse r))"

declare re_parse.simps(2) [simp del]

section \<open>The matchers\<close>

definition equalMatches :: "string \<Rightarrow> string \<Rightarrow> bool" where
  "equalMatches value val = (val = value)"

definition startswithMatches :: "string \<Rightarrow> string \<Rightarrow> bool" where
  "startswithMatches value val = starts_with val (substring value 0 (length value - 1))"

definition allMatches :: "string \<Rightarrow> bool" where
  "allMatches val = True"

definition escape_meta :: "string \<Rightarrow> string" where
  "escape_meta s = concat (map (\<lambda>c. if c \<in> set meta_chars then [CHR 0x5C, c] else [c]) s)"

definition regex_source :: "string \<Rightarrow> string" where
  "regex_source value =
     ''^'' @ replace_char (CHR ''*'') ''.*'' (replace_char (CHR ''?'') ''.'' (escape_meta value)) @ ''$''"

definition regexMatches :: "string \<Rightarrow> string \<Rightarrow> bool" where
  "regexMatches value val =
     (case re_parse (regex_source value) of Some r \<Rightarrow> exec r val \<noteq> None | None \<Rightarrow> False)"

text \<open>A matcher object: its kind and the pattern it was made from.\<close>

datatype match_struct = MEqual string | MStartswith string | MAll string | MRegex string

fun ms_name :: "match_struct \<Rightarrow> string" where
  "ms_name (MEqual _) = ''equal''"
| "ms_name (MStartswith _) = ''startswith''"
| "ms_name (MAll _) = ''all''"
| "ms_name (MRegex _) = ''regex''"

fun ms_matches :: "match_struct \<Rightarrow> string \<Rightarrow> bool" where
  "ms_matches (MEqual v) = equalMatches v"
| "ms_matches (MStartswith v) = startswithMatches v"
| "ms_matches (MAll v) = allMatches"
| "ms_matches (MRegex v) = regexMatches v"

definition getMatchObject :: "string \<Rightarrow> match_struct" where
  "getMatchObject value =
     (if value = ''*'' then MAll value
      else
        let anyCharMatch = index_of ''*'' value;
            singleCharMatch = index_of ''?'' value
        in if anyCharMatch = None \<and> singleCharMatch = None then MEqual value
           else if anyCharMatch = Some (length value - 1) \<and> singleCharMatch = None
             then MStartswith value
           else MRegex value)"

section \<open>Specification\<close>

text \<open>
  Patterns as their documentation describes them: \<^verbatim>\<open>*\<close> stands for any text and
  \<^verbatim>\<open>?\<close> for any character.
\<close>

fun glob :: "string \<Rightarrow> string \<Rightarrow> bool" where
  "glob [] s = (s = [])"
| "glob (c # p) [] = (c = CHR ''*'' \<and> glob p [])"
| "glob (c # p) (x # s) =
     (if c = CHR ''*'' then glob p (x # s) \<or> glob (c # p) s
      else (c = CHR ''?'' \<or> c = x) \<and> glob p s)"

definition one_line :: "string \<Rightarrow> bool" where
  "one_line s = list_all dot s"

section \<open>The matchers implement the specification\<close>

lemma glob_star: "glob (CHR ''*'' # p) s \<longleftrightarrow> (\<exists>w t. s = w @ t \<and> glob p t)"
proof (induction s)
  case Nil
  show ?case by simp
next
  case (Cons x s)
  have "(\<exists>w t. x # s = w @ t \<and> glob p t) \<longleftrightarrow> glob p (x # s) \<or> (\<exists>w t. s = w @ t \<and> glob p t)"
    by (auto simp: Cons_eq_append_conv)
  with Cons show ?case by simp
qed

lemma glob_plain:
  "c \<noteq> CHR ''*'' \<Longrightarrow> glob (c # p) s \<longleftrightarrow> (\<exists>x t. s = x # t \<and> (c = CHR ''?'' \<or> c = x) \<and> glob p t)"
  by (cases s) auto

lemma glob_literal:
  assumes "CHR ''*'' \<notin> set v" and "CHR ''?'' \<notin> set v"
  shows "glob v s \<longleftrightarrow> s = v"
  using assms
proof (induction v arbitrary: s)
  case (Cons c v)
  then show ?case by (cases s) auto
qed simp

lemma glob_prefix:
  assumes "CHR ''*'' \<notin> set v" and "CHR ''?'' \<notin> set v"
  shows "glob (v @ ''*'') s \<longleftrightarrow> prefix v s"
  using assms
proof (induction v arbitrary: s)
  case Nil
  have "glob [] []" by simp
  then show ?case by (simp add: glob_star)
next
  case (Cons c v)
  then show ?case by (cases s) auto
qed

text \<open>What a pattern character becomes in the source text.\<close>

definition re_char :: "char \<Rightarrow> string" where
  "re_char c = (if c = CHR ''*'' then ''.*'' else if c = CHR ''?'' then ''.''
     else if c \<in> set meta_chars then [CHR 0x5C, c] else [c])"

lemma meta_simps [simp]:
  "CHR ''*'' \<notin> set meta_chars" "CHR ''?'' \<notin> set meta_chars" "CHR 0x5C \<in> set meta_chars"
  "CHR ''.'' \<in> set meta_chars" "CHR ''^'' \<in> set meta_chars" "CHR ''$'' \<in> set meta_chars"
  by (simp_all add: meta_chars_def)

lemma regex_source_eq: "regex_source v = ''^'' @ concat (map re_char v) @ ''$''"
proof -
  have "replace_char (CHR ''*'') ''.*'' (replace_char (CHR ''?'') ''.'' (escape_meta v))
      = concat (map re_char v)"
    by (induction v) (auto simp: replace_char_def escape_meta_def re_char_def)
  then show ?thesis by (simp add: regex_source_def)
qed

lemma re_parse_char:
  assumes "re_parse rest = Some R" and "rest \<noteq> []" and "hd rest \<noteq> CHR ''*''"
  shows "re_parse (re_char c @ rest) = Some (Cat
    (if c = CHR ''*'' then Star (Cls dot) else if c = CHR ''?'' then Cls dot else Cls (\<lambda>x. x = c)) R)"
  using assms by (cases rest) (auto simp: re_char_def re_parse.simps(2))

lemma hd_re_chars: "concat (map re_char v) @ ''$'' \<noteq> [] \<and> hd (concat (map re_char v) @ ''$'') \<noteq> CHR ''*''"
  by (cases v) (auto simp: re_char_def)

lemma matches_Cat_nonempty:
  "matches (Cat a b) n s \<noteq> [] \<longleftrightarrow> (\<exists>t\<in>set (matches a n s). matches b n t \<noteq> [])"
  by auto

text \<open>The compiled body of a pattern matches at the start of a line exactly what it stands for.\<close>

lemma re_body:
  "\<exists>R. re_parse (concat (map re_char v) @ ''$'') = Some R
     \<and> (\<forall>n s. one_line s \<longrightarrow> (matches R n s \<noteq> [] \<longleftrightarrow> glob v s))"
proof (induction v)
  case Nil
  have "re_parse ''$'' = Some (Cat Eol Eps)"
    by (simp add: re_parse.simps(2))
  then show ?case by auto
next
  case (Cons c v)
  then obtain R where R: "re_parse (concat (map re_char v) @ ''$'') = Some R"
      and m: "\<And>n s. one_line s \<Longrightarrow> matches R n s \<noteq> [] \<longleftrightarrow> glob v s"
    by blast
  define H where
    "H = (if c = CHR ''*'' then Star (Cls dot) else if c = CHR ''?'' then Cls dot else Cls (\<lambda>x. x = c))"
  have "re_parse (concat (map re_char (c # v)) @ ''$'') = Some (Cat H R)"
    using re_parse_char [OF R] hd_re_chars by (simp add: H_def)
  moreover have "matches (Cat H R) n s \<noteq> [] \<longleftrightarrow> glob (c # v) s" if ol: "one_line s" for n s
  proof (cases "c = CHR ''*''")
    case True
    have "matches (Cat H R) n s \<noteq> [] \<longleftrightarrow> (\<exists>w t. s = w @ t \<and> (\<forall>x\<in>set w. dot x) \<and> matches R n t \<noteq> [])"
      unfolding matches_Cat_nonempty using True by (auto simp: H_def set_matches_Star_Cls)
    also have "\<dots> \<longleftrightarrow> (\<exists>w t. s = w @ t \<and> glob v t)"
    proof -
      have "(s = w @ t \<and> (\<forall>x\<in>set w. dot x) \<and> matches R n t \<noteq> []) \<longleftrightarrow> (s = w @ t \<and> glob v t)" for w t
        using ol m [of t n] by (auto simp: one_line_def list_all_iff)
      then show ?thesis by simp
    qed
    finally show ?thesis
      using True glob_star by simp
  next
    case False
    have "matches (Cat H R) n s \<noteq> [] \<longleftrightarrow>
        (\<exists>x t. s = x # t \<and> (c = CHR ''?'' \<and> dot x \<or> c \<noteq> CHR ''?'' \<and> x = c) \<and> matches R n t \<noteq> [])"
      unfolding matches_Cat_nonempty using False by (cases s) (auto simp: H_def)
    also have "\<dots> \<longleftrightarrow> glob (c # v) s"
      using ol m False by (cases s) (auto simp: one_line_def)
    finally show ?thesis .
  qed
  ultimately show ?case by blast
qed

lemma exec_Bol:
  "exec (Cat Bol R) s \<noteq> None \<longleftrightarrow> matches R (length s) s \<noteq> []"
proof -
  have later: "exec_from (Cat Bol R) n t = None" if "length t < n" for n t
    using that
  proof (induction t)
    case Nil
    then show ?case by (simp add: exec_from.simps)
  next
    case (Cons x t)
    then show ?case by (simp add: exec_from.simps [of _ n "x # t"])
  qed
  show ?thesis
  proof (cases s)
    case Nil
    then show ?thesis by (simp add: exec_def exec_from.simps split: list.splits)
  next
    case (Cons x t)
    then show ?thesis
      using later [of t "length s"]
      by (simp add: exec_def exec_from.simps [of _ _ "x # t"] split: list.splits)
  qed
qed

lemma regexMatches_glob:
  assumes "one_line s"
  shows "regexMatches v s \<longleftrightarrow> glob v s"
proof -
  obtain R where R: "re_parse (concat (map re_char v) @ ''$'') = Some R"
      and m: "\<And>n s. one_line s \<Longrightarrow> matches R n s \<noteq> [] \<longleftrightarrow> glob v s"
    using re_body by blast
  have "re_parse (regex_source v) = Some (Cat Bol R)"
    using R by (simp add: regex_source_eq re_parse.simps(2))
  then show ?thesis
    using m [OF assms] exec_Bol [of R s] by (simp add: regexMatches_def del: not_None_eq)
qed

lemma index_of_char_last:
  assumes "index_of [c] s = Some (length s - 1)"
  obtains v where "s = v @ [c]" and "c \<notin> set v"
proof -
  obtain i where i: "i = length s - 1" "index_of [c] s = Some i"
    using assms by blast
  have "prefix [c] (drop i s)"
    using index_of_Some [OF i(2)] by blast
  then obtain u where u: "drop i s = c # u"
    by (auto simp: prefix_def)
  then have "i < length s"
    by (metis drop_all list.distinct(1) not_le)
  then have "u = []"
    using i(1) arg_cong [OF u, of length] by simp
  then have s: "s = take i s @ [c]"
    using u append_take_drop_id [of i s] by simp
  moreover have "c \<notin> set (take i s)"
  proof
    assume "c \<in> set (take i s)"
    then obtain j where j: "j < i" "s ! j = c"
      by (auto simp: in_set_conv_nth)
    then have "prefix [c] (drop j s)"
      using \<open>i < length s\<close> by (simp add: Cons_nth_drop_Suc [symmetric])
    then show False
      using index_of_first [OF i(2) j(1)] by simp
  qed
  ultimately show thesis by (rule that)
qed

lemma match_glob:
  assumes "one_line s"
  shows "ms_matches (getMatchObject v) s \<longleftrightarrow> glob v s"
proof (cases "v = ''*''")
  case True
  then show ?thesis
    using glob_prefix [of "[]" s] by (simp add: getMatchObject_def allMatches_def)
next
  case False
  consider "index_of ''*'' v = None \<and> index_of ''?'' v = None"
    | "index_of ''*'' v = Some (length v - 1) \<and> index_of ''?'' v = None"
    | "getMatchObject v = MRegex v"
    using False unfolding getMatchObject_def Let_def by metis
  then show ?thesis
  proof cases
    case 1
    then show ?thesis
      using False glob_literal [of v s]
      by (simp add: getMatchObject_def equalMatches_def index_of_char_None)
  next
    case 2
    then obtain w where w: "v = w @ ''*''" "CHR ''*'' \<notin> set w"
      using index_of_char_last by blast
    moreover have "CHR ''?'' \<notin> set w"
      using 2 w by (simp add: index_of_char_None)
    ultimately show ?thesis
      using 2 False glob_prefix [of w s]
      by (simp add: getMatchObject_def startswithMatches_def starts_with_def)
  next
    case 3
    then show ?thesis
      using regexMatches_glob [OF assms] by simp
  qed
qed

text \<open>
  C19. The matcher chosen for a pattern accepts a text without line breaks exactly when the
  pattern does, \<^verbatim>\<open>*\<close> standing for any text and \<^verbatim>\<open>?\<close> for any
  character: the three special cases agree with the regular expression, and escaping makes every
  other character stand for itself.
\<close>

theorem match_object_correct:
  assumes "one_line s"
  shows "ms_matches (getMatchObject v) s \<longleftrightarrow> glob v s"
  using assms by (rule match_glob)

theorem match_object_correct_witness:
  "ms_matches (getMatchObject ''a.b*-?'') ''a.bcc-d'' \<longleftrightarrow> glob ''a.b*-?'' ''a.bcc-d''"
  by (rule match_object_correct) (simp add: one_line_def dot_def)

lemma ms_name_equal: "ms_name (getMatchObject v) = ''equal'' \<longleftrightarrow> CHR ''*'' \<notin> set v \<and> CHR ''?'' \<notin> set v"
  by (auto simp: getMatchObject_def Let_def index_of_char_None)

lemma getMatchObject_literal:
  assumes "ms_name (getMatchObject v) = ''equal''"
  shows "getMatchObject v = MEqual v" and "ms_matches (getMatchObject v) s \<longleftrightarrow> s = v"
proof -
  show "getMatchObject v = MEqual v"
    using assms by (auto simp: getMatchObject_def Let_def split: if_splits)
  then show "ms_matches (getMatchObject v) s \<longleftrightarrow> s = v"
    by (simp add: equalMatches_def)
qed

end
