(* ===== verification/ZPE_Keys.thy ===== *)
theory ZPE_Keys
  imports Js_State RoleToken ZPEMatch
begin

text \<open>
  The configuration of the policy engine (\<^verbatim>\<open>zpe/config/default-config.js\<close>), its
  key store (\<^verbatim>\<open>zpe/src/PublicKeyStore.js\<close>), the statuses of an access check, and the
  state of its modules. The file system is a parameter that gives the JSON value a file holds:
  a file that is missing or is not JSON raises.
\<close>

section \<open>Configuration\<close>

definition zpe_config_section :: "string \<Rightarrow> config" where
  "zpe_config_section logLevel =
     [(''logLevel'', JStr logLevel),
      (''policyDir'', JStr ''/home/athenz/var/zpe''),
      (''confFileName'', JStr ''/home/athenz/conf/athenz/athenz.conf''),
      (''tokenRefresh'', JNum (Fin 1800)),
      (''policyRefresh'', JNum (Fin 1800)),
      (''allowedOffset'', JNum (Fin 300)),
      (''disableCache'', JBool False),
      (''updater'', JStr ''./ZPEUpdater''),
      (''disableWatch'', JBool True)]"

definition zpe_config_table :: "(string \<times> config) list" where
  "zpe_config_table =
     [(''development'', zpe_config_section ''debug''), (''production'', zpe_config_section ''info'')]"

definition zpe_default_config :: "string jsref \<Rightarrow> config result" where
  "zpe_default_config service_name =
     (case map_of zpe_config_table (str_or service_name ''development'') of
        None \<Rightarrow> Inl (TypeError ''logLevel'')
      | Some c \<Rightarrow> Inr (
          (default_to ''disableWatch'' (JBool False) \<circ>
           default_to ''updater'' (JStr ''./ZPEUpdater'') \<circ>
           default_to ''disableCache'' (JBool False) \<circ>
           default_to ''allowedOffset'' (JNum (Fin 300)) \<circ>
           default_to ''policyRefresh'' (JNum (Fin 1800)) \<circ>
           default_to ''tokenRefresh'' (JNum (Fin 1800)) \<circ>
           default_to ''confFileName'' (JStr ''/home/athenz/conf/athenz/athenz.conf'') \<circ>
           default_to ''policyDir'' (JStr ''/home/athenz/var/zpe'') \<circ>
           default_to ''logLevel'' (JStr ''debug'')) c))"

section \<open>The key store\<close>

record public_key_store =
  ks_zts :: "byte list jsobj"
  ks_zms :: "byte list jsobj"

text \<open>One item of a key list: skipped unless it has an id and a key.\<close>

definition load_key :: "(string \<Rightarrow> byte list) \<Rightarrow> jsval \<Rightarrow> byte list jsobj \<Rightarrow> byte list jsobj result" where
  "load_key lenient publicKey keyMap =
     bind_result (get_prop publicKey ''id'') (\<lambda>id.
     bind_result (get_prop publicKey ''key'') (\<lambda>key.
       if \<not> truthy id \<or> \<not> truthy key then Inr keyMap
       else bind_result (ybase64Decode lenient (ref_of_val key)) (\<lambda>pubKey.
         Inr (obj_put (js_text id) pubKey keyMap))))"

definition loadPublicKey ::
  "(string \<Rightarrow> byte list) \<Rightarrow> jsval \<Rightarrow> byte list jsobj \<Rightarrow> byte list jsobj result" where
  "loadPublicKey lenient publicKeys keyMap =
     (if \<not> truthy publicKeys then Inr keyMap
      else bind_result (iterate publicKeys) (\<lambda>ks. fold_result (load_key lenient) ks keyMap))"

definition conf_file :: "config \<Rightarrow> string jsref \<Rightarrow> string" where
  "conf_file config rootDir =
     (if truthy (obj_get config ''confFileName'') then js_text (obj_get config ''confFileName'')
      else str_or rootDir ''/home/athenz'' @ ''/conf/athenz/athenz.conf'')"

definition PublicKeyStore_new ::
  "(string \<Rightarrow> byte list) \<Rightarrow> (string \<Rightarrow> jsval result) \<Rightarrow> config \<Rightarrow> string jsref \<Rightarrow> public_key_store result" where
  "PublicKeyStore_new lenient read_json config rootDir =
     bind_result (read_json (conf_file config rootDir)) (\<lambda>conf.
     bind_result (get_prop conf ''zmsPublicKeys'') (\<lambda>zms.
     bind_result (loadPublicKey lenient zms []) (\<lambda>zmsMap.
     bind_result (get_prop conf ''ztsPublicKeys'') (\<lambda>zts.
     bind_result (loadPublicKey lenient zts []) (\<lambda>ztsMap.
       Inr \<lparr>ks_zts = ztsMap, ks_zms = zmsMap\<rparr>)))))"

text \<open>
  \<^verbatim>\<open>keyMap[keyId]\<close>: the maps are plain objects, so a key id that is the name of an
  inherited property finds that property.
\<close>

definition key_in_map :: "byte list jsobj \<Rightarrow> jsval \<Rightarrow> jskey jsref" where
  "key_in_map keyMap keyId =
     (case map_of keyMap (js_text keyId) of
        Some b \<Rightarrow> Val (KeyBuf b)
      | None \<Rightarrow> if js_text keyId \<in> set proto_keys then Val (KeyProto (js_text keyId)) else Undefined)"

definition getZtsKey :: "jsval \<Rightarrow> public_key_store \<Rightarrow> jskey jsref" where
  "getZtsKey keyId pks = (if \<not> truthy keyId then Null else key_in_map (ks_zts pks) keyId)"

definition getZmsKey :: "jsval \<Rightarrow> public_key_store \<Rightarrow> jskey jsref" where
  "getZmsKey keyId pks = (if \<not> truthy keyId then Null else key_in_map (ks_zms pks) keyId)"

section \<open>Statuses\<close>

datatype access_status =
    ALLOW | DENY | DENY_NO_MATCH | DENY_ROLETOKEN_EXPIRED | DENY_ROLETOKEN_INVALID
  | DENY_DOMAIN_MISMATCH | DENY_DOMAIN_NOT_FOUND | DENY_DOMAIN_EXPIRED | DENY_DOMAIN_EMPTY
  | DENY_INVALID_PARAMETERS

fun status_text :: "access_status \<Rightarrow> string" where
  "status_text ALLOW = ''Access Check was explicitly allowed''"
| "status_text DENY = ''Access Check was explicitly denied''"
| "status_text DENY_NO_MATCH =
     ''Access denied due to no match to any of the assertions defined in domain policy file''"
| "status_text DENY_ROLETOKEN_EXPIRED = ''Access denied due to expired RoleToken''"
| "status_text DENY_ROLETOKEN_INVALID = ''Access denied due to invalid RoleToken''"
| "status_text DENY_DOMAIN_MISMATCH =
     ''Access denied due to domain mismatch between Resource and RoleToken''"
| "status_text DENY_DOMAIN_NOT_FOUND = ''Access denied due to domain not found in library cache''"
| "status_text DENY_DOMAIN_EXPIRED = ''Access denied due to expired domain policy file''"
| "status_text DENY_DOMAIN_EMPTY = ''Access denied due to no policies in the domain file''"
| "status_text DENY_INVALID_PARAMETERS =
     ''Access denied due to invalid/empty action/resource values''"

section \<open>What a loaded key map holds\<close>

text \<open>An item as the configuration file lists it.\<close>

definition key_entry :: "string \<times> byte list \<Rightarrow> jsval" where
  "key_entry p = JObj [(''id'', JStr (fst p)), (''key'', JStr (ybase64Encode (Buf (snd p))))]"

lemma load_key_entry:
  "fst p \<noteq> [] \<Longrightarrow> snd p \<noteq> [] \<Longrightarrow> load_key lenient (key_entry p) km = Inr (obj_put (fst p) (snd p) km)"
  using ybase64_round_trip_Buf [of lenient "snd p"]
  by (simp add: load_key_def key_entry_def ref_of_val_def ybase64Encode_Buf base64_encode_not_Nil)

lemma load_key_entries:
  assumes "\<forall>p\<in>set ps. fst p \<noteq> [] \<and> snd p \<noteq> []"
  shows "\<exists>m. fold_result (load_key lenient) (map key_entry ps) km = Inr m \<and> map_of m = map_of km ++ map_of (rev ps)"
  using assms
proof (induction ps arbitrary: km)
  case (Cons p ps)
  then obtain m where "fold_result (load_key lenient) (map key_entry ps) (obj_put (fst p) (snd p) km) = Inr m"
      "map_of m = map_of (obj_put (fst p) (snd p) km) ++ map_of (rev ps)"
    by auto
  then show ?case
    using Cons.prems by (cases p) (auto simp: load_key_entry map_of_obj_put map_add_def fun_eq_iff
        split: option.splits)
qed simp

text \<open>
  The key store finds, under the id of a listed key, the bytes that the configuration file
  holds encoded for it; when an id is listed more than once the last entry counts.
\<close>

theorem key_store_lookup:
  assumes "\<forall>p\<in>set zts. fst p \<noteq> [] \<and> snd p \<noteq> []" and "\<forall>p\<in>set zms. fst p \<noteq> [] \<and> snd p \<noteq> []"
    and "read_json (conf_file config rootDir) = Inr (JObj
           [(''zmsPublicKeys'', JArr (map key_entry zms)), (''ztsPublicKeys'', JArr (map key_entry zts))])"
  shows "\<exists>pks. PublicKeyStore_new lenient read_json config rootDir = Inr pks
    \<and> (\<forall>id b. map_of (rev zts) id = Some b \<longrightarrow> getZtsKey (JStr id) pks = Val (KeyBuf b))
    \<and> (\<forall>id b. map_of (rev zms) id = Some b \<longrightarrow> getZmsKey (JStr id) pks = Val (KeyBuf b))"
proof -
  obtain m1 where m1: "fold_result (load_key lenient) (map key_entry zms) [] = Inr m1" "map_of m1 = map_of (rev zms)"
    using load_key_entries [OF assms(2), of lenient "[]"] by auto
  obtain m2 where m2: "fold_result (load_key lenient) (map key_entry zts) [] = Inr m2" "map_of m2 = map_of (rev zts)"
    using load_key_entries [OF assms(1), of lenient "[]"] by auto
  have "PublicKeyStore_new lenient read_json config rootDir = Inr \<lparr>ks_zts = m2, ks_zms = m1\<rparr>"
    by (simp add: PublicKeyStore_new_def assms(3) loadPublicKey_def m1 m2)
  moreover have "id \<noteq> []" if "map_of (rev zs) id = Some b" "\<forall>p\<in>set zs. fst p \<noteq> [] \<and> snd p \<noteq> []"
    for zs :: "(string \<times> byte list) list" and id b
    using that by (fastforce dest!: map_of_SomeD)
  ultimately show ?thesis
    using assms(1,2) m1(2) m2(2) by (auto simp: getZtsKey_def getZmsKey_def key_in_map_def)
qed

theorem key_store_lookup_witness:
  "\<exists>pks. PublicKeyStore_new (\<lambda>_. []) (\<lambda>_. Inr (JObj [(''zmsPublicKeys'', JArr (map key_entry [])),
       (''ztsPublicKeys'', JArr (map key_entry [(''0'', [1, 2]), (''0'', [3])]))])) [] Undefined = Inr pks
     \<and> getZtsKey (JStr ''0'') pks = Val (KeyBuf [3])"
  using key_store_lookup [of "[(''0'', [1, 2]), (''0'', [3])]" "[]"
      "\<lambda>_. Inr (JObj [(''zmsPublicKeys'', JArr (map key_entry [])),
       (''ztsPublicKeys'', JArr (map key_entry [(''0'', [1, 2]), (''0'', [3])]))])" "[]" Undefined "\<lambda>_. []"]
  by auto

end
