(* ===== verification/ZPEUpdater.thy ===== *)
theory ZPEUpdater
  imports ZPE_Keys "HOL-Library.Multiset"
begin

text \<open>
  The class \<^verbatim>\<open>zpe/src/ZPEUpdater.js\<close>: it reads signed policy files, checks their
  two signatures and puts the assertions of a domain in the cache, sorted into four maps. The
  module variables \<^verbatim>\<open>_roleCache\<close> and \<^verbatim>\<open>_policyCache\<close> are
  one object, the cache that \<^verbatim>\<open>memory-cache\<close> exports, hence the one field
  \<open>zm_cache\<close>. The class calls back its client for public keys and for
  \<^verbatim>\<open>stripDomainPrefix\<close>; the client sets itself when it initializes, and its own
  call of \<^verbatim>\<open>init\<close> there does nothing once it has. A policy value that should be a
  string and is not raises here; in the program an array would pass some of the checks.
\<close>

section \<open>State\<close>

record zpe_assert =
  as_polname :: jsval
  as_action :: string
  as_actionMatchStruct :: match_struct
  as_resource :: string
  as_resourceMatchStruct :: match_struct
  as_role :: string
  as_roleMatchStruct :: match_struct

type_synonym role_map = "zpe_assert list jsobj"

record role_maps =
  standardRoleAllowMap :: role_map
  wildcardRoleAllowMap :: role_map
  standardRoleDenyMap :: role_map
  wildcardRoleDenyMap :: role_map

datatype zpe_cached = CachedToken role_token | CachedPolicy role_maps

record 'c zpe_module =
  zm_config :: config
  zm_keyConfig :: config
  zm_updaterConfig :: config
  zm_publicKeyStore :: "public_key_store jsref"
  zm_allowedOffset :: jsnum
  zm_initialized :: bool
  zm_client :: bool
  zm_watcher :: bool
  zm_cache :: 'c
  zm_token :: token_module

text \<open>The platform: crypto library, environment, file system, directory watcher and cache.\<close>

record 'c zpe_env =
  ze_crypto :: node_crypto
  ze_root :: "string jsref"
  ze_read_json :: "string \<Rightarrow> jsval result"
  ze_readdir :: "string \<Rightarrow> string list result"
  ze_watch :: "string \<Rightarrow> bool"
  ze_cache :: "('c, zpe_cached) cache_ops"

section \<open>Canonical text of a signed value\<close>

definition deleteEndSeparator :: "string \<Rightarrow> string" where
  "deleteEndSeparator str = (if str \<noteq> [] \<and> last str = CHR '','' then butlast str else str)"

fun all_results :: "(string \<times> string result) list \<Rightarrow> (string \<times> string) list result" where
  "all_results [] = Inr []"
| "all_results ((k, r) # rs) =
     bind_result r (\<lambda>c. bind_result (all_results rs) (\<lambda>cs. Inr ((k, c) # cs)))"

definition member_text :: "string \<times> string \<Rightarrow> string" where
  "member_text p = CHR 0x22 # fst p @ [CHR 0x22, CHR '':''] @ snd p @ '',''"

text \<open>
  Objects list their keys in order; \<^verbatim>\<open>null\<close> counts as an object and raises;
  booleans have no text.
\<close>

fun asCanonicalString :: "jsval \<Rightarrow> string result" where
  "asCanonicalString (JObj kvs) =
     bind_result (all_results (sort_key fst (map (\<lambda>(k, v). (k, asCanonicalString v)) kvs)))
       (\<lambda>ps. Inr (deleteEndSeparator (''{'' @ concat (map member_text ps)) @ ''}''))"
| "asCanonicalString (JArr vs) =
     bind_result (all_results (map (\<lambda>v. ([], asCanonicalString v)) vs))
       (\<lambda>ps. Inr (deleteEndSeparator (''['' @ concat (map (\<lambda>p. snd p @ '','') ps)) @ '']''))"
| "asCanonicalString JNull = Inl (TypeError ''Object.keys'')"
| "asCanonicalString (JStr s) = Inr (CHR 0x22 # s @ [CHR 0x22])"
| "asCanonicalString (JNum n) = Inr (num_text n)"
| "asCanonicalString (JBool b) = Inr []"
| "asCanonicalString JUndef = Inr []"

section \<open>From policies to assertion maps\<close>

text \<open>\<^verbatim>\<open>AuthZPEClient.stripDomainPrefix\<close>\<close>

definition stripDomainPrefix :: "string \<Rightarrow> jsval \<Rightarrow> string jsref \<Rightarrow> string jsref" where
  "stripDomainPrefix assertString domain defaultValue =
     (case index_of '':'' assertString of
        None \<Rightarrow> Val assertString
      | Some i \<Rightarrow>
          if JStr (substring assertString 0 i) \<noteq> domain then defaultValue
          else Val (substring_from assertString (i + 1)))"

definition str_of_val :: "jsval \<Rightarrow> string result" where
  "str_of_val v = (case v of JStr s \<Rightarrow> Inr s | _ \<Rightarrow> Inl (TypeError ''indexOf''))"

definition strip_own :: "jsval \<Rightarrow> string \<Rightarrow> string" where
  "strip_own domain s = ref_text (stripDomainPrefix s domain (Val s))"

text \<open>\<^verbatim>\<open>role.replace(/^role\./, '')\<close>\<close>

definition strip_role :: "string \<Rightarrow> string" where
  "strip_role r = (if starts_with r ''role.'' then drop 5 r else r)"

definition read_assertion :: "jsval \<Rightarrow> jsval \<Rightarrow> jsval \<Rightarrow> (bool \<times> zpe_assert) result" where
  "read_assertion domainName pname assertion =
     bind_result (bind_result (get_prop assertion ''action'') str_of_val) (\<lambda>action.
     bind_result (bind_result (get_prop assertion ''resource'') str_of_val) (\<lambda>resource.
     bind_result (bind_result (get_prop assertion ''role'') str_of_val) (\<lambda>role.
     bind_result (get_prop assertion ''effect'') (\<lambda>effect.
       let res = strip_own domainName resource;
           rol = strip_role (strip_own domainName role)
       in Inr (effect = JStr ''DENY'',
            \<lparr>as_polname = pname,
             as_action = action, as_actionMatchStruct = getMatchObject action,
             as_resource = res, as_resourceMatchStruct = getMatchObject res,
             as_role = rol, as_roleMatchStruct = getMatchObject rol\<rparr>)))))"

text \<open>
  \<^verbatim>\<open>roleMap[role]\<close> of a plain object also finds inherited properties, which have
  no \<^verbatim>\<open>push\<close>.
\<close>

definition push_assert :: "zpe_assert \<Rightarrow> role_map \<Rightarrow> role_map result" where
  "push_assert a roleMap =
     (case map_of roleMap (as_role a) of
        Some assertList \<Rightarrow> Inr (obj_put (as_role a) (assertList @ [a]) roleMap)
      | None \<Rightarrow>
          if as_role a \<in> set proto_keys then Inl (TypeError ''push'')
          else Inr (obj_put (as_role a) [a] roleMap))"

definition add_assertion :: "bool \<times> zpe_assert \<Rightarrow> role_maps \<Rightarrow> role_maps result" where
  "add_assertion da rm =
     (let (deny, a) = da;
          equal = (ms_name (as_roleMatchStruct a) = ''equal'')
      in if deny
         then (if equal
               then bind_result (push_assert a (standardRoleDenyMap rm))
                      (\<lambda>m. Inr (rm\<lparr>standardRoleDenyMap := m\<rparr>))
               else bind_result (push_assert a (wildcardRoleDenyMap rm))
                      (\<lambda>m. Inr (rm\<lparr>wildcardRoleDenyMap := m\<rparr>)))
         else (if equal
               then bind_result (push_assert a (standardRoleAllowMap rm))
                      (\<lambda>m. Inr (rm\<lparr>standardRoleAllowMap := m\<rparr>))
               else bind_result (push_assert a (wildcardRoleAllowMap rm))
                      (\<lambda>m. Inr (rm\<lparr>wildcardRoleAllowMap := m\<rparr>))))"

definition load_assertion :: "jsval \<Rightarrow> jsval \<Rightarrow> jsval \<Rightarrow> role_maps \<Rightarrow> role_maps result" where
  "load_assertion domainName pname assertion rm =
     bind_result (read_assertion domainName pname assertion) (\<lambda>da. add_assertion da rm)"

definition load_policy :: "jsval \<Rightarrow> jsval \<Rightarrow> role_maps \<Rightarrow> role_maps result" where
  "load_policy domainName policy rm =
     bind_result (get_prop policy ''assertions'') (\<lambda>assertions.
     bind_result (get_prop policy ''name'') (\<lambda>pname.
       if \<not> truthy assertions then Inr rm
       else bind_result (iterate assertions) (\<lambda>as.
         fold_result (load_assertion domainName pname) as rm)))"

definition empty_maps :: role_maps where
  "empty_maps = \<lparr>standardRoleAllowMap = [], wildcardRoleAllowMap = [], standardRoleDenyMap = [],
     wildcardRoleDenyMap = []\<rparr>"

definition build_maps :: "jsval \<Rightarrow> (jsval \<times> role_maps) result" where
  "build_maps policyData =
     bind_result (get_prop policyData ''domain'') (\<lambda>domainName.
     bind_result (get_prop policyData ''policies'') (\<lambda>policies.
     bind_result (iterate policies) (\<lambda>ps.
     bind_result (fold_result (load_policy domainName) ps empty_maps) (\<lambda>rm.
       Inr (domainName, rm)))))"

section \<open>Loading\<close>

definition loadPolicies :: "'c zpe_env \<Rightarrow> int \<Rightarrow> jsval \<Rightarrow> ('c zpe_module, unit) action" where
  "loadPolicies env now policyData =
     bind_action (lift_result (build_maps policyData)) (\<lambda>(domainName, rm).
     bind_action (read_state (\<lambda>z. z)) (\<lambda>z.
     bind_action (lift_result (ca_put (ze_cache env) now (js_text domainName) (CachedPolicy rm)
         (millis (obj_get (zm_updaterConfig z) ''policyRefresh'')) (zm_cache z))) (\<lambda>c.
       update_state (\<lambda>z. z\<lparr>zm_cache := c\<rparr>))))"

text \<open>The client's \<^verbatim>\<open>getZtsPublicKey\<close> and \<^verbatim>\<open>getZmsPublicKey\<close>.\<close>

definition client_key ::
  "(public_key_store \<Rightarrow> jskey jsref) \<Rightarrow> ('c zpe_module, jskey jsref) action" where
  "client_key getKey =
     bind_action (read_state (\<lambda>z. z)) (\<lambda>z.
       if \<not> zm_client z then throw (TypeError ''getPublicKey'')
       else (case zm_publicKeyStore z of
               Val pks \<Rightarrow> ret (getKey pks)
             | _ \<Rightarrow> throw (TypeError ''getKey'')))"

text \<open>One of the two signature checks of a file.\<close>

definition verify_value ::
  "'c zpe_env \<Rightarrow> (public_key_store \<Rightarrow> jskey jsref) \<Rightarrow> jsval \<Rightarrow> jsval \<Rightarrow> ('c zpe_module, bool) action" where
  "verify_value env getKey value signature =
     bind_action (client_key getKey) (\<lambda>pubKey.
     bind_action (lift_result (asCanonicalString value)) (\<lambda>canonical.
       lift_result (Crypto_verify (ze_crypto env) canonical pubKey (ref_of_val signature) ''SHA256'')))"

text \<open>The rest of \<^verbatim>\<open>_loadFile\<close> once the ZTS signature is verified.\<close>

definition load_zts_signed :: "'c zpe_env \<Rightarrow> int \<Rightarrow> jsval \<Rightarrow> ('c zpe_module, unit) action" where
  "load_zts_signed env now signedPolicyData =
     bind_action (lift_result (get_prop signedPolicyData ''policyData'')) (\<lambda>policyData.
     bind_action (lift_result (get_prop signedPolicyData ''zmsSignature'')) (\<lambda>signature.
     bind_action (lift_result (get_prop signedPolicyData ''zmsKeyId'')) (\<lambda>keyId.
     bind_action
       (if truthy policyData then verify_value env (getZmsKey keyId) policyData signature
        else ret True) (\<lambda>verified.
       if \<not> verified then ret () else loadPolicies env now policyData))))"

definition loadFile :: "'c zpe_env \<Rightarrow> int \<Rightarrow> string \<Rightarrow> string \<Rightarrow> ('c zpe_module, unit) action" where
  "loadFile env now polDir fileName =
     bind_action (lift_result (ze_read_json env (polDir @ ''/'' @ fileName))) (\<lambda>spols.
       if \<not> truthy spols then ret ()
       else
         bind_action (lift_result (get_prop spols ''signedPolicyData'')) (\<lambda>signedPolicyData.
         bind_action (lift_result (get_prop spols ''signature'')) (\<lambda>signature.
         bind_action (lift_result (get_prop spols ''keyId'')) (\<lambda>keyId.
         bind_action
           (if truthy signedPolicyData
            then verify_value env (getZtsKey keyId) signedPolicyData signature
            else ret False) (\<lambda>verified.
           if \<not> verified then ret () else load_zts_signed env now signedPolicyData)))))"

definition loadFiles :: "'c zpe_env \<Rightarrow> int \<Rightarrow> string \<Rightarrow> ('c zpe_module, unit) action" where
  "loadFiles env now polDir =
     bind_action (lift_result (ze_readdir env polDir)) (\<lambda>names.
       each (loadFile env now polDir) (filter (\<lambda>fileName. ends_with fileName ''.pol'') names))"

section \<open>Lookup\<close>

text \<open>
  \<^verbatim>\<open>_lookupPolicyInCache\<close>: \<open>None\<close> is the empty object, which has none of the
  four maps; neither has a role token that the shared cache holds under the name.
\<close>

definition lookupPolicyInCache ::
  "'c zpe_env \<Rightarrow> int \<Rightarrow> string \<Rightarrow> ('c zpe_module, role_maps option) action" where
  "lookupPolicyInCache env now domain =
     bind_action (read_state (\<lambda>z. ca_get (ze_cache env) now domain (zm_cache z))) (\<lambda>roleMap.
     bind_action
       (if roleMap = None
        then bind_action (read_state zm_updaterConfig) (\<lambda>config.
               loadFiles env now (js_text (obj_get config ''policyDir'')))
        else ret ()) (\<lambda>_.
     bind_action (read_state (\<lambda>z. ca_get (ze_cache env) now domain (zm_cache z))) (\<lambda>roleMap.
       ret (case roleMap of Some (CachedPolicy rm) \<Rightarrow> Some rm | _ \<Rightarrow> None))))"

definition getWildcardAllowAssertions ::
  "'c zpe_env \<Rightarrow> int \<Rightarrow> string \<Rightarrow> ('c zpe_module, role_map option) action" where
  "getWildcardAllowAssertions env now domain =
     bind_action (lookupPolicyInCache env now domain) (\<lambda>rm. ret (map_option wildcardRoleAllowMap rm))"

definition getRoleAllowAssertions ::
  "'c zpe_env \<Rightarrow> int \<Rightarrow> string \<Rightarrow> ('c zpe_module, role_map option) action" where
  "getRoleAllowAssertions env now domain =
     bind_action (lookupPolicyInCache env now domain) (\<lambda>rm. ret (map_option standardRoleAllowMap rm))"

definition getWildcardDenyAssertions ::
  "'c zpe_env \<Rightarrow> int \<Rightarrow> string \<Rightarrow> ('c zpe_module, role_map option) action" where
  "getWildcardDenyAssertions env now domain =
     bind_action (lookupPolicyInCache env now domain) (\<lambda>rm. ret (map_option wildcardRoleDenyMap rm))"

definition getRoleDenyAssertions ::
  "'c zpe_env \<Rightarrow> int \<Rightarrow> string \<Rightarrow> ('c zpe_module, role_map option) action" where
  "getRoleDenyAssertions env now domain =
     bind_action (lookupPolicyInCache env now domain) (\<lambda>rm. ret (map_option standardRoleDenyMap rm))"

section \<open>Watching and closing\<close>

definition ZPEUpdater_setConfig :: "config \<Rightarrow> 'c zpe_module \<Rightarrow> 'c zpe_module" where
  "ZPEUpdater_setConfig overrides z = z\<lparr>zm_updaterConfig := set_config (zm_updaterConfig z) overrides\<rparr>"

definition setZPEClient :: "'c zpe_module \<Rightarrow> 'c zpe_module" where
  "setZPEClient z = z\<lparr>zm_client := True\<rparr>"

text \<open>When the directory cannot be watched, the watcher of an earlier call is closed, if any.\<close>

definition watchPolicyDir :: "'c zpe_env \<Rightarrow> ('c zpe_module, unit) action" where
  "watchPolicyDir env =
     bind_action (read_state (\<lambda>z. z)) (\<lambda>z.
       if ze_watch env (js_text (obj_get (zm_updaterConfig z) ''policyDir''))
       then update_state (\<lambda>z. z\<lparr>zm_watcher := True\<rparr>)
       else if zm_watcher z then ret ()
       else throw (TypeError ''close''))"

text \<open>The watcher's callback; \<open>exists\<close> is what \<^verbatim>\<open>fs.existsSync\<close> answers.\<close>

definition watch_event ::
  "'c zpe_env \<Rightarrow> int \<Rightarrow> bool \<Rightarrow> string \<Rightarrow> string \<Rightarrow> ('c zpe_module, unit) action" where
  "watch_event env now exists ev fileName =
     (if exists \<and> ev = ''change''
      then bind_action (read_state zm_updaterConfig) (\<lambda>config.
             loadFile env now (js_text (obj_get config ''policyDir'')) fileName)
      else ret ())"

definition closeWatcher :: "('c zpe_module, unit) action" where
  "closeWatcher =
     bind_action (read_state zm_watcher) (\<lambda>w. if \<not> w then throw (TypeError ''close'') else ret ())"

definition ZPEUpdater_close :: "'c zpe_env \<Rightarrow> 'c zpe_module \<Rightarrow> 'c zpe_module" where
  "ZPEUpdater_close env z =
     z\<lparr>zm_cache := ca_clear (ze_cache env) (ca_clear (ze_cache env) (zm_cache z))\<rparr>"

section \<open>What the four maps hold\<close>

text \<open>
  The assertions of a policy document in the order they are read, each with its effect: what the
  maps are made from.
\<close>

definition read_policy :: "jsval \<Rightarrow> jsval \<Rightarrow> (bool \<times> zpe_assert) list result" where
  "read_policy domainName policy =
     bind_result (get_prop policy ''assertions'') (\<lambda>assertions.
     bind_result (get_prop policy ''name'') (\<lambda>pname.
       if \<not> truthy assertions then Inr []
       else bind_result (iterate assertions) (map_result (read_assertion domainName pname))))"

definition read_policies :: "jsval \<Rightarrow> (jsval \<times> (bool \<times> zpe_assert) list) result" where
  "read_policies policyData =
     bind_result (get_prop policyData ''domain'') (\<lambda>domainName.
     bind_result (get_prop policyData ''policies'') (\<lambda>policies.
     bind_result (iterate policies) (\<lambda>ps.
     bind_result (map_result (read_policy domainName) ps) (\<lambda>dass. Inr (domainName, concat dass)))))"

text \<open>A map lists, under each role, the assertions of that role in order.\<close>

definition map_holds :: "zpe_assert list \<Rightarrow> role_map \<Rightarrow> bool" where
  "map_holds as m \<longleftrightarrow> distinct (obj_keys m) \<and>
     (\<forall>r. map_of m r = (let l = filter (\<lambda>a. as_role a = r) as in if l = [] then None else Some l))"

definition select :: "bool \<Rightarrow> bool \<Rightarrow> (bool \<times> zpe_assert) list \<Rightarrow> zpe_assert list" where
  "select deny equal das =
     map snd (filter (\<lambda>(d, a). d = deny \<and> (ms_name (as_roleMatchStruct a) = ''equal'') = equal) das)"

definition maps_hold :: "(bool \<times> zpe_assert) list \<Rightarrow> role_maps \<Rightarrow> bool" where
  "maps_hold das rm \<longleftrightarrow>
     map_holds (select False True das) (standardRoleAllowMap rm)
     \<and> map_holds (select False False das) (wildcardRoleAllowMap rm)
     \<and> map_holds (select True True das) (standardRoleDenyMap rm)
     \<and> map_holds (select True False das) (wildcardRoleDenyMap rm)"

lemma map_holds_get:
  "map_holds as m \<Longrightarrow> map_of m r = Some l \<longleftrightarrow> l \<noteq> [] \<and> l = filter (\<lambda>a. as_role a = r) as"
  by (auto simp: map_holds_def Let_def)

lemma push_assert_holds:
  assumes "map_holds as m" and "push_assert a m = Inr m'"
  shows "map_holds (as @ [a]) m'"
proof -
  have get: "map_of m (as_role a) = (let l = filter (\<lambda>b. as_role b = as_role a) as in
      if l = [] then None else Some l)"
    using assms(1) by (simp add: map_holds_def)
  have m': "m' = obj_put (as_role a) (filter (\<lambda>b. as_role b = as_role a) as @ [a]) m"
    using assms(2) get by (auto simp: push_assert_def Let_def split: option.splits if_splits)
  show ?thesis
    using assms(1) by (auto simp: map_holds_def m' map_of_obj_put distinct_obj_put Let_def)
qed

lemma push_assert_total: "as_role a \<notin> set proto_keys \<Longrightarrow> \<exists>m'. push_assert a m = Inr m'"
  by (simp add: push_assert_def split: option.splits)

lemma select_snoc:
  "select deny equal (das @ [(d, a)]) = select deny equal das
     @ (if d = deny \<and> (ms_name (as_roleMatchStruct a) = ''equal'') = equal then [a] else [])"
  by (auto simp: select_def)

lemma add_assertion_holds:
  assumes "maps_hold das rm" and "add_assertion da rm = Inr rm'"
  shows "maps_hold (das @ [da]) rm'"
proof -
  obtain d a where da: "da = (d, a)" by force
  show ?thesis
    using assms push_assert_holds unfolding da maps_hold_def select_snoc add_assertion_def
    by (auto simp: bind_result_Inr_iff Let_def split: if_splits)
qed

lemma add_assertion_total:
  assumes "as_role (snd da) \<notin> set proto_keys"
  shows "\<exists>rm'. add_assertion da rm = Inr rm'"
proof -
  obtain d a where da: "da = (d, a)" by force
  have "\<exists>rm'. bind_result (push_assert a m) (\<lambda>m. Inr (f m)) = Inr rm'" for m and f :: "role_map \<Rightarrow> role_maps"
    using push_assert_total [of a m] assms da by auto
  then show ?thesis
    by (cases d; cases "ms_name (as_roleMatchStruct a) = ''equal''")
       (simp_all add: add_assertion_def da)
qed

text \<open>The loops over assertions and over policies, against the list that is read.\<close>

lemma load_assertions_holds:
  assumes "fold_result (load_assertion d p) vs rm = Inr rm'" and "maps_hold das rm"
  shows "\<exists>das'. map_result (read_assertion d p) vs = Inr das' \<and> maps_hold (das @ das') rm'"
  using assms
proof (induction vs arbitrary: rm das)
  case (Cons v vs)
  then obtain rm1 where one: "load_assertion d p v rm = Inr rm1"
      and rest: "fold_result (load_assertion d p) vs rm1 = Inr rm'"
    by (auto simp: bind_result_Inr_iff)
  from one obtain da where "read_assertion d p v = Inr da" "add_assertion da rm = Inr rm1"
    by (auto simp: load_assertion_def bind_result_def split: sum.splits)
  moreover from this have "maps_hold (das @ [da]) rm1"
    using Cons.prems(2) add_assertion_holds by blast
  ultimately show ?case
    using Cons.IH [OF rest] by fastforce
qed simp

lemma load_policy_holds:
  assumes "load_policy d policy rm = Inr rm'" and "maps_hold das rm"
  shows "\<exists>das'. read_policy d policy = Inr das' \<and> maps_hold (das @ das') rm'"
proof -
  obtain as pname where as: "get_prop policy ''assertions'' = Inr as" "get_prop policy ''name'' = Inr pname"
    using assms(1) by (auto simp: load_policy_def bind_result_Inr_iff)
  show ?thesis
  proof (cases "truthy as")
    case True
    then obtain vs where "iterate as = Inr vs" "fold_result (load_assertion d pname) vs rm = Inr rm'"
      using assms(1) as by (auto simp: load_policy_def bind_result_Inr_iff)
    then show ?thesis
      using as True load_assertions_holds [OF _ assms(2)] by (auto simp: read_policy_def)
  next
    case False
    then show ?thesis
      using assms as by (simp add: load_policy_def read_policy_def)
  qed
qed

lemma load_policies_holds:
  assumes "fold_result (load_policy d) ps rm = Inr rm'" and "maps_hold das rm"
  shows "\<exists>dass. map_result (read_policy d) ps = Inr dass \<and> maps_hold (das @ concat dass) rm'"
  using assms
proof (induction ps arbitrary: rm das)
  case (Cons p ps)
  then obtain rm1 where first: "load_policy d p rm = Inr rm1"
      and rest: "fold_result (load_policy d) ps rm1 = Inr rm'"
    by (auto simp: bind_result_Inr_iff)
  obtain das' where das': "read_policy d p = Inr das'" "maps_hold (das @ das') rm1"
    using load_policy_holds [OF first Cons.prems(2)] by blast
  then show ?case
    using Cons.IH [OF rest das'(2)] by auto
qed simp

lemma build_maps_holds:
  assumes "build_maps pd = Inr (d, rm)"
  shows "\<exists>das. read_policies pd = Inr (d, das) \<and> maps_hold das rm"
proof -
  have empty: "maps_hold [] empty_maps"
    by (simp add: maps_hold_def map_holds_def select_def empty_maps_def obj_keys_def)
  from assms obtain policies ps where "get_prop pd ''domain'' = Inr d"
      "get_prop pd ''policies'' = Inr policies" "iterate policies = Inr ps"
      and f: "fold_result (load_policy d) ps empty_maps = Inr rm"
    by (auto simp: build_maps_def bind_result_Inr_iff)
  then show ?thesis
    using load_policies_holds [OF f empty] by (auto simp: read_policies_def)
qed

text \<open>
  C37. Loading a policy document sorts every assertion of it, and nothing else, into the four maps
  by effect and by whether its role has wildcards: each map lists, under each role, the assertions
  of that role in the order of the document, and no role is listed with an empty list.
\<close>

theorem loaded_maps_wellformed:
  assumes "build_maps pd = Inr (d, rm)"
  shows "\<exists>das. read_policies pd = Inr (d, das) \<and> maps_hold das rm"
  using assms by (rule build_maps_holds)

definition sample_rule :: "string \<Rightarrow> string \<Rightarrow> jsval" where
  "sample_rule effect role = JObj [(''action'', JStr ''read''), (''resource'', JStr ''sports:scores''),
     (''role'', JStr (''sports:role.'' @ role)), (''effect'', JStr effect)]"

definition sample_policies :: jsval where
  "sample_policies = JObj [(''domain'', JStr ''sports''), (''policies'', JArr [JObj [(''name'', JStr ''sports:policy.p''),
     (''assertions'', JArr [sample_rule ''ALLOW'' ''readers'', sample_rule ''DENY'' ''guest*''])]])]"

theorem loaded_maps_wellformed_witness:
  "\<exists>rm das. build_maps sample_policies = Inr (JStr ''sports'', rm) \<and> read_policies sample_policies = Inr (JStr ''sports'', das)
     \<and> map (\<lambda>(deny, a). (deny, as_role a)) das = [(False, ''readers''), (True, ''guest*'')] \<and> maps_hold das rm"
proof -
  have "\<exists>rm. build_maps sample_policies = Inr (JStr ''sports'', rm)"
    by (simp add: build_maps_def sample_policies_def sample_rule_def load_policy_def load_assertion_def read_assertion_def
        str_of_val_def strip_own_def stripDomainPrefix_def ref_text_def strip_role_def
        starts_with_def add_assertion_def push_assert_def getMatchObject_def empty_maps_def
        substring_from_def proto_keys_def Let_def)
  then obtain rm where rm: "build_maps sample_policies = Inr (JStr ''sports'', rm)"
    by blast
  then obtain das where das: "read_policies sample_policies = Inr (JStr ''sports'', das)" "maps_hold das rm"
    using loaded_maps_wellformed by blast
  have "\<exists>das. read_policies sample_policies = Inr (JStr ''sports'', das)
      \<and> map (\<lambda>(deny, a). (deny, as_role a)) das = [(False, ''readers''), (True, ''guest*'')]"
    by (simp add: read_policies_def read_policy_def sample_policies_def sample_rule_def read_assertion_def
        str_of_val_def strip_own_def stripDomainPrefix_def ref_text_def strip_role_def starts_with_def substring_from_def Let_def)
  then show ?thesis
    using rm das by auto
qed

section \<open>The text that is signed\<close>

text \<open>Two JSON values that differ in the order of the keys of their objects only.\<close>

inductive same_json :: "jsval \<Rightarrow> jsval \<Rightarrow> bool" where
  same_refl: "same_json v v"
| same_arr: "list_all2 same_json vs ws \<Longrightarrow> same_json (JArr vs) (JArr ws)"
| same_obj: "list_all2 (\<lambda>p q. fst p = fst q \<and> same_json (snd p) (snd q)) kvs lvs \<Longrightarrow>
    mset lvs = mset mvs \<Longrightarrow> distinct (map fst mvs) \<Longrightarrow> same_json (JObj kvs) (JObj mvs)"

lemma sort_parts_perm:
  assumes "mset lvs = mset mvs" and "distinct (map fst mvs)"
  shows "sort_key fst (map (\<lambda>(k, v). (k, f v)) lvs) = sort_key fst (map (\<lambda>(k, v). (k, f v)) mvs)"
proof -
  let ?g = "\<lambda>(k, v). (k, f v)"
  have "map fst (map ?g mvs) = map fst mvs"
    by (induction mvs) auto
  then have "distinct (map fst (map ?g mvs))"
    using assms(2) by (simp only:)
  then have "inj_on fst (set (map ?g mvs))"
    by (simp only: distinct_map)
  moreover have "mset (map ?g lvs) = mset (map ?g mvs)"
    using assms(1) by (simp only: mset_map)
  ultimately have "sort_key fst (map ?g lvs) = sort_key fst (sort_key fst (map ?g mvs))"
    by (metis sort_key_inj_key_eq sorted_sort_key mset_sort set_mset_mset sort_key_id_if_sorted)
  then show ?thesis
    by (simp add: sort_key_id_if_sorted)
qed

lemma canonical_same_json: "same_json v w \<Longrightarrow> asCanonicalString v = asCanonicalString w"
proof (induction rule: same_json.induct)
  case (same_arr vs ws)
  then have "map (\<lambda>v. ([] :: string, asCanonicalString v)) vs = map (\<lambda>v. ([], asCanonicalString v)) ws"
    by (induction rule: list_all2_induct) auto
  then show ?case
    by (simp only: asCanonicalString.simps)
next
  case (same_obj kvs lvs mvs)
  have "map (\<lambda>(k, v). (k, asCanonicalString v)) kvs = map (\<lambda>(k, v). (k, asCanonicalString v)) lvs"
    using same_obj(1) by (induction rule: list_all2_induct) auto
  then show ?case
    using sort_parts_perm [OF same_obj(2,3), of asCanonicalString]
    by (simp only: asCanonicalString.simps)
qed simp

text \<open>
  The text over which a policy signature is checked does not depend on the order in which
  a file lists the keys of its objects, at any depth.
\<close>

theorem canonical_key_order:
  assumes "same_json v w"
  shows "asCanonicalString v = asCanonicalString w"
  using assms by (rule canonical_same_json)

theorem canonical_key_order_witness:
  "asCanonicalString (JArr [JObj [(''b'', JStr ''x''), (''a'', JNum (Fin 1))]])
     = asCanonicalString (JArr [JObj [(''a'', JNum (Fin 1)), (''b'', JStr ''x'')]])"
proof -
  have "same_json (JObj [(''b'', JStr ''x''), (''a'', JNum (Fin 1))])
      (JObj [(''a'', JNum (Fin 1)), (''b'', JStr ''x'')])"
    by (rule same_obj [of _ "[(''b'', JStr ''x''), (''a'', JNum (Fin 1))]"])
       (simp_all add: same_refl)
  then show ?thesis
    by (intro canonical_key_order same_arr) simp
qed

text \<open>An assertion object as policy files hold it, and the same text read another way.\<close>

definition deny_assertion :: "string \<Rightarrow> string \<Rightarrow> string \<Rightarrow> jsval" where
  "deny_assertion action resource role =
     JObj [(''action'', JStr action), (''effect'', JStr ''DENY''), (''resource'', JStr resource),
       (''role'', JStr role)]"

definition quoted_effect :: string where
  "quoted_effect = [CHR 0x22, CHR '','', CHR 0x22] @ ''effect'' @ [CHR 0x22, CHR '':'', CHR 0x22] @ ''DENY''"

definition disguised_assertion :: "string \<Rightarrow> string \<Rightarrow> string \<Rightarrow> jsval" where
  "disguised_assertion action resource role =
     JObj [(''action'', JStr (action @ quoted_effect)), (''resource'', JStr resource), (''role'', JStr role)]"

text \<open>
  C39. Strings are not escaped in the signed text, so it does not determine the value: a DENY
  assertion has the same signed text as an object without effect, which the loader reads as an
  ALLOW assertion. A signature therefore covers both.
\<close>

theorem canonical_text_ambiguous:
  "asCanonicalString (deny_assertion action resource role)
     = asCanonicalString (disguised_assertion action resource role)
   \<and> (\<exists>a b. read_assertion d p (deny_assertion action resource role) = Inr (True, a)
          \<and> read_assertion d p (disguised_assertion action resource role) = Inr (False, b))"
proof -
  have "asCanonicalString (deny_assertion action resource role)
      = asCanonicalString (disguised_assertion action resource role)"
    by (simp add: deny_assertion_def disguised_assertion_def quoted_effect_def member_text_def)
  moreover have "\<exists>a. read_assertion d p (deny_assertion action resource role) = Inr (True, a)"
    by (simp add: deny_assertion_def read_assertion_def str_of_val_def Let_def)
  moreover have "\<exists>b. read_assertion d p (disguised_assertion action resource role) = Inr (False, b)"
    by (simp add: disguised_assertion_def read_assertion_def str_of_val_def Let_def)
  ultimately show ?thesis by blast
qed

section \<open>Only signed policies are loaded\<close>

lemma loadPolicies_falsy:
  assumes "\<not> truthy pd"
  shows "loadPolicies env now pd z = (r, z') \<Longrightarrow> z' = z"
  using assms
  by (cases pd) (auto simp: loadPolicies_def build_maps_def iterate_def bind_action_def
      get_prop_def obj_get_def)

lemma client_key_state: "client_key g z = (r, z') \<Longrightarrow> z' = z"
  by (auto simp: client_key_def split: if_splits jsref.splits)

lemma verify_value_result:
  assumes "verify_value env g v sig z = (r, z')"
  shows "z' = z"
    and "r = Inr True \<Longrightarrow> \<exists>pks text. zm_publicKeyStore z = Val pks \<and> asCanonicalString v = Inr text
           \<and> Crypto_verify (ze_crypto env) text (g pks) (ref_of_val sig) ''SHA256'' = Inr True"
  using assms
  by (auto simp: verify_value_def client_key_def bind_action_def split: sum.splits if_splits jsref.splits)

end
