(* ===== verification/AuthZPEClient.thy ===== *)
theory AuthZPEClient
  imports ZPEUpdater
begin

text \<open>
  The class \<^verbatim>\<open>zpe/src/AuthZPEClient.js\<close>: it decides whether the holder of a role
  token may perform an action on a resource. The arguments of the callback are the result of a
  check. The properties of the \<^verbatim>\<open>params\<close> object are passed as arguments. One
  value \<open>now\<close> stands for the clock during a check, and the configured updater is
  \<^verbatim>\<open>./ZPEUpdater\<close>.
\<close>

section \<open>Initialization\<close>

definition allowed_offset :: "config \<Rightarrow> jsnum" where
  "allowed_offset config =
     (let off = to_number (obj_get config ''allowedOffset'') in if off < 0 then Fin 300 else off)"

definition init :: "'c zpe_env \<Rightarrow> ('c zpe_module, unit) action" where
  "init env =
     bind_action (read_state (\<lambda>z. z)) (\<lambda>z.
       if zm_initialized z then ret ()
       else
         bind_action (lift_result (PublicKeyStore_new (nc_base64 (ze_crypto env)) (ze_read_json env)
             (zm_keyConfig z) (ze_root env))) (\<lambda>pks.
         bind_action (update_state (\<lambda>z. setZPEClient (ZPEUpdater_setConfig (zm_config z)
             (z\<lparr>zm_publicKeyStore := Val pks, zm_allowedOffset := allowed_offset (zm_config z)\<rparr>)))) (\<lambda>_.
         bind_action
           (if obj_get (zm_config z) ''disableWatch'' = JBool False then watchPolicyDir env else ret ()) (\<lambda>_.
           update_state (\<lambda>z. z\<lparr>zm_initialized := True\<rparr>)))))"

definition AuthZPEClient_setConfig :: "config \<Rightarrow> 'c zpe_module \<Rightarrow> 'c zpe_module" where
  "AuthZPEClient_setConfig overrides z =
     z\<lparr>zm_config := set_config (zm_config z) overrides,
       zm_keyConfig := set_config (zm_keyConfig z) overrides\<rparr>"

definition getZtsPublicKey :: "'c zpe_env \<Rightarrow> jsval \<Rightarrow> ('c zpe_module, jskey jsref) action" where
  "getZtsPublicKey env keyId =
     bind_action (init env) (\<lambda>_. bind_action (read_state zm_publicKeyStore) (\<lambda>pks.
       case pks of Val ks \<Rightarrow> ret (getZtsKey keyId ks) | _ \<Rightarrow> throw (TypeError ''getZtsKey'')))"

definition getZmsPublicKey :: "'c zpe_env \<Rightarrow> jsval \<Rightarrow> ('c zpe_module, jskey jsref) action" where
  "getZmsPublicKey env keyId =
     bind_action (init env) (\<lambda>_. bind_action (read_state zm_publicKeyStore) (\<lambda>pks.
       case pks of Val ks \<Rightarrow> ret (getZmsKey keyId ks) | _ \<Rightarrow> throw (TypeError ''getZmsKey'')))"

definition AuthZPEClient_close :: "'c zpe_env \<Rightarrow> ('c zpe_module, unit) action" where
  "AuthZPEClient_close env =
     bind_action (read_state zm_config) (\<lambda>config.
     bind_action (if obj_get config ''disableWatch'' = JBool False then closeWatcher else ret ()) (\<lambda>_.
       update_state (ZPEUpdater_close env)))"

section \<open>Matching assertions\<close>

definition assert_matches :: "string \<Rightarrow> string \<Rightarrow> zpe_assert \<Rightarrow> bool" where
  "assert_matches action resource a \<longleftrightarrow>
     ms_matches (as_actionMatchStruct a) action \<and> ms_matches (as_resourceMatchStruct a) resource"

fun matchAssertion :: "zpe_assert list \<Rightarrow> string \<Rightarrow> string \<Rightarrow> bool" where
  "matchAssertion [] action resource = False"
| "matchAssertion (a # asserts) action resource =
     (if \<not> ms_matches (as_actionMatchStruct a) action then matchAssertion asserts action resource
      else if \<not> ms_matches (as_resourceMatchStruct a) resource
        then matchAssertion asserts action resource
      else True)"

text \<open>
  A role that is the name of an inherited function finds that function: one with parameters has
  a length and is then iterated over, which raises; one without is skipped.
\<close>

fun actionByRole :: "string \<Rightarrow> string \<Rightarrow> string list \<Rightarrow> role_map \<Rightarrow> bool result" where
  "actionByRole action resource [] roleMap = Inr False"
| "actionByRole action resource (role # roles) roleMap =
     (case map_of roleMap role of
        Some asserts \<Rightarrow>
          if asserts \<noteq> [] \<and> matchAssertion asserts action resource then Inr True
          else actionByRole action resource roles roleMap
      | None \<Rightarrow>
          if role \<in> set proto_keys \<and> role \<notin> set proto_nullary then Inl (TypeError ''not iterable'')
          else actionByRole action resource roles roleMap)"

fun wildcard_keys :: "string \<Rightarrow> string \<Rightarrow> string \<Rightarrow> role_map \<Rightarrow> bool" where
  "wildcard_keys action resource role [] = False"
| "wildcard_keys action resource role ((roleName, asserts) # rest) =
     (if asserts = [] then wildcard_keys action resource role rest
      else if \<not> ms_matches (as_roleMatchStruct (hd asserts)) role
        then wildcard_keys action resource role rest
      else if matchAssertion asserts action resource then True
      else wildcard_keys action resource role rest)"

fun actionByWildcardRole :: "string \<Rightarrow> string \<Rightarrow> string list \<Rightarrow> role_map \<Rightarrow> bool" where
  "actionByWildcardRole action resource [] roleMap = False"
| "actionByWildcardRole action resource (role # roles) roleMap =
     (if wildcard_keys action resource role roleMap then True
      else actionByWildcardRole action resource roles roleMap)"

section \<open>The check\<close>

type_synonym check_result = "string jsref \<times> access_status"

definition checkStatus :: "access_status \<Rightarrow> ('s, check_result) action" where
  "checkStatus status = ret (Null, status)"

definition checkAllowAssertion ::
  "'c zpe_env \<Rightarrow> int \<Rightarrow> string \<Rightarrow> string \<Rightarrow> string \<Rightarrow> string list \<Rightarrow> access_status
    \<Rightarrow> ('c zpe_module, check_result) action" where
  "checkAllowAssertion env now action domain resource roles status =
     bind_action (getRoleAllowAssertions env now domain) (\<lambda>roleMap.
     bind_action
       (case roleMap of
          Some m \<Rightarrow>
            if obj_keys m \<noteq> []
            then bind_action (lift_result (actionByRole action resource roles m)) (\<lambda>hit.
                   ret (if hit then None else Some DENY_NO_MATCH))
            else ret (Some (if status \<noteq> DENY_NO_MATCH then DENY_DOMAIN_EMPTY else status))
        | None \<Rightarrow> ret (Some status)) (\<lambda>next.
       case next of
         None \<Rightarrow> ret (Null, ALLOW)
       | Some status \<Rightarrow>
           bind_action (getWildcardAllowAssertions env now domain) (\<lambda>roleMap.
             case roleMap of
               Some m \<Rightarrow>
                 if obj_keys m \<noteq> []
                 then (if actionByWildcardRole action resource roles m then ret (Null, ALLOW)
                       else checkStatus DENY_NO_MATCH)
                 else checkStatus (if status \<noteq> DENY_NO_MATCH then DENY_DOMAIN_EMPTY else status)
             | None \<Rightarrow> checkStatus status)))"

definition checkDenyAssertion ::
  "'c zpe_env \<Rightarrow> int \<Rightarrow> string \<Rightarrow> string \<Rightarrow> string \<Rightarrow> string list \<Rightarrow> access_status
    \<Rightarrow> ('c zpe_module, check_result) action" where
  "checkDenyAssertion env now action domain resource roles status =
     bind_action (getRoleDenyAssertions env now domain) (\<lambda>roleMap.
     bind_action
       (case roleMap of
          Some m \<Rightarrow>
            if obj_keys m \<noteq> []
            then bind_action (lift_result (actionByRole action resource roles m)) (\<lambda>hit.
                   ret (if hit then None else Some DENY_NO_MATCH))
            else ret (Some DENY_DOMAIN_EMPTY)
        | None \<Rightarrow> ret (Some status)) (\<lambda>next.
       case next of
         None \<Rightarrow> ret (Null, DENY)
       | Some status \<Rightarrow>
           bind_action (getWildcardDenyAssertions env now domain) (\<lambda>roleMap.
             case roleMap of
               Some m \<Rightarrow>
                 if obj_keys m \<noteq> []
                 then (if actionByWildcardRole action resource roles m then ret (Null, DENY)
                       else checkAllowAssertion env now action domain resource roles DENY_NO_MATCH)
                 else checkAllowAssertion env now action domain resource roles
                        (if status \<noteq> DENY_NO_MATCH then DENY_DOMAIN_EMPTY else status)
             | None \<Rightarrow> checkAllowAssertion env now action domain resource roles status)))"

definition allowActionZPEChecked ::
  "'c zpe_env \<Rightarrow> int \<Rightarrow> string \<Rightarrow> string \<Rightarrow> string \<Rightarrow> string \<Rightarrow> string list
    \<Rightarrow> ('c zpe_module, check_result) action" where
  "allowActionZPEChecked env now msgPrefix action domain resource roles =
     (let res = stripDomainPrefix (to_lower resource) (JStr domain) Null in
      if \<not> str_truthy res
      then ret (Val (msgPrefix @ '' ERROR: Domain mismatch in token('' @ domain
                  @ '') and resource so access denied''), DENY_DOMAIN_MISMATCH)
      else checkDenyAssertion env now (to_lower action) domain (ref_text res) roles
             DENY_DOMAIN_NOT_FOUND)"

definition allowActionZPE ::
  "'c zpe_env \<Rightarrow> int \<Rightarrow> string jsref \<Rightarrow> string jsref \<Rightarrow> string jsref \<Rightarrow> string list jsref
    \<Rightarrow> ('c zpe_module, check_result) action" where
  "allowActionZPE env now action domain resource roles =
     (let msgPrefix = ''allowActionZPE: domain('' @ ref_text domain @ '') resource('' @ ref_text resource @ '')'' in
      case roles of
        Val (r # rs) \<Rightarrow>
          if \<not> str_truthy domain
          then ret (Val (msgPrefix @ '' ERROR: No domain so access denied''), DENY_ROLETOKEN_INVALID)
          else if \<not> str_truthy action
          then ret (Val (msgPrefix @ '' ERROR: No action so access denied''), DENY_INVALID_PARAMETERS)
          else if \<not> str_truthy resource
          then ret (Val (msgPrefix @ '' ERROR: No resource so access denied''), DENY_INVALID_PARAMETERS)
          else allowActionZPEChecked env now msgPrefix (ref_text action) (ref_text domain)
                 (ref_text resource) (r # rs)
      | _ \<Rightarrow> ret (Val (msgPrefix @ '' ERROR: No roles so access denied''), DENY_ROLETOKEN_INVALID))"

text \<open>A cached policy object is truthy but has no \<^verbatim>\<open>getDomain\<close>.\<close>

definition allowAccessByTokenObj ::
  "'c zpe_env \<Rightarrow> int \<Rightarrow> zpe_cached jsref \<Rightarrow> string jsref \<Rightarrow> string jsref
    \<Rightarrow> ('c zpe_module, check_result) action" where
  "allowAccessByTokenObj env now rToken resource action =
     (case rToken of
        Val (CachedToken t) \<Rightarrow> allowActionZPE env now action (tok_domain t) resource (rt_roles t)
      | Val (CachedPolicy rm) \<Rightarrow> throw (TypeError ''getDomain'')
      | _ \<Rightarrow> ret (Null, DENY_ROLETOKEN_INVALID))"

text \<open>A role token that is not in the cache: read, validate, and keep it.\<close>

definition admit_token ::
  "'c zpe_env \<Rightarrow> int \<Rightarrow> string \<Rightarrow> ('c zpe_module, check_result + role_token) action" where
  "admit_token env now roleToken =
     bind_action (update_state (\<lambda>z. z\<lparr>zm_token := Token_constructor (zm_token z)\<rparr>)) (\<lambda>_.
     bind_action (lift_result (RoleToken_new [] now (TokenText roleToken))) (\<lambda>rToken.
     bind_action (getZtsPublicKey env (val_of_ref (tok_keyId rToken))) (\<lambda>pubKey.
     bind_action (read_state (\<lambda>z. z)) (\<lambda>z.
       if \<not> validate (ze_crypto env) (zm_token z) now pubKey (zm_allowedOffset z) True rToken
       then
         if \<not> num_eq (tok_expiryTime rToken) 0 \<and> tok_expiryTime rToken < Fin (of_int now / 1000)
         then bind_action (update_state (\<lambda>z. z\<lparr>zm_cache :=
                  ca_del (ze_cache env) now (ref_text (tok_signedToken rToken)) (zm_cache z)\<rparr>)) (\<lambda>_.
                ret (Inl (Val ''ERROR: Role Token is Expired'', DENY_ROLETOKEN_EXPIRED)))
         else ret (Inl (Val ''ERROR: Invalid Role Token'', DENY_ROLETOKEN_INVALID))
       else
         bind_action (lift_result (ca_put (ze_cache env) now roleToken (CachedToken rToken)
             (millis (obj_get (zm_config z) ''tokenRefresh'')) (zm_cache z))) (\<lambda>c.
         bind_action (update_state (\<lambda>z. z\<lparr>zm_cache := c\<rparr>)) (\<lambda>_.
           ret (Inr rToken)))))))"

definition allowAccess ::
  "'c zpe_env \<Rightarrow> int \<Rightarrow> string jsref \<Rightarrow> string jsref \<Rightarrow> string jsref
    \<Rightarrow> ('c zpe_module, check_result) action" where
  "allowAccess env now roleToken resource action =
     bind_action (init env) (\<lambda>_.
       if \<not> str_truthy roleToken \<or> \<not> str_truthy resource \<or> \<not> str_truthy action
       then ret (Val ''ERROR: paramater must include 3 members: roleToken, resource, action'',
                 DENY_INVALID_PARAMETERS)
       else
         bind_action (read_state (\<lambda>z. ca_get (ze_cache env) now (ref_text roleToken) (zm_cache z))) (\<lambda>cached.
           case cached of
             Some rToken \<Rightarrow> allowAccessByTokenObj env now (Val rToken) resource action
           | None \<Rightarrow>
               bind_action (admit_token env now (ref_text roleToken)) (\<lambda>r.
                 case r of
                   Inl refused \<Rightarrow> ret refused
                 | Inr rToken \<Rightarrow>
                     allowAccessByTokenObj env now (Val (CachedToken rToken)) resource action)))"

end
