(* ===== verification/ZPE_Decision.thy ===== *)
theory ZPE_Decision
  imports AuthZPEClient Token_Validity
begin

text \<open>
  What an access check decides. The specification looks at the list of assertions of a policy
  document and knows nothing of maps, matchers or caches; the check refines it. The cache holds
  only policies that both ZTS and ZMS signed, and access is granted only by those.
\<close>

section \<open>Specification\<close>

text \<open>An assertion applies when some role of the token, the action and the resource match it.\<close>

definition applies :: "string list \<Rightarrow> string \<Rightarrow> string \<Rightarrow> zpe_assert \<Rightarrow> bool" where
  "applies roles action resource a \<longleftrightarrow>
     (\<exists>r\<in>set roles. glob (as_role a) r) \<and> glob (as_action a) action \<and> glob (as_resource a) resource"

definition policy_decision ::
  "(bool \<times> zpe_assert) list \<Rightarrow> string list \<Rightarrow> string \<Rightarrow> string \<Rightarrow> access_status" where
  "policy_decision das roles action resource =
     (if \<exists>da\<in>set das. fst da \<and> applies roles action resource (snd da) then DENY
      else if \<exists>da\<in>set das. \<not> fst da \<and> applies roles action resource (snd da) then ALLOW
      else if das = [] then DENY_DOMAIN_EMPTY
      else DENY_NO_MATCH)"

section \<open>Scanning one map\<close>

text \<open>Every assertion carries the matchers of its own patterns.\<close>

definition compiled :: "zpe_assert \<Rightarrow> bool" where
  "compiled a \<longleftrightarrow> as_actionMatchStruct a = getMatchObject (as_action a)
     \<and> as_resourceMatchStruct a = getMatchObject (as_resource a)
     \<and> as_roleMatchStruct a = getMatchObject (as_role a)"

lemma read_assertion_compiled: "read_assertion d p v = Inr da \<Longrightarrow> compiled (snd da)"
  by (auto simp: read_assertion_def bind_result_Inr_iff compiled_def Let_def)

lemma read_policies_compiled:
  assumes "read_policies pd = Inr (d, das)"
  shows "\<forall>da\<in>set das. compiled (snd da)"
proof
  fix da
  assume "da \<in> set das"
  then obtain ps dass where "map_result (read_policy d) ps = Inr dass" "da \<in> set (concat dass)"
    using assms by (auto simp: read_policies_def bind_result_Inr_iff)
  then obtain policy l where "read_policy d policy = Inr l" "da \<in> set l"
    using map_result_set by fastforce
  then obtain p vs where "map_result (read_assertion d p) vs = Inr l" "da \<in> set l"
    by (auto simp: read_policy_def bind_result_Inr_iff split: if_splits)
  then show "compiled (snd da)"
    using map_result_set read_assertion_compiled by metis
qed

lemma matchAssertion_iff: "matchAssertion as action resource \<longleftrightarrow> (\<exists>a\<in>set as. assert_matches action resource a)"
  by (induction as) (auto simp: assert_matches_def)

text \<open>Roles whose lookup in a plain object does not raise.\<close>

definition plain_role :: "string \<Rightarrow> bool" where
  "plain_role r \<longleftrightarrow> r \<notin> set proto_keys \<or> r \<in> set proto_nullary"

lemma actionByRole_iff:
  assumes "map_holds as m" and "\<forall>r\<in>set roles. plain_role r"
  shows "actionByRole action resource roles m =
    Inr (\<exists>r\<in>set roles. \<exists>a\<in>set as. as_role a = r \<and> assert_matches action resource a)"
  using assms(2)
proof (induction roles)
  case (Cons r roles)
  have get: "map_of m r = (let l = filter (\<lambda>a. as_role a = r) as in if l = [] then None else Some l)"
    using assms(1) by (simp add: map_holds_def)
  show ?case
  proof (cases "filter (\<lambda>a. as_role a = r) as = []")
    case True
    then have "\<not> (\<exists>a\<in>set as. as_role a = r)"
      by (simp add: filter_empty_conv)
    then show ?thesis
      using Cons get True by (auto simp: plain_role_def)
  next
    case False
    have "matchAssertion (filter (\<lambda>a. as_role a = r) as) action resource
        \<longleftrightarrow> (\<exists>a\<in>set as. as_role a = r \<and> assert_matches action resource a)"
      by (auto simp: matchAssertion_iff)
    then show ?thesis
      using Cons get False by auto
  qed
qed simp

lemma wildcard_keys_iff:
  "wildcard_keys action resource role m \<longleftrightarrow> (\<exists>(k, as)\<in>set m. as \<noteq> []
     \<and> ms_matches (as_roleMatchStruct (hd as)) role \<and> matchAssertion as action resource)"
  by (induction action resource role m rule: wildcard_keys.induct) auto

lemma wildcard_keys_holds:
  assumes "map_holds as m" and "\<forall>a\<in>set as. compiled a"
  shows "wildcard_keys action resource role m \<longleftrightarrow>
    (\<exists>a\<in>set as. ms_matches (getMatchObject (as_role a)) role \<and> assert_matches action resource a)"
proof
  assume "wildcard_keys action resource role m"
  then obtain k l where kl: "(k, l) \<in> set m" "l \<noteq> []" "ms_matches (as_roleMatchStruct (hd l)) role"
      and hit: "matchAssertion l action resource"
    by (auto simp: wildcard_keys_iff)
  have "distinct (map fst m)"
    using assms(1) by (simp add: map_holds_def obj_keys_def)
  then have "map_of m k = Some l"
    using kl(1) by (rule map_of_is_SomeI)
  then have l: "l = filter (\<lambda>a. as_role a = k) as"
    using map_holds_get [OF assms(1)] by blast
  then have "hd l \<in> set as" "as_role (hd l) = k"
    using hd_in_set [OF kl(2)] by auto
  then have "ms_matches (getMatchObject k) role"
    using kl(3) assms(2) by (auto simp: compiled_def)
  then show "\<exists>a\<in>set as. ms_matches (getMatchObject (as_role a)) role \<and> assert_matches action resource a"
    using hit l by (auto simp: matchAssertion_iff)
next
  assume "\<exists>a\<in>set as. ms_matches (getMatchObject (as_role a)) role \<and> assert_matches action resource a"
  then obtain a where a: "a \<in> set as" "ms_matches (getMatchObject (as_role a)) role"
      "assert_matches action resource a" by blast
  define l where "l = filter (\<lambda>b. as_role b = as_role a) as"
  have l: "a \<in> set l" "l \<noteq> []"
    using a(1) by (auto simp: l_def filter_empty_conv)
  then have "map_of m (as_role a) = Some l"
    using map_holds_get [OF assms(1)] l_def by blast
  then have "(as_role a, l) \<in> set m"
    by (rule map_of_SomeD)
  moreover have "ms_matches (as_roleMatchStruct (hd l)) role"
    using assms(2) a(2) hd_in_set [OF l(2)] by (auto simp: l_def compiled_def)
  moreover have "matchAssertion l action resource"
    using l(1) a(3) by (auto simp: matchAssertion_iff)
  ultimately show "wildcard_keys action resource role m"
    using l(2) by (auto simp: wildcard_keys_iff)
qed

lemma actionByWildcardRole_iff:
  assumes "map_holds as m" and "\<forall>a\<in>set as. compiled a"
  shows "actionByWildcardRole action resource roles m \<longleftrightarrow>
    (\<exists>r\<in>set roles. \<exists>a\<in>set as. ms_matches (getMatchObject (as_role a)) r \<and> assert_matches action resource a)"
  by (induction roles) (auto simp: wildcard_keys_holds [OF assms])

lemma map_holds_empty: "map_holds as m \<Longrightarrow> obj_keys m = [] \<longleftrightarrow> as = []"
proof -
  assume h: "map_holds as m"
  have "m = [] \<longleftrightarrow> as = []"
  proof
    assume "m = []"
    then have "filter (\<lambda>a. as_role a = r) as = []" for r
      using h by (auto simp: map_holds_def Let_def split: if_splits)
    from this [of "as_role (hd as)"] show "as = []"
      by (cases as) auto
  next
    assume "as = []"
    then have "map_of m r = None" for r
      using h by (simp add: map_holds_def)
    then have "map_of m = Map.empty"
      by blast
    then show "m = []"
      by (simp only: map_of_eq_empty_iff)
  qed
  then show ?thesis by (simp add: obj_keys_def)
qed

section \<open>The two maps of an effect together\<close>

text \<open>A text that the matchers and the specification see alike.\<close>

definition request_ok :: "string list \<Rightarrow> string \<Rightarrow> string \<Rightarrow> bool" where
  "request_ok roles action resource \<longleftrightarrow>
     one_line action \<and> one_line resource \<and> (\<forall>r\<in>set roles. one_line r \<and> plain_role r)"

definition effect_hits :: "bool \<Rightarrow> (bool \<times> zpe_assert) list \<Rightarrow> string list \<Rightarrow> string \<Rightarrow> string \<Rightarrow> bool" where
  "effect_hits deny das roles action resource \<longleftrightarrow>
     (\<exists>a. (deny, a) \<in> set das \<and> applies roles action resource a)"

lemma policy_decision_hits:
  "policy_decision das roles action resource =
     (if effect_hits True das roles action resource then DENY
      else if effect_hits False das roles action resource then ALLOW
      else if das = [] then DENY_DOMAIN_EMPTY
      else DENY_NO_MATCH)"
proof -
  have "effect_hits d das roles action resource \<longleftrightarrow>
      (\<exists>da\<in>set das. fst da = d \<and> applies roles action resource (snd da))" for d
    by (force simp: effect_hits_def)
  then show ?thesis by (auto simp: policy_decision_def)
qed

lemma in_select:
  "a \<in> set (select deny equal das) \<longleftrightarrow>
     (deny, a) \<in> set das \<and> (ms_name (as_roleMatchStruct a) = ''equal'') = equal"
  by (auto simp: select_def image_iff)

lemma assert_matches_glob:
  assumes "compiled a" and "request_ok roles action resource"
  shows "assert_matches action resource a \<longleftrightarrow> glob (as_action a) action \<and> glob (as_resource a) resource"
  using assms match_glob by (simp add: assert_matches_def compiled_def request_ok_def)

lemma scans_effect:
  assumes "map_holds (select deny True das) std" and "map_holds (select deny False das) wild"
    and "\<forall>da\<in>set das. compiled (snd da)" and "request_ok roles action resource"
  shows "actionByRole action resource roles std = Inr s \<Longrightarrow>
    (s \<or> actionByWildcardRole action resource roles wild) \<longleftrightarrow> effect_hits deny das roles action resource"
    and "\<exists>s. actionByRole action resource roles std = Inr s"
proof -
  have plain: "\<forall>r\<in>set roles. plain_role r"
    using assms(4) by (simp add: request_ok_def)
  have comp: "compiled a" if "(deny, a) \<in> set das" for a
    using assms(3) that by force
  have comp': "\<forall>a\<in>set (select deny False das). compiled a"
    using comp by (simp add: in_select)
  note std = actionByRole_iff [OF assms(1) plain, of action resource]
  note wild = actionByWildcardRole_iff [OF assms(2) comp', of action resource roles]
  show "\<exists>s. actionByRole action resource roles std = Inr s"
    by (simp add: std)
  have role: "glob (as_role a) r \<longleftrightarrow> (if ms_name (as_roleMatchStruct a) = ''equal'' then as_role a = r
      else ms_matches (getMatchObject (as_role a)) r)" if "(deny, a) \<in> set das" "r \<in> set roles" for a r
    using comp [OF that(1)] that(2) assms(4) match_glob [of r "as_role a"] getMatchObject_literal(2) [of "as_role a" r]
    by (auto simp: compiled_def request_ok_def)
  let ?am = "assert_matches action resource"
  let ?eq = "\<lambda>a. ms_name (as_roleMatchStruct a) = ''equal''"
  let ?wild = "\<lambda>a r. ms_matches (getMatchObject (as_role a)) r"
  have "applies roles action resource a \<longleftrightarrow>
      ?eq a \<and> ?am a \<and> (\<exists>r\<in>set roles. as_role a = r) \<or> \<not> ?eq a \<and> ?am a \<and> (\<exists>r\<in>set roles. ?wild a r)"
    if "(deny, a) \<in> set das" for a
    using role [OF that] assert_matches_glob [OF comp [OF that] assms(4)]
    by (cases "?eq a") (auto simp: applies_def)
  then have "effect_hits deny das roles action resource \<longleftrightarrow>
      (\<exists>a. (deny, a) \<in> set das \<and> ?eq a \<and> ?am a \<and> (\<exists>r\<in>set roles. as_role a = r))
      \<or> (\<exists>a. (deny, a) \<in> set das \<and> \<not> ?eq a \<and> ?am a \<and> (\<exists>r\<in>set roles. ?wild a r))"
    unfolding effect_hits_def by blast
  moreover have "(\<exists>r\<in>set roles. \<exists>a\<in>set (select deny True das). as_role a = r \<and> ?am a)
      \<longleftrightarrow> (\<exists>a. (deny, a) \<in> set das \<and> ?eq a \<and> ?am a \<and> (\<exists>r\<in>set roles. as_role a = r))"
    unfolding Bex_def in_select by blast
  moreover have "(\<exists>r\<in>set roles. \<exists>a\<in>set (select deny False das). ?wild a r \<and> ?am a)
      \<longleftrightarrow> (\<exists>a. (deny, a) \<in> set das \<and> \<not> ?eq a \<and> ?am a \<and> (\<exists>r\<in>set roles. ?wild a r))"
    unfolding Bex_def in_select by blast
  ultimately show "(s \<or> actionByWildcardRole action resource roles wild) \<longleftrightarrow> effect_hits deny das roles action resource"
    if "actionByRole action resource roles std = Inr s"
    using that unfolding std wild by simp
qed

section \<open>The check refines the specification\<close>

text \<open>The policies of a domain are in the cache now.\<close>

definition cached_policy :: "'c zpe_env \<Rightarrow> int \<Rightarrow> string \<Rightarrow> role_maps \<Rightarrow> 'c zpe_module \<Rightarrow> bool" where
  "cached_policy env now domain rm z \<longleftrightarrow>
     ca_get (ze_cache env) now domain (zm_cache z) = Some (CachedPolicy rm)"

lemma assertion_getters:
  assumes "cached_policy env now domain rm z"
  shows "getRoleDenyAssertions env now domain z = (Inr (Some (standardRoleDenyMap rm)), z)"
    and "getWildcardDenyAssertions env now domain z = (Inr (Some (wildcardRoleDenyMap rm)), z)"
    and "getRoleAllowAssertions env now domain z = (Inr (Some (standardRoleAllowMap rm)), z)"
    and "getWildcardAllowAssertions env now domain z = (Inr (Some (wildcardRoleAllowMap rm)), z)"
proof -
  have "lookupPolicyInCache env now domain z = (Inr (Some rm), z)"
    using assms by (simp add: lookupPolicyInCache_def cached_policy_def)
  then show "getRoleDenyAssertions env now domain z = (Inr (Some (standardRoleDenyMap rm)), z)"
    and "getWildcardDenyAssertions env now domain z = (Inr (Some (wildcardRoleDenyMap rm)), z)"
    and "getRoleAllowAssertions env now domain z = (Inr (Some (standardRoleAllowMap rm)), z)"
    and "getWildcardAllowAssertions env now domain z = (Inr (Some (wildcardRoleAllowMap rm)), z)"
    by (simp_all add: getRoleDenyAssertions_def getWildcardDenyAssertions_def
        getRoleAllowAssertions_def getWildcardAllowAssertions_def)
qed

lemma scan_empty:
  assumes "obj_keys m = []"
  shows "actionByRole action resource roles m = Inr s \<Longrightarrow> \<not> s"
    and "\<not> actionByWildcardRole action resource roles m"
proof -
  have m: "m = []" using assms by (simp add: obj_keys_def)
  show "actionByRole action resource roles m = Inr s \<Longrightarrow> \<not> s"
    unfolding m by (induction roles) (auto split: if_splits)
  show "\<not> actionByWildcardRole action resource roles m"
    unfolding m by (induction roles) auto
qed

text \<open>The allow half, from the status the deny half leaves.\<close>

lemma checkAllowAssertion_decides:
  assumes pol: "cached_policy env now domain rm z" and "maps_hold das rm"
    and "\<forall>da\<in>set das. compiled (snd da)" and "request_ok roles action resource"
    and "status \<in> {DENY_NO_MATCH, DENY_DOMAIN_EMPTY}"
  shows "checkAllowAssertion env now action domain resource roles status z =
    (Inr (Null, if effect_hits False das roles action resource then ALLOW
       else if (\<forall>a. (False, a) \<notin> set das) then status else DENY_NO_MATCH), z)"
proof -
  let ?std = "standardRoleAllowMap rm" and ?wild = "wildcardRoleAllowMap rm"
  have h: "map_holds (select False True das) ?std" "map_holds (select False False das) ?wild"
    using assms(2) by (simp_all add: maps_hold_def)
  obtain s where s: "actionByRole action resource roles ?std = Inr s"
    using scans_effect(2) [OF h assms(3,4)] by blast
  note hits = scans_effect(1) [OF h assms(3,4) s, symmetric]
  have empty: "(\<forall>a. (False, a) \<notin> set das) \<longleftrightarrow> obj_keys ?std = [] \<and> obj_keys ?wild = []"
    unfolding map_holds_empty [OF h(1)] map_holds_empty [OF h(2)]
    by (auto simp: select_def filter_empty_conv)
  have none: "obj_keys ?std = [] \<Longrightarrow> \<not> s"
      "obj_keys ?wild = [] \<Longrightarrow> \<not> actionByWildcardRole action resource roles ?wild"
    using scan_empty s by blast+
  show ?thesis
    using assms(5) none
    by (cases "obj_keys ?std = []"; cases "obj_keys ?wild = []"; cases s;
        cases "actionByWildcardRole action resource roles ?wild")
       (auto simp: checkAllowAssertion_def assertion_getters [OF pol] s hits empty checkStatus_def)
qed

lemma checkDenyAssertion_decides:
  assumes pol: "cached_policy env now domain rm z" and "maps_hold das rm"
    and "\<forall>da\<in>set das. compiled (snd da)" and "request_ok roles action resource"
  shows "checkDenyAssertion env now action domain resource roles status z =
    (Inr (Null, policy_decision das roles action resource), z)"
proof -
  let ?std = "standardRoleDenyMap rm" and ?wild = "wildcardRoleDenyMap rm"
  have h: "map_holds (select True True das) ?std" "map_holds (select True False das) ?wild"
    using assms(2) by (simp_all add: maps_hold_def)
  obtain s where s: "actionByRole action resource roles ?std = Inr s"
    using scans_effect(2) [OF h assms(3,4)] by blast
  note hits = scans_effect(1) [OF h assms(3,4) s, symmetric]
  have empty: "(\<forall>a. (True, a) \<notin> set das) \<longleftrightarrow> obj_keys ?std = [] \<and> obj_keys ?wild = []"
    unfolding map_holds_empty [OF h(1)] map_holds_empty [OF h(2)]
    by (auto simp: select_def filter_empty_conv)
  have none: "obj_keys ?std = [] \<Longrightarrow> \<not> s"
      "obj_keys ?wild = [] \<Longrightarrow> \<not> actionByWildcardRole action resource roles ?wild"
    using scan_empty s by blast+
  note allow = checkAllowAssertion_decides [OF assms]
  define st where "st = (if obj_keys ?std = [] \<and> obj_keys ?wild = [] then DENY_DOMAIN_EMPTY else DENY_NO_MATCH)"
  have "checkDenyAssertion env now action domain resource roles status z =
      (if effect_hits True das roles action resource then (Inr (Null, DENY), z)
       else checkAllowAssertion env now action domain resource roles st z)"
    using none
    by (cases "obj_keys ?std = []"; cases "obj_keys ?wild = []"; cases s;
        cases "actionByWildcardRole action resource roles ?wild")
       (auto simp: checkDenyAssertion_def assertion_getters [OF pol] s hits st_def)
  moreover have "das = [] \<longleftrightarrow> (\<forall>a. (True, a) \<notin> set das) \<and> (\<forall>a. (False, a) \<notin> set das)"
    by (cases das) auto
  ultimately show ?thesis
    using allow [of st] empty
    by (auto simp: policy_decision_hits st_def effect_hits_def)
qed

lemma init_done: "zm_initialized z \<Longrightarrow> init env z = (Inr (), z)"
  by (simp add: init_def)

text \<open>A token that validates is admitted and put in the cache.\<close>

lemma admit_token_valid:
  assumes "zm_initialized z" and "zm_publicKeyStore z = Val pks"
    and "role_parseSignedToken u new_role_token = Inr t"
    and "validate (ze_crypto env) (Token_constructor (zm_token z)) now
           (getZtsKey (val_of_ref (tok_keyId t)) pks) (zm_allowedOffset z) True t"
    and "ca_put (ze_cache env) now u (CachedToken t) (millis (obj_get (zm_config z) ''tokenRefresh''))
           (zm_cache z) = Inr c"
  shows "admit_token env now u z =
    (Inr (Inr t), z\<lparr>zm_token := Token_constructor (zm_token z), zm_cache := c\<rparr>)"
  using assms
  by (simp add: admit_token_def RoleToken_new_def getZtsPublicKey_def init_done)

lemma allowActionZPE_decides:
  assumes "cached_policy env now d rm z" and "build_maps pd = Inr (JStr d, rm)"
    and "d \<noteq> []" and "action \<noteq> []" and "resource \<noteq> []" and "roles \<noteq> []"
    and "stripDomainPrefix (to_lower resource) (JStr d) Null = Val res" and "res \<noteq> []"
    and "request_ok roles (to_lower action) res"
  obtains das where "read_policies pd = Inr (JStr d, das)"
    and "allowActionZPE env now (Val action) (Val d) (Val resource) (Val roles) z =
      (Inr (Null, policy_decision das roles (to_lower action) res), z)"
proof -
  obtain das where das: "read_policies pd = Inr (JStr d, das)" "maps_hold das rm"
    using build_maps_holds [OF assms(2)] by blast
  obtain r rs where "roles = r # rs"
    using assms(6) by (cases roles) auto
  then show thesis
    using that [OF das(1)] assms
      checkDenyAssertion_decides [OF assms(1) das(2) read_policies_compiled [OF das(1)] assms(9)]
    by (simp add: allowActionZPE_def allowActionZPEChecked_def ref_text_def)
qed

lemma access_check_decides:
  assumes "zm_initialized z" and "zm_publicKeyStore z = Val pks" and "cache_laws (ze_cache env)"
    and "ca_get (ze_cache env) now u (zm_cache z) = None"
    and "role_parseSignedToken u new_role_token = Inr t"
    and "validate (ze_crypto env) (Token_constructor (zm_token z)) now
           (getZtsKey (val_of_ref (tok_keyId t)) pks) (zm_allowedOffset z) True t"
    and "millis (obj_get (zm_config z) ''tokenRefresh'') = Fin ms" and "0 < ms"
    and "tok_domain t = Val d" and "rt_roles t = Val roles" and "roles \<noteq> []" and "u \<noteq> d"
    and "cached_policy env now d rm z" and "build_maps pd = Inr (JStr d, rm)"
    and "action \<noteq> []" and "resource \<noteq> []"
    and "stripDomainPrefix (to_lower resource) (JStr d) Null = Val res" and "res \<noteq> []"
    and "request_ok roles (to_lower action) res"
  shows "\<exists>das. read_policies pd = Inr (JStr d, das)
    \<and> fst (allowAccess env now (Val u) (Val resource) (Val action) z)
        = Inr (Null, policy_decision das roles (to_lower action) res)"
proof -
  obtain c where c: "ca_put (ze_cache env) now u (CachedToken t) (Fin ms) (zm_cache z) = Inr c"
      and law: "put_law (ze_cache env) now u (CachedToken t) ms (zm_cache z) c"
    using cache_put [OF assms(3,8)] by blast
  define z' where "z' = z\<lparr>zm_token := Token_constructor (zm_token z), zm_cache := c\<rparr>"
  have admit: "admit_token env now u z = (Inr (Inr t), z')"
    using admit_token_valid [OF assms(1,2,5,6)] c assms(7) by (simp add: z'_def)
  have "cached_policy env now d rm z'"
    using assms(12,13) law by (simp add: cached_policy_def z'_def put_law_def)
  moreover have "u \<noteq> []" "d \<noteq> []"
    using assms(5,9) by (auto simp: role_parseSignedToken_def Let_def split: if_splits prod.splits)
  ultimately obtain das where "read_policies pd = Inr (JStr d, das)"
      "allowActionZPE env now (Val action) (Val d) (Val resource) (Val roles) z' =
        (Inr (Null, policy_decision das roles (to_lower action) res), z')"
    using allowActionZPE_decides [OF _ assms(14) _ assms(15,16,11,17,18,19)] by metis
  then show ?thesis
    using assms(1,4,9,10,15,16) admit \<open>u \<noteq> []\<close>
    by (simp add: allowAccess_def init_done allowAccessByTokenObj_def ref_text_def)
qed

text \<open>A check with a token that is in the cache looks only at the token's domain and roles.\<close>

lemma cached_token_decides:
  assumes "zm_initialized z"
    and "ca_get (ze_cache env) now u (zm_cache z) = Some (CachedToken t)" and "u \<noteq> []"
    and "tok_domain t = Val d" and "d \<noteq> []" and "rt_roles t = Val roles" and "roles \<noteq> []"
    and "cached_policy env now d rm z" and "build_maps pd = Inr (JStr d, rm)"
    and "action \<noteq> []" and "resource \<noteq> []"
    and "stripDomainPrefix (to_lower resource) (JStr d) Null = Val res" and "res \<noteq> []"
    and "request_ok roles (to_lower action) res"
  shows "\<exists>das. read_policies pd = Inr (JStr d, das)
    \<and> allowAccess env now (Val u) (Val resource) (Val action) z
        = (Inr (Null, policy_decision das roles (to_lower action) res), z)"
proof -
  obtain das where "read_policies pd = Inr (JStr d, das)"
      "allowActionZPE env now (Val action) (Val d) (Val resource) (Val roles) z =
        (Inr (Null, policy_decision das roles (to_lower action) res), z)"
    using allowActionZPE_decides [OF assms(8,9,5,10,11,7,12,13,14)] by metis
  then show ?thesis
    using assms by (simp add: allowAccess_def init_done allowAccessByTokenObj_def ref_text_def)
qed

text \<open>
  C2. An access check refines the policy document: when the policies of the token's domain are
  loaded, a role token that validates gets exactly the decision that the list of assertions in
  the document determines, a matching DENY assertion taking precedence over every ALLOW.
\<close>

theorem access_check_refines_policy:
  assumes "zm_initialized z" and "zm_publicKeyStore z = Val pks" and "cache_laws (ze_cache env)"
    and "ca_get (ze_cache env) now u (zm_cache z) = None"
    and "role_parseSignedToken u new_role_token = Inr t"
    and "validate (ze_crypto env) (Token_constructor (zm_token z)) now
           (getZtsKey (val_of_ref (tok_keyId t)) pks) (zm_allowedOffset z) True t"
    and "millis (obj_get (zm_config z) ''tokenRefresh'') = Fin ms" and "0 < ms"
    and "tok_domain t = Val d" and "rt_roles t = Val roles" and "roles \<noteq> []" and "u \<noteq> d"
    and "cached_policy env now d rm z" and "build_maps pd = Inr (JStr d, rm)"
    and "action \<noteq> []" and "resource \<noteq> []"
    and "stripDomainPrefix (to_lower resource) (JStr d) Null = Val res" and "res \<noteq> []"
    and "request_ok roles (to_lower action) res"
  shows "\<exists>das. read_policies pd = Inr (JStr d, das)
    \<and> fst (allowAccess env now (Val u) (Val resource) (Val action) z)
        = Inr (Null, policy_decision das roles (to_lower action) res)"
  using assms by (rule access_check_decides)

section \<open>A concrete engine\<close>

definition demo_assertion :: "string \<Rightarrow> string \<Rightarrow> jsval" where
  "demo_assertion effect resource =
     JObj [(''role'', JStr ''sports:role.readers''), (''action'', JStr ''read''),
       (''resource'', JStr resource), (''effect'', JStr effect)]"

definition demo_policy :: jsval where
  "demo_policy =
     JObj [(''domain'', JStr ''sports''),
       (''policies'', JArr [JObj [(''name'', JStr ''sports:policy.p''),
          (''assertions'', JArr [demo_assertion ''ALLOW'' ''sports:scores.*'',
             demo_assertion ''DENY'' ''sports:scores.secret''])]])]"

definition demo_maps :: role_maps where
  "demo_maps = (case build_maps demo_policy of Inr (d, rm) \<Rightarrow> rm | Inl e \<Rightarrow> empty_maps)"

definition demo_zpe_env :: "zpe_cached alist_cache zpe_env" where
  "demo_zpe_env =
     \<lparr>ze_crypto = accept_all, ze_root = Undefined, ze_read_json = (\<lambda>_. Inl (HostError ''ENOENT'')),
      ze_readdir = (\<lambda>_. Inr []), ze_watch = (\<lambda>_. True), ze_cache = alist_cache\<rparr>"

definition demo_keys :: public_key_store where
  "demo_keys = \<lparr>ks_zts = [(''0'', [1])], ks_zms = [(''0'', [2])]\<rparr>"

definition demo_zpe :: "zpe_cached alist_cache \<Rightarrow> zpe_cached alist_cache zpe_module" where
  "demo_zpe c =
     \<lparr>zm_config = zpe_config_section ''info'', zm_keyConfig = [], zm_updaterConfig = zpe_config_section ''info'',
      zm_publicKeyStore = Val demo_keys,
      zm_allowedOffset = Fin 300, zm_initialized = True, zm_client = True, zm_watcher = False,
      zm_cache = c, zm_token = demo_module\<rparr>"

lemma demo_maps_built: "build_maps demo_policy = Inr (JStr ''sports'', demo_maps)"
proof -
  have "\<exists>rm. build_maps demo_policy = Inr (JStr ''sports'', rm)"
    by (simp add: build_maps_def demo_policy_def load_policy_def load_assertion_def read_assertion_def
        demo_assertion_def str_of_val_def strip_own_def stripDomainPrefix_def ref_text_def strip_role_def
        starts_with_def add_assertion_def push_assert_def getMatchObject_def empty_maps_def
        substring_from_def proto_keys_def Let_def)
  then show ?thesis by (auto simp: demo_maps_def)
qed

lemma demo_role_fields:
  "\<exists>t. role_parseSignedToken demo_role_text new_role_token = Inr t
     \<and> tok_domain t = Val ''sports'' \<and> rt_roles t = Val [''readers''] \<and> tok_timestamp t = Fin 100
     \<and> tok_expiryTime t = Fin 150 \<and> tok_keyId t = Val ''0'' \<and> tok_signature t = Val ''abcd''
     \<and> tok_unsignedToken t = Val ''v=Z1;d=sports;r=readers;p=user.joe;a=aabb;t=100;e=150;k=0''"
  using string_to_number_show_int [of 100] string_to_number_show_int [of 150]
  by (simp add: role_parseSignedToken_def read_token_def parse_items_def item_kv_def
      demo_role_text_def role_switch_def new_role_token_def new_token_def token.defs
      role_token.defs set_role_unsigned_def ref_text_def show_int_def show_nat.simps js_simps)

lemma demo_request:
  "stripDomainPrefix (to_lower ''sports:scores.today'') (JStr ''sports'') Null = Val ''scores.today''"
  "request_ok [''readers''] (to_lower ''read'') ''scores.today''"
  by (simp_all add: to_lower_def lower_char_def Let_def stripDomainPrefix_def substring_from_def
      request_ok_def one_line_def dot_def plain_role_def proto_keys_def)

lemma demo_decision:
  "read_policies demo_policy = Inr (d, das) \<Longrightarrow>
     policy_decision das [''readers''] (to_lower ''read'') ''scores.today'' = ALLOW"
  by (auto simp: read_policies_def demo_policy_def read_policy_def read_assertion_def
        demo_assertion_def str_of_val_def strip_own_def stripDomainPrefix_def ref_text_def strip_role_def
        starts_with_def substring_from_def Let_def policy_decision_def applies_def to_lower_def
        lower_char_def)

definition demo_with_policy :: "rat \<Rightarrow> zpe_cached alist_cache zpe_module" where
  "demo_with_policy e = demo_zpe [(''sports'', CachedPolicy demo_maps, e)]"

lemma demo_token_valid:
  assumes "role_parseSignedToken demo_role_text new_role_token = Inr t"
  shows "validate (ze_crypto demo_zpe_env) (Token_constructor demo_module) 120000
    (getZtsKey (val_of_ref (tok_keyId t)) demo_keys) (Fin 300) True t"
  using demo_role_fields assms
  by (auto simp: validate_def accept_all_def Crypto_verify_def ybase64Decode_Val demo_zpe_env_def
      Token_constructor_def demo_module_def getZtsKey_def key_in_map_def val_of_ref_def demo_keys_def)

lemma demo_zpe_simps [simp]:
  "zm_initialized (demo_zpe c)" "zm_publicKeyStore (demo_zpe c) = Val demo_keys" "zm_cache (demo_zpe c) = c"
  "zm_token (demo_zpe c) = demo_module" "zm_allowedOffset (demo_zpe c) = Fin 300" "zm_client (demo_zpe c)"
  "millis (obj_get (zm_config (demo_zpe c)) ''tokenRefresh'') = Fin 1800000"
  "millis (obj_get (zm_updaterConfig (demo_zpe c)) ''policyRefresh'') = Fin 1800000"
  "ze_cache demo_zpe_env = alist_cache" "cache_laws alist_cache" "demo_role_text \<noteq> []"
  "demo_role_text \<noteq> ''sports''"
  by (simp_all add: demo_zpe_def zpe_config_section_def millis_def demo_zpe_env_def
      alist_cache_laws demo_role_text_def)

lemma demo_cached_policy: "of_int now < e \<Longrightarrow> cached_policy demo_zpe_env now ''sports'' demo_maps (demo_with_policy e)"
  by (simp add: cached_policy_def demo_with_policy_def) (simp add: alist_cache_def)

theorem access_check_refines_policy_witness:
  "fst (allowAccess demo_zpe_env 120000 (Val demo_role_text) (Val ''sports:scores.today'') (Val ''read'')
     (demo_with_policy 1000000)) = Inr (Null, ALLOW)"
proof -
  obtain t where t: "role_parseSignedToken demo_role_text new_role_token = Inr t"
     "tok_domain t = Val ''sports''" "rt_roles t = Val [''readers'']"
    using demo_role_fields by blast
  have "ca_get (ze_cache demo_zpe_env) 120000 demo_role_text (zm_cache (demo_with_policy 1000000)) = None"
    by (simp add: demo_with_policy_def) (simp add: alist_cache_def)
  then show ?thesis
    using access_check_refines_policy [OF _ _ _ _ t(1) _ _ _ t(2,3) _ _ demo_cached_policy demo_maps_built
        _ _ demo_request(1) _ demo_request(2), of 1000000 demo_keys 120000 1800000]
      demo_token_valid [OF t(1)] demo_decision
    by (auto simp: demo_with_policy_def)
qed

end
