(* ===== verification/ZPE_Safety.thy ===== *)
theory ZPE_Safety
  imports ZPE_Decision
begin

text \<open>
  What holds of the policy engine in every state it can reach: the cache holds only policies
  signed by ZTS and by ZMS and only role tokens signed by ZTS, and access is granted only by an
  assertion of such a policy to a role of such a token. Also what the engine does not check.
\<close>

section \<open>Policies and tokens that were checked\<close>

text \<open>A policy document out of a file in which both its signatures verify.\<close>

definition signed_document :: "'c zpe_env \<Rightarrow> public_key_store \<Rightarrow> jsval \<Rightarrow> bool" where
  "signed_document env pks pd \<longleftrightarrow>
     (\<exists>spols spd sig keyId zsig zkeyId text1 text2.
        get_prop spols ''signedPolicyData'' = Inr spd
        \<and> get_prop spols ''signature'' = Inr sig \<and> get_prop spols ''keyId'' = Inr keyId
        \<and> asCanonicalString spd = Inr text1
        \<and> Crypto_verify (ze_crypto env) text1 (getZtsKey keyId pks) (ref_of_val sig) ''SHA256'' = Inr True
        \<and> get_prop spd ''policyData'' = Inr pd
        \<and> get_prop spd ''zmsSignature'' = Inr zsig \<and> get_prop spd ''zmsKeyId'' = Inr zkeyId
        \<and> asCanonicalString pd = Inr text2
        \<and> Crypto_verify (ze_crypto env) text2 (getZmsKey zkeyId pks) (ref_of_val zsig) ''SHA256'' = Inr True)"

definition vouched_policy :: "'c zpe_env \<Rightarrow> public_key_store \<Rightarrow> string \<Rightarrow> role_maps \<Rightarrow> bool" where
  "vouched_policy env pks k rm \<longleftrightarrow>
     (\<exists>pd d. signed_document env pks pd \<and> build_maps pd = Inr (d, rm) \<and> k = js_text d)"

definition vouched_token :: "'c zpe_env \<Rightarrow> public_key_store \<Rightarrow> string \<Rightarrow> role_token \<Rightarrow> bool" where
  "vouched_token env pks k t \<longleftrightarrow>
     role_parseSignedToken k new_role_token = Inr t
     \<and> Crypto_verify (ze_crypto env) (ref_text (tok_unsignedToken t))
         (getZtsKey (val_of_ref (tok_keyId t)) pks) (tok_signature t) ''SHA256'' = Inr True"

fun vouched :: "'c zpe_env \<Rightarrow> public_key_store \<Rightarrow> string \<Rightarrow> zpe_cached \<Rightarrow> bool" where
  "vouched env pks k (CachedPolicy rm) = vouched_policy env pks k rm"
| "vouched env pks k (CachedToken t) = vouched_token env pks k t"

text \<open>The invariant of an initialized engine.\<close>

definition engine_ok :: "'c zpe_env \<Rightarrow> public_key_store \<Rightarrow> 'c zpe_module \<Rightarrow> bool" where
  "engine_ok env pks z \<longleftrightarrow> zm_initialized z \<and> zm_publicKeyStore z = Val pks
     \<and> (\<forall>t k v. ca_get (ze_cache env) t k (zm_cache z) = Some v \<longrightarrow> vouched env pks k v)"

section \<open>Every operation keeps the invariant\<close>

lemma engine_ok_put:
  assumes "cache_laws (ze_cache env)" and "engine_ok env pks z"
    and "ca_put (ze_cache env) now k v ms (zm_cache z) = Inr c" and "vouched env pks k v"
  shows "engine_ok env pks (z\<lparr>zm_cache := c\<rparr>)"
proof -
  have "vouched env pks k' v'" if "ca_get (ze_cache env) t k' c = Some v'" for t k' v'
    using that assms cache_put_Inr(1) [OF assms(1,3), of t] cache_put_Inr(2) [OF assms(1,3), of k' t] by (cases "k' = k") (auto simp: engine_ok_def)
  then show ?thesis
    using assms(2) by (simp add: engine_ok_def)
qed

lemma engine_ok_token: "engine_ok env pks z \<Longrightarrow> engine_ok env pks (z\<lparr>zm_token := tm\<rparr>)"
  by (simp add: engine_ok_def)

lemma keeps_loadPolicies:
  assumes "cache_laws (ze_cache env)" and "signed_document env pks pd"
  shows "keeps (engine_ok env pks) (loadPolicies env now pd)"
  unfolding keeps_def
proof (intro allI impI)
  fix z r z'
  assume z: "engine_ok env pks z" "loadPolicies env now pd z = (r, z')"
  show "engine_ok env pks z'"
  proof (cases "build_maps pd")
    case (Inl e)
    then show ?thesis using z by (simp add: loadPolicies_def)
  next
    case (Inr dm)
    obtain d rm where dm: "dm = (d, rm)" by force
    let ?put = "ca_put (ze_cache env) now (js_text d) (CachedPolicy rm)
        (millis (obj_get (zm_updaterConfig z) ''policyRefresh'')) (zm_cache z)"
    have v: "vouched env pks (js_text d) (CachedPolicy rm)"
      using assms(2) Inr dm by (auto simp: vouched_policy_def)
    show ?thesis
      using z Inr dm engine_ok_put [OF assms(1) z(1) _ v]
      by (cases ?put) (auto simp: loadPolicies_def)
  qed
qed

lemma build_maps_falsy: "\<not> truthy pd \<Longrightarrow> \<exists>e. build_maps pd = Inl e"
  by (cases pd) (auto simp: build_maps_def iterate_def get_prop_def)

lemma keeps_verify_value: "keeps I (verify_value env g v sig)"
  using verify_value_result(1) by (fastforce simp: keeps_def)

lemma keeps_loadPolicies_falsy: "\<not> truthy pd \<Longrightarrow> keeps I (loadPolicies env now pd)"
  using build_maps_falsy by (fastforce simp: keeps_def loadPolicies_def)

text \<open>The second half of a file: it loads nothing unless the ZMS signature verifies.\<close>

lemma keeps_load_zts_signed:
  assumes laws: "cache_laws (ze_cache env)"
    and doc: "\<And>pd zsig zkeyId text2. get_prop spd ''policyData'' = Inr pd \<Longrightarrow>
        get_prop spd ''zmsSignature'' = Inr zsig \<Longrightarrow> get_prop spd ''zmsKeyId'' = Inr zkeyId \<Longrightarrow>
        asCanonicalString pd = Inr text2 \<Longrightarrow>
        Crypto_verify (ze_crypto env) text2 (getZmsKey zkeyId pks) (ref_of_val zsig) ''SHA256'' = Inr True \<Longrightarrow>
        signed_document env pks pd"
  shows "keeps (engine_ok env pks) (load_zts_signed env now spd)"
proof -
  let ?I = "engine_ok env pks"
  have "keeps ?I (bind_action
      (if truthy pd then verify_value env (getZmsKey zkeyId) pd zsig else ret True)
      (\<lambda>verified. if \<not> verified then ret () else loadPolicies env now pd))"
    if "get_prop spd ''policyData'' = Inr pd" "get_prop spd ''zmsSignature'' = Inr zsig"
      "get_prop spd ''zmsKeyId'' = Inr zkeyId" for pd zsig zkeyId
  proof (cases "truthy pd")
    case True
    have "keeps ?I (if \<not> v then ret () else loadPolicies env now pd)"
      if z: "?I z" "verify_value env (getZmsKey zkeyId) pd zsig z = (Inr v, z')" for v z z'
      using verify_value_result(2) [OF z(2)] z(1) doc [OF \<open>get_prop spd ''policyData'' = Inr pd\<close>
          \<open>get_prop spd ''zmsSignature'' = Inr zsig\<close> \<open>get_prop spd ''zmsKeyId'' = Inr zkeyId\<close>]
        keeps_loadPolicies [OF laws]
      by (cases v) (auto simp: engine_ok_def intro: keeps_rules)
    then show ?thesis
      using True by (auto intro: keeps_bind_post keeps_verify_value)
  qed (auto intro!: keeps_rules keeps_loadPolicies_falsy)
  then show ?thesis
    unfolding load_zts_signed_def by (auto intro!: keeps_bind_post [OF keeps_prim(3)])
qed

lemma keeps_loadFile:
  assumes laws: "cache_laws (ze_cache env)"
  shows "keeps (engine_ok env pks) (loadFile env now dir f)"
proof -
  let ?I = "engine_ok env pks"
  have step: "keeps ?I (bind_action
      (if truthy spd then verify_value env (getZtsKey keyId) spd sig else ret False)
      (\<lambda>v. if \<not> v then ret () else load_zts_signed env now spd))"
    if file_doc: "get_prop spols ''signedPolicyData'' = Inr spd"
      "get_prop spols ''signature'' = Inr sig" "get_prop spols ''keyId'' = Inr keyId"
    for spols spd sig keyId
  proof (cases "truthy spd")
    case True
    have "keeps ?I (if \<not> v then ret () else load_zts_signed env now spd)"
      if z: "?I z" "verify_value env (getZtsKey keyId) spd sig z = (Inr v, z')" for v z z'
    proof (cases v)
      case True
      then obtain text1 where t1: "asCanonicalString spd = Inr text1"
          "Crypto_verify (ze_crypto env) text1 (getZtsKey keyId pks) (ref_of_val sig) ''SHA256'' = Inr True"
        using verify_value_result(2) [OF z(2)] z(1) by (auto simp: engine_ok_def)
      have "keeps ?I (load_zts_signed env now spd)"
        by (rule keeps_load_zts_signed [OF laws], unfold signed_document_def)
           (use file_doc t1 in blast)
      then show ?thesis
        using True by simp
    qed (auto intro: keeps_rules)
    then show ?thesis
      unfolding if_P [OF True] by (rule keeps_bind_post [OF keeps_verify_value])
  qed (simp add: keeps_def)
  show ?thesis
    unfolding loadFile_def
    by (rule keeps_bind_post [OF keeps_prim(3)], rule keeps_if [OF keeps_prim(1)],
        (rule keeps_bind_post [OF keeps_prim(3)])+, rule step) simp_all
qed

text \<open>The operations above \<^verbatim>\<open>_loadFile\<close>.\<close>

lemma keeps_lookup:
  assumes "cache_laws (ze_cache env)"
  shows "keeps (engine_ok env pks) (lookupPolicyInCache env now d)"
  unfolding lookupPolicyInCache_def loadFiles_def
  by (intro keeps_rules keeps_loadFile [OF assms])

lemma keeps_getters:
  assumes "cache_laws (ze_cache env)"
  shows "keeps (engine_ok env pks) (getRoleDenyAssertions env now d)"
    "keeps (engine_ok env pks) (getWildcardDenyAssertions env now d)"
    "keeps (engine_ok env pks) (getRoleAllowAssertions env now d)"
    "keeps (engine_ok env pks) (getWildcardAllowAssertions env now d)"
  unfolding getRoleDenyAssertions_def getWildcardDenyAssertions_def getRoleAllowAssertions_def
    getWildcardAllowAssertions_def
  by (intro keeps_rules keeps_lookup [OF assms])+

lemma keeps_check:
  assumes "cache_laws (ze_cache env)"
  shows "keeps (engine_ok env pks) (checkDenyAssertion env now action d resource roles status)"
  unfolding checkDenyAssertion_def checkAllowAssertion_def checkStatus_def
  by (intro keeps_rules keeps_getters [OF assms])

lemma keeps_byTokenObj:
  assumes "cache_laws (ze_cache env)"
  shows "keeps (engine_ok env pks) (allowAccessByTokenObj env now rt resource action)"
  unfolding allowAccessByTokenObj_def allowActionZPE_def allowActionZPEChecked_def Let_def
  by (auto intro!: keeps_rules keeps_check [OF assms] split: jsref.splits zpe_cached.splits list.splits)

lemma keeps_init: "keeps (engine_ok env pks) (init env)"
  by (auto simp: keeps_def engine_ok_def init_done)

lemma getZtsPublicKey_ok:
  "engine_ok env pks z \<Longrightarrow> getZtsPublicKey env k z = (Inr (getZtsKey k pks), z)"
  by (simp add: getZtsPublicKey_def engine_ok_def init_done)

text \<open>
  What becomes of a token that is not in the cache: it is refused, or its ZTS signature verifies
  and it is kept; in both cases the invariant holds afterwards.
\<close>

lemma admit_token_ok:
  assumes laws: "cache_laws (ze_cache env)" and z: "engine_ok env pks z"
    and run: "admit_token env now u z = (r, z')"
  shows "engine_ok env pks z'"
    and "r = Inr (Inr t) \<Longrightarrow> vouched_token env pks u t"
    and "r = Inr (Inl (e, st)) \<Longrightarrow> st \<noteq> ALLOW"
proof -
  let ?z = "z\<lparr>zm_token := Token_constructor (zm_token z)\<rparr>"
  have z1: "engine_ok env pks ?z"
    using engine_ok_token [OF z] .
  have "engine_ok env pks z' \<and> (\<forall>t. r = Inr (Inr t) \<longrightarrow> vouched_token env pks u t)
      \<and> (\<forall>e st. r = Inr (Inl (e, st)) \<longrightarrow> st \<noteq> ALLOW)"
  proof (cases "role_parseSignedToken u new_role_token")
    case (Inl e)
    then show ?thesis
      using run z1 by (auto simp: admit_token_def RoleToken_new_def)
  next
    case (Inr t)
    let ?valid = "validate (ze_crypto env) (zm_token ?z) now (getZtsKey (val_of_ref (tok_keyId t)) pks)
      (zm_allowedOffset ?z) True t"
    let ?put = "ca_put (ze_cache env) now u (CachedToken t)
      (millis (obj_get (zm_config ?z) ''tokenRefresh'')) (zm_cache ?z)"
    note key = getZtsPublicKey_ok [OF z1, of "val_of_ref (tok_keyId t)"]
    show ?thesis
    proof (cases ?valid)
      case True
      have "tok_digestAlgorithm t = ''SHA256''"
        using role_parse_signature(1) [OF Inr] .
      then have v: "vouched_token env pks u t"
        using validate_verified(2) [OF True] Inr by (simp add: vouched_token_def)
      then show ?thesis
        using run Inr key True z1 engine_ok_put [OF laws z1, of now u "CachedToken t"]
        by (cases ?put) (auto simp: admit_token_def RoleToken_new_def)
    next
      case False
      have "engine_ok env pks (?z\<lparr>zm_cache := ca_del (ze_cache env) now k (zm_cache ?z)\<rparr>)" for k
        using z1 cache_del(1) [OF laws] cache_del(2) [OF laws]
        by (auto simp: engine_ok_def) (metis option.distinct(1))
      then show ?thesis
        using run Inr key False z1 by (auto simp: admit_token_def RoleToken_new_def split: if_splits)
    qed
  qed
  then show "engine_ok env pks z'" and "r = Inr (Inr t) \<Longrightarrow> vouched_token env pks u t"
    and "r = Inr (Inl (e, st)) \<Longrightarrow> st \<noteq> ALLOW"
    by blast+
qed

lemma keeps_admit: "cache_laws (ze_cache env) \<Longrightarrow> keeps (engine_ok env pks) (admit_token env now u)"
  unfolding keeps_def using admit_token_ok(1) by blast

lemma keeps_allowAccess:
  assumes "cache_laws (ze_cache env)"
  shows "keeps (engine_ok env pks) (allowAccess env now u resource action)"
  unfolding allowAccess_def
  by (intro keeps_rules keeps_init keeps_admit [OF assms] keeps_byTokenObj [OF assms])

lemma keeps_watch_event:
  assumes "cache_laws (ze_cache env)"
  shows "keeps (engine_ok env pks) (watch_event env now ex ev f)"
  unfolding watch_event_def by (intro keeps_rules keeps_loadFile [OF assms])

lemma keeps_close:
  assumes "cache_laws (ze_cache env)"
  shows "keeps (engine_ok env pks) (AuthZPEClient_close env)"
  unfolding AuthZPEClient_close_def closeWatcher_def
  by (intro keeps_rules keeps_update)
     (simp add: engine_ok_def ZPEUpdater_close_def cache_clear [OF assms])

section \<open>Reachable states\<close>

text \<open>
  What can happen to an engine: checks, changes of the policy directory, closing. The policy
  directory and its files may be others at each step.
\<close>

definition with_files ::
  "(string \<Rightarrow> jsval result) \<Rightarrow> (string \<Rightarrow> string list result) \<Rightarrow> 'c zpe_env \<Rightarrow> 'c zpe_env" where
  "with_files files dir env = env\<lparr>ze_read_json := files, ze_readdir := dir\<rparr>"

inductive engine_step :: "'c zpe_env \<Rightarrow> 'c zpe_module \<Rightarrow> 'c zpe_module \<Rightarrow> bool" for env where
  step_access: "allowAccess (with_files files dir env) now u resource action z = (r, z') \<Longrightarrow> engine_step env z z'"
| step_watch: "watch_event (with_files files dir env) now ex ev f z = (r', z') \<Longrightarrow> engine_step env z z'"
| step_close: "AuthZPEClient_close env z = (r', z') \<Longrightarrow> engine_step env z z'"

lemma with_files_simps [simp]:
  "ze_cache (with_files files dir env) = ze_cache env"
  "ze_read_json (with_files files dir env) = files"
  "with_files (ze_read_json env) (ze_readdir env) env = env"
  by (simp_all add: with_files_def)

lemma engine_ok_files [simp]: "engine_ok (with_files files dir env) pks = engine_ok env pks"
proof -
  have sd: "signed_document (with_files files dir env) pks pd = signed_document env pks pd" for pd
    by (simp add: signed_document_def with_files_def)
  have "vouched (with_files files dir env) pks k v = vouched env pks k v" for k v
    by (cases v) (simp_all add: vouched_policy_def vouched_token_def sd, simp add: with_files_def)
  then show ?thesis
    by (simp add: engine_ok_def fun_eq_iff)
qed

lemma engine_step_ok:
  assumes "engine_step env z z'" and "cache_laws (ze_cache env)" and "engine_ok env pks z"
  shows "engine_ok env pks z'"
  using assms
proof (induction rule: engine_step.induct)
  case (step_access files dir now u resource action z r z')
  show ?case
    using keepsD [OF keeps_allowAccess step_access(1)] step_access(2,3) by simp
next
  case (step_watch files dir now ex ev f z r' z')
  show ?case
    using keepsD [OF keeps_watch_event step_watch(1)] step_watch(2,3) by simp
next
  case (step_close z r' z')
  show ?case
    by (rule keepsD [OF keeps_close [OF step_close(2)] step_close(1,3)])
qed

lemma engine_reachable_ok:
  assumes "(engine_step env)\<^sup>*\<^sup>* z z'" and "cache_laws (ze_cache env)" and "engine_ok env pks z"
  shows "engine_ok env pks z'"
  using assms by (induction rule: rtranclp_induct) (auto intro: engine_step_ok)

text \<open>
  C18. In every state an initialized engine with an empty cache can reach, through access checks,
  changes of the policy directory and closing, in any order, each policy in the cache was made
  from a document that ZTS and ZMS both signed, and each role token in it was read from its key
  and carries a signature that verifies with a ZTS key.
\<close>

theorem cache_holds_signed_only:
  assumes "(engine_step env)\<^sup>*\<^sup>* z z'" and "cache_laws (ze_cache env)"
    and "zm_initialized z" and "zm_publicKeyStore z = Val pks"
    and "\<forall>t k. ca_get (ze_cache env) t k (zm_cache z) = None"
    and "ca_get (ze_cache env) now k (zm_cache z') = Some v"
  shows "vouched env pks k v"
proof -
  have "engine_ok env pks z"
    using assms(3-5) by (simp add: engine_ok_def)
  then have "engine_ok env pks z'"
    using engine_reachable_ok assms(1,2) by blast
  then show ?thesis
    using assms(6) by (auto simp: engine_ok_def)
qed

lemma demo_token_admitted:
  assumes "role_parseSignedToken demo_role_text new_role_token = Inr t"
  shows "admit_token demo_zpe_env 120000 demo_role_text (demo_zpe c) =
    (Inr (Inr t), demo_zpe ((demo_role_text, CachedToken t, 1920000) # c)\<lparr>zm_token := Token_constructor demo_module\<rparr>)"
proof -
  have "ca_put (ze_cache demo_zpe_env) 120000 demo_role_text (CachedToken t)
      (millis (obj_get (zm_config (demo_zpe c)) ''tokenRefresh'')) (zm_cache (demo_zpe c))
      = Inr ((demo_role_text, CachedToken t, 1920000) # c)"
    by (simp, simp add: alist_cache_def)
  then show ?thesis
    using admit_token_valid [of "demo_zpe c" demo_keys, OF _ _ assms, of demo_zpe_env 120000]
      demo_token_valid [OF assms]
    by (simp add: demo_zpe_def)
qed

theorem cache_holds_signed_only_witness:
  "\<exists>z' t. (engine_step demo_zpe_env)\<^sup>*\<^sup>* (demo_zpe []) z'
     \<and> ca_get alist_cache 120000 demo_role_text (zm_cache z') = Some (CachedToken t)
     \<and> vouched demo_zpe_env demo_keys demo_role_text (CachedToken t)"
proof -
  obtain t where t: "role_parseSignedToken demo_role_text new_role_token = Inr t"
     "tok_domain t = Val ''sports''" "rt_roles t = Val [''readers'']"
    using demo_role_fields by blast
  have strip: "stripDomainPrefix (to_lower ''other:x'') (JStr ''sports'') Null = Null"
    by (simp add: stripDomainPrefix_def to_lower_def lower_char_def Let_def)
  let ?z = "demo_zpe [(demo_role_text, CachedToken t, 1920000)]\<lparr>zm_token := Token_constructor demo_module\<rparr>"
  have run: "\<exists>r. allowAccess demo_zpe_env 120000 (Val demo_role_text) (Val ''other:x'') (Val ''read'')
      (demo_zpe []) = (r, ?z)"
    by (simp add: allowAccess_def init_done ref_text_def demo_token_admitted [OF t(1)]
        allowAccessByTokenObj_def allowActionZPE_def t(2,3) allowActionZPEChecked_def strip)
  then have reach: "(engine_step demo_zpe_env)\<^sup>*\<^sup>* (demo_zpe []) ?z"
    using step_access [of "ze_read_json demo_zpe_env" "ze_readdir demo_zpe_env" demo_zpe_env]
    by (auto intro: r_into_rtranclp)
  have c: "ca_get alist_cache 120000 demo_role_text (zm_cache ?z) = Some (CachedToken t)"
    by (simp, simp add: alist_cache_def)
  have "vouched demo_zpe_env demo_keys demo_role_text (CachedToken t)"
    by (rule cache_holds_signed_only [OF reach]) (use c in simp_all)
  with reach c show ?thesis by blast
qed

section \<open>Who grants access\<close>

lemma lookup_vouched:
  assumes laws: "cache_laws (ze_cache env)" and z: "engine_ok env pks z"
    and run: "lookupPolicyInCache env now d z = (Inr (Some rm), z')"
  shows "vouched_policy env pks d rm"
proof -
  have ok: "engine_ok env pks z'"
    by (rule keepsD [OF keeps_lookup [OF laws] run z])
  have "ca_get (ze_cache env) now d (zm_cache z') = Some (CachedPolicy rm)"
    using run unfolding lookupPolicyInCache_def
    by (elim bind_action_Inr) (auto split: option.splits zpe_cached.splits)
  with ok have "vouched env pks d (CachedPolicy rm)"
    unfolding engine_ok_def by blast
  then show ?thesis by simp
qed

text \<open>A hit in one of the two allow maps of a vouched policy.\<close>

definition allow_hit ::
  "'c zpe_env \<Rightarrow> public_key_store \<Rightarrow> string \<Rightarrow> string list \<Rightarrow> string \<Rightarrow> string \<Rightarrow> bool" where
  "allow_hit env pks d roles action resource \<longleftrightarrow>
     (\<exists>rm. vouched_policy env pks d rm \<and>
        (actionByRole action resource roles (standardRoleAllowMap rm) = Inr True
         \<or> actionByWildcardRole action resource roles (wildcardRoleAllowMap rm)))"

lemma checkAllowAssertion_ALLOW:
  assumes laws: "cache_laws (ze_cache env)" and z: "engine_ok env pks z" and "status \<noteq> ALLOW"
    and run: "checkAllowAssertion env now action d resource roles status z = (Inr (e, ALLOW), z')"
  shows "allow_hit env pks d roles action resource"
proof -
  obtain m1 z1 where g1: "getRoleAllowAssertions env now d z = (Inr m1, z1)"
    using run unfolding checkAllowAssertion_def by (elim bind_action_Inr) blast
  have z1: "engine_ok env pks z1"
    by (rule keepsD [OF keeps_getters(3) [OF laws] g1 z])
  have v1: "\<exists>rm. m1 = Some (standardRoleAllowMap rm) \<and> vouched_policy env pks d rm" if "m1 \<noteq> None"
    using g1 that lookup_vouched [OF laws z] unfolding getRoleAllowAssertions_def
    by (elim bind_action_Inr) auto
  have v2: "\<exists>rm. m2 = Some (wildcardRoleAllowMap rm) \<and> vouched_policy env pks d rm"
    if "getWildcardAllowAssertions env now d z1 = (Inr m2, z2)" "m2 \<noteq> None" for m2 z2
    using that lookup_vouched [OF laws z1] unfolding getWildcardAllowAssertions_def
    by (elim bind_action_Inr) auto
  show ?thesis
  proof (cases "\<exists>m. m1 = Some m \<and> actionByRole action resource roles m = Inr True")
    case True
    then show ?thesis
      using v1 by (auto simp: allow_hit_def)
  next
    case False
    from False obtain m2 z2 where g2: "getWildcardAllowAssertions env now d z1 = (Inr m2, z2)"
        and "\<exists>m. m2 = Some m \<and> actionByWildcardRole action resource roles m"
      using run g1 assms(3) unfolding checkAllowAssertion_def
      by (auto simp: bind_action_def lift_result_def ret_def checkStatus_def
          split: option.splits if_splits sum.splits prod.splits)
    then show ?thesis
      using v2 [OF g2] by (auto simp: allow_hit_def)
  qed
qed

lemma checkDenyAssertion_ALLOW:
  assumes laws: "cache_laws (ze_cache env)" and z: "engine_ok env pks z" and "status \<noteq> ALLOW"
    and run: "checkDenyAssertion env now action d resource roles status z = (Inr (e, ALLOW), z')"
  shows "allow_hit env pks d roles action resource"
proof -
  obtain m1 z1 where g1: "getRoleDenyAssertions env now d z = (Inr m1, z1)"
    using run unfolding checkDenyAssertion_def by (elim bind_action_Inr) blast
  obtain m2 z2 where g2: "getWildcardDenyAssertions env now d z1 = (Inr m2, z2)"
    using run g1 unfolding checkDenyAssertion_def
    by (auto simp: bind_action_def split: option.splits if_splits sum.splits prod.splits)
  have z2: "engine_ok env pks z2"
    using keepsD [OF keeps_getters(2) [OF laws] g2] keepsD [OF keeps_getters(1) [OF laws] g1 z] by blast
  obtain st where "st \<noteq> ALLOW"
      "checkAllowAssertion env now action d resource roles st z2 = (Inr (e, ALLOW), z')"
    using run g1 g2 assms(3) unfolding checkDenyAssertion_def
    by (auto simp: bind_action_def split: option.splits if_splits sum.splits prod.splits)
  then show ?thesis
    using checkAllowAssertion_ALLOW [OF laws z2] by blast
qed

lemma allowAccessByTokenObj_ALLOW:
  assumes laws: "cache_laws (ze_cache env)" and z: "engine_ok env pks z"
    and run: "allowAccessByTokenObj env now (Val (CachedToken t)) resource action z = (Inr (e, ALLOW), z')"
  shows "\<exists>d roles res. tok_domain t = Val d \<and> rt_roles t = Val roles
    \<and> stripDomainPrefix (to_lower (ref_text resource)) (JStr d) Null = Val res
    \<and> allow_hit env pks d roles (to_lower (ref_text action)) res"
proof -
  obtain r rs where roles: "rt_roles t = Val (r # rs)"
    using run by (auto simp: allowAccessByTokenObj_def allowActionZPE_def Let_def
        split: jsref.splits list.splits)
  obtain d where d: "tok_domain t = Val d"
    using run roles by (cases "tok_domain t")
      (auto simp: allowAccessByTokenObj_def allowActionZPE_def Let_def)
  obtain res where res: "stripDomainPrefix (to_lower (ref_text resource)) (JStr d) Null = Val res"
      and check: "checkDenyAssertion env now (to_lower (ref_text action)) d res (r # rs)
        DENY_DOMAIN_NOT_FOUND z = (Inr (e, ALLOW), z')"
    using run roles d
    by (cases "stripDomainPrefix (to_lower (ref_text resource)) (JStr d) Null")
       (auto simp: allowAccessByTokenObj_def allowActionZPE_def allowActionZPEChecked_def Let_def
        ref_text_def split: if_splits)
  show ?thesis
    using checkDenyAssertion_ALLOW [OF laws z _ check] roles d res by auto
qed

lemma allowAccess_ALLOW:
  assumes laws: "cache_laws (ze_cache env)" and z: "engine_ok env pks z"
    and run: "allowAccess env now u resource action z = (Inr (e, ALLOW), z')"
  shows "\<exists>t d roles res. vouched_token env pks (ref_text u) t
    \<and> tok_domain t = Val d \<and> rt_roles t = Val roles
    \<and> stripDomainPrefix (to_lower (ref_text resource)) (JStr d) Null = Val res
    \<and> allow_hit env pks d roles (to_lower (ref_text action)) res"
proof (cases "ca_get (ze_cache env) now (ref_text u) (zm_cache z)")
  case None
  have "zm_initialized z"
    using z by (simp add: engine_ok_def)
  then obtain q z1 where q: "admit_token env now (ref_text u) z = (Inr q, z1)"
      and rest: "(case q of Inl refused \<Rightarrow> ret refused
        | Inr t \<Rightarrow> allowAccessByTokenObj env now (Val (CachedToken t)) resource action) z1
          = (Inr (e, ALLOW), z')"
    using run None by (auto simp: allowAccess_def init_done split: if_splits elim!: bind_action_Inr)
  obtain t where t: "q = Inr t"
    using admit_token_ok(3) [OF laws z q] rest by (cases q) auto
  show ?thesis
    using allowAccessByTokenObj_ALLOW [OF laws admit_token_ok(1) [OF laws z q]] rest t
      admit_token_ok(2) [OF laws z q] by auto
next
  case (Some v)
  have init: "zm_initialized z" and v: "vouched env pks (ref_text u) v"
    using z Some by (auto simp: engine_ok_def)
  have obj: "allowAccessByTokenObj env now (Val v) resource action z = (Inr (e, ALLOW), z')"
    using run Some init by (auto simp: allowAccess_def init_done split: if_splits)
  then obtain t where t: "v = CachedToken t"
    by (cases v) (auto simp: allowAccessByTokenObj_def)
  show ?thesis
    using allowAccessByTokenObj_ALLOW [OF laws z] obj v t by auto
qed

text \<open>The assertion behind a hit: it stands in the signed document.\<close>

definition granted_by :: "jsval \<Rightarrow> string \<Rightarrow> string list \<Rightarrow> string \<Rightarrow> string \<Rightarrow> bool" where
  "granted_by pd d roles action resource \<longleftrightarrow>
     (\<exists>dv das a r. read_policies pd = Inr (dv, das) \<and> js_text dv = d
        \<and> (False, a) \<in> set das \<and> r \<in> set roles
        \<and> ms_matches (getMatchObject (as_role a)) r
        \<and> ms_matches (getMatchObject (as_action a)) action
        \<and> ms_matches (getMatchObject (as_resource a)) resource)"

lemma actionByRole_True:
  "actionByRole action resource roles m = Inr True \<Longrightarrow>
     \<exists>r as. r \<in> set roles \<and> map_of m r = Some as \<and> matchAssertion as action resource"
  by (induction action resource roles m rule: actionByRole.induct)
     (auto split: option.splits if_splits)

lemma allow_hit_granted:
  assumes "allow_hit env pks d roles action resource"
  shows "\<exists>pd. signed_document env pks pd \<and> granted_by pd d roles action resource"
proof -
  obtain rm pd dv where pd: "signed_document env pks pd" "build_maps pd = Inr (dv, rm)" "d = js_text dv"
      and hit: "actionByRole action resource roles (standardRoleAllowMap rm) = Inr True
         \<or> actionByWildcardRole action resource roles (wildcardRoleAllowMap rm)"
    using assms by (auto simp: allow_hit_def vouched_policy_def)
  obtain das where das: "read_policies pd = Inr (dv, das)" "maps_hold das rm"
    using build_maps_holds [OF pd(2)] by blast
  have comp: "compiled a" if "(False, a) \<in> set das" for a
    using read_policies_compiled [OF das(1)] that by force
  then have comp': "\<forall>a\<in>set (select False False das). compiled a"
    by (simp add: in_select)
  have "\<exists>a r. (False, a) \<in> set das \<and> r \<in> set roles \<and> ms_matches (getMatchObject (as_role a)) r
      \<and> assert_matches action resource a"
    using hit
  proof
    assume "actionByRole action resource roles (standardRoleAllowMap rm) = Inr True"
    then obtain r as where r: "r \<in> set roles" "map_of (standardRoleAllowMap rm) r = Some as"
        "matchAssertion as action resource"
      using actionByRole_True by blast
    then obtain a where "a \<in> set (select False True das)" "as_role a = r" "assert_matches action resource a"
      using das(2) map_holds_get by (fastforce simp: maps_hold_def matchAssertion_iff)
    then show ?thesis
      using r(1) comp getMatchObject_literal(2) by (auto simp: in_select compiled_def)
  next
    assume "actionByWildcardRole action resource roles (wildcardRoleAllowMap rm)"
    then show ?thesis
      using actionByWildcardRole_iff [OF _ comp'] das(2) by (auto simp: maps_hold_def in_select)
  qed
  then show ?thesis
    using pd das(1) comp unfolding granted_by_def assert_matches_def compiled_def by metis
qed

lemma access_granted:
  assumes "cache_laws (ze_cache env)" and "engine_ok env pks z"
    and "allowAccess env now u resource action z = (Inr (e, ALLOW), z')"
  shows "\<exists>t d roles res pd. vouched_token env pks (ref_text u) t
    \<and> tok_domain t = Val d \<and> rt_roles t = Val roles
    \<and> stripDomainPrefix (to_lower (ref_text resource)) (JStr d) Null = Val res
    \<and> signed_document env pks pd \<and> granted_by pd d roles (to_lower (ref_text action)) res"
  using allowAccess_ALLOW [OF assms] allow_hit_granted by blast

text \<open>
  C3. Whatever happened to the engine before, with whatever policy files: a check that answers
  ALLOW was asked with a role token whose text carries a signature that verifies with a ZTS key,
  the resource is one of the token's domain, and a policy document of that domain signed by both
  ZTS and ZMS holds an assertion without the effect DENY whose role, action and resource patterns
  accept a role of the token, the action and the resource.
\<close>

theorem allow_needs_signed_grant:
  assumes "(engine_step env)\<^sup>*\<^sup>* z z'" and "cache_laws (ze_cache env)"
    and "zm_initialized z" and "zm_publicKeyStore z = Val pks"
    and "\<forall>t k. ca_get (ze_cache env) t k (zm_cache z) = None"
    and "allowAccess env now u resource action z' = (Inr (e, ALLOW), z'')"
  shows "\<exists>t d roles res pd. vouched_token env pks (ref_text u) t
    \<and> tok_domain t = Val d \<and> rt_roles t = Val roles
    \<and> stripDomainPrefix (to_lower (ref_text resource)) (JStr d) Null = Val res
    \<and> signed_document env pks pd \<and> granted_by pd d roles (to_lower (ref_text action)) res"
proof -
  have "engine_ok env pks z"
    using assms(3-5) by (simp add: engine_ok_def)
  then have "engine_ok env pks z'"
    using engine_reachable_ok assms(1,2) by blast
  then show ?thesis
    using access_granted assms(2,6) by blast
qed

text \<open>A policy file with both signatures, loaded by the watcher, then a check.\<close>

definition demo_file :: jsval where
  "demo_file =
     JObj [(''signedPolicyData'', JObj [(''policyData'', demo_policy), (''zmsSignature'', JStr ''abcd''),
         (''zmsKeyId'', JStr ''0'')]),
       (''signature'', JStr ''abcd''), (''keyId'', JStr ''0'')]"

lemma demo_file_loaded:
  "watch_event (with_files (\<lambda>_. Inr demo_file) (\<lambda>_. Inr []) demo_zpe_env) 120000 True ''change'' ''sports.pol''
     (demo_zpe []) = (Inr (), demo_with_policy 1920000)"
proof -
  let ?env = "with_files (\<lambda>_. Inr demo_file) (\<lambda>_. Inr []) demo_zpe_env"
  define spd where "spd = JObj [(''policyData'', demo_policy), (''zmsSignature'', JStr ''abcd''), (''zmsKeyId'', JStr ''0'')]"
  have spd: "get_prop demo_file ''signedPolicyData'' = Inr spd" "get_prop demo_file ''signature'' = Inr (JStr ''abcd'')"
      "get_prop demo_file ''keyId'' = Inr (JStr ''0'')" "truthy demo_file" "truthy spd" "truthy demo_policy"
      "get_prop spd ''policyData'' = Inr demo_policy" "get_prop spd ''zmsSignature'' = Inr (JStr ''abcd'')"
      "get_prop spd ''zmsKeyId'' = Inr (JStr ''0'')"
    by (simp_all add: demo_file_def spd_def demo_policy_def)
  have "\<exists>s. asCanonicalString demo_policy = Inr s"
    by (simp add: demo_policy_def demo_assertion_def)
  moreover from this have "\<exists>s. asCanonicalString spd = Inr s"
    by (auto simp: spd_def)
  ultimately have signed: "verify_value ?env (g k) v (JStr ''abcd'') (demo_zpe []) = (Inr True, demo_zpe [])"
    if "v \<in> {demo_policy, spd}" "g = getZtsKey \<or> g = getZmsKey" "k = JStr ''0''" for v g k
    using that
    by (auto simp: verify_value_def client_key_def, auto simp: with_files_def demo_zpe_env_def accept_all_def
        Crypto_verify_def ybase64Decode_Val demo_keys_def getZtsKey_def getZmsKey_def key_in_map_def ref_of_val_def)
  have "loadPolicies ?env 120000 demo_policy (demo_zpe []) = (Inr (), demo_with_policy 1920000)"
    by (simp add: loadPolicies_def demo_maps_built, simp add: alist_cache_def demo_with_policy_def demo_zpe_def)
  then show ?thesis
    by (simp add: watch_event_def loadFile_def load_zts_signed_def spd signed)
qed

lemma demo_access_granted:
  "\<exists>z'. allowAccess demo_zpe_env 120000 (Val demo_role_text) (Val ''sports:scores.today'') (Val ''read'')
     (demo_with_policy 1920000) = (Inr (Null, ALLOW), z')"
proof -
  obtain t where t: "role_parseSignedToken demo_role_text new_role_token = Inr t"
     "tok_domain t = Val ''sports''" "rt_roles t = Val [''readers'']"
    using demo_role_fields by blast
  have "ca_get (ze_cache demo_zpe_env) 120000 demo_role_text (zm_cache (demo_with_policy 1920000)) = None"
    by (simp add: demo_with_policy_def) (simp add: alist_cache_def)
  then have "fst (allowAccess demo_zpe_env 120000 (Val demo_role_text) (Val ''sports:scores.today'') (Val ''read'')
     (demo_with_policy 1920000)) = Inr (Null, ALLOW)"
    using access_check_decides [OF _ _ _ _ t(1) _ _ _ t(2,3) _ _ demo_cached_policy demo_maps_built
        _ _ demo_request(1) _ demo_request(2), of 1920000 demo_keys 120000 1800000]
      demo_token_valid [OF t(1)] demo_decision
    by (auto simp: demo_with_policy_def)
  then show ?thesis
    by (metis prod.collapse)
qed

theorem allow_needs_signed_grant_witness:
  "\<exists>t pd. vouched_token demo_zpe_env demo_keys demo_role_text t \<and> signed_document demo_zpe_env demo_keys pd
     \<and> granted_by pd ''sports'' [''readers''] ''read'' ''scores.today''"
proof -
  have reach: "(engine_step demo_zpe_env)\<^sup>*\<^sup>* (demo_zpe []) (demo_with_policy 1920000)"
    using step_watch [OF demo_file_loaded] by (rule r_into_rtranclp)
  obtain z' where run: "allowAccess demo_zpe_env 120000 (Val demo_role_text) (Val ''sports:scores.today'')
      (Val ''read'') (demo_with_policy 1920000) = (Inr (Null, ALLOW), z')"
    using demo_access_granted by blast
  obtain t d roles res pd where g: "vouched_token demo_zpe_env demo_keys (ref_text (Val demo_role_text)) t"
      "tok_domain t = Val d" "rt_roles t = Val roles"
      "stripDomainPrefix (to_lower (ref_text (Val ''sports:scores.today''))) (JStr d) Null = Val res"
      "signed_document demo_zpe_env demo_keys pd" "granted_by pd d roles (to_lower (ref_text (Val ''read''))) res"
    using allow_needs_signed_grant [OF reach _ _ _ _ run, of demo_keys] by auto
  have "role_parseSignedToken demo_role_text new_role_token = Inr t"
    using g(1) by (simp add: vouched_token_def ref_text_def)
  then have "d = ''sports''" "roles = [''readers'']"
    using g(2,3) demo_role_fields by auto
  then show ?thesis
    using g demo_request(1) by (auto simp: ref_text_def to_lower_def lower_char_def)
qed

section \<open>What is not checked\<close>

text \<open>
  A role token is validated only when it enters the cache: while it is there, a check
  decides by its domain and roles alone, whatever its expiry time and the current time are.
\<close>

theorem cached_token_not_rechecked:
  assumes "zm_initialized z"
    and "ca_get (ze_cache env) now u (zm_cache z) = Some (CachedToken t)" and "u \<noteq> []"
    and "tok_domain t = Val d" and "d \<noteq> []" and "rt_roles t = Val roles" and "roles \<noteq> []"
    and "cached_policy env now d rm z" and "build_maps pd = Inr (JStr d, rm)"
    and "action \<noteq> []" and "resource \<noteq> []"
    and "stripDomainPrefix (to_lower resource) (JStr d) Null = Val res" and "res \<noteq> []"
    and "request_ok roles (to_lower action) res"
  shows "\<exists>das. read_policies pd = Inr (JStr d, das)
    \<and> allowAccess env now (Val u) (Val resource) (Val action) z
        = (Inr (Null, policy_decision das roles (to_lower action) res), z)"
  using assms by (rule cached_token_decides)

text \<open>A token that expired at second 150 is cached and still opens the resource at second 1000.\<close>

theorem cached_token_not_rechecked_witness:
  "\<exists>t z. role_parseSignedToken demo_role_text new_role_token = Inr t \<and> tok_expiryTime t = Fin 150
     \<and> snd (admit_token demo_zpe_env 120000 demo_role_text (demo_with_policy 1920000)) = z
     \<and> allowAccess demo_zpe_env 1000000 (Val demo_role_text) (Val ''sports:scores.today'') (Val ''read'') z
         = (Inr (Null, ALLOW), z)"
proof -
  obtain t where t: "role_parseSignedToken demo_role_text new_role_token = Inr t"
     "tok_domain t = Val ''sports''" "rt_roles t = Val [''readers'']" "tok_expiryTime t = Fin 150"
    using demo_role_fields by blast
  let ?z = "demo_zpe [(demo_role_text, CachedToken t, 1920000), (''sports'', CachedPolicy demo_maps, 1920000)]
      \<lparr>zm_token := Token_constructor demo_module\<rparr>"
  have z: "admit_token demo_zpe_env 120000 demo_role_text (demo_with_policy 1920000) = (Inr (Inr t), ?z)"
    by (simp add: demo_with_policy_def demo_token_admitted [OF t(1)])
  have c: "ca_get (ze_cache demo_zpe_env) 1000000 demo_role_text (zm_cache ?z) = Some (CachedToken t)"
      "cached_policy demo_zpe_env 1000000 ''sports'' demo_maps ?z"
    by (simp, simp add: alist_cache_def) (simp add: cached_policy_def, simp add: alist_cache_def demo_role_text_def)
  have "allowAccess demo_zpe_env 1000000 (Val demo_role_text) (Val ''sports:scores.today'') (Val ''read'') ?z
      = (Inr (Null, ALLOW), ?z)"
    using cached_token_not_rechecked [OF _ c(1) _ t(2) _ t(3) _ c(2) demo_maps_built _ _ demo_request(1) _
        demo_request(2)] demo_decision by auto
  then show ?thesis
    using t(1,4) z by auto
qed

text \<open>
  Tokens and policies share one cache: a check whose role token is the name of a domain with
  cached policies finds the policies under it and throws instead of answering.
\<close>

theorem domain_name_as_token_throws:
  assumes "zm_initialized z" and "cached_policy env now d rm z"
    and "d \<noteq> []" and "resource \<noteq> []" and "action \<noteq> []"
  shows "allowAccess env now (Val d) (Val resource) (Val action) z = (Inl (TypeError ''getDomain''), z)"
  using assms
  by (simp add: allowAccess_def init_done cached_policy_def allowAccessByTokenObj_def ref_text_def)

theorem domain_name_as_token_throws_witness:
  "allowAccess demo_zpe_env 120000 (Val ''sports'') (Val ''sports:scores'') (Val ''read'') (demo_with_policy 1000000)
     = (Inl (TypeError ''getDomain''), demo_with_policy 1000000)"
  by (rule domain_name_as_token_throws [OF _ demo_cached_policy]) (simp_all add: demo_with_policy_def)

end
