(* ===== verification/Rdl_Rest.thy ===== *)
theory Rdl_Rest
  imports Auth_Config Token
begin

text \<open>
  The module \<^verbatim>\<open>zts/libs/rdl-rest.js\<close>: it turns the routes of an RDL document
  into the methods of a REST client. A route is an object of the document; a parameter that is
  absent is the empty string here. The modules \<^verbatim>\<open>url\<close>, \<^verbatim>\<open>path\<close> and
  \<^verbatim>\<open>os\<close> of the platform are a parameter, and so is \<^verbatim>\<open>request\<close>,
  which sends what \<^verbatim>\<open>_normalizeParts\<close> returns. The names of inputs and routes are
  not those every object inherits.
\<close>

section \<open>Routes, clients, requests\<close>

record rdl_input =
  in_name :: string
  in_type :: string
  in_pathParam :: bool
  in_queryParam :: string
  in_header :: string

record route =
  ro_type :: string
  ro_method :: string
  ro_path :: string
  ro_inputs :: "rdl_input list"

text \<open>The incoming request a client may be scoped to.\<close>

record http_request =
  rq_headers :: "jsval jsobj"
  rq_protocol :: string
  rq_originalUrl :: string
  rq_query :: "jsval jsobj"
  rq_requestId :: jsval

datatype header_value = HVal jsval | HFun "http_request option \<Rightarrow> jsval"

datatype client_headers =
    NoHeaders
  | HeaderFun "jsval jsobj \<Rightarrow> http_request option \<Rightarrow> jsval jsobj"
  | HeaderObj "header_value jsobj"

record rest_client =
  rc_apiHost :: string
  rc_request :: "http_request option"
  rc_headers :: client_headers
  rc_requestOpts :: "jsval jsobj"

record url_parts =
  up_protocol :: string
  up_auth :: string
  up_host :: string
  up_pathname :: "string jsref"
  up_search :: string
  up_query :: "jsval jsobj"

record node_url =
  nu_parse :: "string \<Rightarrow> url_parts"
  nu_format :: "url_parts \<Rightarrow> string"
  nu_join :: "string \<Rightarrow> string \<Rightarrow> string"
  nu_hostname :: string

text \<open>
  The options handed to \<^verbatim>\<open>request\<close>: those of the configuration, and the ones each
  call sets.
\<close>

record request_options =
  op_base :: "jsval jsobj"
  op_method :: string
  op_headers :: "jsval jsobj"
  op_uri :: string
  op_body :: "jsval option"

section \<open>Language\<close>

text \<open>\<^verbatim>\<open>JSON.parse(JSON.stringify(v))\<close> for a value that is not \<^verbatim>\<open>undefined\<close>.\<close>

fun json_clone :: "jsval \<Rightarrow> jsval" where
  "json_clone (JNum n) = (case n of Fin r \<Rightarrow> JNum n | _ \<Rightarrow> JNull)"
| "json_clone (JArr vs) = JArr (map (\<lambda>v. if v = JUndef then JNull else json_clone v) vs)"
| "json_clone (JObj kvs) = JObj (filter (\<lambda>p. snd p \<noteq> JUndef) (map (\<lambda>(k, v). (k, json_clone v)) kvs))"
| "json_clone v = v"

definition clone_obj :: "jsval jsobj \<Rightarrow> jsval jsobj" where
  "clone_obj kvs = (case json_clone (JObj kvs) of JObj l \<Rightarrow> l | _ \<Rightarrow> [])"

text \<open>
  \<^verbatim>\<open>s.replace(p, r)\<close> for strings: the first occurrence is replaced, and
  \<^verbatim>\<open>$\<close> sequences in the replacement stand for the dollar sign, the match, what
  precedes it and what follows it.
\<close>

fun expand_dollar :: "string \<Rightarrow> string \<Rightarrow> string \<Rightarrow> string \<Rightarrow> string" where
  "expand_dollar before match after [] = []"
| "expand_dollar before match after [c] = [c]"
| "expand_dollar before match after (c # d # r) =
     (if c = CHR 0x24 \<and> d = CHR 0x24 then CHR 0x24 # expand_dollar before match after r
      else if c = CHR 0x24 \<and> d = CHR 0x26 then match @ expand_dollar before match after r
      else if c = CHR 0x24 \<and> d = CHR 0x60 then before @ expand_dollar before match after r
      else if c = CHR 0x24 \<and> d = CHR 0x27 then after @ expand_dollar before match after r
      else c # expand_dollar before match after (d # r))"

definition replace_text :: "string \<Rightarrow> string \<Rightarrow> string \<Rightarrow> string" where
  "replace_text p r s =
     (case index_of p s of
        None \<Rightarrow> s
      | Some i \<Rightarrow> take i s @ expand_dollar (take i s) p (drop (i + length p) s) r @ drop (i + length p) s)"

text \<open>\<^verbatim>\<open>Object.keys(v).length\<close>\<close>

fun keys_length :: "jsval \<Rightarrow> nat result" where
  "keys_length JUndef = Inl (TypeError ''Object.keys'')"
| "keys_length JNull = Inl (TypeError ''Object.keys'')"
| "keys_length (JBool b) = Inr 0"
| "keys_length (JNum n) = Inr 0"
| "keys_length (JStr s) = Inr (length s)"
| "keys_length (JArr vs) = Inr (length vs)"
| "keys_length (JObj kvs) = Inr (length kvs)"

section \<open>Method names\<close>

definition capitalize :: "string \<Rightarrow> string" where
  "capitalize s = (case s of [] \<Rightarrow> [] | c # cs \<Rightarrow> upper_char c # cs)"

definition normalizeMethod :: "route \<Rightarrow> string list \<Rightarrow> string" where
  "normalizeMethod route proto =
     (let name = capitalize (ro_type route);
          verb = to_lower (ro_method route)
      in if verb @ name \<in> set proto
         then (case filter (\<lambda>i. in_name i = ''detail'') (ro_inputs route) of
                 [] \<Rightarrow> verb @ name
               | item # _ \<Rightarrow> verb @ capitalize (in_type item))
         else verb @ name)"

section \<open>Building a request\<close>

definition forwardHeaders :: "string list" where
  "forwardHeaders =
     [''authorization'', ''cookie'', ''user-agent'', ''client-ip'', ''x-forwarded-for'', ''bucket'']"

definition forward_header :: "jsval jsobj \<Rightarrow> jsval jsobj \<Rightarrow> string \<Rightarrow> jsval jsobj" where
  "forward_header given headers name =
     (if truthy (obj_get given name) then obj_put name (obj_get given name) headers else headers)"

definition referer :: "node_url \<Rightarrow> http_request \<Rightarrow> string" where
  "referer nu req = nu_format nu
     \<lparr>up_protocol = rq_protocol req, up_auth = [], up_host = nu_hostname nu,
      up_pathname = up_pathname (nu_parse nu (rq_originalUrl req)), up_search = [],
      up_query = rq_query req\<rparr>"

text \<open>Headers that are given as something else than an object cannot be assigned to.\<close>

definition header_object :: "jsval \<Rightarrow> jsval jsobj result" where
  "header_object v =
     (case v of
        JObj kvs \<Rightarrow> Inr kvs
      | JArr vs \<Rightarrow> Inr (map (\<lambda>(i, v). (show_nat i, v)) (enumerate 0 vs))
      | _ \<Rightarrow> if truthy v then Inl (TypeError ''headers'') else Inr [])"

definition header_result :: "http_request option \<Rightarrow> header_value \<Rightarrow> jsval" where
  "header_result req hv = (case hv of HVal v \<Rightarrow> v | HFun f \<Rightarrow> f req)"

definition setHeaders :: "node_url \<Rightarrow> rest_client \<Rightarrow> jsval \<Rightarrow> jsval jsobj result" where
  "setHeaders nu self given =
     bind_result (header_object given) (\<lambda>headers.
       let forwarded =
             (case rc_request self of
                None \<Rightarrow> headers
              | Some req \<Rightarrow> obj_put ''referer'' (JStr (referer nu req))
                  (foldl (forward_header (rq_headers req)) headers forwardHeaders));
           typed = obj_put ''content-type'' (JStr ''application/json'') forwarded
       in Inr (case rc_headers self of
                 NoHeaders \<Rightarrow> typed
               | HeaderFun f \<Rightarrow> f typed None
               | HeaderObj own \<Rightarrow>
                   foldl (\<lambda>h (name, v). obj_put name (header_result (rc_request self) v) h) typed own))"

text \<open>What the loop over the inputs of a route changes.\<close>

record parts_state =
  ps_headers :: "jsval jsobj"
  ps_query :: "jsval jsobj"
  ps_pathname :: string
  ps_data :: "jsval jsobj"

definition apply_input :: "rdl_input \<Rightarrow> parts_state \<Rightarrow> parts_state" where
  "apply_input item ps =
     (let name = in_name item;
          v = obj_get (ps_data ps) name
      in if \<not> truthy v then ps
         else
           let ps1 = (if in_header item \<noteq> []
                 then ps\<lparr>ps_headers := obj_put (to_lower (in_header item)) v (ps_headers ps),
                         ps_data := obj_del name (ps_data ps)\<rparr> else ps);
               ps2 = (if in_queryParam item \<noteq> []
                 then ps1\<lparr>ps_query := obj_put (in_queryParam item) v (ps_query ps1),
                          ps_data := obj_del name (ps_data ps1)\<rparr> else ps1)
           in (if in_pathParam item
               then ps2\<lparr>ps_pathname := replace_text (''{'' @ name @ ''}'') (js_text v) (ps_pathname ps2),
                        ps_data := obj_del name (ps_data ps2)\<rparr> else ps2))"

definition is_body :: "rdl_input \<Rightarrow> bool" where
  "is_body item \<longleftrightarrow> \<not> in_pathParam item \<and> in_header item = [] \<and> in_queryParam item = []"

text \<open>\<open>None\<close> is \<^verbatim>\<open>null\<close>: no body.\<close>

definition normalizeData :: "route \<Rightarrow> jsval jsobj \<Rightarrow> jsval option result" where
  "normalizeData route data =
     (let out = (case filter is_body (ro_inputs route) of
                   [] \<Rightarrow> JObj []
                 | item # _ \<Rightarrow> obj_get data (in_name item))
      in bind_result (keys_length out) (\<lambda>n. Inr (if n = 0 then None else Some out)))"

definition request_id :: "http_request option \<Rightarrow> jsval jsobj \<Rightarrow> jsval jsobj" where
  "request_id req query =
     (case req of
        Some r \<Rightarrow> if truthy (rq_requestId r) then obj_put ''requestId'' (rq_requestId r) query else query
      | None \<Rightarrow> query)"

definition normalizeParts ::
  "node_url \<Rightarrow> rest_client \<Rightarrow> route \<Rightarrow> jsval jsobj \<Rightarrow> request_options result" where
  "normalizeParts nu self route data0 =
     (let parts = nu_parse nu (rc_apiHost self);
          data = clone_obj data0
      in bind_result (setHeaders nu self (obj_get data ''headers'')) (\<lambda>headers.
         case up_pathname parts of
           Val pathname \<Rightarrow>
             let ps = fold apply_input (ro_inputs route)
                   \<lparr>ps_headers = headers, ps_query = request_id (rc_request self) (up_query parts),
                    ps_pathname = nu_join nu pathname (ro_path route),
                    ps_data = obj_del ''headers'' data\<rparr>
             in bind_result (normalizeData route (ps_data ps)) (\<lambda>body.
                  Inr \<lparr>op_base = rc_requestOpts self, op_method = ro_method route,
                       op_headers = ps_headers ps,
                       op_uri = nu_format nu (parts\<lparr>up_pathname := Val (ps_pathname ps),
                         up_query := ps_query ps\<rparr>),
                       op_body = body\<rparr>)
         | _ \<Rightarrow> Inl (TypeError ''path'')))"

section \<open>Responses\<close>

definition isSuccessResponseCode :: "int option \<Rightarrow> bool" where
  "isSuccessResponseCode responseCode =
     (case responseCode of Some c \<Rightarrow> c \<noteq> 0 \<and> 200 \<le> c \<and> c < 300 | None \<Rightarrow> False)"

definition isJsonResponse :: "jsval \<Rightarrow> bool" where
  "isJsonResponse v = (case v of JObj _ \<Rightarrow> True | JArr _ \<Rightarrow> True | JNull \<Rightarrow> True | _ \<Rightarrow> False)"

text \<open>
  The callback of \<^verbatim>\<open>request\<close>: the error and the value the caller's callback is
  called with. \<open>status\<close> is the status code of the response, if there is one.
\<close>

definition rest_response :: "jsval \<Rightarrow> int option \<Rightarrow> jsval \<Rightarrow> jsval \<times> jsval" where
  "rest_response err status json0 =
     (let success = isSuccessResponseCode status;
          no_text = success \<and> \<not> isJsonResponse json0 \<and> status \<noteq> Some 200;
          json = (if no_text then JObj [] else json0);
          isJson = (isJsonResponse json0 \<or> no_text)
      in if truthy err \<or> \<not> success \<or> \<not> isJson
         then (JObj [(''status'', case status of Some c \<Rightarrow> JNum (num_of_int c) | None \<Rightarrow> JUndef),
                     (''message'', json), (''error'', err)],
               if isJson then json else JNull)
         else (err, json))"

section \<open>The client\<close>

definition rest_own_names :: "string list" where
  "rest_own_names = proto_keys @ [''_normalizeParts'', ''_normalizeData'', ''_setHeaders'']"

text \<open>The methods a document gives: a later route with the same name takes its place.\<close>

definition add_route :: "route jsobj \<Rightarrow> route \<Rightarrow> route jsobj" where
  "add_route methods route =
     obj_put (normalizeMethod route (rest_own_names @ obj_keys methods)) route methods"

definition generate :: "route list \<Rightarrow> route jsobj" where
  "generate resources = foldl add_route [] resources"

datatype call_args = NoArgs | OnlyCallback | DataOnly "jsval jsobj" | DataCallback "jsval jsobj"

definition rest_call ::
  "node_url \<Rightarrow> route jsobj \<Rightarrow> rest_client \<Rightarrow> string \<Rightarrow> call_args \<Rightarrow> request_options result" where
  "rest_call nu methods self meth args =
     (case map_of methods meth of
        None \<Rightarrow> Inl (TypeError meth)
      | Some route \<Rightarrow>
          (case args of
             DataCallback data \<Rightarrow> normalizeParts nu self route data
           | OnlyCallback \<Rightarrow> normalizeParts nu self route []
           | _ \<Rightarrow> Inl (Error (''Invalid number of arguments passed while calling: '' @ meth))))"

record rest_factory =
  rf_methods :: "route jsobj"
  rf_apiHost :: string
  rf_headers :: client_headers
  rf_requestOpts :: "jsval jsobj"

definition rdl_rest ::
  "route list option \<Rightarrow> string jsref \<Rightarrow> client_headers \<Rightarrow> jsval jsobj option \<Rightarrow> rest_factory result" where
  "rdl_rest rdl apiHost headers requestOpts =
     (case rdl of
        None \<Rightarrow> Inl (Error ''RDL spec not provided'')
      | Some resources \<Rightarrow>
          if \<not> str_truthy apiHost then Inl (Error ''apiHost is required'')
          else Inr \<lparr>rf_methods = generate resources, rf_apiHost = ref_text apiHost,
                    rf_headers = headers,
                    rf_requestOpts = (case requestOpts of Some opts \<Rightarrow> opts
                      | None \<Rightarrow> [(''timeout'', JNum (Fin 4000))])\<rparr>)"

definition RDLRest_new :: "rest_factory \<Rightarrow> http_request option \<Rightarrow> client_headers \<Rightarrow> rest_client" where
  "RDLRest_new f req headers =
     \<lparr>rc_apiHost = rf_apiHost f, rc_request = req,
      rc_headers = (case headers of NoHeaders \<Rightarrow> rf_headers f | _ \<Rightarrow> headers),
      rc_requestOpts = rf_requestOpts f\<rparr>"

end
