(* ===== verification/Rdl_Routes.thy ===== *)
theory Rdl_Routes
  imports Rdl_Rest
begin

text \<open>
  What the generated REST client sends: which route a method name stands for, where the inputs of
  a call go, and which answers count as errors.
\<close>

section \<open>Method names\<close>

text \<open>The name of a route without an input \<^verbatim>\<open>detail\<close> does not depend on the others.\<close>

definition method_name :: "route \<Rightarrow> string" where
  "method_name route = to_lower (ro_method route) @ capitalize (ro_type route)"

definition no_detail :: "route \<Rightarrow> bool" where
  "no_detail route \<longleftrightarrow> (\<forall>i\<in>set (ro_inputs route). in_name i \<noteq> ''detail'')"

lemma normalizeMethod_no_detail: "no_detail r \<Longrightarrow> normalizeMethod r proto = method_name r"
proof -
  assume "no_detail r"
  then have "filter (\<lambda>i. in_name i = ''detail'') (ro_inputs r) = []"
    by (simp add: no_detail_def filter_empty_conv)
  then show ?thesis
    by (simp add: normalizeMethod_def method_name_def Let_def)
qed

lemma generate_snoc: "generate (rs @ [r]) = add_route (generate rs) r"
  by (simp add: generate_def)

lemma generate_lookup:
  assumes "\<forall>r\<in>set resources. no_detail r"
  shows "map_of (generate resources) n = List.find (\<lambda>r. method_name r = n) (rev resources)"
  using assms
proof (induction resources rule: rev_induct)
  case Nil
  show ?case by (simp add: generate_def)
next
  case (snoc r rs)
  then show ?case
    by (simp add: generate_snoc add_route_def map_of_obj_put normalizeMethod_no_detail)
qed

text \<open>
  A method of the generated client stands for the last route of the document whose verb and
  type give its name: an earlier route with the same verb and type is not reachable, also when
  the document gives the later one a name of its own.
\<close>

theorem generate_last_route:
  assumes "\<forall>r\<in>set resources. no_detail r"
  shows "map_of (generate resources) n = List.find (\<lambda>r. method_name r = n) (rev resources)"
  using assms by (rule generate_lookup)

definition path_input :: "string \<Rightarrow> rdl_input" where
  "path_input n = \<lparr>in_name = n, in_type = ''String'', in_pathParam = True, in_queryParam = [], in_header = []\<rparr>"

definition query_input :: "string \<Rightarrow> rdl_input" where
  "query_input n = \<lparr>in_name = n, in_type = ''String'', in_pathParam = False, in_queryParam = n, in_header = []\<rparr>"

text \<open>The two access routes of \<^verbatim>\<open>zts.json\<close>.\<close>

definition resource_access :: route where
  "resource_access =
     \<lparr>ro_type = ''ResourceAccess'', ro_method = ''GET'', ro_path = ''/access/{action}/{resource}'',
      ro_inputs = [path_input ''action'', path_input ''resource'']\<rparr>"

definition resource_access_ext :: route where
  "resource_access_ext =
     \<lparr>ro_type = ''ResourceAccess'', ro_method = ''GET'', ro_path = ''/access/{action}'',
      ro_inputs = [path_input ''action'', query_input ''resource'']\<rparr>"

lemma resource_access_names:
  "method_name resource_access = ''getResourceAccess''" "method_name resource_access_ext = ''getResourceAccess''"
  by code_simp+

theorem generate_last_route_witness:
  "map_of (generate [resource_access, resource_access_ext]) ''getResourceAccess'' = Some resource_access_ext"
proof -
  have "\<forall>r\<in>set [resource_access, resource_access_ext]. no_detail r"
    by (simp add: no_detail_def resource_access_def resource_access_ext_def path_input_def query_input_def)
  from generate_last_route [OF this, of "''getResourceAccess''"] show ?thesis
    using resource_access_names by simp
qed

section \<open>Filling the path\<close>

text \<open>A path as text and places for parameters.\<close>

datatype seg = Lit string | Hole string

fun fill :: "(string \<Rightarrow> string option) \<Rightarrow> seg \<Rightarrow> string" where
  "fill f (Lit s) = s"
| "fill f (Hole n) = (case f n of Some v \<Rightarrow> v | None \<Rightarrow> ''{'' @ n @ ''}'')"

fun seg_ok :: "seg \<Rightarrow> bool" where
  "seg_ok (Lit s) \<longleftrightarrow> CHR ''{'' \<notin> set s"
| "seg_ok (Hole n) \<longleftrightarrow> CHR ''{'' \<notin> set n \<and> CHR ''}'' \<notin> set n"

definition holes :: "seg list \<Rightarrow> string list" where
  "holes segs = concat (map (\<lambda>s. case s of Hole n \<Rightarrow> [n] | Lit _ \<Rightarrow> []) segs)"

definition fill_all :: "(string \<Rightarrow> string option) \<Rightarrow> seg list \<Rightarrow> string" where
  "fill_all f segs = concat (map (fill f) segs)"

definition values_ok :: "(string \<Rightarrow> string option) \<Rightarrow> bool" where
  "values_ok f \<longleftrightarrow> (\<forall>n v. f n = Some v \<longrightarrow> CHR ''{'' \<notin> set v \<and> CHR 0x24 \<notin> set v)"

lemma fill_all_simps [simp]:
  "fill_all f [] = []" "fill_all f (s # segs) = fill f s @ fill_all f segs"
  "fill_all f (as @ bs) = fill_all f as @ fill_all f bs"
  by (simp_all add: fill_all_def)

lemma holes_simps [simp]:
  "holes [] = []" "holes (Lit s # segs) = holes segs" "holes (Hole n # segs) = n # holes segs"
  by (simp_all add: holes_def)

lemma index_of_brace_skip:
  "CHR ''{'' \<notin> set w \<Longrightarrow> index_of (CHR ''{'' # p) (w @ s) = map_option ((+) (length w)) (index_of (CHR ''{'' # p) s)"
  by (rule index_of_past)

lemma prefix_other_hole:
  assumes "CHR ''}'' \<notin> set n" and "CHR ''}'' \<notin> set m" and "n \<noteq> m"
  shows "\<not> prefix (n @ ''}'') (m @ CHR ''}'' # s)"
proof
  assume "prefix (n @ ''}'') (m @ CHR ''}'' # s)"
  then obtain t where "n @ CHR ''}'' # t = m @ CHR ''}'' # s"
    by (auto simp: prefix_def)
  moreover have "takeWhile (\<lambda>c. c \<noteq> CHR ''}'') (k @ CHR ''}'' # u) = k" if "CHR ''}'' \<notin> set k" for k u
    using that by (intro takeWhile_append_stop) auto
  ultimately show False
    using assms by metis
qed

text \<open>Searching for a place passes over everything before it.\<close>

lemma index_of_hole:
  assumes "\<forall>s\<in>set segs. seg_ok s" and "values_ok f" and "CHR ''}'' \<notin> set n"
    and "n \<notin> set (holes segs) \<or> f n \<noteq> None"
  shows "index_of (''{'' @ n @ ''}'') (fill_all f segs @ t) =
    map_option ((+) (length (fill_all f segs))) (index_of (''{'' @ n @ ''}'') t)"
  using assms
proof (induction segs)
  case (Cons s segs)
  let ?p = "n @ ''}''" and ?rest = "fill_all f segs @ t"
  have "index_of (CHR ''{'' # ?p) (fill f s @ ?rest) =
      map_option ((+) (length (fill f s))) (index_of (CHR ''{'' # ?p) ?rest)"
  proof (cases "CHR ''{'' \<in> set (fill f s)")
    case False
    then show ?thesis by (rule index_of_brace_skip)
  next
    case True
    then obtain m where m: "s = Hole m" "f m = None"
      using Cons.prems(1,2) by (cases s) (auto simp: values_ok_def split: option.splits)
    then have "n \<noteq> m" "CHR ''}'' \<notin> set m" "CHR ''{'' \<notin> set (m @ ''}'')"
      using Cons.prems by auto
    then show ?thesis
      using prefix_other_hole [of n m ?rest] Cons.prems(3) m index_of_brace_skip [of "m @ ''}''" ?p ?rest]
      by (cases "index_of (CHR ''{'' # ?p) ?rest") simp_all
  qed
  moreover have "index_of (CHR ''{'' # ?p) ?rest = map_option ((+) (length (fill_all f segs))) (index_of (CHR ''{'' # ?p) t)"
    using Cons by (cases s) auto
  ultimately show ?case
    by (cases "index_of (CHR ''{'' # ?p) t") simp_all
qed (cases "index_of (''{'' @ n @ ''}'') t"; simp)

lemma expand_dollar_plain: "CHR 0x24 \<notin> set r \<Longrightarrow> expand_dollar a b c r = r"
  by (induction a b c r rule: expand_dollar.induct) auto

lemma fill_all_upd: "n \<notin> set (holes segs) \<Longrightarrow> fill_all (f(n \<mapsto> v)) segs = fill_all f segs"
proof (induction segs)
  case (Cons s segs)
  then show ?case by (cases s) auto
qed simp

lemma in_holes: "n \<in> set (holes segs) \<Longrightarrow> \<exists>as bs. segs = as @ Hole n # bs \<and> n \<notin> set (holes as)"
proof (induction segs)
  case (Cons s segs)
  show ?case
  proof (cases "s = Hole n")
    case False
    then have "n \<in> set (holes segs)"
      using Cons.prems by (cases s) auto
    then obtain as bs where "segs = as @ Hole n # bs" "n \<notin> set (holes as)"
      using Cons.IH by blast
    then have "s # segs = (s # as) @ Hole n # bs \<and> n \<notin> set (holes (s # as))"
      using False by (cases s) auto
    then show ?thesis by blast
  qed (auto intro: exI [of _ "[]"])
qed simp

lemma holes_append [simp]: "holes (as @ bs) = holes as @ holes bs"
  by (simp add: holes_def)

lemma fill_hole:
  assumes "\<forall>s\<in>set segs. seg_ok s" and "values_ok f" and "distinct (holes segs)"
    and "f n = None" and "CHR ''}'' \<notin> set n" and "CHR 0x24 \<notin> set v"
  shows "replace_text (''{'' @ n @ ''}'') v (fill_all f segs) = fill_all (f(n \<mapsto> v)) segs"
proof (cases "n \<in> set (holes segs)")
  case False
  then have "index_of (''{'' @ n @ ''}'') (fill_all f segs @ []) = None"
    using index_of_hole [OF assms(1,2,5), of "[]"] by simp
  then show ?thesis
    using fill_all_upd [OF False] by (simp add: replace_text_def)
next
  case True
  then obtain as bs where segs: "segs = as @ Hole n # bs" "n \<notin> set (holes as)"
    using in_holes by blast
  then have bs: "n \<notin> set (holes bs)"
    using assms(3) by auto
  let ?p = "''{'' @ n @ ''}''"
  have t: "fill_all f segs = fill_all f as @ ?p @ fill_all f bs"
    using assms(4) by (simp add: segs)
  have "index_of ?p (?p @ fill_all f bs) = Some 0"
    by (simp add: prefix_def)
  then have "index_of ?p (fill_all f segs) = Some (length (fill_all f as))"
    using index_of_hole [of as f n "?p @ fill_all f bs"] assms segs(2) t by (simp add: segs(1))
  then have "replace_text ?p v (fill_all f segs) = fill_all f as @ v @ fill_all f bs"
    using assms(6) by (simp add: replace_text_def t expand_dollar_plain)
  then show ?thesis
    by (simp add: segs(1) fill_all_upd [OF segs(2)] fill_all_upd [OF bs])
qed

section \<open>Where the inputs of a call go\<close>

lemma obj_get_del [simp]: "obj_get (obj_del k kvs) k' = (if k' = k then JUndef else obj_get kvs k')"
  by (simp add: obj_get_def map_of_obj_del)

lemma apply_input_data: "n \<noteq> in_name item \<Longrightarrow> obj_get (ps_data (apply_input item ps)) n = obj_get (ps_data ps) n"
  by (simp add: apply_input_def Let_def)

lemma apply_input_path:
  "ps_pathname (apply_input item ps) =
     (if truthy (obj_get (ps_data ps) (in_name item)) \<and> in_pathParam item
      then replace_text (''{'' @ in_name item @ ''}'') (js_text (obj_get (ps_data ps) (in_name item))) (ps_pathname ps)
      else ps_pathname ps)"
  by (simp add: apply_input_def Let_def)

lemma apply_input_query:
  "ps_query (apply_input item ps) =
     (if truthy (obj_get (ps_data ps) (in_name item)) \<and> in_queryParam item \<noteq> []
      then obj_put (in_queryParam item) (obj_get (ps_data ps) (in_name item)) (ps_query ps)
      else ps_query ps)"
  by (simp add: apply_input_def Let_def)

text \<open>What the data of a call give for a place in the path and for a query parameter.\<close>

definition path_values :: "jsval jsobj \<Rightarrow> rdl_input list \<Rightarrow> string \<Rightarrow> string option" where
  "path_values data items n =
     (if (\<exists>item\<in>set items. in_name item = n \<and> in_pathParam item) \<and> truthy (obj_get data n)
      then Some (js_text (obj_get data n)) else None)"

definition query_value :: "jsval jsobj \<Rightarrow> rdl_input list \<Rightarrow> string \<Rightarrow> jsval \<Rightarrow> jsval" where
  "query_value data items q old =
     (case List.find (\<lambda>item. in_queryParam item = q \<and> truthy (obj_get data (in_name item))) items of
        Some item \<Rightarrow> obj_get data (in_name item)
      | None \<Rightarrow> old)"

lemma path_values_snoc:
  "path_values data (items @ [item]) =
     (if in_pathParam item \<and> truthy (obj_get data (in_name item))
      then (path_values data items)(in_name item \<mapsto> js_text (obj_get data (in_name item)))
      else path_values data items)"
  by (auto simp: path_values_def fun_eq_iff)

lemma fold_inputs_data:
  "n \<notin> in_name ` set items \<Longrightarrow> obj_get (ps_data (fold apply_input items ps)) n = obj_get (ps_data ps) n"
  by (induction items arbitrary: ps) (auto simp: apply_input_data)

lemma fold_inputs_path:
  assumes "distinct (map in_name items)" and "\<forall>s\<in>set segs. seg_ok s" and "distinct (holes segs)"
    and "values_ok (path_values (ps_data ps) items)" and "\<forall>item\<in>set items. CHR ''}'' \<notin> set (in_name item)"
    and "ps_pathname ps = fill_all (\<lambda>_. None) segs"
  shows "ps_pathname (fold apply_input items ps) = fill_all (path_values (ps_data ps) items) segs"
  using assms(1,4,5)
proof (induction items rule: rev_induct)
  case Nil
  then show ?case by (simp add: assms(6) path_values_def)
next
  case (snoc item items)
  let ?d = "ps_data ps" and ?n = "in_name item"
  have n: "?n \<notin> in_name ` set items"
    using snoc.prems(1) by auto
  then have none: "path_values ?d items ?n = None"
    unfolding path_values_def by (metis (no_types, lifting) image_eqI)
  have sub: "path_values ?d (items @ [item]) m = Some v" if "path_values ?d items m = Some v" for m v
    using that by (auto simp: path_values_def split: if_splits)
  then have ok: "values_ok (path_values ?d items)"
    using snoc.prems(2) unfolding values_ok_def by metis
  then have IH: "ps_pathname (fold apply_input items ps) = fill_all (path_values ?d items) segs"
    using snoc by simp
  have "CHR 0x24 \<notin> set (js_text (obj_get ?d ?n))" if "in_pathParam item" "truthy (obj_get ?d ?n)"
    using snoc.prems(2) [unfolded values_ok_def, rule_format, of ?n] that by (simp add: path_values_snoc)
  then have hole: "replace_text (''{'' @ ?n @ ''}'') (js_text (obj_get ?d ?n)) (fill_all (path_values ?d items) segs)
      = fill_all ((path_values ?d items)(?n \<mapsto> js_text (obj_get ?d ?n))) segs"
    if "in_pathParam item" "truthy (obj_get ?d ?n)"
    using fill_hole [OF assms(2) ok assms(3) none] snoc.prems(3) that by simp
  have "ps_pathname (fold apply_input (items @ [item]) ps) =
      (if truthy (obj_get ?d ?n) \<and> in_pathParam item
       then replace_text (''{'' @ ?n @ ''}'') (js_text (obj_get ?d ?n)) (fill_all (path_values ?d items) segs)
       else fill_all (path_values ?d items) segs)"
    by (simp add: apply_input_path fold_inputs_data [OF n] IH)
  also have "\<dots> = fill_all (if in_pathParam item \<and> truthy (obj_get ?d ?n)
      then (path_values ?d items)(?n \<mapsto> js_text (obj_get ?d ?n)) else path_values ?d items) segs"
    using hole by auto
  finally show ?case
    by (simp only: path_values_snoc)
qed

lemma fold_inputs_query:
  assumes "distinct (map in_name items)"
    and "distinct (filter (\<lambda>q. q \<noteq> []) (map in_queryParam items))" and "q \<noteq> []"
  shows "obj_get (ps_query (fold apply_input items ps)) q = query_value (ps_data ps) items q (obj_get (ps_query ps) q)"
  using assms
proof (induction items arbitrary: ps)
  case (Cons item items)
  let ?ps = "apply_input item ps"
  have IH: "obj_get (ps_query (fold apply_input items ?ps)) q = query_value (ps_data ?ps) items q (obj_get (ps_query ?ps) q)"
    using Cons by (simp split: if_splits)
  have same: "obj_get (ps_data ?ps) (in_name i) = obj_get (ps_data ps) (in_name i)" if "i \<in> set items" for i
    using Cons.prems(1) that by (intro apply_input_data) (auto intro: rev_image_eqI)
  then have find: "List.find (\<lambda>i. in_queryParam i = q \<and> truthy (obj_get (ps_data ?ps) (in_name i))) items
      = List.find (\<lambda>i. in_queryParam i = q \<and> truthy (obj_get (ps_data ps) (in_name i))) items"
    by (intro find_cong) auto
  have rest: "query_value (ps_data ?ps) items q old = query_value (ps_data ps) items q old" for old
    using find same by (auto simp: query_value_def dest: find_SomeD split: option.splits)
  have alone: "query_value (ps_data ps) items q old = old" if "in_queryParam item = q" for old
  proof -
    have "\<forall>i\<in>set items. in_queryParam i \<noteq> q"
      using Cons.prems(2,3) that by (auto intro: rev_image_eqI)
    then have "List.find (\<lambda>i. in_queryParam i = q \<and> truthy (obj_get (ps_data ps) (in_name i))) items = None"
      by (auto simp: find_None_iff)
    then show ?thesis by (simp add: query_value_def)
  qed
  show ?case
    using alone Cons.prems(3)
    by (auto simp: IH rest apply_input_query) (auto simp: query_value_def)
qed (simp add: query_value_def)

text \<open>The data of a call as the loop sees them.\<close>

definition call_data :: "jsval jsobj \<Rightarrow> jsval jsobj" where
  "call_data data = obj_del ''headers'' (clone_obj data)"

lemma normalizeParts_uri:
  assumes "normalizeParts nu self route data = Inr opts"
    and "up_pathname (nu_parse nu (rc_apiHost self)) = Val base"
  obtains headers ps where "ps = fold apply_input (ro_inputs route)
      \<lparr>ps_headers = headers,
       ps_query = request_id (rc_request self) (up_query (nu_parse nu (rc_apiHost self))),
       ps_pathname = nu_join nu base (ro_path route), ps_data = call_data data\<rparr>"
    and "setHeaders nu self (obj_get (clone_obj data) ''headers'') = Inr headers"
    and "op_uri opts = nu_format nu ((nu_parse nu (rc_apiHost self))\<lparr>up_pathname := Val (ps_pathname ps),
           up_query := ps_query ps\<rparr>)"
    and "op_headers opts = ps_headers ps" and "op_method opts = ro_method route"
    and "normalizeData route (ps_data ps) = Inr (op_body opts)"
  using assms
  by (auto simp: normalizeParts_def Let_def bind_result_Inr_iff call_data_def)

text \<open>
  A call sends each input where its route says: in the path, every place whose input is
  given holds its text and every other place stays as it is in the route; in the query, every
  parameter whose input is given has its value and every other one has the value it had. This
  holds when the values put in the path contain neither an opening brace nor a dollar sign.
\<close>

theorem request_inputs_placed:
  assumes "normalizeParts nu self route data = Inr opts"
    and "up_pathname (nu_parse nu (rc_apiHost self)) = Val base"
    and "nu_join nu base (ro_path route) = fill_all (\<lambda>_. None) segs"
    and "\<forall>s\<in>set segs. seg_ok s" and "distinct (holes segs)"
    and "distinct (map in_name (ro_inputs route))"
    and "\<forall>item\<in>set (ro_inputs route). CHR ''}'' \<notin> set (in_name item)"
    and "distinct (filter (\<lambda>q. q \<noteq> []) (map in_queryParam (ro_inputs route)))"
    and "values_ok (path_values (call_data data) (ro_inputs route))"
  shows "\<exists>query. op_uri opts = nu_format nu ((nu_parse nu (rc_apiHost self))
        \<lparr>up_pathname := Val (fill_all (path_values (call_data data) (ro_inputs route)) segs),
         up_query := query\<rparr>)
    \<and> op_method opts = ro_method route
    \<and> (\<forall>q. q \<noteq> [] \<longrightarrow> obj_get query q = query_value (call_data data) (ro_inputs route) q
         (obj_get (request_id (rc_request self) (up_query (nu_parse nu (rc_apiHost self)))) q))"
proof -
  obtain headers ps where ps: "ps = fold apply_input (ro_inputs route)
        \<lparr>ps_headers = headers,
         ps_query = request_id (rc_request self) (up_query (nu_parse nu (rc_apiHost self))),
         ps_pathname = nu_join nu base (ro_path route), ps_data = call_data data\<rparr>"
      and opts: "op_uri opts = nu_format nu ((nu_parse nu (rc_apiHost self))\<lparr>up_pathname := Val (ps_pathname ps),
           up_query := ps_query ps\<rparr>)" "op_method opts = ro_method route"
    using normalizeParts_uri [OF assms(1,2)] by metis
  have "ps_pathname ps = fill_all (path_values (call_data data) (ro_inputs route)) segs"
    unfolding ps using fold_inputs_path [OF assms(6,4,5) _ assms(7)] assms(3,9) by simp
  moreover have "obj_get (ps_query ps) q = query_value (call_data data) (ro_inputs route) q
         (obj_get (request_id (rc_request self) (up_query (nu_parse nu (rc_apiHost self)))) q)" if "q \<noteq> []" for q
    unfolding ps using fold_inputs_query [OF assms(6,8) that] by simp
  ultimately show ?thesis
    using opts by auto
qed

text \<open>A concrete platform: the paths of the configured host and of a route are put together.\<close>

fun query_text :: "jsval jsobj \<Rightarrow> string" where
  "query_text [] = []"
| "query_text ((k, v) # kvs) = ''&'' @ k @ ''='' @ js_text v @ query_text kvs"

definition demo_url :: node_url where
  "demo_url =
     \<lparr>nu_parse = (\<lambda>s. \<lparr>up_protocol = ''https:'', up_auth = [], up_host = ''zts'', up_pathname = Val ''/zts/v1/'',
        up_search = [], up_query = []\<rparr>),
      nu_format = (\<lambda>p. up_protocol p @ ''//'' @ up_host p @ ref_text (up_pathname p) @ query_text (up_query p)),
      nu_join = (\<lambda>a b. butlast a @ b), nu_hostname = ''localhost''\<rparr>"

definition demo_client :: rest_client where
  "demo_client = \<lparr>rc_apiHost = ''https://zts/zts/v1/'', rc_request = None, rc_headers = NoHeaders, rc_requestOpts = []\<rparr>"

definition demo_call :: "jsval jsobj" where
  "demo_call = [(''action'', JStr ''read''), (''resource'', JStr ''sports:scores'')]"

theorem request_inputs_placed_witness:
  "\<exists>opts query. normalizeParts demo_url demo_client resource_access demo_call = Inr opts
     \<and> op_uri opts = ''https://zts/zts/v1/access/read/sports:scores'' @ query_text query
     \<and> obj_get query ''resource'' = JUndef"
proof -
  let ?segs = "[Lit ''/zts/v1/access/'', Hole ''action'', Lit ''/'', Hole ''resource'']"
  have "\<not> isl (normalizeParts demo_url demo_client resource_access demo_call)"
    by code_simp
  then obtain opts where opts: "normalizeParts demo_url demo_client resource_access demo_call = Inr opts"
    by (cases "normalizeParts demo_url demo_client resource_access demo_call") auto
  have d: "call_data demo_call = demo_call"
    by code_simp
  have pv: "path_values demo_call (ro_inputs resource_access) n = map_of [(''action'', ''read''), (''resource'', ''sports:scores'')] n" for n
    by (simp add: path_values_def resource_access_def path_input_def demo_call_def)
  then have ok: "values_ok (path_values demo_call (ro_inputs resource_access))"
    by (simp add: values_ok_def)
  have fills: "fill_all (path_values demo_call (ro_inputs resource_access)) ?segs = ''/zts/v1/access/read/sports:scores''"
    by (simp add: pv)
  have prem: "up_pathname (nu_parse demo_url (rc_apiHost demo_client)) = Val ''/zts/v1/''"
      "nu_join demo_url ''/zts/v1/'' (ro_path resource_access) = fill_all (\<lambda>_. None) ?segs"
      "\<forall>s\<in>set ?segs. seg_ok s" "distinct (holes ?segs)"
      "distinct (map in_name (ro_inputs resource_access))"
      "\<forall>item\<in>set (ro_inputs resource_access). CHR ''}'' \<notin> set (in_name item)"
      "distinct (filter (\<lambda>q. q \<noteq> []) (map in_queryParam (ro_inputs resource_access)))"
      "values_ok (path_values (call_data demo_call) (ro_inputs resource_access))"
    using ok by (simp_all add: d demo_url_def resource_access_def path_input_def fill_all_def)
  obtain query where q: "op_uri opts = nu_format demo_url ((nu_parse demo_url (rc_apiHost demo_client))
        \<lparr>up_pathname := Val (fill_all (path_values (call_data demo_call) (ro_inputs resource_access)) ?segs),
         up_query := query\<rparr>)"
      "obj_get query ''resource'' = query_value (call_data demo_call) (ro_inputs resource_access) ''resource''
         (obj_get (request_id (rc_request demo_client) (up_query (nu_parse demo_url (rc_apiHost demo_client)))) ''resource'')"
    using request_inputs_placed [OF opts prem] by auto
  have "op_uri opts = ''https://zts/zts/v1/access/read/sports:scores'' @ query_text query"
    using q(1) unfolding d fills by (simp add: demo_url_def ref_text_def)
  moreover have "obj_get query ''resource'' = JUndef"
    using q(2) by (simp add: query_value_def resource_access_def path_input_def demo_client_def
        request_id_def demo_url_def)
  ultimately show ?thesis
    using opts by blast
qed

section \<open>Answers\<close>

text \<open>
  The caller's callback gets an error exactly when the transport reports one, the status is
  not a success, or a 200 answer has a body that is not JSON.
\<close>

theorem rest_response_error:
  "\<not> truthy (fst (rest_response err status json)) \<longleftrightarrow>
     \<not> truthy err \<and> isSuccessResponseCode status \<and> \<not> (status = Some 200 \<and> \<not> isJsonResponse json)"
  by (auto simp: rest_response_def Let_def isSuccessResponseCode_def)

end
