(* ===== verification/ZTSClient.thy ===== *)
theory ZTSClient
  imports Rdl_Routes SimplePrincipal Js_State
begin

text \<open>
  The class \<^verbatim>\<open>zts/index.js\<close>: it asks ZTS for role tokens and caches the answers.
  The request is asynchronous, so \<^verbatim>\<open>getRoleToken\<close> is two operations: the call,
  which answers from the cache or sends a request, and the reply to the request, which comes
  later and in any order with other calls. A service identity provider is any function with the
  interface of \<^verbatim>\<open>getIdentity\<close>; the header name of an authority is what its
  \<^verbatim>\<open>getHeader\<close> returns. Tokens in the cache are the JSON objects ZTS sends.
\<close>

section \<open>Configuration\<close>

definition zts_config_section :: "bool \<Rightarrow> string \<Rightarrow> string jsref \<Rightarrow> config" where
  "zts_config_section strictSSL logLevel zts_server =
     [(''ztshost'', JStr (str_or zts_server ''localhost'')), (''strictSSL'', JBool strictSSL),
      (''logLevel'', JStr logLevel), (''tokenMinExpiryTime'', JNum (Fin 900)),
      (''tokenRefresh'', JNum (Fin 1800)), (''disableCache'', JBool False)]"

definition zts_default_config :: "string jsref \<Rightarrow> string jsref \<Rightarrow> string jsref \<Rightarrow> config result" where
  "zts_default_config service_name zts_server zts_server_url =
     (case map_of [(''development'', zts_config_section False ''debug'' zts_server),
                   (''production'', zts_config_section True ''info'' zts_server)]
             (str_or service_name ''development'') of
        None \<Rightarrow> Inl (TypeError ''ztshost'')
      | Some c \<Rightarrow>
          let c1 = default_to ''ztshost'' (JStr ''localhost'') c;
              c2 = obj_put ''zts'' (JStr (str_or zts_server_url
                     (''https://'' @ js_text (obj_get c1 ''ztshost'') @ '':4443/zts/v1/''))) c1
          in Inr ((default_to ''disableCache'' (JBool False) \<circ>
                   default_to ''tokenRefresh'' (JNum (Fin 1800)) \<circ>
                   default_to ''tokenMinExpiryTime'' (JNum (Fin 900)) \<circ>
                   default_to ''logLevel'' (JStr ''debug'') \<circ>
                   default_to ''strictSSL'' (JBool False)) c2))"

section \<open>State\<close>

type_synonym sia_provider = "int \<Rightarrow> string jsref \<Rightarrow> string jsref \<Rightarrow> simple_principal option result"

record zts_params =
  zp_domainName :: "string jsref"
  zp_serviceName :: "string jsref"
  zp_siaProvider :: "sia_provider option"
  zp_identity :: "simple_principal option"
  zp_zts :: "string jsref"

record zts_client =
  zc_ztsUrl :: "string jsref"
  zc_domain :: "string jsref"
  zc_service :: "string jsref"
  zc_ztsClient :: "rest_client option"
  zc_ztsClientFactory :: rest_factory
  zc_siaProvider :: "sia_provider option"
  zc_enablePrefetch :: bool
  zc_principal :: "simple_principal option"

text \<open>One client, the variables of its module and the shared cache.\<close>

record 'c zts_state =
  zs_config :: config
  zs_cacheDisabled :: jsval
  zs_tokenMinExpiryTime :: jsval
  zs_client :: zts_client
  zs_cache :: 'c

record 'c zts_env =
  zv_url :: node_url
  zv_header :: "authority \<Rightarrow> string"
  zv_rdl :: "route list"
  zv_cache :: "('c, jsval) cache_ops"

section \<open>Construction\<close>

definition ZTSClient_setConfig :: "config \<Rightarrow> 'c zts_state \<Rightarrow> 'c zts_state" where
  "ZTSClient_setConfig overrides z = z\<lparr>zs_config := set_config (zs_config z) overrides\<rparr>"

definition initConfigValues :: "'c zts_state \<Rightarrow> 'c zts_state" where
  "initConfigValues z =
     (let m = obj_get (zs_config z) ''tokenMinExpiryTime'';
          d = obj_get (zs_config z) ''disableCache''
      in z\<lparr>zs_tokenMinExpiryTime := (if 0 \<le> to_number m then m else JNum (Fin 900)),
           zs_cacheDisabled := (if truthy d then d else JBool False)\<rparr>)"

text \<open>A client of the factory that sends the credentials of an identity.\<close>

definition credentials_client ::
  "(authority \<Rightarrow> string) \<Rightarrow> rest_factory \<Rightarrow> authority \<Rightarrow> simple_principal \<Rightarrow> rest_client" where
  "credentials_client header factory a identity =
     RDLRest_new factory None (HeaderObj [(header a, HVal (val_of_ref (sp_creds identity)))])"

text \<open>
  \<^verbatim>\<open>_initClient\<close>: who the client acts for, then the factory of REST clients, then the
  REST client of a given identity.
\<close>

definition client_identity ::
  "zts_params \<Rightarrow> (string jsref \<times> string jsref \<times> sia_provider option \<times> simple_principal option \<times> bool) result" where
  "client_identity params =
     (if str_truthy (zp_domainName params) \<or> str_truthy (zp_serviceName params) \<or> zp_siaProvider params \<noteq> None
      then
        if \<not> str_truthy (zp_domainName params) \<or> \<not> str_truthy (zp_serviceName params)
           \<or> zp_siaProvider params = None
        then Inl (Error ''domainName & serviceName & siaProvider must be specified.'')
        else Inr (zp_domainName params, zp_serviceName params, zp_siaProvider params, None, True)
      else
        (case zp_identity params of
           Some identity \<Rightarrow>
             if \<not> present (sp_authority identity) then Inl (Error ''Principal Authority cannot be null'')
             else Inr (Null, Null, None, Some identity, False)
         | None \<Rightarrow> Inr (Null, Null, None, None, False)))"

definition ZTSClient_new :: "'c zts_env \<Rightarrow> config \<Rightarrow> zts_params \<Rightarrow> zts_client result" where
  "ZTSClient_new env config params =
     bind_result (client_identity params) (\<lambda>(domain, service, sia, principal, prefetch).
       let ztsUrl = (if str_truthy (zp_zts params) then zp_zts params else ref_of_val (obj_get config ''zts''))
       in bind_result (rdl_rest (Some (zv_rdl env)) ztsUrl NoHeaders
              (Some [(''strictSSL'', obj_get config ''strictSSL'')])) (\<lambda>factory.
            Inr \<lparr>zc_ztsUrl = ztsUrl,
                 zc_domain = (case principal of Some p \<Rightarrow> sp_domain p | None \<Rightarrow> domain),
                 zc_service = (case principal of Some p \<Rightarrow> sp_name p | None \<Rightarrow> service),
                 zc_ztsClient =
                   (case principal of
                      Some p \<Rightarrow> (case sp_authority p of
                          Val a \<Rightarrow> Some (credentials_client (zv_header env) factory a p)
                        | _ \<Rightarrow> None)
                    | None \<Rightarrow> None),
                 zc_ztsClientFactory = factory, zc_siaProvider = sia, zc_enablePrefetch = prefetch,
                 zc_principal = principal\<rparr>))"

section \<open>Credentials\<close>

definition addPrincipalCredentials ::
  "(authority \<Rightarrow> string) \<Rightarrow> simple_principal option \<Rightarrow> bool \<Rightarrow> zts_client \<Rightarrow> zts_client" where
  "addPrincipalCredentials header identity resetServiceDetails c =
     (let c1 = (case identity of
              Some p \<Rightarrow> (case sp_authority p of
                  Val a \<Rightarrow> c\<lparr>zc_ztsClient := Some (credentials_client header (zc_ztsClientFactory c) a p)\<rparr>
                | _ \<Rightarrow> c)
            | None \<Rightarrow> c);
          c2 = (if resetServiceDetails then c1\<lparr>zc_siaProvider := None\<rparr> else c1)
      in c2\<lparr>zc_principal := identity\<rparr>)"

definition sameCredentialsAsBefore :: "simple_principal \<Rightarrow> zts_client \<Rightarrow> bool" where
  "sameCredentialsAsBefore svcPrincipal c =
     (case zc_principal c of
        None \<Rightarrow> False
      | Some p \<Rightarrow> if \<not> str_truthy (sp_creds p) then False else sp_creds p = sp_creds svcPrincipal)"

definition updateServicePrincipal :: "(authority \<Rightarrow> string) \<Rightarrow> int \<Rightarrow> (zts_client, bool) action" where
  "updateServicePrincipal header now =
     bind_action (read_state (\<lambda>c. c)) (\<lambda>c.
       case zc_siaProvider c of
         None \<Rightarrow> ret False
       | Some sia \<Rightarrow>
           bind_action (lift_result (sia now (zc_domain c) (zc_service c))) (\<lambda>svc.
             case svc of
               None \<Rightarrow> throw (Error (''UpdateServicePrincipal: Unable to get PrincipalToken from SIA Provider for ''
                         @ js_text (val_of_ref (zc_domain c)) @ ''.'' @ js_text (val_of_ref (zc_service c))))
             | Some svcPrincipal \<Rightarrow>
                 if sameCredentialsAsBefore svcPrincipal c then ret False
                 else bind_action (update_state (addPrincipalCredentials header (Some svcPrincipal) False)) (\<lambda>_.
                        ret True)))"

section \<open>The cache\<close>

definition getRoleTokenCacheKey ::
  "string jsref \<Rightarrow> string jsref \<Rightarrow> jsval \<Rightarrow> jsval \<Rightarrow> jsval \<Rightarrow> string option" where
  "getRoleTokenCacheKey tenantDomain tenantService domainName roleName proxyForPrincipal =
     (if \<not> str_truthy tenantDomain then None
      else Some (''p='' @ ref_text tenantDomain
        @ (if str_truthy tenantService then ''.'' @ ref_text tenantService else [])
        @ '';d='' @ js_text domainName
        @ (if truthy roleName then '';r='' @ js_text roleName else [])
        @ (if truthy proxyForPrincipal then '';u='' @ js_text proxyForPrincipal else [])))"

definition getRoleTokenCacheKeySetTenant :: "zts_client \<Rightarrow> jsval \<Rightarrow> jsval \<Rightarrow> jsval \<Rightarrow> string option" where
  "getRoleTokenCacheKeySetTenant c domainName roleName proxyForPrincipal =
     getRoleTokenCacheKey (zc_domain c) (zc_service c) domainName roleName proxyForPrincipal"

definition isExpiredToken :: "jsnum \<Rightarrow> jsval \<Rightarrow> jsval \<Rightarrow> jsval \<Rightarrow> bool" where
  "isExpiredToken expiryTime minExpiryTime maxExpiryTime tokenMinExpiryTime =
     (if truthy minExpiryTime \<and> expiryTime < to_number minExpiryTime then True
      else if truthy maxExpiryTime \<and> to_number maxExpiryTime < expiryTime then True
      else if \<not> truthy minExpiryTime \<and> \<not> truthy maxExpiryTime
              \<and> expiryTime < to_number tokenMinExpiryTime then True
      else False)"

text \<open>The seconds a token is still valid for.\<close>

definition remaining :: "int \<Rightarrow> jsval \<Rightarrow> jsnum" where
  "remaining now roleToken =
     (case roleToken of
        JObj kvs \<Rightarrow> to_number (obj_get kvs ''expiryTime'') - num_of_int (now div 1000)
      | _ \<Rightarrow> NaN)"

definition lookupRoleTokenInCache ::
  "'c zts_env \<Rightarrow> int \<Rightarrow> string \<Rightarrow> jsval \<Rightarrow> jsval \<Rightarrow> ('c zts_state, jsval option) action" where
  "lookupRoleTokenInCache env now cacheKey minExpiryTime maxExpiryTime =
     bind_action (read_state (\<lambda>z. z)) (\<lambda>z.
       case ca_get (zv_cache env) now cacheKey (zs_cache z) of
         None \<Rightarrow> ret None
       | Some roleToken \<Rightarrow>
           if \<not> truthy roleToken then ret None
           else if isExpiredToken (remaining now roleToken) minExpiryTime maxExpiryTime (zs_tokenMinExpiryTime z)
           then bind_action (update_state (\<lambda>z. z\<lparr>zs_cache := ca_del (zv_cache env) now cacheKey (zs_cache z)\<rparr>))
                  (\<lambda>_. ret None)
           else ret (Some roleToken))"

section \<open>Role tokens\<close>

definition default_pars :: "jsval jsobj" where
  "default_pars =
     [(''domainName'', JNull), (''roleName'', JNull), (''minExpiryTime'', JNull), (''maxExpiryTime'', JNull),
      (''ignoreCache'', JBool False), (''proxyForPrincipal'', JNull)]"

definition role_pars :: "jsval jsobj \<Rightarrow> jsval jsobj" where
  "role_pars params = obj_assign default_pars params"

text \<open>What the caller's callback is called with, and what a call does at once.\<close>

datatype role_answer = CbError exn | CbFailure jsval | CbToken jsval

datatype role_outcome = Answered role_answer | Requested "string option" request_options

text \<open>The request of a call, with the credentials brought up to date.\<close>

definition send_role_request ::
  "'c zts_env \<Rightarrow> int \<Rightarrow> jsval jsobj \<Rightarrow> (zts_client, request_options) action" where
  "send_role_request env now pars =
     bind_action (updateServicePrincipal (zv_header env) now) (\<lambda>_.
     bind_action (read_state (\<lambda>c. c)) (\<lambda>c.
       case zc_ztsClient c of
         None \<Rightarrow> throw (TypeError ''getRoleToken'')
       | Some rc \<Rightarrow>
           lift_result (rest_call (zv_url env) (rf_methods (zc_ztsClientFactory c)) rc ''getRoleToken''
             (DataCallback pars))))"

definition on_client :: "(zts_client, 'a) action \<Rightarrow> ('c zts_state, 'a) action" where
  "on_client m z = (case m (zs_client z) of (r, c) \<Rightarrow> (r, z\<lparr>zs_client := c\<rparr>))"

definition role_cache_key :: "jsval jsobj \<Rightarrow> 'c zts_state \<Rightarrow> string option" where
  "role_cache_key pars z =
     (if truthy (zs_cacheDisabled z) then None
      else getRoleTokenCacheKeySetTenant (zs_client z) (obj_get pars ''domainName'')
             (obj_get pars ''roleName'') (obj_get pars ''proxyForPrincipal''))"

definition getRoleToken ::
  "'c zts_env \<Rightarrow> int \<Rightarrow> jsval jsobj \<Rightarrow> ('c zts_state, role_outcome) action" where
  "getRoleToken env now params =
     (let pars = role_pars params in
      if \<not> truthy (obj_get pars ''domainName'')
      then ret (Answered (CbError (Error ''GetRoleToken: domainName must not be null.'')))
      else
        bind_action (read_state (role_cache_key pars)) (\<lambda>cacheKey.
        bind_action
          (case cacheKey of
             Some k \<Rightarrow>
               if truthy (obj_get params ''ignoreCache'') then ret None
               else lookupRoleTokenInCache env now k (obj_get pars ''minExpiryTime'') (obj_get pars ''maxExpiryTime'')
           | None \<Rightarrow> ret None) (\<lambda>hit.
          case hit of
            Some roleToken \<Rightarrow> ret (Answered (CbToken roleToken))
          | None \<Rightarrow>
              bind_action (on_client (send_role_request env now pars)) (\<lambda>opts.
                ret (Requested cacheKey opts)))))"

definition getRoleToken_reply ::
  "'c zts_env \<Rightarrow> int \<Rightarrow> string option \<Rightarrow> jsval \<Rightarrow> jsval \<Rightarrow> ('c zts_state, role_answer) action" where
  "getRoleToken_reply env now cacheKey err res =
     (if truthy err then ret (CbFailure err)
      else
        bind_action (read_state (\<lambda>z. z)) (\<lambda>z.
        bind_action
          (case cacheKey of
             Some k \<Rightarrow>
               if truthy (zs_cacheDisabled z) then ret ()
               else bind_action (lift_result (ca_put (zv_cache env) now k res
                        (millis (obj_get (zs_config z) ''tokenRefresh'')) (zs_cache z))) (\<lambda>c.
                      update_state (\<lambda>z. z\<lparr>zs_cache := c\<rparr>))
           | None \<Rightarrow> ret ()) (\<lambda>_.
          ret (CbToken res))))"

end
