(* ===== verification/ZTS_Safety.thy ===== *)
theory ZTS_Safety
  imports ZTSClient
begin

text \<open>
  What holds of the ZTS client: the key of the cache tells the questions apart, a token comes out
  of the cache only within the time limits of the call and only as the answer to the same
  question, and the request does not say which role is wanted.
\<close>

section \<open>The cache key\<close>

definition key_parts :: "string jsref \<Rightarrow> string jsref \<Rightarrow> jsval \<Rightarrow> jsval \<Rightarrow> jsval \<Rightarrow> string list" where
  "key_parts td ts d r u =
     [''p='' @ ref_text td @ (if str_truthy ts then ''.'' @ ref_text ts else []), ''d='' @ js_text d]
     @ (if truthy r then [''r='' @ js_text r] else []) @ (if truthy u then [''u='' @ js_text u] else [])"

lemma cache_key_parts:
  "getRoleTokenCacheKey td ts d r u =
     (if str_truthy td then Some (join_with '';'' (key_parts td ts d r u)) else None)"
  by (simp add: getRoleTokenCacheKey_def key_parts_def)

definition plain :: "jsval \<Rightarrow> bool" where
  "plain v \<longleftrightarrow> CHR '';'' \<notin> set (js_text v)"

definition plain_ref :: "string jsref \<Rightarrow> bool" where
  "plain_ref r \<longleftrightarrow> CHR '';'' \<notin> set (ref_text r)"

text \<open>Two optional names are both absent, or have the same text.\<close>

definition same_name :: "jsval \<Rightarrow> jsval \<Rightarrow> bool" where
  "same_name v w \<longleftrightarrow> truthy v = truthy w \<and> (truthy v \<longrightarrow> js_text v = js_text w)"

lemma key_parts_split:
  assumes "plain_ref td" "plain_ref ts" "plain d" "plain r" "plain u"
  shows "split_on CHR '';'' (join_with '';'' (key_parts td ts d r u)) = key_parts td ts d r u"
proof (rule split_on_join_with)
  show "\<forall>p\<in>set (key_parts td ts d r u). CHR '';'' \<notin> set p"
    using assms by (auto simp: key_parts_def plain_def plain_ref_def)
qed (simp add: key_parts_def)

lemma cache_key_eq:
  assumes "getRoleTokenCacheKey td ts d r u = Some k" and "getRoleTokenCacheKey td' ts' d' r' u' = Some k"
    and "plain_ref td" "plain_ref ts" "plain d" "plain r" "plain u"
    and "plain_ref td'" "plain_ref ts'" "plain d'" "plain r'" "plain u'"
  shows "key_parts td ts d r u = key_parts td' ts' d' r' u'"
proof -
  have "join_with '';'' (key_parts td ts d r u) = join_with '';'' (key_parts td' ts' d' r' u')"
    using assms(1,2) by (auto simp: cache_key_parts split: if_splits)
  then show ?thesis
    using key_parts_split [OF assms(3-7)] key_parts_split [OF assms(8-12)] by metis
qed

lemma key_parts_same:
  "key_parts td ts d r u = key_parts td' ts' d' r' u' \<Longrightarrow>
     js_text d = js_text d' \<and> same_name r r' \<and> same_name u u'"
  by (auto simp: key_parts_def same_name_def split: if_splits)

text \<open>
  Two calls share a cache entry only when they ask for the same tenant, domain, role and
  proxy principal, as long as no name contains a semicolon.
\<close>

theorem cache_key_injective:
  assumes "getRoleTokenCacheKey td ts d r u = Some k" and "getRoleTokenCacheKey td' ts' d' r' u' = Some k"
    and "plain_ref td" "plain_ref ts" "plain d" "plain r" "plain u"
    and "plain_ref td'" "plain_ref ts'" "plain d'" "plain r'" "plain u'"
  shows "ref_text td @ (if str_truthy ts then ''.'' @ ref_text ts else [])
      = ref_text td' @ (if str_truthy ts' then ''.'' @ ref_text ts' else [])
    \<and> js_text d = js_text d' \<and> same_name r r' \<and> same_name u u'"
  using cache_key_eq [OF assms] key_parts_same [OF cache_key_eq [OF assms]]
  by (auto simp: key_parts_def)

theorem cache_key_injective_witness:
  "getRoleTokenCacheKey (Val ''sports'') (Val ''api'') (JStr ''weather'') JNull JNull
     \<noteq> getRoleTokenCacheKey (Val ''sports'') (Val ''api'') (JStr ''weather'') (JStr ''readers'') JNull"
proof
  let ?k = "''p=sports.api;d=weather;r=readers''"
  assume "getRoleTokenCacheKey (Val ''sports'') (Val ''api'') (JStr ''weather'') JNull JNull
     = getRoleTokenCacheKey (Val ''sports'') (Val ''api'') (JStr ''weather'') (JStr ''readers'') JNull"
  moreover have "getRoleTokenCacheKey (Val ''sports'') (Val ''api'') (JStr ''weather'') (JStr ''readers'') JNull = Some ?k"
    by (simp add: getRoleTokenCacheKey_def ref_text_def)
  ultimately show False
    using cache_key_injective [of "Val ''sports''" "Val ''api''" "JStr ''weather''" JNull JNull ?k
        "Val ''sports''" "Val ''api''" "JStr ''weather''" "JStr ''readers''" JNull]
    by (simp add: plain_def plain_ref_def ref_text_def same_name_def)
qed

section \<open>Time limits\<close>

text \<open>The limits a call gives, as numbers, and the seconds that satisfy them.\<close>

definition limit_val :: "rat option \<Rightarrow> jsval" where
  "limit_val l = (case l of None \<Rightarrow> JNull | Some r \<Rightarrow> JNum (Fin r))"

definition within_limits :: "rat \<Rightarrow> rat option \<Rightarrow> rat option \<Rightarrow> rat \<Rightarrow> bool" where
  "within_limits secs mn mx configured \<longleftrightarrow>
     (case mn of Some r \<Rightarrow> r \<le> secs | None \<Rightarrow> True)
     \<and> (case mx of Some r \<Rightarrow> secs \<le> r | None \<Rightarrow> True)
     \<and> (mn = None \<and> mx = None \<longrightarrow> configured \<le> secs)"

lemma isExpiredToken_iff:
  assumes "mn \<noteq> Some 0" and "mx \<noteq> Some 0"
  shows "isExpiredToken (Fin secs) (limit_val mn) (limit_val mx) (JNum (Fin c)) \<longleftrightarrow> \<not> within_limits secs mn mx c"
  using assms
  by (cases mn; cases mx) (auto simp: isExpiredToken_def within_limits_def limit_val_def not_less)

lemma lookup_hit:
  assumes "lookupRoleTokenInCache env now k mn mx z = (Inr (Some v), z')"
  shows "ca_get (zv_cache env) now k (zs_cache z) = Some v" and "z' = z" and "truthy v"
    and "\<not> isExpiredToken (remaining now v) mn mx (zs_tokenMinExpiryTime z)"
  using assms by (auto simp: lookupRoleTokenInCache_def split: option.splits if_splits)

lemma getRoleToken_hit:
  assumes "getRoleToken env now params z = (Inr (Answered (CbToken v)), z')"
  obtains k where "role_cache_key (role_pars params) z = Some k"
    and "lookupRoleTokenInCache env now k (obj_get (role_pars params) ''minExpiryTime'')
           (obj_get (role_pars params) ''maxExpiryTime'') z = (Inr (Some v), z')"
  using assms
  by (auto simp: getRoleToken_def Let_def split: if_splits option.splits elim!: bind_action_Inr)

lemma getRoleToken_cached:
  assumes "role_cache_key (role_pars params) z = Some k"
    and "ca_get (zv_cache env) now k (zs_cache z) = Some v" and "truthy v"
    and "\<not> isExpiredToken (remaining now v) (obj_get (role_pars params) ''minExpiryTime'')
           (obj_get (role_pars params) ''maxExpiryTime'') (zs_tokenMinExpiryTime z)"
    and "truthy (obj_get (role_pars params) ''domainName'')" and "\<not> truthy (obj_get params ''ignoreCache'')"
  shows "getRoleToken env now params z = (Inr (Answered (CbToken v)), z)"
proof -
  have "lookupRoleTokenInCache env now k (obj_get (role_pars params) ''minExpiryTime'')
      (obj_get (role_pars params) ''maxExpiryTime'') z = (Inr (Some v), z)"
    using assms(2-4) by (simp add: lookupRoleTokenInCache_def)
  then show ?thesis
    using assms(1,5,6) by (simp add: getRoleToken_def Let_def)
qed

text \<open>
  C36. A token that comes from the cache and says when it expires is still valid for at least the
  minimum and at most the maximum of the call, or for the configured minimum when the call gives
  neither.
\<close>

theorem cached_token_within_limits:
  assumes "getRoleToken env now params z = (Inr (Answered (CbToken (JObj kvs))), z')"
    and "obj_get kvs ''expiryTime'' = JNum (Fin e)"
    and "obj_get (role_pars params) ''minExpiryTime'' = limit_val mn" and "mn \<noteq> Some 0"
    and "obj_get (role_pars params) ''maxExpiryTime'' = limit_val mx" and "mx \<noteq> Some 0"
    and "zs_tokenMinExpiryTime z = JNum (Fin c)"
  shows "within_limits (e - of_int (now div 1000)) mn mx c"
proof -
  obtain k where "lookupRoleTokenInCache env now k (limit_val mn) (limit_val mx) z = (Inr (Some (JObj kvs)), z')"
    using getRoleToken_hit [OF assms(1)] assms(3,5) by metis
  then have "\<not> isExpiredToken (Fin (e - of_int (now div 1000))) (limit_val mn) (limit_val mx) (JNum (Fin c))"
    using lookup_hit(4) assms(2,7) by (fastforce simp: remaining_def)
  then show ?thesis
    using isExpiredToken_iff [OF assms(4,6)] by blast
qed

text \<open>A client for the service \<^verbatim>\<open>sports.api\<close> with one token in its cache.\<close>

text \<open>The route of role tokens in \<^verbatim>\<open>zts.json\<close>.\<close>

definition role_token_route :: route where
  "role_token_route =
     \<lparr>ro_type = ''RoleToken'', ro_method = ''GET'', ro_path = ''/domain/{domainName}/token'',
      ro_inputs = [path_input ''domainName'', query_input ''role'', query_input ''minExpiryTime'',
        query_input ''maxExpiryTime'', query_input ''proxyForPrincipal'']\<rparr>"

definition demo_zts_env :: "jsval alist_cache zts_env" where
  "demo_zts_env =
     \<lparr>zv_url = demo_url, zv_header = (\<lambda>_. ''Athenz-Principal-Auth''), zv_rdl = [role_token_route],
      zv_cache = alist_cache\<rparr>"

definition demo_identity :: simple_principal where
  "demo_identity = simplePrincipal (Val ''sports'') (Val ''api'') (Val ''v=S1;d=sports;n=api;s=sig'') (JNum 0)
     (Val PrincipalAuthorityObj)"

definition demo_factory :: rest_factory where
  "demo_factory = \<lparr>rf_methods = generate [role_token_route], rf_apiHost = ''https://zts/zts/v1/'',
     rf_headers = NoHeaders, rf_requestOpts = [(''strictSSL'', JBool True)]\<rparr>"

definition demo_zts_client :: zts_client where
  "demo_zts_client =
     \<lparr>zc_ztsUrl = Val ''https://zts/zts/v1/'', zc_domain = Val ''sports'', zc_service = Val ''api'',
      zc_ztsClient = Some (credentials_client (\<lambda>_. ''Athenz-Principal-Auth'') demo_factory
        PrincipalAuthorityObj demo_identity),
      zc_ztsClientFactory = demo_factory, zc_siaProvider = None, zc_enablePrefetch = False,
      zc_principal = Some demo_identity\<rparr>"

definition demo_zts :: "jsval alist_cache \<Rightarrow> jsval alist_cache zts_state" where
  "demo_zts c =
     \<lparr>zs_config = [(''tokenRefresh'', JNum (Fin 1800))], zs_cacheDisabled = JBool False,
      zs_tokenMinExpiryTime = JNum (Fin 900), zs_client = demo_zts_client, zs_cache = c\<rparr>"

definition demo_token :: "(string \<times> jsval) list" where
  "demo_token = [(''token'', JStr ''v=Z1;d=weather;s=sig''), (''expiryTime'', JNum (Fin 5000))]"

definition demo_cached :: "jsval alist_cache zts_state" where
  "demo_cached = demo_zts [(''p=sports.api;d=weather'', JObj demo_token, 9000000)]"

lemma demo_key:
  "role_pars [(''domainName'', JStr ''weather'')] =
     [(''domainName'', JStr ''weather''), (''roleName'', JNull), (''minExpiryTime'', JNull), (''maxExpiryTime'', JNull),
      (''ignoreCache'', JBool False), (''proxyForPrincipal'', JNull)]"
  "role_pars [(''domainName'', JStr ''weather''), (''maxExpiryTime'', JNum (Fin 7200))] =
     [(''domainName'', JStr ''weather''), (''roleName'', JNull), (''minExpiryTime'', JNull),
      (''maxExpiryTime'', JNum (Fin 7200)), (''ignoreCache'', JBool False), (''proxyForPrincipal'', JNull)]"
  by (simp_all add: role_pars_def obj_assign_def default_pars_def)

lemma demo_cached_key:
  assumes "obj_get pars ''domainName'' = JStr ''weather''" "obj_get pars ''roleName'' = JNull"
    "obj_get pars ''proxyForPrincipal'' = JNull"
  shows "role_cache_key pars demo_cached = Some ''p=sports.api;d=weather''"
  using assms
  by (simp add: role_cache_key_def getRoleTokenCacheKeySetTenant_def getRoleTokenCacheKey_def
      demo_cached_def demo_zts_def demo_zts_client_def ref_text_def)

lemma demo_cached_get:
  "now < 9000000 \<Longrightarrow> ca_get (zv_cache demo_zts_env) now ''p=sports.api;d=weather'' (zs_cache demo_cached)
     = Some (JObj demo_token)"
  by (simp add: demo_zts_env_def demo_cached_def demo_zts_def alist_cache_def)

lemma demo_hit:
  "getRoleToken demo_zts_env 3000000 [(''domainName'', JStr ''weather'')] demo_cached
     = (Inr (Answered (CbToken (JObj demo_token))), demo_cached)"
  by (rule getRoleToken_cached [OF demo_cached_key demo_cached_get])
     (simp_all add: demo_key isExpiredToken_def remaining_def demo_token_def demo_cached_def demo_zts_def)

theorem cached_token_within_limits_witness:
  "getRoleToken demo_zts_env 3000000 [(''domainName'', JStr ''weather'')] demo_cached
     = (Inr (Answered (CbToken (JObj demo_token))), demo_cached) \<and> within_limits 2000 None None 900"
  using cached_token_within_limits [OF demo_hit, of 5000 None None 900] demo_hit
  by (simp add: demo_key demo_token_def limit_val_def) (simp add: demo_cached_def demo_zts_def)

text \<open>
  A call that gives a maximum and no minimum gets a token from the cache without any check
  that it is still valid: a token that has already expired is returned.
\<close>

theorem expired_token_returned:
  assumes "role_cache_key (role_pars params) z = Some k"
    and "ca_get (zv_cache env) now k (zs_cache z) = Some (JObj kvs)"
    and "obj_get kvs ''expiryTime'' = JNum (Fin e)" and "e \<le> of_int (now div 1000)"
    and "obj_get (role_pars params) ''maxExpiryTime'' = JNum (Fin mx)" and "0 < mx"
    and "\<not> truthy (obj_get (role_pars params) ''minExpiryTime'')"
    and "truthy (obj_get (role_pars params) ''domainName'')" and "\<not> truthy (obj_get params ''ignoreCache'')"
  shows "getRoleToken env now params z = (Inr (Answered (CbToken (JObj kvs))), z)"
  using assms
  by (intro getRoleToken_cached) (auto simp: isExpiredToken_def remaining_def)

theorem expired_token_returned_witness:
  "getRoleToken demo_zts_env 6000000 [(''domainName'', JStr ''weather''), (''maxExpiryTime'', JNum (Fin 7200))] demo_cached
     = (Inr (Answered (CbToken (JObj demo_token))), demo_cached)
   \<and> obj_get demo_token ''expiryTime'' = JNum (Fin 5000)"
proof -
  let ?p = "[(''domainName'', JStr ''weather''), (''maxExpiryTime'', JNum (Fin 7200))]"
  have "role_cache_key (role_pars ?p) demo_cached = Some ''p=sports.api;d=weather''"
    by (rule demo_cached_key) (simp_all add: demo_key)
  moreover have "obj_get demo_token ''expiryTime'' = JNum (Fin 5000)"
    by (simp add: demo_token_def)
  ultimately show ?thesis
    using expired_token_returned [of ?p demo_cached _ demo_zts_env 6000000 demo_token 5000 7200] demo_cached_get [of 6000000]
    by (simp add: demo_key)
qed

section \<open>What a call sends\<close>

lemma json_clone_undef [simp]: "json_clone v = JUndef \<longleftrightarrow> v = JUndef"
  by (cases v) (auto split: jsnum.splits)

lemma clone_obj_get:
  "distinct (obj_keys kvs) \<Longrightarrow> obj_get (clone_obj kvs) m = json_clone (obj_get kvs m)"
proof (induction kvs)
  case Nil
  show ?case by (simp add: clone_obj_def)
next
  case (Cons p kvs)
  obtain k v where p: "p = (k, v)" by force
  have "map_of kvs k = None"
    using Cons.prems by (simp add: p obj_keys_def map_of_eq_None_iff)
  then have "obj_get kvs k = JUndef"
    by (simp add: obj_get_def)
  moreover have "obj_get (clone_obj (p # kvs)) m = (if m = k \<and> v \<noteq> JUndef then json_clone v else obj_get (clone_obj kvs) m)"
    by (simp add: p clone_obj_def)
  ultimately show ?case
    using Cons by (auto simp: p obj_keys_def)
qed

lemma role_pars_distinct: "distinct (obj_keys (role_pars params))"
  unfolding role_pars_def obj_assign_def
  by (rule foldl_invariant) (auto simp: distinct_obj_put default_pars_def obj_keys_def [of "_ # _"])

lemma role_pars_get:
  "obj_get (role_pars params) m = (case map_of (rev params) m of None \<Rightarrow> obj_get default_pars m | Some v \<Rightarrow> v)"
  by (simp add: role_pars_def obj_get_assign)

lemma map_of_rev_put: "m \<noteq> n \<Longrightarrow> map_of (rev (obj_put n v kvs)) m = map_of (rev kvs) m"
  by (induction n v kvs rule: obj_put.induct) (auto simp: map_add_def split: option.splits)

text \<open>Data that differ only in a member that is no input of the route make the same request.\<close>

definition agree_except :: "string \<Rightarrow> parts_state \<Rightarrow> parts_state \<Rightarrow> bool" where
  "agree_except n ps ps' \<longleftrightarrow> ps_headers ps = ps_headers ps' \<and> ps_query ps = ps_query ps'
     \<and> ps_pathname ps = ps_pathname ps' \<and> (\<forall>m. m \<noteq> n \<longrightarrow> obj_get (ps_data ps) m = obj_get (ps_data ps') m)"

lemma apply_input_agree:
  "agree_except n ps ps' \<Longrightarrow> in_name item \<noteq> n \<Longrightarrow> agree_except n (apply_input item ps) (apply_input item ps')"
  by (simp add: agree_except_def apply_input_def Let_def)

lemma fold_inputs_agree:
  "agree_except n ps ps' \<Longrightarrow> \<forall>item\<in>set items. in_name item \<noteq> n \<Longrightarrow>
     agree_except n (fold apply_input items ps) (fold apply_input items ps')"
  by (induction items arbitrary: ps ps') (auto intro: apply_input_agree)

lemma normalizeParts_unused:
  assumes "\<And>m. m \<noteq> n \<Longrightarrow> obj_get (clone_obj d) m = obj_get (clone_obj d') m" and "n \<noteq> ''headers''"
    and "\<forall>item\<in>set (ro_inputs route). in_name item \<noteq> n" and "filter is_body (ro_inputs route) = []"
  shows "normalizeParts nu self route d = normalizeParts nu self route d'"
proof -
  let ?ps = "\<lambda>d headers pathname. \<lparr>ps_headers = headers,
      ps_query = request_id (rc_request self) (up_query (nu_parse nu (rc_apiHost self))),
      ps_pathname = nu_join nu pathname (ro_path route), ps_data = obj_del ''headers'' (clone_obj d)\<rparr>"
  have "agree_except n (fold apply_input (ro_inputs route) (?ps d h p)) (fold apply_input (ro_inputs route) (?ps d' h p))" for h p
    by (rule fold_inputs_agree [OF _ assms(3)]) (simp add: agree_except_def assms(1))
  moreover have "obj_get (clone_obj d) ''headers'' = obj_get (clone_obj d') ''headers''"
    using assms(1,2) by simp
  moreover have "normalizeData route x = Inr None" for x
    by (simp add: normalizeData_def assms(4))
  ultimately show ?thesis
    by (auto simp: normalizeParts_def Let_def agree_except_def bind_result_def split: sum.splits jsref.splits)
qed

lemma role_token_inputs:
  "\<forall>item\<in>set (ro_inputs role_token_route). in_name item \<noteq> ''roleName''"
  "filter is_body (ro_inputs role_token_route) = []"
  by (simp_all add: role_token_route_def path_input_def query_input_def is_body_def)

text \<open>Bringing the credentials up to date does not change who the client acts for.\<close>

lemma updateServicePrincipal_keeps:
  assumes "updateServicePrincipal header now c = (r, c')"
  shows "zc_ztsClientFactory c' = zc_ztsClientFactory c" "zc_domain c' = zc_domain c" "zc_service c' = zc_service c"
  using assms
  by (auto simp: updateServicePrincipal_def addPrincipalCredentials_def Let_def bind_action_def
      split: option.splits sum.splits if_splits jsref.splits)

lemma lookup_client:
  assumes "lookupRoleTokenInCache env now k mn mx z = (r, z')"
  shows "zs_client z' = zs_client z" "zs_config z' = zs_config z" "zs_cacheDisabled z' = zs_cacheDisabled z"
  using assms by (auto simp: lookupRoleTokenInCache_def split: option.splits if_splits)

lemma getRoleToken_sent:
  assumes "getRoleToken env now params z = (Inr (Requested k opts), z')"
  shows "k = role_cache_key (role_pars params) z"
    and "\<exists>c'. send_role_request env now (role_pars params) (zs_client z) = (Inr opts, c')"
proof -
  obtain hit z1 where look: "(case role_cache_key (role_pars params) z of
        Some k \<Rightarrow> if truthy (obj_get params ''ignoreCache'') then ret None
          else lookupRoleTokenInCache env now k (obj_get (role_pars params) ''minExpiryTime'')
            (obj_get (role_pars params) ''maxExpiryTime'')
      | None \<Rightarrow> ret None) z = (Inr hit, z1)"
      and rest: "(case hit of Some roleToken \<Rightarrow> ret (Answered (CbToken roleToken))
        | None \<Rightarrow> bind_action (on_client (send_role_request env now (role_pars params)))
            (\<lambda>opts. ret (Requested (role_cache_key (role_pars params) z) opts))) z1 = (Inr (Requested k opts), z')"
    using assms by (auto simp: getRoleToken_def Let_def split: if_splits elim!: bind_action_Inr)
  have c: "zs_client z1 = zs_client z"
    using look lookup_client(1) by (fastforce split: option.splits if_splits)
  have "hit = None"
    using rest by (cases hit) auto
  then show "k = role_cache_key (role_pars params) z"
    and "\<exists>c'. send_role_request env now (role_pars params) (zs_client z) = (Inr opts, c')"
    using rest c by (auto simp: on_client_def split: prod.splits elim!: bind_action_Inr)
qed

lemma send_role_request_call:
  assumes "send_role_request env now pars c = (Inr opts, c')"
  obtains r rc where "updateServicePrincipal (zv_header env) now c = (Inr r, c')" and "zc_ztsClient c' = Some rc"
    and "rest_call (zv_url env) (rf_methods (zc_ztsClientFactory c')) rc ''getRoleToken'' (DataCallback pars) = Inr opts"
  using assms by (auto simp: send_role_request_def split: option.splits elim!: bind_action_Inr)

text \<open>
  The request for a role token does not say which role is wanted: the input of the route is
  called \<^verbatim>\<open>role\<close>, the client passes \<^verbatim>\<open>roleName\<close>, so two calls that
  differ only in the role name send the same request, and ZTS answers with a token for all roles.
\<close>

theorem role_name_not_sent:
  assumes "map_of (rf_methods (zc_ztsClientFactory (zs_client z))) ''getRoleToken'' = Some role_token_route"
    and "getRoleToken env now params z = (Inr (Requested k opts), z')"
    and "getRoleToken env now (obj_put ''roleName'' r params) z = (Inr (Requested k' opts'), z'')"
  shows "opts' = opts"
proof -
  let ?p = "role_pars params" and ?q = "role_pars (obj_put ''roleName'' r params)"
  have "obj_get ?p m = obj_get ?q m" if "m \<noteq> ''roleName''" for m
    using that by (simp add: role_pars_get map_of_rev_put)
  then have "obj_get (clone_obj ?p) m = obj_get (clone_obj ?q) m" if "m \<noteq> ''roleName''" for m
    using that by (simp add: clone_obj_get role_pars_distinct)
  then have same: "normalizeParts nu rc role_token_route ?p = normalizeParts nu rc role_token_route ?q" for nu rc
    using normalizeParts_unused [OF _ _ role_token_inputs, of ?p ?q nu rc] by simp
  obtain c' where sent: "send_role_request env now ?p (zs_client z) = (Inr opts, c')"
    using getRoleToken_sent(2) [OF assms(2)] by blast
  obtain c'' where sent': "send_role_request env now ?q (zs_client z) = (Inr opts', c'')"
    using getRoleToken_sent(2) [OF assms(3)] by blast
  from sent obtain a rc where rc: "updateServicePrincipal (zv_header env) now (zs_client z) = (Inr a, c')"
      "zc_ztsClient c' = Some rc"
      "rest_call (zv_url env) (rf_methods (zc_ztsClientFactory c')) rc ''getRoleToken'' (DataCallback ?p) = Inr opts"
    by (rule send_role_request_call)
  from sent' have "rest_call (zv_url env) (rf_methods (zc_ztsClientFactory c')) rc ''getRoleToken'' (DataCallback ?q) = Inr opts'"
    by (rule send_role_request_call) (use rc(1,2) in auto)
  then show ?thesis
    using rc(3) assms(1) updateServicePrincipal_keeps(1) [OF rc(1)] same by (simp add: rest_call_def)
qed

lemma getRoleToken_miss:
  assumes "truthy (obj_get (role_pars params) ''domainName'')"
    and "\<And>k. role_cache_key (role_pars params) z = Some k \<Longrightarrow> ca_get (zv_cache env) now k (zs_cache z) = None"
    and "send_role_request env now (role_pars params) (zs_client z) = (Inr opts, c')"
  shows "getRoleToken env now params z = (Inr (Requested (role_cache_key (role_pars params) z) opts), z\<lparr>zs_client := c'\<rparr>)"
proof -
  have "on_client (send_role_request env now (role_pars params)) z = (Inr opts, z\<lparr>zs_client := c'\<rparr>)"
    using assms(3) by (simp add: on_client_def)
  then show ?thesis
    using assms(1,2)
    by (cases "role_cache_key (role_pars params) z")
       (simp_all add: getRoleToken_def Let_def lookupRoleTokenInCache_def)
qed

lemma demo_sends:
  "\<not> isl (fst (send_role_request demo_zts_env 0 (role_pars [(''domainName'', JStr ''weather'')]) demo_zts_client))"
  "\<not> isl (fst (send_role_request demo_zts_env 0 (role_pars [(''domainName'', JStr ''weather''), (''roleName'', JStr ''readers'')])
     demo_zts_client))"
  by code_simp+

lemma demo_requests:
  assumes "params = [(''domainName'', JStr ''weather'')] \<or> params = [(''domainName'', JStr ''weather''), (''roleName'', JStr ''readers'')]"
  shows "\<exists>k opts z'. getRoleToken demo_zts_env 0 params (demo_zts []) = (Inr (Requested k opts), z')"
proof -
  obtain opts c' where "send_role_request demo_zts_env 0 (role_pars params) (zs_client (demo_zts [])) = (Inr opts, c')"
    using demo_sends assms
    by (cases "send_role_request demo_zts_env 0 (role_pars params) demo_zts_client"; cases "fst (send_role_request demo_zts_env 0 (role_pars params) demo_zts_client)")
       (auto simp: demo_zts_def)
  moreover have "truthy (obj_get (role_pars params) ''domainName'')"
    using assms by (auto simp: role_pars_get)
  ultimately show ?thesis
    using getRoleToken_miss [of params "demo_zts []" demo_zts_env 0] by (auto simp: demo_zts_env_def demo_zts_def)
qed

theorem role_name_not_sent_witness:
  "\<exists>k k' opts z' z''. getRoleToken demo_zts_env 0 [(''domainName'', JStr ''weather'')] (demo_zts [])
       = (Inr (Requested k opts), z')
     \<and> getRoleToken demo_zts_env 0 [(''domainName'', JStr ''weather''), (''roleName'', JStr ''readers'')] (demo_zts [])
       = (Inr (Requested k' opts), z'')"
proof -
  have m: "map_of (rf_methods (zc_ztsClientFactory (zs_client (demo_zts [])))) ''getRoleToken'' = Some role_token_route"
    by code_simp
  have put: "obj_put ''roleName'' (JStr ''readers'') [(''domainName'', JStr ''weather'')]
      = [(''domainName'', JStr ''weather''), (''roleName'', JStr ''readers'')]"
    by simp
  obtain k opts z' where a: "getRoleToken demo_zts_env 0 [(''domainName'', JStr ''weather'')] (demo_zts [])
      = (Inr (Requested k opts), z')"
    using demo_requests by blast
  obtain k' opts' z'' where b: "getRoleToken demo_zts_env 0 [(''domainName'', JStr ''weather''), (''roleName'', JStr ''readers'')]
      (demo_zts []) = (Inr (Requested k' opts'), z'')"
    using demo_requests by blast
  have "opts' = opts"
    by (rule role_name_not_sent [OF m a b [folded put]])
  then show ?thesis
    using a b by blast
qed

section \<open>Answers from the cache\<close>

text \<open>
  Calls, replies and changes of the configuration in any order. The second component of a state
  lists the requests that have no reply yet. \<open>server\<close> says which values ZTS may answer to a
  request. Names in a call contain no semicolon.
\<close>

definition plain_call :: "jsval jsobj \<Rightarrow> bool" where
  "plain_call params \<longleftrightarrow> plain (obj_get (role_pars params) ''domainName'')
     \<and> plain (obj_get (role_pars params) ''roleName'') \<and> plain (obj_get (role_pars params) ''proxyForPrincipal'')"

type_synonym 'c zts_run = "'c zts_state \<times> (string option \<times> request_options) list"

inductive zts_step :: "'c zts_env \<Rightarrow> (request_options \<Rightarrow> jsval \<Rightarrow> bool) \<Rightarrow> 'c zts_run \<Rightarrow> 'c zts_run \<Rightarrow> bool"
  for env server where
  step_ask: "plain_call params \<Longrightarrow> getRoleToken env now params z = (Inr (Requested k opts), z') \<Longrightarrow>
    zts_step env server (z, pend) (z', (k, opts) # pend)"
| step_answer: "getRoleToken env now params z = (r, z') \<Longrightarrow> (\<And>k opts. r \<noteq> Inr (Requested k opts)) \<Longrightarrow>
    zts_step env server (z, pend) (z', pend)"
| step_reply: "(k, opts) \<in> set pend \<Longrightarrow> rest_response err status json = (e, v) \<Longrightarrow>
    (\<not> truthy e \<Longrightarrow> server opts v) \<Longrightarrow> getRoleToken_reply env now k e v z = (r', z') \<Longrightarrow>
    zts_step env server (z, pend) (z', remove1 (k, opts) pend)"
| step_config: "zts_step env server (z, pend) (ZTSClient_setConfig overrides z, pend)"
| step_init: "zts_step env server (z, pend) (initConfigValues z, pend)"

text \<open>A request made for a call with a given cache key, by a client of a tenant.\<close>

definition asked ::
  "'c zts_env \<Rightarrow> string jsref \<Rightarrow> string jsref \<Rightarrow> route jsobj \<Rightarrow> string \<Rightarrow> jsval jsobj \<Rightarrow> request_options \<Rightarrow> bool" where
  "asked env d s methods k params opts \<longleftrightarrow> plain_call params
     \<and> getRoleTokenCacheKey d s (obj_get (role_pars params) ''domainName'')
         (obj_get (role_pars params) ''roleName'') (obj_get (role_pars params) ''proxyForPrincipal'') = Some k
     \<and> (\<exists>rc. rest_call (zv_url env) methods rc ''getRoleToken'' (DataCallback (role_pars params)) = Inr opts)"

definition client_of :: "string jsref \<Rightarrow> string jsref \<Rightarrow> route jsobj \<Rightarrow> zts_client \<Rightarrow> bool" where
  "client_of d s methods c \<longleftrightarrow> zc_domain c = d \<and> zc_service c = s \<and> rf_methods (zc_ztsClientFactory c) = methods"

definition zts_ok ::
  "'c zts_env \<Rightarrow> (request_options \<Rightarrow> jsval \<Rightarrow> bool) \<Rightarrow> string jsref \<Rightarrow> string jsref \<Rightarrow> route jsobj \<Rightarrow> 'c zts_run \<Rightarrow> bool" where
  "zts_ok env server d s methods run \<longleftrightarrow> client_of d s methods (zs_client (fst run))
     \<and> (\<forall>k opts. (Some k, opts) \<in> set (snd run) \<longrightarrow> (\<exists>params. asked env d s methods k params opts))
     \<and> (\<forall>t k v. ca_get (zv_cache env) t k (zs_cache (fst run)) = Some v \<longrightarrow>
          (\<exists>params opts. asked env d s methods k params opts \<and> server opts v))"

text \<open>What a call keeps: the tenant, and that entries of the cache have a property.\<close>

definition entries_ok ::
  "'c zts_env \<Rightarrow> string jsref \<Rightarrow> string jsref \<Rightarrow> route jsobj \<Rightarrow> (string \<Rightarrow> jsval \<Rightarrow> bool) \<Rightarrow> 'c zts_state \<Rightarrow> bool" where
  "entries_ok env d s methods P z \<longleftrightarrow> client_of d s methods (zs_client z)
     \<and> (\<forall>t k v. ca_get (zv_cache env) t k (zs_cache z) = Some v \<longrightarrow> P k v)"

lemma keeps_lookup_entries:
  assumes "cache_laws (zv_cache env)"
  shows "keeps (entries_ok env d s methods P) (lookupRoleTokenInCache env now k mn mx)"
proof -
  have "entries_ok env d s methods P (z\<lparr>zs_cache := ca_del (zv_cache env) now k (zs_cache z)\<rparr>)"
    if "entries_ok env d s methods P z" for z
    using that cache_del(1) [OF assms] cache_del(2) [OF assms] unfolding entries_ok_def
    by simp (metis option.distinct(1))
  then show ?thesis
    unfolding lookupRoleTokenInCache_def by (intro keeps_rules keeps_update)
qed

lemma send_role_request_client:
  "send_role_request env now pars c = (r, c') \<Longrightarrow> client_of d s methods c \<Longrightarrow> client_of d s methods c'"
  using updateServicePrincipal_keeps
  by (cases "updateServicePrincipal (zv_header env) now c" rule: prod.exhaust;
      cases "fst (updateServicePrincipal (zv_header env) now c)")
     (auto simp: send_role_request_def client_of_def bind_action_def split: option.splits)

lemma keeps_send: "keeps (entries_ok env d s methods P) (on_client (send_role_request env now pars))"
  unfolding keeps_def on_client_def entries_ok_def
  by (auto split: prod.splits dest: send_role_request_client)

lemma keeps_getRoleToken:
  assumes "cache_laws (zv_cache env)"
  shows "keeps (entries_ok env d s methods P) (getRoleToken env now params)"
  unfolding getRoleToken_def Let_def
  by (intro keeps_rules keeps_lookup_entries [OF assms] keeps_send)

lemma reply_entries:
  assumes laws: "cache_laws (zv_cache env)" and z: "entries_ok env d s methods P z"
    and run: "getRoleToken_reply env now key e v z = (r, z')"
    and new: "\<And>k. key = Some k \<Longrightarrow> \<not> truthy e \<Longrightarrow> P k v"
  shows "entries_ok env d s methods P z'"
proof (cases "truthy e \<or> key = None \<or> truthy (zs_cacheDisabled z)")
  case True
  then have "z' = z"
    using run by (cases key; cases "truthy e") (auto simp: getRoleToken_reply_def)
  then show ?thesis using z by simp
next
  case False
  then obtain k where k: "key = Some k" "\<not> truthy e" "\<not> truthy (zs_cacheDisabled z)"
    by auto
  let ?put = "ca_put (zv_cache env) now k v (millis (obj_get (zs_config z) ''tokenRefresh'')) (zs_cache z)"
  show ?thesis
  proof (cases ?put)
    case (Inl e)
    then show ?thesis
      using run k z by (simp add: getRoleToken_reply_def)
  next
    case (Inr c)
    have "P k' v'" if "ca_get (zv_cache env) t k' c = Some v'" for t k' v'
      using that z new [OF k(1,2)] cache_put_Inr(1) [OF laws Inr, of t] cache_put_Inr(2) [OF laws Inr, of k' t]
      by (cases "k' = k") (auto simp: entries_ok_def)
    then show ?thesis
      using run k z Inr by (auto simp: getRoleToken_reply_def entries_ok_def)
  qed
qed

lemma zts_ok_entries:
  "zts_ok env server d s methods (z, pend) \<longleftrightarrow>
     entries_ok env d s methods (\<lambda>k v. \<exists>params opts. asked env d s methods k params opts \<and> server opts v) z
     \<and> (\<forall>k opts. (Some k, opts) \<in> set pend \<longrightarrow> (\<exists>params. asked env d s methods k params opts))"
  by (auto simp: zts_ok_def entries_ok_def)

lemma requested_asked:
  assumes "getRoleToken env now params z = (Inr (Requested (Some k) opts), z')" and "plain_call params"
    and "client_of d s methods (zs_client z)"
  shows "asked env d s methods k params opts"
proof -
  obtain c' where "send_role_request env now (role_pars params) (zs_client z) = (Inr opts, c')"
    using getRoleToken_sent(2) [OF assms(1)] by blast
  moreover from this have "client_of d s methods c'"
    using send_role_request_client assms(3) by blast
  ultimately have "\<exists>rc. rest_call (zv_url env) methods rc ''getRoleToken'' (DataCallback (role_pars params)) = Inr opts"
    by (auto simp: client_of_def elim!: send_role_request_call)
  then show ?thesis
    using getRoleToken_sent(1) [OF assms(1)] assms(2,3)
    by (auto simp: asked_def role_cache_key_def getRoleTokenCacheKeySetTenant_def client_of_def split: if_splits)
qed

lemma zts_step_ok:
  assumes "zts_step env server run run'" and "cache_laws (zv_cache env)" and "zts_ok env server d s methods run"
  shows "zts_ok env server d s methods run'"
  using assms
proof (induction rule: zts_step.induct)
  case (step_ask params now z k opts z' pend)
  have "client_of d s methods (zs_client z)"
    using step_ask.prems(2) by (simp add: zts_ok_def)
  then have "\<exists>params. asked env d s methods k' params opts" if "k = Some k'" for k'
    using requested_asked step_ask(1,2) that by blast
  then show ?case
    using keepsD [OF keeps_getRoleToken [OF step_ask.prems(1)] step_ask(2)] step_ask.prems(2)
    by (auto simp: zts_ok_entries)
next
  case (step_answer now params z r z' pend)
  then show ?case
    using keepsD [OF keeps_getRoleToken [OF step_answer.prems(1)] step_answer(1)] by (auto simp: zts_ok_entries)
next
  case (step_reply k opts pend err status json e v now z r' z')
  let ?P = "\<lambda>k v. \<exists>params opts. asked env d s methods k params opts \<and> server opts v"
  have new: "?P k' v" if "k = Some k'" "\<not> truthy e" for k'
    using step_reply.prems(2) step_reply.hyps(1) step_reply(3) that by (fastforce simp: zts_ok_entries)
  have "entries_ok env d s methods ?P z"
    using step_reply.prems(2) by (simp add: zts_ok_entries)
  then have "entries_ok env d s methods ?P z'"
    by (rule reply_entries [where P = ?P, OF step_reply.prems(1) _ step_reply.hyps(4) new])
  then show ?case
    using step_reply.prems(2) notin_set_remove1 by (fastforce simp: zts_ok_entries)
next
  case (step_config z pend overrides)
  then show ?case by (simp add: zts_ok_def ZTSClient_setConfig_def)
next
  case (step_init z pend)
  then show ?case by (simp add: zts_ok_def initConfigValues_def Let_def)
qed

lemma zts_reachable_ok:
  assumes "(zts_step env server)\<^sup>*\<^sup>* run run'" and "cache_laws (zv_cache env)" and "zts_ok env server d s methods run"
  shows "zts_ok env server d s methods run'"
  using assms by (induction rule: rtranclp_induct) (auto intro: zts_step_ok)

text \<open>Two calls that ask the same question.\<close>

definition same_question :: "jsval jsobj \<Rightarrow> jsval jsobj \<Rightarrow> bool" where
  "same_question params params' \<longleftrightarrow>
     js_text (obj_get (role_pars params) ''domainName'') = js_text (obj_get (role_pars params') ''domainName'')
     \<and> same_name (obj_get (role_pars params) ''roleName'') (obj_get (role_pars params') ''roleName'')
     \<and> same_name (obj_get (role_pars params) ''proxyForPrincipal'') (obj_get (role_pars params') ''proxyForPrincipal'')"

text \<open>
  C21. Whatever calls, replies and changes of the configuration came before, in any order: a token
  that a call gets from the cache is one that ZTS gave as the answer to a request made for a call
  with the same domain, role and proxy principal.
\<close>

theorem cached_token_answers_question:
  assumes "(zts_step env server)\<^sup>*\<^sup>* (z0, []) (z, pend)" and "cache_laws (zv_cache env)"
    and "\<forall>t k. ca_get (zv_cache env) t k (zs_cache z0) = None"
    and "plain_ref (zc_domain (zs_client z0))" and "plain_ref (zc_service (zs_client z0))"
    and "plain_call params"
    and "getRoleToken env now params z = (Inr (Answered (CbToken v)), z')"
  shows "\<exists>params' rc opts. same_question params params' \<and> server opts v
    \<and> rest_call (zv_url env) (rf_methods (zc_ztsClientFactory (zs_client z0))) rc ''getRoleToken''
        (DataCallback (role_pars params')) = Inr opts"
proof -
  let ?d = "zc_domain (zs_client z0)" and ?s = "zc_service (zs_client z0)"
    and ?m = "rf_methods (zc_ztsClientFactory (zs_client z0))"
  have "zts_ok env server ?d ?s ?m (z0, [])"
    using assms(3) by (simp add: zts_ok_def client_of_def)
  then have ok: "zts_ok env server ?d ?s ?m (z, pend)"
    using zts_reachable_ok [OF assms(1,2)] by blast
  obtain k where k: "role_cache_key (role_pars params) z = Some k"
      and hit: "lookupRoleTokenInCache env now k (obj_get (role_pars params) ''minExpiryTime'')
        (obj_get (role_pars params) ''maxExpiryTime'') z = (Inr (Some v), z')"
    using getRoleToken_hit [OF assms(7)] by blast
  have "\<forall>t k v. ca_get (zv_cache env) t k (zs_cache z) = Some v \<longrightarrow>
      (\<exists>params opts. asked env ?d ?s ?m k params opts \<and> server opts v)"
    using ok by (simp add: zts_ok_def)
  then obtain params' opts where p: "asked env ?d ?s ?m k params' opts" "server opts v"
    using lookup_hit(1) [OF hit] by blast
  have key: "getRoleTokenCacheKey ?d ?s (obj_get (role_pars params) ''domainName'')
      (obj_get (role_pars params) ''roleName'') (obj_get (role_pars params) ''proxyForPrincipal'') = Some k"
    using k ok by (auto simp: role_cache_key_def getRoleTokenCacheKeySetTenant_def zts_ok_def client_of_def
        split: if_splits)
  have key': "getRoleTokenCacheKey ?d ?s (obj_get (role_pars params') ''domainName'')
      (obj_get (role_pars params') ''roleName'') (obj_get (role_pars params') ''proxyForPrincipal'') = Some k"
      and "plain_call params'"
    using p(1) by (simp_all add: asked_def)
  then have "same_question params params'"
    unfolding same_question_def
    by (intro key_parts_same [OF cache_key_eq [OF key key']]) (use assms(4-6) in \<open>simp_all add: plain_call_def\<close>)
  then show ?thesis
    using p by (auto simp: asked_def)
qed

text \<open>A call sends a request, the reply comes, and the next call is answered from the cache.\<close>

theorem cached_token_answers_question_witness:
  "\<exists>z pend opts params' rc. (zts_step demo_zts_env (\<lambda>o' v. o' = opts \<and> v = JObj demo_token))\<^sup>*\<^sup>* (demo_zts [], []) (z, pend)
     \<and> getRoleToken demo_zts_env 3000000 [(''domainName'', JStr ''weather'')] z = (Inr (Answered (CbToken (JObj demo_token))), z)
     \<and> same_question [(''domainName'', JStr ''weather'')] params'
     \<and> rest_call demo_url (rf_methods demo_factory) rc ''getRoleToken'' (DataCallback (role_pars params')) = Inr opts"
proof -
  let ?p = "[(''domainName'', JStr ''weather'')]" and ?k = "''p=sports.api;d=weather''"
  obtain opts c' where send: "send_role_request demo_zts_env 0 (role_pars ?p) demo_zts_client = (Inr opts, c')"
    using demo_sends(1)
    by (cases "send_role_request demo_zts_env 0 (role_pars ?p) demo_zts_client"; cases "fst (send_role_request demo_zts_env 0 (role_pars ?p) demo_zts_client)")
       auto
  have "c' = demo_zts_client"
    using send by (rule send_role_request_call) (simp add: updateServicePrincipal_def, simp add: demo_zts_client_def)
  then have ask: "getRoleToken demo_zts_env 0 ?p (demo_zts []) = (Inr (Requested (Some ?k) opts), demo_zts [])"
    using getRoleToken_miss [of ?p "demo_zts []" demo_zts_env 0 opts c'] send
    by (simp add: demo_key demo_zts_env_def)
       (simp add: demo_zts_def role_cache_key_def getRoleTokenCacheKeySetTenant_def getRoleTokenCacheKey_def
          demo_zts_client_def ref_text_def)
  define server where "server = (\<lambda>o' v. o' = opts \<and> v = JObj demo_token)"
  define z where "z = demo_zts [(?k, JObj demo_token, 4000000)]"
  have reply: "getRoleToken_reply demo_zts_env 2200000 (Some ?k) JNull (JObj demo_token) (demo_zts []) = (Inr (CbToken (JObj demo_token)), z)"
    by (simp add: getRoleToken_reply_def demo_zts_env_def z_def demo_zts_def millis_def alist_cache_def)
  have hit: "getRoleToken demo_zts_env 3000000 ?p z = (Inr (Answered (CbToken (JObj demo_token))), z)"
    by (rule getRoleToken_cached [of _ _ ?k])
       (simp_all add: demo_key role_cache_key_def getRoleTokenCacheKeySetTenant_def getRoleTokenCacheKey_def z_def
          demo_zts_def demo_zts_client_def ref_text_def isExpiredToken_def remaining_def demo_token_def
          demo_zts_env_def alist_cache_def)
  have plain: "plain_call ?p"
    by (simp add: plain_call_def demo_key plain_def)
  have "zts_step demo_zts_env server (demo_zts [], []) (demo_zts [], [(Some ?k, opts)])"
    by (rule step_ask [OF plain ask])
  moreover have "zts_step demo_zts_env server (demo_zts [], [(Some ?k, opts)]) (z, remove1 (Some ?k, opts) [(Some ?k, opts)])"
    by (rule step_reply [of _ _ _ JNull "Some 200" "JObj demo_token", OF _ _ _ reply])
       (simp_all add: rest_response_def isSuccessResponseCode_def isJsonResponse_def server_def)
  ultimately have run: "(zts_step demo_zts_env server)\<^sup>*\<^sup>* (demo_zts [], []) (z, [])"
    by (simp add: converse_rtranclp_into_rtranclp)
  have "\<exists>params' rc opts'. same_question ?p params' \<and> server opts' (JObj demo_token)
    \<and> rest_call (zv_url demo_zts_env) (rf_methods (zc_ztsClientFactory (zs_client (demo_zts [])))) rc ''getRoleToken''
        (DataCallback (role_pars params')) = Inr opts'"
    by (rule cached_token_answers_question [OF run _ _ _ _ plain hit])
       (simp_all add: demo_zts_env_def alist_cache_laws demo_zts_def demo_zts_client_def plain_ref_def ref_text_def)
  moreover have "zv_url demo_zts_env = demo_url" "zc_ztsClientFactory (zs_client (demo_zts [])) = demo_factory"
    by (simp_all add: demo_zts_env_def demo_zts_def demo_zts_client_def)
  ultimately show ?thesis
    using run hit unfolding server_def by metis
qed

end
