(* ===== verification/Ui_Rdl_Rest.thy ===== *)
theory Ui_Rdl_Rest
  imports Rdl_Routes
begin

text \<open>
  The module \<^verbatim>\<open>ui/src/rdl-rest.js\<close>, the REST client of the console's server. It is a
  later version of the one of the ZTS client: a route may have a name of its own, a route without
  inputs is allowed, a header function is given the request, and routes with the same name are
  told apart by the inputs of a call. The parts that did not change give the same results, which
  \<open>ui_rest_agrees\<close> states.
\<close>

section \<open>Routes\<close>

record ui_route =
  ur_type :: string
  ur_method :: string
  ur_path :: string
  ur_name :: string
  ur_inputs :: "rdl_input list option"

definition ui_inputs :: "ui_route \<Rightarrow> rdl_input list" where
  "ui_inputs route = (case ur_inputs route of Some items \<Rightarrow> items | None \<Rightarrow> [])"

definition uncapitalize :: "string \<Rightarrow> string" where
  "uncapitalize s = (case s of [] \<Rightarrow> [] | c # cs \<Rightarrow> lower_char c # cs)"

definition ui_normalizeMethod :: "ui_route \<Rightarrow> string list \<Rightarrow> string" where
  "ui_normalizeMethod route proto =
     (let (verb, name) =
            (if ur_name route \<noteq> [] then ([], uncapitalize (ur_name route))
             else (to_lower (ur_method route), capitalize (ur_type route)))
      in if verb @ name \<in> set proto
         then (case ur_inputs route of
                 Some inputs \<Rightarrow>
                   (case filter (\<lambda>i. in_name i = ''detail'') inputs of
                      [] \<Rightarrow> verb @ name
                    | item # _ \<Rightarrow> verb @ capitalize (in_type item))
               | None \<Rightarrow> verb @ name)
         else verb @ name)"

section \<open>Building a request\<close>

definition ui_forwardHeaders :: "string list" where
  "ui_forwardHeaders =
     [''authorization'', ''cookie'', ''user-agent'', ''client-ip'', ''x-forwarded-for'', ''bucket'']"

definition ui_setHeaders :: "node_url \<Rightarrow> rest_client \<Rightarrow> jsval \<Rightarrow> jsval jsobj result" where
  "ui_setHeaders nu self given =
     bind_result (header_object given) (\<lambda>headers.
       let forwarded =
             (case rc_request self of
                None \<Rightarrow> headers
              | Some req \<Rightarrow> obj_put ''referer'' (JStr (referer nu req))
                  (foldl (forward_header (rq_headers req)) headers ui_forwardHeaders));
           typed = obj_put ''content-type'' (JStr ''application/json'') forwarded
       in Inr (case rc_headers self of
                 NoHeaders \<Rightarrow> typed
               | HeaderFun f \<Rightarrow> f typed (rc_request self)
               | HeaderObj own \<Rightarrow>
                   foldl (\<lambda>h (name, v). obj_put name (header_result (rc_request self) v) h) typed own))"

definition ui_normalizeData :: "ui_route \<Rightarrow> jsval jsobj \<Rightarrow> jsval option result" where
  "ui_normalizeData route data =
     (let out = (case filter is_body (ui_inputs route) of
                   [] \<Rightarrow> JObj []
                 | item # _ \<Rightarrow> obj_get data (in_name item))
      in bind_result (keys_length out) (\<lambda>n. Inr (if n = 0 then None else Some out)))"

definition ui_normalizeParts ::
  "node_url \<Rightarrow> rest_client \<Rightarrow> ui_route \<Rightarrow> jsval jsobj \<Rightarrow> request_options result" where
  "ui_normalizeParts nu self route data0 =
     (let parts = nu_parse nu (rc_apiHost self);
          data = clone_obj data0
      in bind_result (ui_setHeaders nu self (obj_get data ''headers'')) (\<lambda>headers.
         case up_pathname parts of
           Val pathname \<Rightarrow>
             let ps = fold apply_input (ui_inputs route)
                   \<lparr>ps_headers = headers, ps_query = request_id (rc_request self) (up_query parts),
                    ps_pathname = nu_join nu pathname (ur_path route),
                    ps_data = obj_del ''headers'' data\<rparr>
             in bind_result (ui_normalizeData route (ps_data ps)) (\<lambda>body.
                  Inr \<lparr>op_base = rc_requestOpts self, op_method = ur_method route,
                       op_headers = ps_headers ps,
                       op_uri = nu_format nu (parts\<lparr>up_pathname := Val (ps_pathname ps),
                         up_query := ps_query ps\<rparr>),
                       op_body = body\<rparr>)
         | _ \<Rightarrow> Inl (TypeError ''path'')))"

section \<open>Responses\<close>

definition ui_isSuccessResponseCode :: "int option \<Rightarrow> bool" where
  "ui_isSuccessResponseCode responseCode =
     (case responseCode of Some c \<Rightarrow> c \<noteq> 0 \<and> 200 \<le> c \<and> c < 300 | None \<Rightarrow> False)"

definition ui_isJsonResponse :: "jsval \<Rightarrow> bool" where
  "ui_isJsonResponse v = (case v of JObj _ \<Rightarrow> True | JArr _ \<Rightarrow> True | JNull \<Rightarrow> True | _ \<Rightarrow> False)"

text \<open>The callback of \<^verbatim>\<open>_methodCb\<close>: what the caller's callback is called with.\<close>

definition methodCb_response :: "jsval \<Rightarrow> int option \<Rightarrow> jsval \<Rightarrow> jsval \<times> jsval" where
  "methodCb_response err status json0 =
     (let success = ui_isSuccessResponseCode status;
          no_text = success \<and> \<not> ui_isJsonResponse json0 \<and> status \<noteq> Some 200;
          json = (if no_text then JObj [] else json0);
          isJson = (ui_isJsonResponse json0 \<or> no_text)
      in if truthy err \<or> \<not> success \<or> \<not> isJson
         then (JObj [(''status'', case status of Some c \<Rightarrow> JNum (num_of_int c) | None \<Rightarrow> JUndef),
                     (''message'', json), (''error'', err)],
               if isJson then json else JNull)
         else (err, json))"

section \<open>The client\<close>

text \<open>Every method keeps the list of the routes that have its name.\<close>

definition ui_add_route :: "ui_route list jsobj \<Rightarrow> ui_route \<Rightarrow> ui_route list jsobj" where
  "ui_add_route methods route =
     (let meth = ui_normalizeMethod route (rest_own_names @ obj_keys methods)
      in obj_put meth ((case map_of methods meth of Some routes \<Rightarrow> routes | None \<Rightarrow> []) @ [route]) methods)"

definition ui_generate :: "ui_route list \<Rightarrow> ui_route list jsobj" where
  "ui_generate resources = foldl ui_add_route [] resources"

text \<open>A route of several that has all the members of the data of a call as inputs.\<close>

definition accepts_data :: "jsval jsobj \<Rightarrow> ui_route \<Rightarrow> bool result" where
  "accepts_data data route =
     (case ur_inputs route of
        None \<Rightarrow> Inl (TypeError ''map'')
      | Some items \<Rightarrow> Inr (\<forall>name\<in>set (obj_keys data). name \<in> in_name ` set items))"

definition matched_routes :: "ui_route list \<Rightarrow> jsval jsobj \<Rightarrow> ui_route list result" where
  "matched_routes routes data =
     (if length routes > 1 then filter_result (accepts_data data) routes else Inr routes)"

definition ui_dispatch ::
  "node_url \<Rightarrow> rest_client \<Rightarrow> ui_route list \<Rightarrow> jsval jsobj \<Rightarrow> request_options result" where
  "ui_dispatch nu self routes data =
     bind_result (matched_routes routes data) (\<lambda>matched.
       case matched of
         [] \<Rightarrow> Inl (Error ''Invalid API arguments'')
       | route # _ \<Rightarrow> ui_normalizeParts nu self route data)"

definition ui_call ::
  "node_url \<Rightarrow> ui_route list jsobj \<Rightarrow> rest_client \<Rightarrow> string \<Rightarrow> call_args \<Rightarrow> request_options result" where
  "ui_call nu methods self meth args =
     (case map_of methods meth of
        None \<Rightarrow> Inl (TypeError meth)
      | Some routes \<Rightarrow>
          (case args of
             DataCallback data \<Rightarrow> ui_dispatch nu self routes data
           | OnlyCallback \<Rightarrow> ui_dispatch nu self routes []
           | _ \<Rightarrow> Inl (Error (''Invalid number of arguments passed while calling: '' @ meth))))"

record ui_factory =
  uf_methods :: "ui_route list jsobj"
  uf_apiHost :: string
  uf_headers :: client_headers
  uf_requestOpts :: "jsval jsobj"

definition ui_rdl_rest ::
  "ui_route list option \<Rightarrow> string jsref \<Rightarrow> client_headers \<Rightarrow> jsval jsobj option \<Rightarrow> ui_factory result" where
  "ui_rdl_rest rdl apiHost headers requestOpts =
     (case rdl of
        None \<Rightarrow> Inl (Error ''RDL spec not provided'')
      | Some resources \<Rightarrow>
          if \<not> str_truthy apiHost then Inl (Error ''apiHost is required'')
          else Inr \<lparr>uf_methods = ui_generate resources, uf_apiHost = ref_text apiHost,
                    uf_headers = headers,
                    uf_requestOpts = (case requestOpts of Some opts \<Rightarrow> opts
                      | None \<Rightarrow> [(''timeout'', JNum (Fin 4000))])\<rparr>)"

definition ui_RDLRest_new :: "ui_factory \<Rightarrow> http_request option \<Rightarrow> client_headers \<Rightarrow> rest_client" where
  "ui_RDLRest_new f req headers =
     \<lparr>rc_apiHost = uf_apiHost f, rc_request = req,
      rc_headers = (case headers of NoHeaders \<Rightarrow> uf_headers f | _ \<Rightarrow> headers),
      rc_requestOpts = uf_requestOpts f\<rparr>"

section \<open>Agreement with the older version\<close>

text \<open>A route as the older version has it: without a name of its own, which that version does not read.\<close>

definition lift_route :: "route \<Rightarrow> ui_route" where
  "lift_route r = \<lparr>ur_type = ro_type r, ur_method = ro_method r, ur_path = ro_path r, ur_name = [],
     ur_inputs = Some (ro_inputs r)\<rparr>"

definition no_header_fun :: "rest_client \<Rightarrow> bool" where
  "no_header_fun self \<longleftrightarrow> (case rc_headers self of HeaderFun _ \<Rightarrow> False | _ \<Rightarrow> True)"

lemma lift_route_simps [simp]:
  "ur_type (lift_route r) = ro_type r" "ur_method (lift_route r) = ro_method r"
  "ur_path (lift_route r) = ro_path r" "ur_name (lift_route r) = []"
  "ur_inputs (lift_route r) = Some (ro_inputs r)" "ui_inputs (lift_route r) = ro_inputs r"
  by (simp_all add: lift_route_def ui_inputs_def)

lemma ui_setHeaders_eq:
  assumes "no_header_fun self"
  shows "ui_setHeaders nu self given = setHeaders nu self given"
proof -
  have "ui_forwardHeaders = forwardHeaders"
    by (simp add: ui_forwardHeaders_def forwardHeaders_def)
  then show ?thesis
    using assms unfolding ui_setHeaders_def setHeaders_def
    by (cases "rc_headers self") (simp_all only: no_header_fun_def client_headers.case)
qed

lemma ui_normalizeParts_lift:
  "no_header_fun self \<Longrightarrow> ui_normalizeParts nu self (lift_route r) data = normalizeParts nu self r data"
  unfolding ui_normalizeParts_def normalizeParts_def ui_normalizeData_def normalizeData_def lift_route_simps
  by (simp only: ui_setHeaders_eq)





text \<open>The versions differ on a route with a name of its own, which only the console's makes its method.\<close>

lemma named_route_method:
  assumes "ur_name route \<noteq> []" and "uncapitalize (ur_name route) \<notin> set proto"
  shows "ui_normalizeMethod route proto = uncapitalize (ur_name route)"
  using assms by (simp add: ui_normalizeMethod_def)


section \<open>The headers of a client\<close>

text \<open>
  What the users of both clients rely on: a header that the client has of its own is sent with
  every request, unless an input of a route sets it.
\<close>

locale rest_caller =
  fixes call :: "rest_client \<Rightarrow> string \<Rightarrow> call_args \<Rightarrow> request_options result"
    and avoids :: "string \<Rightarrow> string \<Rightarrow> bool"
  assumes own_header: "call self meth args = Inr opts \<Longrightarrow> rc_headers self = HeaderObj own \<Longrightarrow>
    distinct (obj_keys own) \<Longrightarrow> map_of own k = Some v \<Longrightarrow> avoids meth k \<Longrightarrow>
    obj_get (op_headers opts) k = header_result (rc_request self) v"
begin

lemma single_header_sent:
  assumes "call self meth args = Inr opts" and "rc_headers self = HeaderObj [(k, HVal v)]" and "avoids meth k"
  shows "obj_get (op_headers opts) k = v"
  using own_header [OF assms(1,2) _ _ assms(3), of "HVal v"] by (simp add: obj_keys_def header_result_def)

end

lemma foldl_own_headers:
  "distinct (obj_keys own) \<Longrightarrow> obj_get (foldl (\<lambda>h (name, v). obj_put name (g v) h) h0 own) k =
     (case map_of own k of Some v \<Rightarrow> g v | None \<Rightarrow> obj_get h0 k)"
proof (induction own arbitrary: h0)
  case (Cons p own)
  have "k = fst p \<Longrightarrow> map_of own k = None"
    using Cons.prems by (simp add: obj_keys_def map_of_eq_None_iff)
  then show ?case
    using Cons by (cases p) (auto simp: obj_keys_def split: option.splits)
qed simp

definition sets_header :: "rdl_input \<Rightarrow> string \<Rightarrow> bool" where
  "sets_header i k \<longleftrightarrow> in_header i \<noteq> [] \<and> to_lower (in_header i) = k"

lemma apply_input_header:
  "\<not> sets_header item k \<Longrightarrow> obj_get (ps_headers (apply_input item ps)) k = obj_get (ps_headers ps) k"
  by (auto simp: apply_input_def sets_header_def Let_def)

lemma apply_inputs_header:
  "\<forall>i\<in>set inputs. \<not> sets_header i k \<Longrightarrow>
     obj_get (ps_headers (fold apply_input inputs ps)) k = obj_get (ps_headers ps) k"
  by (induction inputs arbitrary: ps) (simp_all add: apply_input_header)

text \<open>No input of the routes of a method sets a header.\<close>

definition routes_avoid :: "ui_route list jsobj \<Rightarrow> string \<Rightarrow> string \<Rightarrow> bool" where
  "routes_avoid methods meth k =
     (case map_of methods meth of
        Some routes \<Rightarrow> \<forall>r\<in>set routes. \<forall>i\<in>set (ui_inputs r). \<not> sets_header i k
      | None \<Rightarrow> True)"

lemma normalizeParts_own_header:
  assumes "ui_normalizeParts nu self r data = Inr opts"
    and "rc_headers self = HeaderObj own" and "distinct (obj_keys own)" and "map_of own k = Some v"
    and "\<forall>i\<in>set (ui_inputs r). \<not> sets_header i k"
  shows "obj_get (op_headers opts) k = header_result (rc_request self) v"
  using assms
  by (cases "up_pathname (nu_parse nu (rc_apiHost self))")
     (auto simp: ui_normalizeParts_def ui_setHeaders_def bind_result_Inr_iff Let_def apply_inputs_header
       foldl_own_headers)

lemma filter_result_subset: "filter_result f xs = Inr ys \<Longrightarrow> set ys \<subseteq> set xs"
  by (induction xs arbitrary: ys) (auto simp: bind_result_Inr_iff split: if_splits)

lemma dispatch_route:
  assumes "ui_dispatch nu self routes data = Inr opts"
  obtains r where "r \<in> set routes" and "ui_normalizeParts nu self r data = Inr opts"
proof -
  obtain matched where m: "matched_routes routes data = Inr matched"
    "(case matched of [] \<Rightarrow> Inl (Error ''Invalid API arguments'') | r # _ \<Rightarrow> ui_normalizeParts nu self r data) = Inr opts"
    using assms by (auto simp: ui_dispatch_def bind_result_Inr_iff)
  have "set matched \<subseteq> set routes"
    using m(1) filter_result_subset [of "accepts_data data" routes matched] by (auto simp: matched_routes_def split: if_splits)
  then show ?thesis
    using m(2) that by (cases matched) auto
qed

lemma call_own_header:
  assumes "ui_call nu methods self meth args = Inr opts"
    and "rc_headers self = HeaderObj own" and "distinct (obj_keys own)" and "map_of own k = Some v"
    and "routes_avoid methods meth k"
  shows "obj_get (op_headers opts) k = header_result (rc_request self) v"
proof -
  obtain routes data where routes: "map_of methods meth = Some routes" "ui_dispatch nu self routes data = Inr opts"
    using assms(1) by (auto simp: ui_call_def split: option.splits call_args.splits)
  obtain r where r: "r \<in> set routes" "ui_normalizeParts nu self r data = Inr opts"
    using routes(2) by (rule dispatch_route)
  then have "\<forall>i\<in>set (ui_inputs r). \<not> sets_header i k"
    using assms(5) routes(1) by (simp add: routes_avoid_def)
  then show ?thesis
    by (rule normalizeParts_own_header [OF r(2) assms(2-4)])
qed

interpretation ui_rest: rest_caller "ui_call nu methods" "routes_avoid methods" for nu methods
  by unfold_locales (rule call_own_header)

definition zts_routes_avoid :: "route jsobj \<Rightarrow> string \<Rightarrow> string \<Rightarrow> bool" where
  "zts_routes_avoid methods meth k =
     (case map_of methods meth of Some r \<Rightarrow> \<forall>i\<in>set (ro_inputs r). \<not> sets_header i k | None \<Rightarrow> True)"

interpretation zts_rest: rest_caller "rest_call nu methods" "zts_routes_avoid methods" for nu methods
proof
  fix self meth args opts own k v
  assume call: "rest_call nu methods self meth args = Inr opts" and own: "rc_headers self = HeaderObj own"
    "distinct (obj_keys own)" "map_of own k = Some v" and avoid: "zts_routes_avoid methods meth k"
  obtain r data where r: "map_of methods meth = Some r" "normalizeParts nu self r data = Inr opts"
    using call by (auto simp: rest_call_def split: option.splits call_args.splits)
  have "\<forall>i\<in>set (ui_inputs (lift_route r)). \<not> sets_header i k"
    using avoid r(1) by (simp add: zts_routes_avoid_def)
  moreover have "ui_normalizeParts nu self (lift_route r) data = Inr opts"
    using r(2) own(1) by (simp add: ui_normalizeParts_lift no_header_fun_def)
  ultimately show "obj_get (op_headers opts) k = header_result (rc_request self) v"
    using own normalizeParts_own_header by blast
qed

end
