(* ===== verification/Ui_Server.thy ===== *)
theory Ui_Server
  imports Js_State "HOL-Library.Multiset"
begin

text \<open>
  What the handlers of the console's server (\<^verbatim>\<open>ui/src/server\<close>) share: the operations
  of the language on dynamic values that they use, a request's environment, the record of the calls
  made to the back ends and of the calls of a handler's callback, promises, and
  \<^verbatim>\<open>utils/errorHandler.js\<close>.

  A handler is an action on the two records. The back ends (the REST clients \<^verbatim>\<open>zms\<close> and
  \<^verbatim>\<open>msd\<close> of a request) are a parameter: a method either throws at once or calls back with an
  error and data, and its answer may depend on every call made before. Calling the callback of a
  handler returns. An exception that leaves an action is one that no code of the server catches.
\<close>

section \<open>Dynamic values\<close>

text \<open>The receiver of \<^verbatim>\<open>forEach\<close>, \<^verbatim>\<open>filter\<close>, \<^verbatim>\<open>some\<close>, \<^verbatim>\<open>find\<close>, \<^verbatim>\<open>includes\<close> and \<^verbatim>\<open>push\<close>.\<close>

definition array_items :: "jsval \<Rightarrow> jsval list result" where
  "array_items v = (case v of JArr vs \<Rightarrow> Inr vs | _ \<Rightarrow> Inl (TypeError ''array''))"

text \<open>
  The items a loop up to \<^verbatim>\<open>v.length\<close> visits. An object that is not an array has no length
  here.
\<close>

definition loop_items :: "jsval \<Rightarrow> jsval list result" where
  "loop_items v =
     (case v of
        JUndef \<Rightarrow> Inl (TypeError ''length'')
      | JNull \<Rightarrow> Inl (TypeError ''length'')
      | JArr vs \<Rightarrow> Inr vs
      | JStr s \<Rightarrow> Inr (map (\<lambda>c. JStr [c]) s)
      | _ \<Rightarrow> Inr [])"

text \<open>The receiver of a method of strings.\<close>

definition string_of :: "jsval \<Rightarrow> string result" where
  "string_of v = (case v of JStr s \<Rightarrow> Inr s | _ \<Rightarrow> Inl (TypeError ''string''))"

text \<open>The members \<^verbatim>\<open>Object.keys(v)\<close> lists, with their values.\<close>

definition own_members :: "jsval \<Rightarrow> (string \<times> jsval) list result" where
  "own_members v =
     (case v of
        JUndef \<Rightarrow> Inl (TypeError ''Object.keys'')
      | JNull \<Rightarrow> Inl (TypeError ''Object.keys'')
      | JObj kvs \<Rightarrow> Inr kvs
      | JArr vs \<Rightarrow> Inr (zip (map show_nat [0..<length vs]) vs)
      | JStr s \<Rightarrow> Inr (zip (map show_nat [0..<length s]) (map (\<lambda>c. JStr [c]) s))
      | _ \<Rightarrow> Inr [])"

text \<open>\<^verbatim>\<open>v.k = x\<close>: a primitive value is left as it is.\<close>

definition set_prop :: "string \<Rightarrow> jsval \<Rightarrow> jsval \<Rightarrow> jsval result" where
  "set_prop k x v =
     (case v of
        JUndef \<Rightarrow> Inl (TypeError k)
      | JNull \<Rightarrow> Inl (TypeError k)
      | JObj kvs \<Rightarrow> Inr (JObj (obj_put k x kvs))
      | _ \<Rightarrow> Inr v)"

text \<open>\<^verbatim>\<open>a === b\<close> for values that are not the same object.\<close>

definition strict_eq :: "jsval \<Rightarrow> jsval \<Rightarrow> bool" where
  "strict_eq a b =
     (case a of
        JNum m \<Rightarrow> (case b of JNum n \<Rightarrow> num_eq m n | _ \<Rightarrow> False)
      | JArr _ \<Rightarrow> False
      | JObj _ \<Rightarrow> False
      | _ \<Rightarrow> a = b)"

definition array_includes :: "jsval list \<Rightarrow> jsval \<Rightarrow> bool" where
  "array_includes vs v = (\<exists>x\<in>set vs. strict_eq x v)"

text \<open>\<^verbatim>\<open>a + b\<close>\<close>

definition js_add :: "jsval \<Rightarrow> jsval \<Rightarrow> jsval" where
  "js_add a b =
     (let textual = (\<lambda>v. case v of JStr _ \<Rightarrow> True | JArr _ \<Rightarrow> True | JObj _ \<Rightarrow> True | _ \<Rightarrow> False)
      in if textual a \<or> textual b then JStr (js_text a @ js_text b)
         else JNum (to_number a + to_number b))"

text \<open>\<^verbatim>\<open>a > b\<close>: two strings by their characters, anything else as numbers.\<close>

definition js_gt :: "jsval \<Rightarrow> jsval \<Rightarrow> bool" where
  "js_gt a b =
     (case a of
        JStr s \<Rightarrow> (case b of JStr t \<Rightarrow> t < s | _ \<Rightarrow> to_number b < to_number a)
      | _ \<Rightarrow> to_number b < to_number a)"

definition is_array :: "jsval \<Rightarrow> bool" where
  "is_array v = (case v of JArr _ \<Rightarrow> True | _ \<Rightarrow> False)"

text \<open>\<^verbatim>\<open>obj.a\<close> is an array: reads a property that may raise.\<close>

definition array_prop :: "jsval \<Rightarrow> string \<Rightarrow> jsval list option result" where
  "array_prop v k = bind_result (get_prop v k) (\<lambda>x. Inr (case x of JArr vs \<Rightarrow> Some vs | _ \<Rightarrow> None))"

text \<open>\<^verbatim>\<open>forEach\<close> with a body that changes the item it is given.\<close>

definition update_items :: "(jsval \<Rightarrow> jsval result) \<Rightarrow> jsval \<Rightarrow> jsval result" where
  "update_items f v = bind_result (array_items v) (\<lambda>vs. bind_result (map_result f vs) (\<lambda>ws. Inr (JArr ws)))"

text \<open>\<^verbatim>\<open>if (v.k) { \<dots> }\<close> with a body that changes \<^verbatim>\<open>v.k\<close> in place.\<close>

definition update_prop :: "string \<Rightarrow> (jsval \<Rightarrow> jsval result) \<Rightarrow> jsval \<Rightarrow> jsval result" where
  "update_prop k f v =
     bind_result (get_prop v k) (\<lambda>x.
       if truthy x then bind_result (f x) (\<lambda>y. set_prop k y v) else Inr v)"

section \<open>Requests\<close>

datatype back_end = Zms | Msd

text \<open>A call of a method of a REST client; the data is absent when only a callback is passed.\<close>

record api_call =
  ac_client :: back_end
  ac_method :: string
  ac_data :: "jsval option"

text \<open>
  The environment of a request: what the back ends answer to the last of a sequence of calls, which
  of several rejected promises settled first, the sorting of the language, and what the session
  holds. The order that \<^verbatim>\<open>sort\<close> gives to items that the comparison does not tell apart
  is up to the implementation, so it is a parameter too. The package \<^verbatim>\<open>cytoscape\<close> lays out a
  graph: it gives the nodes with their positions.
\<close>

record api_env =
  ae_ask :: "api_call list \<Rightarrow> (jsval \<times> jsval) result"
  ae_first :: "api_call list \<Rightarrow> nat"
  ae_sort :: "(jsval \<Rightarrow> jsval \<Rightarrow> bool) \<Rightarrow> jsval list \<Rightarrow> jsval list"
  ae_shortId :: jsval
  ae_csrfToken :: jsval
  ae_layout :: "jsval \<Rightarrow> jsval \<Rightarrow> (string \<times> jsval) list result"

record api_world =
  aw_calls :: "api_call list"
  aw_replies :: "(jsval \<times> jsval) list"

type_synonym 'a api = "(api_world, 'a) action"

text \<open>A call of the handler's callback.\<close>

definition callback :: "jsval \<Rightarrow> jsval \<Rightarrow> unit api" where
  "callback err data = update_state (\<lambda>w. w\<lparr>aw_replies := aw_replies w @ [(err, data)]\<rparr>)"

definition issue :: "api_env \<Rightarrow> api_call \<Rightarrow> (jsval \<times> jsval) result api" where
  "issue env c =
     bind_action (update_state (\<lambda>w. w\<lparr>aw_calls := aw_calls w @ [c]\<rparr>)) (\<lambda>_.
     bind_action (read_state aw_calls) (\<lambda>calls. ret (ae_ask env calls)))"

text \<open>A call outside a promise: an exception of the method is one of the handler.\<close>

definition ask :: "api_env \<Rightarrow> api_call \<Rightarrow> (jsval \<times> jsval) api" where
  "ask env c = bind_action (issue env c) lift_result"

definition zms :: "string \<Rightarrow> jsval \<Rightarrow> api_call" where
  "zms meth data = \<lparr>ac_client = Zms, ac_method = meth, ac_data = Some data\<rparr>"

definition msd :: "string \<Rightarrow> jsval \<Rightarrow> api_call" where
  "msd meth data = \<lparr>ac_client = Msd, ac_method = meth, ac_data = Some data\<rparr>"

section \<open>Errors\<close>

definition fetcherError :: "jsval \<Rightarrow> jsval result" where
  "fetcherError err =
     bind_result (get_prop err ''status'') (\<lambda>status.
     bind_result (get_prop err ''message'') (\<lambda>message.
     bind_result (if truthy message then get_prop message ''message'' else Inr (JStr [])) (\<lambda>msg.
       Inr (JObj [(''statusCode'', status), (''output'', JObj [(''message'', msg)])]))))"

text \<open>\<^verbatim>\<open>callback(errorHandler.fetcherError(err))\<close>\<close>

definition reply_error :: "jsval \<Rightarrow> unit api" where
  "reply_error err = bind_action (lift_result (fetcherError err)) (\<lambda>e. callback e JUndef)"

text \<open>An exception as a value that is caught.\<close>

definition exn_val :: "exn \<Rightarrow> jsval" where
  "exn_val e = JObj [(''message'', JStr (case e of Error s \<Rightarrow> s | TypeError s \<Rightarrow> s | SyntaxError s \<Rightarrow> s | HostError s \<Rightarrow> s))]"

section \<open>Promises\<close>

datatype promise = Resolved jsval | Rejected jsval | Pending

text \<open>
  Promises that each make one call: all the calls are made first, then their callbacks settle the
  promises. A method that throws in the executor rejects its promise; an exception of a callback is
  not caught.
\<close>

fun issue_all :: "api_env \<Rightarrow> api_call list \<Rightarrow> (jsval \<times> jsval) result list api" where
  "issue_all env [] = ret []"
| "issue_all env (c # cs) = bind_action (issue env c) (\<lambda>a. bind_action (issue_all env cs) (\<lambda>as. ret (a # as)))"

definition settle :: "(jsval \<Rightarrow> jsval \<Rightarrow> promise result) \<Rightarrow> (jsval \<times> jsval) result \<Rightarrow> promise result" where
  "settle cb a = (case a of Inl e \<Rightarrow> Inr (Rejected (exn_val e)) | Inr (err, data) \<Rightarrow> cb err data)"

definition promises ::
  "api_env \<Rightarrow> (jsval \<Rightarrow> jsval \<Rightarrow> promise result) \<Rightarrow> api_call list \<Rightarrow> promise list api" where
  "promises env cb cs = bind_action (issue_all env cs) (\<lambda>as. lift_result (map_result (settle cb) as))"

definition one_promise :: "api_env \<Rightarrow> (jsval \<Rightarrow> jsval \<Rightarrow> promise result) \<Rightarrow> api_call \<Rightarrow> promise api" where
  "one_promise env cb c = bind_action (issue env c) (\<lambda>a. lift_result (settle cb a))"

text \<open>\<^verbatim>\<open>p.then(f)\<close> where \<open>f\<close> returns a promise.\<close>

definition then_promise :: "(jsval \<Rightarrow> promise api) \<Rightarrow> promise \<Rightarrow> promise api" where
  "then_promise f p = (case p of Resolved v \<Rightarrow> f v | _ \<Rightarrow> ret p)"

text \<open>\<^verbatim>\<open>Promise.all\<close>\<close>

fun rejections :: "promise list \<Rightarrow> jsval list" where
  "rejections [] = []"
| "rejections (Rejected e # ps) = e # rejections ps"
| "rejections (p # ps) = rejections ps"

fun resolved_values :: "promise list \<Rightarrow> jsval list option" where
  "resolved_values [] = Some []"
| "resolved_values (Resolved v # ps) = map_option (\<lambda>vs. v # vs) (resolved_values ps)"
| "resolved_values (p # ps) = None"

definition promise_all :: "nat \<Rightarrow> promise list \<Rightarrow> promise" where
  "promise_all first ps =
     (case rejections ps of
        [] \<Rightarrow> (case resolved_values ps of Some vs \<Rightarrow> Resolved (JArr vs) | None \<Rightarrow> Pending)
      | es \<Rightarrow> Rejected (es ! (first mod length es)))"

definition await_all :: "api_env \<Rightarrow> promise list \<Rightarrow> promise api" where
  "await_all env ps = bind_action (read_state aw_calls) (\<lambda>calls. ret (promise_all (ae_first env calls) ps))"

text \<open>\<^verbatim>\<open>p.then(f).catch(g)\<close>\<close>

definition catch_exn :: "(jsval \<Rightarrow> unit api) \<Rightarrow> unit api \<Rightarrow> unit api" where
  "catch_exn g m w = (case m w of (Inl e, w') \<Rightarrow> g (exn_val e) w' | (Inr u, w') \<Rightarrow> (Inr u, w'))"

definition then_catch :: "(jsval \<Rightarrow> unit api) \<Rightarrow> (jsval \<Rightarrow> unit api) \<Rightarrow> promise \<Rightarrow> unit api" where
  "then_catch f g p =
     (case p of Resolved v \<Rightarrow> catch_exn g (f v) | Rejected e \<Rightarrow> g e | Pending \<Rightarrow> ret ())"

text \<open>The callback of a call that settles a promise with its answer.\<close>

definition settle_answer :: "jsval \<Rightarrow> jsval \<Rightarrow> promise result" where
  "settle_answer err json = Inr (if truthy err then Rejected err else Resolved json)"

section \<open>Sorting\<close>

text \<open>
  \<^verbatim>\<open>sort((a, b) => a.name > b.name ? 1 : -1)\<close>: comparing reads the property of each of two or
  more items.
\<close>

definition prop_gt :: "(jsval \<Rightarrow> jsval result) \<Rightarrow> jsval \<Rightarrow> jsval \<Rightarrow> bool" where
  "prop_gt key a b = (case key a of Inr x \<Rightarrow> (case key b of Inr y \<Rightarrow> js_gt x y | Inl _ \<Rightarrow> False) | Inl _ \<Rightarrow> False)"

definition js_sort :: "api_env \<Rightarrow> (jsval \<Rightarrow> jsval result) \<Rightarrow> jsval list \<Rightarrow> jsval list result" where
  "js_sort env key vs =
     (if length vs < 2 then Inr vs
      else bind_result (map_result key vs) (\<lambda>_. Inr (ae_sort env (prop_gt key) vs)))"

text \<open>A comparison that is a strict order of the items of a set.\<close>

definition orders :: "('x \<Rightarrow> 'x \<Rightarrow> bool) \<Rightarrow> 'x set \<Rightarrow> bool" where
  "orders gt S \<longleftrightarrow> (\<forall>x\<in>S. \<forall>y\<in>S. x \<noteq> y \<longrightarrow> gt x y \<noteq> gt y x)
     \<and> (\<forall>x\<in>S. \<forall>y\<in>S. \<forall>z\<in>S. gt x y \<longrightarrow> gt y z \<longrightarrow> gt x z)"

lemma orders_subset: "orders gt S \<Longrightarrow> T \<subseteq> S \<Longrightarrow> orders gt T"
  unfolding orders_def by (meson subsetD)

lemma orders_total: "orders gt S \<Longrightarrow> x \<in> S \<Longrightarrow> y \<in> S \<Longrightarrow> x \<noteq> y \<Longrightarrow> gt x y \<noteq> gt y x"
  unfolding orders_def by blast

lemma orders_trans: "orders gt S \<Longrightarrow> gt x y \<Longrightarrow> gt y z \<Longrightarrow> x \<in> S \<Longrightarrow> y \<in> S \<Longrightarrow> z \<in> S \<Longrightarrow> gt x z"
  unfolding orders_def by blast

text \<open>What the sorting of the language promises: the same items, and no item before a smaller one
  when the items are distinct and the comparison orders them.\<close>

definition sort_laws :: "((jsval \<Rightarrow> jsval \<Rightarrow> bool) \<Rightarrow> jsval list \<Rightarrow> jsval list) \<Rightarrow> bool" where
  "sort_laws srt \<longleftrightarrow>
     (\<forall>gt vs. mset (srt gt vs) = mset vs
       \<and> (orders gt (set vs) \<and> distinct vs \<longrightarrow> sorted_wrt (\<lambda>x y. \<not> gt x y) (srt gt vs)))"

end
