(* ===== verification/Ui_Users.thy ===== *)
theory Ui_Users
  imports Ui_Server
begin

text \<open>
  The user directory of the console's server, \<^verbatim>\<open>services/userService.js\<close> with
  \<^verbatim>\<open>services/userServiceImpl.js\<close>, and the list of pending approvals that
  \<^verbatim>\<open>utils/apiUtils.js\<close> builds with it. The file system and \<^verbatim>\<open>JSON.parse\<close> are
  parameters. No login of the directory is \<^verbatim>\<open>__proto__\<close>.
\<close>

section \<open>The directory\<close>

text \<open>An entry of \<^verbatim>\<open>usersHash\<close> is the pair of its login and its name.\<close>

record user_service =
  us_usersHash :: "(jsval \<times> jsval) jsobj"
  us_prevContentLength :: jsval
  us_VALID_USER_DOMAINS :: "string list"

definition user_service_init :: user_service where
  "user_service_init = \<lparr>us_usersHash = [], us_prevContentLength = JNum 0, us_VALID_USER_DOMAINS = []\<rparr>"

text \<open>
  \<^verbatim>\<open>usersHash[shortId].name\<close> for a name every object inherits: the name of the inherited
  function.
\<close>

definition inherited_name :: "string \<Rightarrow> jsval" where
  "inherited_name k =
     (if k = ''constructor'' then JStr ''Object'' else if k = ''__proto__'' then JUndef else JStr k)"

definition user_entry_name :: "(jsval \<times> jsval) jsobj \<Rightarrow> string \<Rightarrow> jsval" where
  "user_entry_name usersHash shortId =
     (case map_of usersHash shortId of
        Some (login, name) \<Rightarrow> name
      | None \<Rightarrow> if shortId \<in> set proto_keys then inherited_name shortId else JNull)"

definition getUserFullName :: "user_service \<Rightarrow> jsval \<Rightarrow> jsval result" where
  "getUserFullName us userName =
     bind_result (string_of userName) (\<lambda>s.
       Inr (case split_on CHR ''.'' s of
              domain # shortId # _ \<Rightarrow>
                if domain \<in> set (us_VALID_USER_DOMAINS us) then user_entry_name (us_usersHash us) shortId
                else JNull
            | _ \<Rightarrow> JNull))"

definition add_user :: "jsval \<Rightarrow> (user_service, unit) action" where
  "add_user user =
     bind_action (lift_result (get_prop user ''enabled_status'')) (\<lambda>enabled.
     bind_action (lift_result (get_prop user ''is_human'')) (\<lambda>human.
     if truthy enabled \<and> truthy human
     then bind_action (lift_result (get_prop user ''login'')) (\<lambda>login.
          bind_action (lift_result (get_prop user ''gecos'')) (\<lambda>gecos.
          update_state (\<lambda>us. us\<lparr>us_usersHash := obj_put (js_text login) (login, gecos) (us_usersHash us)\<rparr>)))
     else ret ()))"

definition prepareUserData ::
  "(string \<Rightarrow> jsval result) \<Rightarrow> string jsref \<Rightarrow> string \<Rightarrow> (user_service, unit) action" where
  "prepareUserData parse userData userDomains =
     bind_action (update_state (\<lambda>us. us\<lparr>us_VALID_USER_DOMAINS := split_on CHR '','' userDomains\<rparr>)) (\<lambda>_.
     case userData of
       Undefined \<Rightarrow> ret ()
     | Null \<Rightarrow> throw (TypeError ''forEach'')
     | Val text \<Rightarrow>
         bind_action (lift_result (parse text)) (\<lambda>usersObj.
         bind_action (lift_result (array_items usersObj)) (\<lambda>users. each add_user users)))"

section \<open>Loading it\<close>

text \<open>The size of a file that exists, and the contents of a file or the error of reading it.\<close>

record file_system =
  fs_size :: "string \<Rightarrow> nat option"
  fs_read :: "string \<Rightarrow> string result"

record user_config =
  uc_userFilePath :: string
  uc_userFileName :: string
  uc_userDomains :: string

definition checkUsersUpdate :: "file_system \<Rightarrow> string \<Rightarrow> string \<Rightarrow> jsval result" where
  "checkUsersUpdate fs directory fileName =
     (let f = directory @ ''/'' @ fileName
      in case fs_size fs f of
           Some n \<Rightarrow> Inr (JNum (num_of_int (int n)))
         | None \<Rightarrow> Inl (Error (''File '' @ f @ '' does not exist'')))"

definition loadUpdatedFile :: "file_system \<Rightarrow> string \<Rightarrow> string \<Rightarrow> string result" where
  "loadUpdatedFile fs directory fileName =
     bind_result (fs_read fs (directory @ ''/'' @ fileName)) (\<lambda>body. Inr (trim body))"

text \<open>An exception is a rejection of the promise that is returned.\<close>

definition refreshUserData ::
  "(string \<Rightarrow> jsval result) \<Rightarrow> file_system \<Rightarrow> user_config \<Rightarrow> (user_service, unit) action" where
  "refreshUserData parse fs config =
     bind_action (lift_result (checkUsersUpdate fs (uc_userFilePath config) (uc_userFileName config))) (\<lambda>metadata.
     if \<not> truthy metadata then ret ()
     else bind_action (lift_result (get_prop metadata ''ContentLength'')) (\<lambda>contentLength.
          bind_action (read_state us_prevContentLength) (\<lambda>prev.
          if strict_eq prev contentLength then ret ()
          else bind_action (update_state (\<lambda>us. us\<lparr>us_prevContentLength := contentLength\<rparr>)) (\<lambda>_.
               bind_action (lift_result (loadUpdatedFile fs (uc_userFilePath config) (uc_userFileName config))) (\<lambda>data.
               prepareUserData parse (Val data) (uc_userDomains config))))))"

section \<open>Pending approvals\<close>

definition pending_entry ::
  "user_service \<Rightarrow> string \<Rightarrow> jsval \<Rightarrow> jsval \<Rightarrow> jsval \<Rightarrow> jsval \<Rightarrow> jsval result" where
  "pending_entry us category domainName memberName itemName item =
     bind_result (get_prop item ''expiration'') (\<lambda>expiration.
     bind_result (get_prop item ''auditRef'') (\<lambda>auditRef.
     bind_result (getUserFullName us memberName) (\<lambda>memberNameFull.
     bind_result (get_prop item ''requestPrincipal'') (\<lambda>requestPrincipal.
     bind_result (getUserFullName us requestPrincipal) (\<lambda>requestPrincipalFull.
     bind_result (get_prop item ''requestTime'') (\<lambda>requestTime.
     Inr (JObj [(''category'', JStr category), (''domainName'', domainName),
       (''memberName'', memberName), (''memberNameFull'', memberNameFull),
       (''roleName'', itemName), (''userComment'', js_or auditRef JNull),
       (''auditRef'', JStr []), (''requestPrincipal'', requestPrincipal),
       (''requestPrincipalFull'', requestPrincipalFull), (''requestTime'', requestTime),
       (''expiryDate'', js_or expiration JNull)])))))))"

text \<open>The key is the text of the three names put together.\<close>

definition pending_key :: "jsval \<Rightarrow> jsval \<Rightarrow> jsval \<Rightarrow> string" where
  "pending_key domainName memberName itemName = js_text (js_add (js_add domainName memberName) itemName)"

definition add_pending ::
  "user_service \<Rightarrow> string \<Rightarrow> string \<Rightarrow> jsval \<Rightarrow> jsval \<Rightarrow> jsval \<Rightarrow> jsval jsobj \<Rightarrow> jsval jsobj result" where
  "add_pending us category nameProp domainName memberName item pendingMap =
     bind_result (get_prop item nameProp) (\<lambda>itemName.
     bind_result (pending_entry us category domainName memberName itemName item) (\<lambda>entry.
     Inr (obj_put (pending_key domainName memberName itemName) entry pendingMap)))"

definition add_pending_member ::
  "user_service \<Rightarrow> string \<Rightarrow> string \<Rightarrow> string \<Rightarrow> jsval \<Rightarrow> jsval \<Rightarrow> jsval jsobj \<Rightarrow> jsval jsobj result" where
  "add_pending_member us category listProp nameProp domainName member pendingMap =
     bind_result (get_prop member ''memberName'') (\<lambda>memberName.
     bind_result (get_prop member listProp) (\<lambda>list.
     bind_result (array_items list) (\<lambda>items.
     fold_result (add_pending us category nameProp domainName memberName) items pendingMap)))"

definition add_pending_domain ::
  "user_service \<Rightarrow> string \<Rightarrow> string \<Rightarrow> string \<Rightarrow> jsval \<Rightarrow> jsval jsobj \<Rightarrow> jsval jsobj result" where
  "add_pending_domain us category listProp nameProp domain pendingMap =
     bind_result (get_prop domain ''domainName'') (\<lambda>domainName.
     bind_result (get_prop domain ''members'') (\<lambda>members.
     bind_result (array_items members) (\<lambda>ms.
     fold_result (add_pending_member us category listProp nameProp domainName) ms pendingMap)))"

definition getPendingDomainMemberData :: "user_service \<Rightarrow> jsval \<Rightarrow> jsval \<Rightarrow> jsval result" where
  "getPendingDomainMemberData us groups roles =
     bind_result (get_prop roles ''domainRoleMembersList'') (\<lambda>roleList.
     bind_result (array_items roleList) (\<lambda>roleDomains.
     bind_result (fold_result (add_pending_domain us ''role'' ''memberRoles'' ''roleName'') roleDomains []) (\<lambda>m.
     bind_result (get_prop groups ''domainGroupMembersList'') (\<lambda>groupList.
     bind_result (array_items groupList) (\<lambda>groupDomains.
     bind_result (fold_result (add_pending_domain us ''group'' ''memberGroups'' ''groupName'') groupDomains m) (\<lambda>m'.
     Inr (JObj m')))))))"

section \<open>Refreshing the directory\<close>

lemma prepare_keeps_length: "keeps (\<lambda>us. us_prevContentLength us = x) (prepareUserData parse text domains)"
  unfolding prepareUserData_def add_user_def
  by (intro keeps_rules keeps_update) auto

text \<open>The size of a file has no length of its own, so what is remembered is \<^verbatim>\<open>undefined\<close>.\<close>

lemma refresh_forgets_length:
  assumes "fs_size fs (uc_userFilePath cfg @ ''/'' @ uc_userFileName cfg) = Some n" and "0 < n"
    and "refreshUserData parse fs cfg us = (r, us')"
  shows "us_prevContentLength us' = JUndef"
proof (cases "us_prevContentLength us = JUndef")
  case True
  then show ?thesis
    using assms by (auto simp: refreshUserData_def checkUsersUpdate_def get_prop_def strict_eq_def split: if_splits)
next
  case False
  then have "\<not> strict_eq (us_prevContentLength us) JUndef"
    by (cases "us_prevContentLength us") (auto simp: strict_eq_def)
  moreover have "num_truthy (num_of_int (int n))"
    using assms(2) by simp
  ultimately have "bind_action (lift_result (loadUpdatedFile fs (uc_userFilePath cfg) (uc_userFileName cfg)))
      (\<lambda>data. prepareUserData parse (Val data) (uc_userDomains cfg)) (us\<lparr>us_prevContentLength := JUndef\<rparr>) = (r, us')"
    using assms(1,3) by (simp add: refreshUserData_def checkUsersUpdate_def get_prop_def Let_def)
  moreover have "keeps (\<lambda>us. us_prevContentLength us = JUndef)
      (bind_action (lift_result (loadUpdatedFile fs (uc_userFilePath cfg) (uc_userFileName cfg)))
      (\<lambda>data. prepareUserData parse (Val data) (uc_userDomains cfg)))"
    by (intro keeps_rules prepare_keeps_length)
  ultimately show ?thesis
    by (auto dest: keepsD)
qed

text \<open>
  After one refresh that found a users file with contents, no later refresh changes the
  directory, whatever the file then holds, even if the first one failed to read or parse it.
\<close>

theorem users_never_reloaded:
  assumes "fs_size fs (uc_userFilePath cfg @ ''/'' @ uc_userFileName cfg) = Some n" and "0 < n"
    and "refreshUserData parse fs cfg us = (r, us')" and "refreshUserData parse' fs' cfg' us' = (r', us'')"
  shows "us'' = us'"
  using assms(4) refresh_forgets_length [OF assms(1-3)]
  by (auto simp: refreshUserData_def checkUsersUpdate_def get_prop_def strict_eq_def Let_def
      split: if_splits option.splits)

text \<open>An example: a second user is added to the file after it was loaded.\<close>

definition demo_user :: "string \<Rightarrow> jsval" where
  "demo_user login = JObj [(''enabled_status'', JNum (Fin 1)), (''is_human'', JNum (Fin 1)), (''login'', JStr login), (''gecos'', JStr login)]"

definition demo_parse :: "string \<Rightarrow> jsval result" where
  "demo_parse text = Inr (JArr (map demo_user (split_on CHR '' '' text)))"

definition demo_files :: "string \<Rightarrow> file_system" where
  "demo_files contents = \<lparr>fs_size = (\<lambda>f. Some (length contents)), fs_read = (\<lambda>f. Inr contents)\<rparr>"

definition demo_user_config :: user_config where
  "demo_user_config = \<lparr>uc_userFilePath = ''config'', uc_userFileName = ''users.json'', uc_userDomains = ''user''\<rparr>"

definition demo_directory :: user_service where
  "demo_directory = snd (refreshUserData demo_parse (demo_files ''jane'') demo_user_config user_service_init)"

theorem users_never_reloaded_witness:
  "snd (refreshUserData demo_parse (demo_files ''jane joe'') demo_user_config demo_directory) = demo_directory
   \<and> getUserFullName demo_directory (JStr ''user.jane'') = Inr (JStr ''jane'')"
proof -
  have "getUserFullName demo_directory (JStr ''user.jane'') = Inr (JStr ''jane'')"
    by code_simp
  moreover have "snd (refreshUserData demo_parse (demo_files ''jane joe'') demo_user_config demo_directory) = demo_directory"
    by (rule users_never_reloaded [where fs = "demo_files ''jane''" and cfg = demo_user_config and n = 4
          and parse = demo_parse and us = user_service_init
          and r = "fst (refreshUserData demo_parse (demo_files ''jane'') demo_user_config user_service_init)"
          and parse' = demo_parse and fs' = "demo_files ''jane joe''" and cfg' = demo_user_config
          and r' = "fst (refreshUserData demo_parse (demo_files ''jane joe'') demo_user_config demo_directory)"])
       (simp_all add: demo_files_def demo_directory_def)
  ultimately show ?thesis by simp
qed

section \<open>The list of pending approvals\<close>

text \<open>
  A pending request: the domain, the member, the role or group, the principal who asked and the
  other members of the object. ZMS sends them grouped by domain and member.
\<close>

type_synonym pending_request = "string \<times> string \<times> string \<times> string \<times> jsval jsobj"

type_synonym pending_domains = "(string \<times> (string \<times> (string \<times> string \<times> jsval jsobj) list) list) list"

definition pending_requests :: "pending_domains \<Rightarrow> pending_request list" where
  "pending_requests ds = concat (map (\<lambda>(d, ms). concat (map (\<lambda>(m, items). map (\<lambda>i. (d, m, i)) items) ms)) ds)"

definition item_json :: "string \<Rightarrow> string \<times> string \<times> jsval jsobj \<Rightarrow> jsval" where
  "item_json nameProp i = (case i of (name, requester, others) \<Rightarrow>
     JObj ((nameProp, JStr name) # (''requestPrincipal'', JStr requester) # others))"

definition member_json :: "string \<Rightarrow> string \<Rightarrow> string \<times> (string \<times> string \<times> jsval jsobj) list \<Rightarrow> jsval" where
  "member_json listProp nameProp m =
     JObj [(''memberName'', JStr (fst m)), (listProp, JArr (map (item_json nameProp) (snd m)))]"

definition domain_json :: "string \<Rightarrow> string \<Rightarrow> string \<times> (string \<times> (string \<times> string \<times> jsval jsobj) list) list \<Rightarrow> jsval" where
  "domain_json listProp nameProp d =
     JObj [(''domainName'', JStr (fst d)), (''members'', JArr (map (member_json listProp nameProp) (snd d)))]"

definition role_answer :: "pending_domains \<Rightarrow> jsval" where
  "role_answer ds = JObj [(''domainRoleMembersList'', JArr (map (domain_json ''memberRoles'' ''roleName'') ds))]"

definition group_answer :: "pending_domains \<Rightarrow> jsval" where
  "group_answer ds = JObj [(''domainGroupMembersList'', JArr (map (domain_json ''memberGroups'' ''groupName'') ds))]"

definition full_name :: "user_service \<Rightarrow> string \<Rightarrow> jsval" where
  "full_name us s = (case getUserFullName us (JStr s) of Inr v \<Rightarrow> v | Inl _ \<Rightarrow> JUndef)"

text \<open>The entry of a request and the key it is stored under.\<close>

definition approval_entry :: "user_service \<Rightarrow> string \<Rightarrow> pending_request \<Rightarrow> string \<times> jsval" where
  "approval_entry us category q =
     (case q of (d, m, n, p, others) \<Rightarrow>
        (d @ m @ n,
         JObj [(''category'', JStr category), (''domainName'', JStr d), (''memberName'', JStr m),
           (''memberNameFull'', full_name us m), (''roleName'', JStr n),
           (''userComment'', js_or (obj_get others ''auditRef'') JNull), (''auditRef'', JStr []),
           (''requestPrincipal'', JStr p), (''requestPrincipalFull'', full_name us p),
           (''requestTime'', obj_get others ''requestTime''),
           (''expiryDate'', js_or (obj_get others ''expiration'') JNull)]))"

lemma getUserFullName_string: "getUserFullName us (JStr s) = Inr (full_name us s)"
  by (simp add: full_name_def getUserFullName_def string_of_def)

lemma add_pending_item:
  assumes "nameProp = ''roleName'' \<or> nameProp = ''groupName''"
  shows "add_pending us category nameProp (JStr d) (JStr m) (item_json nameProp i) acc =
    Inr (obj_put (fst (approval_entry us category (d, m, i))) (snd (approval_entry us category (d, m, i))) acc)"
  using assms
  by (cases i) (auto simp: add_pending_def item_json_def pending_entry_def pending_key_def js_add_def
      approval_entry_def getUserFullName_string Let_def)

lemma add_pending_items:
  assumes "nameProp = ''roleName'' \<or> nameProp = ''groupName''"
  shows "fold_result (add_pending us category nameProp (JStr d) (JStr m)) (map (item_json nameProp) is) acc =
    Inr (obj_assign acc (map (\<lambda>i. approval_entry us category (d, m, i)) is))"
  by (induction "is" arbitrary: acc) (simp_all add: add_pending_item [OF assms] obj_assign_def case_prod_unfold)

lemma obj_assign_append: "obj_assign a (b @ c) = obj_assign (obj_assign a b) c"
  by (simp add: obj_assign_def)

lemma add_pending_members:
  assumes "nameProp = ''roleName'' \<or> nameProp = ''groupName''" and "listProp \<noteq> ''memberName''"
  shows "fold_result (add_pending_member us category listProp nameProp (JStr d)) (map (member_json listProp nameProp) ms) acc =
    Inr (obj_assign acc (map (approval_entry us category) (concat (map (\<lambda>(m, items). map (\<lambda>i. (d, m, i)) items) ms))))"
proof (induction ms arbitrary: acc)
  case (Cons x ms)
  have "add_pending_member us category listProp nameProp (JStr d) (member_json listProp nameProp x) acc =
      Inr (obj_assign acc (map (\<lambda>i. approval_entry us category (d, fst x, i)) (snd x)))"
    using assms by (simp add: add_pending_member_def member_json_def array_items_def add_pending_items)
  then show ?case
    using Cons by (simp add: obj_assign_append case_prod_unfold comp_def)
qed (simp add: obj_assign_def)

lemma add_pending_domains:
  assumes "nameProp = ''roleName'' \<or> nameProp = ''groupName''" and "listProp \<noteq> ''memberName''"
  shows "fold_result (add_pending_domain us category listProp nameProp) (map (domain_json listProp nameProp) ds) acc =
    Inr (obj_assign acc (map (approval_entry us category) (pending_requests ds)))"
proof (induction ds arbitrary: acc)
  case (Cons x ds)
  have "add_pending_domain us category listProp nameProp (domain_json listProp nameProp x) acc =
      Inr (obj_assign acc (map (approval_entry us category)
        (concat (map (\<lambda>(m, items). map (\<lambda>i. (fst x, m, i)) items) (snd x)))))"
    using assms by (simp add: add_pending_domain_def domain_json_def array_items_def add_pending_members)
  then show ?case
    using Cons by (simp add: obj_assign_append pending_requests_def case_prod_unfold)
qed (simp add: obj_assign_def pending_requests_def)

lemma pending_data:
  "getPendingDomainMemberData us (group_answer groups) (role_answer roles) =
     Inr (JObj (obj_assign [] (map (approval_entry us ''role'') (pending_requests roles)
       @ map (approval_entry us ''group'') (pending_requests groups))))"
  by (simp add: getPendingDomainMemberData_def role_answer_def group_answer_def array_items_def
      add_pending_domains obj_assign_append)

text \<open>
  The list of pending approvals is the map from the names of every pending request, put
  together, to its entry; the requests for roles come first and a later request takes the place of
  an earlier one with the same key.
\<close>

theorem pending_approvals_of_requests:
  "\<exists>m. getPendingDomainMemberData us (group_answer groups) (role_answer roles) = Inr (JObj m)
     \<and> map_of m = map_of (rev (map (approval_entry us ''role'') (pending_requests roles)
         @ map (approval_entry us ''group'') (pending_requests groups)))"
  by (simp add: pending_data map_of_obj_assign)

text \<open>
  So the request of a member for a group hides one for the role of the same name in that domain.
\<close>

theorem group_request_hides_role_request:
  "getPendingDomainMemberData us (group_answer [(d, [(m, [(n, p, others)])])]) (role_answer [(d, [(m, [(n, p', others')])])])
     = Inr (JObj [approval_entry us ''group'' (d, m, n, p, others)])"
  unfolding pending_data by (simp add: pending_requests_def obj_assign_def approval_entry_def)

end
