(* ===== verification/Ui_Auth.thy ===== *)
theory Ui_Auth
  imports PrincipalAuthority Ui_Rdl_Rest Ui_Users
begin

text \<open>
  How the console's server authenticates a request and acts for its user: the strategy of
  \<^verbatim>\<open>handlers/AuthStrategy.js\<close> with the key store of \<^verbatim>\<open>handlers/PublicKeyStore.js\<close>,
  \<^verbatim>\<open>utils/authUtils.js\<close>, and the REST clients of \<^verbatim>\<open>clients.js\<close> that a request is given.
  The authority is the one of \<^verbatim>\<open>libs/nodejs/auth_core\<close>, which the console uses as a
  package.
\<close>

section \<open>State\<close>

text \<open>What the strategy and the clients read and set of a request, beside what a REST client reads.\<close>

record web_request = http_request +
  wr_cookies :: "jsval jsobj"
  wr_ip :: "string jsref"
  wr_method :: "string jsref"
  wr_authSvcToken :: jsval
  wr_clearCookie :: bool
  wr_username :: jsval
  wr_user :: "(jsval \<times> jsval) option"
  wr_shortId :: jsval
  wr_authHeader :: string

record ui_strategy =
  st_keyVersion :: string
  st_authKey :: string
  st_cookieName :: string
  st_loginPath :: string
  st_userDomain :: jsval
  st_user :: jsval
  st_cookieMaxAge :: jsval
  st_authHeader :: string

record ui_config =
  ui_athenzDomainService :: string
  ui_authKeyVersion :: string
  ui_cookieName :: string
  ui_loginPath :: string
  ui_userDomain :: jsval
  ui_user :: jsval
  ui_cookieMaxAge :: jsval
  ui_authHeader :: string
  ui_zms :: string
  ui_msd :: string
  ui_strictSSL :: jsval

definition Strategy_new :: "(string \<Rightarrow> string result) \<Rightarrow> ui_config \<Rightarrow> ui_strategy result" where
  "Strategy_new readFileSync config =
     bind_result (readFileSync (''keys/'' @ ui_athenzDomainService config @ ''.pem'')) (\<lambda>key.
       Inr \<lparr>st_keyVersion = ui_authKeyVersion config, st_authKey = key,
            st_cookieName = ui_cookieName config, st_loginPath = ui_loginPath config,
            st_userDomain = ui_userDomain config, st_user = ui_user config,
            st_cookieMaxAge = ui_cookieMaxAge config, st_authHeader = ui_authHeader config\<rparr>)"

section \<open>Keys\<close>

text \<open>\<^verbatim>\<open>for (var id in publicKeys)\<close>: nothing is visited of a value that is absent.\<close>

definition loop_values :: "jsval \<Rightarrow> jsval list" where
  "loop_values v = (case own_members v of Inr kvs \<Rightarrow> map snd kvs | Inl _ \<Rightarrow> [])"

fun find_zms_key :: "(string \<Rightarrow> byte list) \<Rightarrow> string \<Rightarrow> jsval list \<Rightarrow> jskey jsref result" where
  "find_zms_key lenient keyId [] = Inr Null"
| "find_zms_key lenient keyId (k # ks) =
     bind_result (get_prop k ''id'') (\<lambda>i.
       if i = JStr keyId
       then bind_result (get_prop k ''key'') (\<lambda>key.
              bind_result (ybase64Decode lenient (ref_of_val key)) (\<lambda>b. Inr (Val (KeyBuf b))))
       else find_zms_key lenient keyId ks)"

definition conf_path :: "string jsref \<Rightarrow> string" where
  "conf_path UI_CONF_PATH =
     (if str_truthy UI_CONF_PATH then ref_text UI_CONF_PATH @ ''/athenz.conf'' else ''src/config/athenz.conf'')"

definition ui_getPublicKey ::
  "(string \<Rightarrow> byte list) \<Rightarrow> (string \<Rightarrow> jsval result) \<Rightarrow> (string \<Rightarrow> byte list result) \<Rightarrow> string jsref \<Rightarrow> string \<Rightarrow> key_store" where
  "ui_getPublicKey lenient readJson readFileSync UI_CONF_PATH athenzDomainService domain service keyId =
     (if \<not> str_truthy domain \<or> \<not> str_truthy service \<or> \<not> str_truthy keyId then Inr Null
      else let name = ref_text domain @ ''.'' @ ref_text service
           in if name = ''sys.auth.zms''
              then bind_result (readJson (conf_path UI_CONF_PATH)) (\<lambda>conf.
                   bind_result (get_prop conf ''zmsPublicKeys'') (\<lambda>publicKeys.
                   find_zms_key lenient (ref_text keyId) (loop_values publicKeys)))
              else if name = athenzDomainService
              then bind_result (readFileSync (''keys/'' @ athenzDomainService @ ''_pub.pem'')) (\<lambda>b. Inr (Val (KeyBuf b)))
              else Inr Null)"

section \<open>Authentication\<close>

definition signToken :: "node_crypto \<Rightarrow> string \<Rightarrow> string \<Rightarrow> string \<Rightarrow> string result" where
  "signToken nc token authKey version =
     (let data = token @ '';bk='' @ version
      in bind_result (nc_sign nc ''sha256'' (Val data) (KeyText authKey)) (\<lambda>signature.
           let sig = replace_char CHR ''='' ''-'' (replace_char CHR ''/'' ''_''
                       (replace_char CHR ''+'' ''.'' (base64_encode signature)))
           in Inr (data @ '';bs='' @ sig)))"

text \<open>The token of a request: that of the cookie, or the one of a header, which is signed.\<close>

definition take_token :: "node_crypto \<Rightarrow> ui_strategy \<Rightarrow> web_request \<Rightarrow> web_request result" where
  "take_token nc st req =
     (let cookie = obj_get (wr_cookies req) (st_cookieName st);
          token = obj_get (rq_headers req) ''token''
      in if truthy cookie then Inr (req\<lparr>wr_authSvcToken := cookie\<rparr>)
         else if truthy token \<and> token \<noteq> JStr ''undefined'' \<and> st_authKey st \<noteq> []
         then bind_result (signToken nc (js_text token) (st_authKey st) (st_keyVersion st)) (\<lambda>t.
                Inr (req\<lparr>wr_authSvcToken := JStr t\<rparr>))
         else Inr req)"

datatype auth_outcome = Redirect string | Success

definition protected_url :: "ui_strategy \<Rightarrow> string \<Rightarrow> bool" where
  "protected_url st url \<longleftrightarrow> \<not> starts_with url (st_loginPath st)
     \<and> \<not> starts_with url ''/_next'' \<and> \<not> starts_with url ''/static''"

definition user_of :: "ui_strategy \<Rightarrow> simple_principal \<Rightarrow> jsval" where
  "user_of st p = (if str_truthy (sp_name p) \<and> sp_name p \<noteq> Val ''undefined'' then val_of_ref (sp_name p) else st_user st)"

text \<open>The request as the strategy leaves it, and how it decides; \<open>auth\<close> is the authority's method.\<close>

definition decide ::
  "ui_strategy \<Rightarrow> (string jsref \<Rightarrow> string jsref \<Rightarrow> string jsref \<Rightarrow> simple_principal option result) \<Rightarrow> web_request
    \<Rightarrow> (auth_outcome \<times> web_request) result" where
  "decide st auth req =
     (if starts_with (rq_originalUrl req) (st_loginPath st)
      then Inr (Success, req\<lparr>wr_clearCookie := True, wr_authHeader := st_authHeader st\<rparr>)
      else if protected_url st (rq_originalUrl req)
      then bind_result (auth (ref_of_val (wr_authSvcToken req)) (wr_ip req) (wr_method req)) (\<lambda>r.
             case r of
               None \<Rightarrow> Inr (Redirect (st_loginPath st), req)
             | Some p \<Rightarrow>
                 let username = user_of st p
                 in Inr (Success, req\<lparr>wr_username := username,
                      wr_user := Some (JStr (js_text (st_userDomain st) @ ''.'' @ js_text username), username),
                      wr_shortId := username, wr_authHeader := st_authHeader st\<rparr>))
      else Inr (Success, req\<lparr>wr_authHeader := st_authHeader st\<rparr>))"

definition Strategy_authenticate ::
  "node_crypto \<Rightarrow> token_module \<Rightarrow> int \<Rightarrow> principal_authority \<Rightarrow> ui_strategy \<Rightarrow> web_request
    \<Rightarrow> (auth_outcome \<times> web_request) result" where
  "Strategy_authenticate nc tm now authority st req =
     bind_result (take_token nc st req)
       (decide st (\<lambda>token addr meth. snd (PrincipalAuthority_authenticate nc tm now authority token addr meth)))"

text \<open>What is done to the response afterwards.\<close>

datatype response_step = RedirectTo string | ClearCookie string | SetCookie string jsval jsval

definition postAuth :: "ui_config \<Rightarrow> bool \<Rightarrow> web_request \<Rightarrow> response_step list" where
  "postAuth config err req =
     (if err then [RedirectTo ''/autherror'']
      else (if wr_clearCookie req then [ClearCookie (ui_cookieName config)] else [])
        @ (if truthy (wr_authSvcToken req) \<and> \<not> truthy (obj_get (wr_cookies req) (ui_cookieName config))
           then [SetCookie (ui_cookieName config) (wr_authSvcToken req) (ui_cookieMaxAge config)] else []))"

section \<open>The clients of a request\<close>

record ui_server =
  sv_zms :: "ui_factory option"
  sv_msd :: "ui_factory option"
  sv_users :: user_service

text \<open>
  The RDL documents of the two services are arguments. The promise of refreshing the user directory
  is dropped: when it fails the directory is left as that failure leaves it.
\<close>

definition refreshCertClients ::
  "ui_route list \<Rightarrow> ui_route list \<Rightarrow> (string \<Rightarrow> jsval result) \<Rightarrow> file_system \<Rightarrow> user_config \<Rightarrow> ui_config
    \<Rightarrow> (ui_server, unit) action" where
  "refreshCertClients zmsJson msdJson parse fs users config =
     (let opts = Some [(''strictSSL'', ui_strictSSL config)]
      in bind_action (lift_result (ui_rdl_rest (Some zmsJson) (Val (ui_zms config)) NoHeaders opts)) (\<lambda>z.
         bind_action (update_state (\<lambda>sv. sv\<lparr>sv_zms := Some z\<rparr>)) (\<lambda>_.
         bind_action (lift_result (ui_rdl_rest (Some msdJson) (Val (ui_msd config)) NoHeaders opts)) (\<lambda>m.
         bind_action (update_state (\<lambda>sv. sv\<lparr>sv_msd := Some m\<rparr>)) (\<lambda>_.
         update_state (\<lambda>sv. sv\<lparr>sv_users := snd (refreshUserData parse fs users (sv_users sv))\<rparr>))))))"

text \<open>
  The headers of a client are computed from the request the client was made for. No method is
  marked as one that forwards cookies, so the function for the cookie gives \<^verbatim>\<open>null\<close>.
\<close>

definition setCookieinClients :: "web_request \<Rightarrow> client_headers" where
  "setCookieinClients req =
     HeaderObj (obj_put (wr_authHeader req)
       (HFun (\<lambda>currentReq. if truthy (wr_authSvcToken req) then wr_authSvcToken req else JNull))
       [(''cookie'', HFun (\<lambda>currentReq. JNull))])"

definition client_of :: "ui_factory option \<Rightarrow> web_request \<Rightarrow> rest_client result" where
  "client_of factory req =
     (case factory of
        None \<Rightarrow> Inl (TypeError ''CLIENTS'')
      | Some f \<Rightarrow> Inr (ui_RDLRest_new f (Some (http_request.truncate req)) (setCookieinClients req)))"

definition clients_middleware :: "ui_server \<Rightarrow> web_request \<Rightarrow> (rest_client \<times> rest_client) result" where
  "clients_middleware sv req =
     bind_result (client_of (sv_zms sv) req) (\<lambda>z. bind_result (client_of (sv_msd sv) req) (\<lambda>m. Inr (z, m)))"

section \<open>What a protected request has shown\<close>

lemma take_token_url: "take_token nc st req = Inr req1 \<Longrightarrow> rq_originalUrl req1 = rq_originalUrl req"
  by (auto simp: take_token_def bind_result_Inr_iff Let_def split: if_splits)

lemma authenticate_protected:
  assumes "Strategy_authenticate nc tm now pa st req = Inr (Success, req')"
    and "protected_url st (rq_originalUrl req)"
  obtains p where "snd (PrincipalAuthority_authenticate nc tm now pa (ref_of_val (wr_authSvcToken req'))
      (wr_ip req') (wr_method req')) = Inr (Some p)"
    and "wr_shortId req' = user_of st p" and "wr_authHeader req' = st_authHeader st"
proof -
  obtain req1 where req1: "take_token nc st req = Inr req1"
    "decide st (\<lambda>token addr meth. snd (PrincipalAuthority_authenticate nc tm now pa token addr meth)) req1 = Inr (Success, req')"
    using assms(1) by (auto simp: Strategy_authenticate_def bind_result_Inr_iff)
  then have "protected_url st (rq_originalUrl req1)"
    using assms(2) take_token_url by metis
  then show ?thesis
    using req1(2) that
    by (auto simp: decide_def protected_url_def bind_result_Inr_iff Let_def split: option.splits)
qed

text \<open>
  C16. A request for a page or service of the console, other than the login page and static files,
  passes the strategy only with a token that the authority accepts: it is signed with a key of the
  key store, its time is valid, and the user of the session is the one it names.
\<close>

theorem ui_request_authenticated:
  assumes "Strategy_authenticate nc tm now (PrincipalAuthority_setKeyStore ks pa) st req = Inr (Success, req')"
    and "protected_url st (rq_originalUrl req)"
  shows "\<exists>u t pk. wr_authSvcToken req' = JStr u \<and> principal_parseSignedToken u new_principal_token = Inr t
    \<and> wr_shortId req' = (let name = to_lower (ref_text (pt_name t))
        in if name \<noteq> [] \<and> name \<noteq> ''undefined'' then JStr name else st_user st)
    \<and> validate nc (Token_constructor tm) now pk (pa_allowedOffset pa) (\<not> isWriteOperation (wr_method req')) t
    \<and> getPublicKey (Val ks) (to_lower (ref_text (tok_domain t))) (to_lower (ref_text (pt_name t)))
        (pt_keyService t) (tok_keyId t) (JStr (to_lower (ref_text (tok_domain t))) = pa_userDomain pa) = Inr pk"
proof -
  obtain p where p: "snd (PrincipalAuthority_authenticate nc tm now (PrincipalAuthority_setKeyStore ks pa)
      (ref_of_val (wr_authSvcToken req')) (wr_ip req') (wr_method req')) = Inr (Some p)"
    and user: "wr_shortId req' = user_of st p"
    using authenticate_protected [OF assms] by blast
  obtain u t pk where t: "ref_of_val (wr_authSvcToken req') = Val u"
    "principal_parseSignedToken u new_principal_token = Inr t"
    "sp_name p = Val (to_lower (ref_text (pt_name t)))"
    and pk: "getPublicKey (Val ks) (to_lower (ref_text (tok_domain t))) (to_lower (ref_text (pt_name t)))
           (pt_keyService t) (tok_keyId t) (JStr (to_lower (ref_text (tok_domain t))) = pa_userDomain pa) = Inr pk"
    "validate nc (Token_constructor tm) now pk (pa_allowedOffset pa) (\<not> isWriteOperation (wr_method req')) t"
    using p by (rule authenticate_accepted)
  have "wr_authSvcToken req' = JStr u"
    using t(1) by (auto simp: ref_of_val_def split: jsval.splits)
  then show ?thesis
    using t user pk by (auto simp: user_of_def val_of_ref_def Let_def)
qed

section \<open>What the clients send\<close>

text \<open>
  C6. Every request that the console's server sends to ZMS for a protected request carries, in the
  header configured for it, a token with a signature that was verified with a key of the key store,
  and never the cookies of the user.
\<close>

theorem ui_credentials_forwarded:
  assumes "Strategy_authenticate nc tm now (PrincipalAuthority_setKeyStore ks pa) st req = Inr (Success, req')"
    and "protected_url st (rq_originalUrl req)"
    and "st_authHeader st \<noteq> ''cookie''"
    and "clients_middleware sv req' = Inr (zclient, mclient)" and "sv_zms sv = Some f"
    and "routes_avoid (uf_methods f) meth (st_authHeader st)" and "routes_avoid (uf_methods f) meth ''cookie''"
    and "ui_call nu (uf_methods f) zclient meth args = Inr opts"
  shows "obj_get (op_headers opts) ''cookie'' = JNull
    \<and> (\<exists>u i d v k pk sig. obj_get (op_headers opts) (st_authHeader st) = JStr u
        \<and> index_of '';s='' u = Some i \<and> ks d v k = Inr pk \<and> key_truthy pk
        \<and> Crypto_verify nc (substring u 0 i) pk sig ''SHA256'' = Inr True)"
proof -
  obtain p where p: "snd (PrincipalAuthority_authenticate nc tm now (PrincipalAuthority_setKeyStore ks pa)
      (ref_of_val (wr_authSvcToken req')) (wr_ip req') (wr_method req')) = Inr (Some p)"
    and hdr: "wr_authHeader req' = st_authHeader st"
    using authenticate_protected [OF assms(1,2)] by blast
  obtain u i d v k pk sig where u: "ref_of_val (wr_authSvcToken req') = Val u" "index_of '';s='' u = Some i"
    "ks d v k = Inr pk" "key_truthy pk" "Crypto_verify nc (substring u 0 i) pk sig ''SHA256'' = Inr True"
    using pauth.accepted [OF p] by blast
  have token: "wr_authSvcToken req' = JStr u" "u \<noteq> []"
    using u(1,2) by (auto simp: ref_of_val_def split: jsval.splits if_splits)
  let ?own = "obj_put (st_authHeader st) (HFun (\<lambda>currentReq. JStr u)) [(''cookie'', HFun (\<lambda>currentReq. JNull))]"
  have own: "rc_headers zclient = HeaderObj ?own"
    using assms(4,5) token hdr
    by (auto simp: clients_middleware_def client_of_def bind_result_Inr_iff ui_RDLRest_new_def setCookieinClients_def)
  have dist: "distinct (obj_keys ?own)"
    by (rule distinct_obj_put) (simp add: obj_keys_def)
  have "obj_get (op_headers opts) (st_authHeader st) = JStr u" "obj_get (op_headers opts) ''cookie'' = JNull"
    using ui_rest.own_header [OF assms(8) own dist, of "st_authHeader st"] ui_rest.own_header [OF assms(8) own dist, of "''cookie''"]
      assms(3,6,7) by (simp_all add: map_of_obj_put header_result_def)
  then show ?thesis
    using u(2-5) by blast
qed

text \<open>An example: a request with the cookie of a user.\<close>

definition demo_strategy :: ui_strategy where
  "demo_strategy = \<lparr>st_keyVersion = ''0'', st_authKey = ''key'', st_cookieName = ''Athenz-Principal-Auth'',
     st_loginPath = ''/login'', st_userDomain = JStr ''user'', st_user = JUndef, st_cookieMaxAge = JUndef,
     st_authHeader = ''Athenz-Principal-Auth''\<rparr>"

definition demo_web_request :: web_request where
  "demo_web_request = \<lparr>rq_headers = [(''cookie'', JStr ''all cookies'')], rq_protocol = ''https'',
     rq_originalUrl = ''/api/v1'', rq_query = [], rq_requestId = JUndef,
     wr_cookies = [(''Athenz-Principal-Auth'', JStr demo_user_text)], wr_ip = Null, wr_method = Val ''GET'',
     wr_authSvcToken = JUndef, wr_clearCookie = False, wr_username = JUndef, wr_user = None, wr_shortId = JUndef,
     wr_authHeader = []\<rparr>"

definition demo_checked :: web_request where
  "demo_checked = demo_web_request\<lparr>wr_authSvcToken := JStr demo_user_text, wr_username := JStr ''joe'',
     wr_user := Some (JStr ''user.joe'', JStr ''joe''), wr_shortId := JStr ''joe'',
     wr_authHeader := ''Athenz-Principal-Auth''\<rparr>"

lemma demo_strategy_passes:
  "Strategy_authenticate accept_all demo_token_module 120000 (PrincipalAuthority_setKeyStore demo_key_store demo_authority)
     demo_strategy demo_web_request = Inr (Success, demo_checked)"
proof -
  obtain p where p: "demo_authenticate (Val demo_user_text) Null (Val ''GET'') = Inr (Some p)" "sp_name p = Val ''joe''"
    using demo_user_authenticated by blast
  have "demo_user_text \<noteq> []"
    by (simp add: demo_user_text_def)
  then have "take_token accept_all demo_strategy demo_web_request = Inr (demo_web_request\<lparr>wr_authSvcToken := JStr demo_user_text\<rparr>)"
    by (simp add: take_token_def demo_strategy_def demo_web_request_def Let_def)
  then show ?thesis
    using p by (simp add: Strategy_authenticate_def decide_def demo_strategy_def demo_web_request_def demo_checked_def
        protected_url_def starts_with_def ref_of_val_def user_of_def val_of_ref_def Let_def)
qed

theorem ui_request_authenticated_witness:
  "\<exists>u t. wr_authSvcToken demo_checked = JStr u \<and> principal_parseSignedToken u new_principal_token = Inr t
     \<and> wr_shortId demo_checked = JStr ''joe''"
proof -
  have "protected_url demo_strategy (rq_originalUrl demo_web_request)"
    by (simp add: protected_url_def demo_strategy_def demo_web_request_def starts_with_def)
  then show ?thesis
    using ui_request_authenticated [OF demo_strategy_passes] by (auto simp: demo_checked_def)
qed

definition demo_zms :: ui_factory where
  "demo_zms = \<lparr>uf_methods = ui_generate [lift_route resource_access], uf_apiHost = ''https://zms/zms/v1'',
     uf_headers = NoHeaders, uf_requestOpts = []\<rparr>"

definition demo_server :: ui_server where
  "demo_server = \<lparr>sv_zms = Some demo_zms, sv_msd = Some demo_zms, sv_users = user_service_init\<rparr>"

definition demo_zms_client :: rest_client where
  "demo_zms_client = ui_RDLRest_new demo_zms (Some (http_request.truncate demo_checked)) (setCookieinClients demo_checked)"

theorem ui_credentials_forwarded_witness:
  "\<exists>opts. ui_call demo_url (uf_methods demo_zms) demo_zms_client ''getResourceAccess'' (DataCallback demo_call) = Inr opts
     \<and> obj_get (op_headers opts) ''cookie'' = JNull"
proof -
  have "\<not> isl (ui_call demo_url (uf_methods demo_zms) demo_zms_client ''getResourceAccess'' (DataCallback demo_call))"
    by code_simp
  then obtain opts where call: "ui_call demo_url (uf_methods demo_zms) demo_zms_client
      ''getResourceAccess'' (DataCallback demo_call) = Inr opts"
    using sum.collapse(2) by metis
  have clients: "clients_middleware demo_server demo_checked = Inr (demo_zms_client, demo_zms_client)"
    and sv: "sv_zms demo_server = Some demo_zms"
    by (simp_all add: clients_middleware_def client_of_def demo_server_def demo_zms_client_def)
  have avoid: "routes_avoid (uf_methods demo_zms) ''getResourceAccess'' (st_authHeader demo_strategy)"
    "routes_avoid (uf_methods demo_zms) ''getResourceAccess'' ''cookie''"
    by code_simp+
  have url: "protected_url demo_strategy (rq_originalUrl demo_web_request)" "st_authHeader demo_strategy \<noteq> ''cookie''"
    by (simp_all add: protected_url_def demo_strategy_def demo_web_request_def starts_with_def)
  show ?thesis
    using ui_credentials_forwarded [OF demo_strategy_passes url clients sv avoid call] call by blast
qed

end
