(* ===== verification/Ui_App.thy ===== *)
theory Ui_App
  imports Ui_Auth
begin

text \<open>
  How the console's server is put together (\<^verbatim>\<open>ui/app.js\<close> and the handlers it registers):
  the secrets it loads, its default configuration, the status pages, the security headers, and the
  order in which a request passes the handlers. The packages behind the handlers
  (\<^verbatim>\<open>express\<close>, \<^verbatim>\<open>body-parser\<close>, \<^verbatim>\<open>cookie-parser\<close>,
  \<^verbatim>\<open>cookie-session\<close>, \<^verbatim>\<open>multer\<close>, \<^verbatim>\<open>csurf\<close>) are parameters; the pages that
  \<^verbatim>\<open>next\<close> renders are not modelled. The theorem says that no request reaches a service of the
  console without a valid security token and an authenticated user.
\<close>

section \<open>Secrets\<close>

record ui_secrets =
  se_serverKey :: "string option"
  se_serverCert :: "string option"
  se_cookieSession :: "string option"
  se_msdAuthHeader :: "string option"

text \<open>What a file that was read leaves in the module, and its promise.\<close>

definition secret_of :: "string result \<Rightarrow> string option" where
  "secret_of r = (case r of Inl e \<Rightarrow> None | Inr body \<Rightarrow> Some (trim body))"

definition secret_promise :: "string result \<Rightarrow> promise" where
  "secret_promise r = (case r of Inl e \<Rightarrow> Rejected (exn_val e) | Inr body \<Rightarrow> Resolved JUndef)"

definition secrets_load :: "(jsval \<Rightarrow> string result) \<Rightarrow> nat \<Rightarrow> jsval jsobj \<Rightarrow> promise \<times> ui_secrets" where
  "secrets_load readFile first config =
     (let serverKey = readFile (obj_get config ''uiKeyPath'');
          serverCert = readFile (obj_get config ''uiCertPath'');
          cookieSession = readFile (obj_get config ''cookieSession'');
          msdAuthHeader = readFile (obj_get config ''msdAuthHeaderPath'')
      in (promise_all first (map secret_promise [serverKey, serverCert, cookieSession, msdAuthHeader]),
          \<lparr>se_serverKey = secret_of serverKey, se_serverCert = secret_of serverCert,
           se_cookieSession = secret_of cookieSession, se_msdAuthHeader = secret_of msdAuthHeader\<rparr>))"

section \<open>Configuration\<close>

text \<open>\<^verbatim>\<open>process.env.NAME || 'default'\<close>\<close>

definition env_or :: "(string \<Rightarrow> string jsref) \<Rightarrow> string \<Rightarrow> string \<Rightarrow> jsval" where
  "env_or var name d = JStr (str_or (var name) d)"

definition page_link :: "string \<Rightarrow> string \<Rightarrow> string \<Rightarrow> jsval" where
  "page_link title url target = JObj [(''title'', JStr title), (''url'', JStr url), (''target'', JStr target)]"

definition aws_prefix :: jsval where
  "aws_prefix = JArr [JObj [(''name'', JStr ''AWS''), (''prefix'', JStr '':role.aws'')]]"

definition instance_links :: jsval where
  "instance_links =
     JArr [JObj [(''description'', JStr (''Here you can add / see instances which can not obtain Athenz identity ''
               @ ''because of limitations, but would be associated with your service.'')),
             (''url'', JStr []), (''target'', JStr ''_blank'')],
           JObj [(''description'', JStr ''Here you can see instances which are running with this service identity''),
             (''url'', JStr []), (''target'', JStr ''_blank'')]]"

definition cookie_hour :: jsval where
  "cookie_hour = JNum (Fin (60 * 60 * 1000))"

text \<open>
  The section for local use. The function \<^verbatim>\<open>userData\<close> is a value of its own in the model of the
  API and is left out here; the port is an argument, the number that \<^verbatim>\<open>parseInt\<close> reads from the
  environment.
\<close>

definition local_config :: "(string \<Rightarrow> string jsref) \<Rightarrow> jsnum \<Rightarrow> jsval jsobj" where
  "local_config var port =
     [(''timeZone'', JStr ''America/Los_Angeles''),
      (''language'', JStr ''en-US''),
      (''zms'', env_or var ''ZMS_SERVER_URL'' ''https://localhost:4443/zms/v1/''),
      (''zmsLoginUrl'', env_or var ''ZMS_LOGIN_URL'' ''https://localhost:4443/zms/v1/''),
      (''zmsConnectSrcUrl'', env_or var ''ZMS_CONNECT_SRC_URL'' ''https://localhost:4443''),
      (''msd'', env_or var ''MSD_LOGIN_URL'' ''https://localhost:4443/msd/v1/''),
      (''authHeader'', JStr ''Athenz-Principal-Auth''),
      (''strictSSL'', JBool False),
      (''user'', JStr ''ui-server''),
      (''athenzDomainService'', env_or var ''UI_DOMAIN_SERVICE'' ''athenz.ui-server''),
      (''authKeyVersion'', env_or var ''UI_SERVICE_KEY_VERSION'' ''0''),
      (''envLabel'', JStr ''local''),
      (''headerLinks'', JArr
         [page_link ''Website'' ''http://www.athenz.io'' ''_blank'',
          page_link ''Getting Started'' ''https://github.com/AthenZ/athenz/blob/master/README.md'' ''_blank'',
          page_link ''Documentation'' ''https://github.com/AthenZ/athenz/blob/master/README.md'' ''_blank'',
          page_link ''GitHub'' ''https://github.com/AthenZ/athenz'' ''_blank'',
          page_link ''Suggest'' ''https://github.com/AthenZ/athenz/issues'' ''_blank'',
          page_link ''Contact Us'' ''https://www.athenz.io/contact.html'' ''_blank'',
          page_link ''Blog'' ''https://www.tumblr.com/blog/athenz-security'' ''_blank'',
          page_link ''Logout'' ''/login'' []]),
      (''productMasterLink'', page_link ''Product ID'' [] ''_blank''),
      (''servicePageConfig'', JObj
         [(''keyCreationLink'', page_link ''Key Creation''
             ''https://yahoo.github.io/athenz/site/reg_service_guide/#key-generation'' ''_blank''),
          (''keyCreationMessage'', JStr (''Instances bootstrapped using Athenz Identity Providers can get ''
             @ ''Service Identity X.509 certificates automatically.''))]),
      (''cookieName'', JStr ''Athenz-Principal-Auth''),
      (''cookieMaxAge'', cookie_hour),
      (''loginPath'', JStr ''/login''),
      (''uiKeyPath'', env_or var ''UI_CERT_KEY_PATH'' ''keys/ui_key.pem''),
      (''uiCertPath'', env_or var ''UI_CERT_PATH'' ''keys/ui_cert.pem''),
      (''userFileName'', JStr ''users_data.json''),
      (''userFilePath'', env_or var ''UI_CONF_PATH'' ''src/config''),
      (''cookieSession'', env_or var ''UI_SESSION_SECRET_PATH'' ''keys/cookie-session''),
      (''userDomains'', JStr ''user,unix''),
      (''port'', JNum (if num_truthy port then port else Fin 443)),
      (''allProviders'', JArr [JObj [(''id'', JStr ''aws_instance_launch_provider''),
         (''name'', JStr ''AWS EC2/EKS/Fargate launches instances for the service'')]]),
      (''createDomainMessage'', JStr (''Athenz top level domain creation is manual. '' @ [CHR 0x0A]
         @ '' Please connect with your system administrator to create top level domains. '' @ [CHR 0x0A])),
      (''cspReportUri'', JStr []),
      (''cspImgSrc'', JStr []),
      (''allPrefixes'', aws_prefix),
      (''statusPath'', env_or var ''UI_SESSION_SECRET_PATH'' ''keys/cookie-session''),
      (''featureFlag'', JBool True),
      (''pageFeatureFlag'', JObj [(''microsegmentation'', JObj [(''policyValidation'', JBool True)])]),
      (''serviceHeaderLinks'', instance_links),
      (''templates'', JArr [JStr ''openhouse'']),
      (''msdAuthHeaderPath'', JStr ''/var/lib/sia/tokens/msd-api-access/msd-api-access-token'')]"

definition unittest_config :: "jsval jsobj" where
  "unittest_config =
     [(''zmsConnectSrcUrl'', JStr ''https://localhost:4443''),
      (''athenzDomainService'', JStr ''athenz.unit-test''),
      (''authKeyVersion'', JStr ''1''),
      (''envLabel'', JStr ''unittest''),
      (''cookieName'', JStr ''Athenz-Principal-Auth''),
      (''cookieMaxAge'', cookie_hour),
      (''loginPath'', JStr ''/login''),
      (''userDomain'', JStr ''user''),
      (''user'', JStr ''test''),
      (''authHeader'', JStr ''Athenz-Principal-Auth''),
      (''cspReportUri'', JStr ''https://athenz.io/csp''),
      (''cspImgSrc'', JStr ''https://athenz.com''),
      (''allPrefixes'', aws_prefix),
      (''featureFlag'', JBool True),
      (''serviceHeaderLinks'', instance_links),
      (''templates'', JArr [JStr ''openhouse'']),
      (''msdAuthHeaderPath'', JStr ''/var/lib/sia/tokens/msd-api-access/msd-api-access-token'')]"

text \<open>
  The function the module exports. A name that is not a section makes the assignment raise (names
  that every object inherits are not considered here).
\<close>

definition ui_default_config :: "(string \<Rightarrow> string jsref) \<Rightarrow> jsnum \<Rightarrow> jsval jsobj result" where
  "ui_default_config var port =
     (let name = str_or (var ''APP_ENV'') ''local''
      in case map_of [(''local'', local_config var port), (''unittest'', unittest_config)] name of
           None \<Rightarrow> Inl (TypeError ''env'')
         | Some c \<Rightarrow> Inr (obj_put ''env'' (JStr name) c))"

lemma default_login_path: "ui_default_config var port = Inr c \<Longrightarrow> obj_get c ''loginPath'' = JStr ''/login''"
  by (auto simp: ui_default_config_def local_config_def unittest_config_def Let_def split: option.splits if_splits)

text \<open>The section for local use has no \<^verbatim>\<open>userDomain\<close>, which the authentication strategy reads.\<close>

lemma local_user_domain_missing:
  assumes "var ''APP_ENV'' = Undefined"
  shows "ui_default_config var port = Inr (obj_put ''env'' (JStr ''local'') (local_config var port))"
    and "obj_get (obj_put ''env'' (JStr ''local'') (local_config var port)) ''userDomain'' = JUndef"
  using assms by (simp add: ui_default_config_def Let_def) (simp add: local_config_def obj_get_def)

section \<open>Status pages\<close>

text \<open>The first route of the four that matches answers; \<open>accessible\<close> is whether a file exists.\<close>

definition file_status :: "(jsval \<Rightarrow> bool) \<Rightarrow> jsval \<Rightarrow> int \<times> string" where
  "file_status accessible path = (if accessible path then (200, ''OK'') else (404, []))"

definition status_routes :: "(string \<Rightarrow> bool) \<Rightarrow> (jsval \<Rightarrow> bool) \<Rightarrow> jsval jsobj \<Rightarrow> (int \<times> string) option" where
  "status_routes get accessible config =
     (if get ''/akamai'' then Some (file_status accessible (obj_get config ''akamaiPath''))
      else if get ''/status'' \<or> get ''/status.html'' then Some (file_status accessible (obj_get config ''statusPath''))
      else if get ''/autherror''
      then Some (200, ''Error: Auth Provider is not available currently. Please try again later.'')
      else None)"

section \<open>Security headers\<close>

definition quoted :: "string \<Rightarrow> jsval" where
  "quoted s = JStr ([CHR 0x27] @ s @ [CHR 0x27])"

text \<open>The directives that are passed to \<^verbatim>\<open>helmet\<close>; \<^verbatim>\<open>defaultSrc\<close>, a marker of that package, is left out.\<close>

definition csp_directives :: "string jsref \<Rightarrow> jsval jsobj \<Rightarrow> jsval \<Rightarrow> jsval jsobj" where
  "csp_directives NODE_ENV config rid =
     (let self = quoted ''self'';
          scriptSrc = (if NODE_ENV \<noteq> Val ''production'' then [self, quoted ''unsafe-inline'', quoted ''unsafe-eval'']
                       else [self, quoted (''nonce-'' @ js_text rid)]);
          connectSrc = (if obj_get config ''env'' = JStr ''local'' then [self, obj_get config ''zmsConnectSrcUrl''] else [self]);
          imgSrc = (if truthy (obj_get config ''cspImgSrc'') then [self, obj_get config ''cspImgSrc''] else [self])
      in [(''baseUri'', JArr [quoted ''none'']), (''imgSrc'', JArr imgSrc), (''scriptSrc'', JArr scriptSrc),
          (''connectSrc'', JArr connectSrc), (''fontSrc'', JArr [self]), (''frameSrc'', JArr [self]),
          (''manifestSrc'', JArr [self]), (''mediaSrc'', JArr [self]), (''objectSrc'', JArr [self]),
          (''workerSrc'', JArr [self])]
         @ (if truthy (obj_get config ''cspReportUri'') then [(''reportUri'', obj_get config ''cspReportUri'')] else []))"

text \<open>In production no script runs but those of the server and those with the nonce of the request.\<close>

lemma csp_production:
  "obj_get (csp_directives (Val ''production'') config rid) ''scriptSrc'' =
     JArr [quoted ''self'', quoted (''nonce-'' @ js_text rid)]"
  by (simp add: csp_directives_def Let_def)

section \<open>The way of a request\<close>

text \<open>What the check of the security token says: it passes, or it fails with a code.\<close>

datatype csrf_check = CsrfOk | CsrfError string

text \<open>
  What the packages do: the routes that a request's method and path match, the parsers of the body,
  the cookies and the session, the check of the security token, and whether a path lies under the
  path at which a handler is mounted.
\<close>

record express =
  ex_get :: "web_request \<Rightarrow> string \<Rightarrow> bool"
  ex_parse :: "web_request \<Rightarrow> web_request"
  ex_csrf :: "web_request \<Rightarrow> csrf_check"
  ex_mounted :: "string \<Rightarrow> web_request \<Rightarrow> bool"
  ex_uuid :: string

datatype app_outcome =
    Respond int string
  | NextError string
  | LoginRedirect string
  | Services "response_step list" "rest_client \<times> rest_client" web_request
  | Pages "response_step list" web_request

definition logger :: "express \<Rightarrow> web_request \<Rightarrow> web_request" where
  "logger ex req = req\<lparr>rq_headers := obj_put ''rid'' (JStr (ex_uuid ex)) (rq_headers req)\<rparr>"

definition csrf_failed :: "string \<Rightarrow> app_outcome" where
  "csrf_failed code =
     (if code \<noteq> ''EBADCSRFTOKEN'' then NextError code
      else Respond 403 ''Failed Input validation. Please refresh the page'')"

text \<open>The handlers of \<^verbatim>\<open>handlers/api.js\<close>: the clients of the request, then the services.\<close>

definition routes :: "express \<Rightarrow> ui_server \<Rightarrow> response_step list \<Rightarrow> web_request \<Rightarrow> app_outcome result" where
  "routes ex sv steps req =
     bind_result (clients_middleware sv req) (\<lambda>clients.
       Inr (if ex_mounted ex ''/api/v1'' req then Services steps clients req else Pages steps req))"

definition passportAuth ::
  "(web_request \<Rightarrow> (auth_outcome \<times> web_request) result) \<Rightarrow> ui_config
    \<Rightarrow> (response_step list \<Rightarrow> web_request \<Rightarrow> app_outcome result) \<Rightarrow> web_request \<Rightarrow> app_outcome result" where
  "passportAuth authenticate config nxt req =
     bind_result (authenticate req) (\<lambda>(outcome, req').
       case outcome of
         Redirect path \<Rightarrow> Inr (LoginRedirect path)
       | Success \<Rightarrow> nxt (postAuth config False req') req')"

definition app ::
  "express \<Rightarrow> (jsval \<Rightarrow> bool) \<Rightarrow> jsval jsobj \<Rightarrow> ui_config \<Rightarrow> ui_server
    \<Rightarrow> (web_request \<Rightarrow> (auth_outcome \<times> web_request) result) \<Rightarrow> web_request \<Rightarrow> app_outcome result" where
  "app ex accessible appConfig config sv authenticate req =
     (case status_routes (ex_get ex req) accessible appConfig of
        Some (code, body) \<Rightarrow> Inr (Respond code body)
      | None \<Rightarrow>
          let req1 = ex_parse ex (logger ex req)
          in case ex_csrf ex req1 of
               CsrfError code \<Rightarrow> Inr (csrf_failed code)
             | CsrfOk \<Rightarrow> passportAuth authenticate config (routes ex sv) req1)"

section \<open>No service without a user\<close>

text \<open>
  What is relied on of the packages: parsing leaves the address of a request as it was, and a request
  for which a mounted handler runs has an address that starts with its path, in either case.
\<close>

definition express_laws :: "express \<Rightarrow> bool" where
  "express_laws ex \<longleftrightarrow>
     (\<forall>req. rq_originalUrl (ex_parse ex req) = rq_originalUrl req)
     \<and> (\<forall>path req. ex_mounted ex path req \<longrightarrow> starts_with (to_lower (rq_originalUrl req)) (to_lower path))"

lemma mounted_protected:
  assumes "express_laws ex" and "ex_mounted ex ''/api/v1'' req" and "st_loginPath st = ''/login''"
  shows "protected_url st (rq_originalUrl req)"
proof -
  have "to_lower ''/api/v1'' = ''/api/v1''"
    by code_simp
  moreover have "starts_with (to_lower (rq_originalUrl req)) (to_lower ''/api/v1'')"
    using assms(1,2) unfolding express_laws_def by blast
  ultimately have "prefix ''/api/v1'' (to_lower (rq_originalUrl req))"
    by (simp add: starts_with_def)
  then obtain c d where "rq_originalUrl req = c # d # drop 2 (rq_originalUrl req)" "lower_char d = CHR ''a''"
    by (cases "rq_originalUrl req"; cases "tl (rq_originalUrl req)") (auto simp: to_lower_def)
  moreover from this have "d \<noteq> CHR ''l''" "d \<noteq> CHR ''_''" "d \<noteq> CHR ''s''"
    by (auto simp: lower_char_def)
  ultimately show ?thesis
    using assms(3) by (auto simp: protected_url_def starts_with_def prefix_def)
qed

lemma app_services:
  assumes "app ex accessible appConfig config sv authenticate req = Inr (Services steps clients req')"
  obtains req1 where "req1 = ex_parse ex (logger ex req)" and "ex_csrf ex req1 = CsrfOk"
    and "authenticate req1 = Inr (Success, req')" and "ex_mounted ex ''/api/v1'' req'"
    and "clients_middleware sv req' = Inr clients" and "steps = postAuth config False req'"
  using assms
  by (auto simp: app_def passportAuth_def routes_def csrf_failed_def bind_result_Inr_iff Let_def
      split: option.splits csrf_check.splits auth_outcome.splits if_splits)
     (meson auth_outcome.exhaust)

lemma decide_url: "decide st auth req = Inr (outcome, req') \<Longrightarrow> rq_originalUrl req' = rq_originalUrl req"
  by (auto simp: decide_def bind_result_Inr_iff Let_def split: option.splits if_splits)

lemma authenticate_url:
  "Strategy_authenticate nc tm now pa st req = Inr (outcome, req') \<Longrightarrow> rq_originalUrl req' = rq_originalUrl req"
  using take_token_url decide_url by (fastforce simp: Strategy_authenticate_def bind_result_Inr_iff)

text \<open>
  C5. A request reaches the services of the console only when its security token passed the check
  and its user was authenticated: the server acts for it with a token whose signature was verified
  with a key of the key store, and the session is that of the user the token names.
\<close>

theorem service_needs_user:
  assumes "app ex accessible appConfig config sv
      (Strategy_authenticate nc tm now (PrincipalAuthority_setKeyStore ks pa) st) req = Inr (Services steps clients req')"
    and "express_laws ex" and "st_loginPath st = ''/login''"
  shows "ex_csrf ex (ex_parse ex (logger ex req)) = CsrfOk
    \<and> (\<exists>u i d v k pk sig. wr_authSvcToken req' = JStr u \<and> index_of '';s='' u = Some i
        \<and> ks d v k = Inr pk \<and> key_truthy pk
        \<and> Crypto_verify nc (substring u 0 i) pk sig ''SHA256'' = Inr True)
    \<and> (\<exists>u t. wr_authSvcToken req' = JStr u \<and> principal_parseSignedToken u new_principal_token = Inr t
        \<and> wr_shortId req' = (let name = to_lower (ref_text (pt_name t))
            in if name \<noteq> [] \<and> name \<noteq> ''undefined'' then JStr name else st_user st))"
proof -
  obtain req1 where req1: "req1 = ex_parse ex (logger ex req)" "ex_csrf ex req1 = CsrfOk"
      "Strategy_authenticate nc tm now (PrincipalAuthority_setKeyStore ks pa) st req1 = Inr (Success, req')"
      "ex_mounted ex ''/api/v1'' req'"
    using assms(1) by (rule app_services)
  have "protected_url st (rq_originalUrl req1)"
    using mounted_protected [OF assms(2) req1(4) assms(3)] authenticate_url [OF req1(3)] by simp
  then obtain p where p: "snd (PrincipalAuthority_authenticate nc tm now (PrincipalAuthority_setKeyStore ks pa)
      (ref_of_val (wr_authSvcToken req')) (wr_ip req') (wr_method req')) = Inr (Some p)"
    and user: "wr_shortId req' = user_of st p"
    using authenticate_protected [OF req1(3)] by blast
  have token: "wr_authSvcToken req' = JStr u" if "ref_of_val (wr_authSvcToken req') = Val u" for u
    using that by (auto simp: ref_of_val_def split: jsval.splits)
  obtain u t pk where t: "ref_of_val (wr_authSvcToken req') = Val u"
    "principal_parseSignedToken u new_principal_token = Inr t" "sp_name p = Val (to_lower (ref_text (pt_name t)))"
    using p by (rule authenticate_accepted)
  have "wr_shortId req' = (let name = to_lower (ref_text (pt_name t))
      in if name \<noteq> [] \<and> name \<noteq> ''undefined'' then JStr name else st_user st)"
    using user t(3) by (auto simp: user_of_def val_of_ref_def Let_def)
  then show ?thesis
    using req1(1,2) t(1,2) token pauth.accepted [OF p] by blast
qed

text \<open>An example: a request for the services with the cookie of a user.\<close>

definition demo_express :: express where
  "demo_express = \<lparr>ex_get = (\<lambda>req path. False), ex_parse = (\<lambda>req. req), ex_csrf = (\<lambda>req. CsrfOk),
     ex_mounted = (\<lambda>path req. starts_with (to_lower (rq_originalUrl req)) (to_lower path)), ex_uuid = ''1''\<rparr>"

definition demo_ui_config :: ui_config where
  "demo_ui_config = \<lparr>ui_athenzDomainService = ''athenz.ui-server'', ui_authKeyVersion = ''0'',
     ui_cookieName = ''Athenz-Principal-Auth'', ui_loginPath = ''/login'', ui_userDomain = JUndef, ui_user = JUndef,
     ui_cookieMaxAge = JUndef, ui_authHeader = ''Athenz-Principal-Auth'', ui_zms = [], ui_msd = [], ui_strictSSL = JBool False\<rparr>"

lemma demo_strategy_any:
  assumes "obj_get (wr_cookies req) ''Athenz-Principal-Auth'' = JStr demo_user_text" and "rq_originalUrl req = ''/api/v1''"
    and "wr_ip req = Null" and "wr_method req = Val ''GET''"
  shows "\<exists>req'. Strategy_authenticate accept_all demo_token_module 120000
      (PrincipalAuthority_setKeyStore demo_key_store demo_authority) demo_strategy req = Inr (Success, req')"
proof -
  obtain p where p: "demo_authenticate (Val demo_user_text) Null (Val ''GET'') = Inr (Some p)"
    using demo_user_authenticated by blast
  have "demo_user_text \<noteq> []"
    by (simp add: demo_user_text_def)
  then have "take_token accept_all demo_strategy req = Inr (req\<lparr>wr_authSvcToken := JStr demo_user_text\<rparr>)"
    using assms(1) by (simp add: take_token_def demo_strategy_def Let_def)
  then show ?thesis
    using p assms(2-4) by (simp add: Strategy_authenticate_def decide_def demo_strategy_def protected_url_def
        starts_with_def ref_of_val_def Let_def)
qed

theorem service_needs_user_witness:
  "\<exists>steps clients req' u. app demo_express (\<lambda>_. True) [] demo_ui_config demo_server
      (Strategy_authenticate accept_all demo_token_module 120000
        (PrincipalAuthority_setKeyStore demo_key_store demo_authority) demo_strategy) demo_web_request
      = Inr (Services steps clients req') \<and> wr_authSvcToken req' = JStr u"
proof -
  let ?auth = "Strategy_authenticate accept_all demo_token_module 120000
      (PrincipalAuthority_setKeyStore demo_key_store demo_authority) demo_strategy"
  let ?req1 = "logger demo_express demo_web_request"
  have "\<exists>req'. ?auth ?req1 = Inr (Success, req')"
    by (rule demo_strategy_any) (simp_all add: logger_def demo_web_request_def)
  then obtain req' where auth: "?auth ?req1 = Inr (Success, req')"
    by blast
  have "rq_originalUrl req' = ''/api/v1''"
    using authenticate_url [OF auth] by (simp add: logger_def demo_web_request_def)
  then have "ex_mounted demo_express ''/api/v1'' req'"
    by (simp add: demo_express_def starts_with_def)
  then obtain steps clients where run: "app demo_express (\<lambda>_. True) [] demo_ui_config demo_server ?auth demo_web_request
      = Inr (Services steps clients req')"
    using auth by (simp add: app_def status_routes_def passportAuth_def routes_def clients_middleware_def client_of_def
        demo_server_def demo_express_def)
  have "express_laws demo_express"
    by (simp add: express_laws_def demo_express_def)
  then have "\<exists>u. wr_authSvcToken req' = JStr u"
    using service_needs_user [OF run] by (auto simp: demo_strategy_def)
  then show ?thesis
    using run by blast
qed

end
