(* ===== verification/Ui_Api.thy ===== *)
theory Ui_Api
  imports Ui_Users
begin

text \<open>
  The services of \<^verbatim>\<open>ui/src/server/handlers/api.js\<close> that make at most one call: those that
  hand their parameters to a method of ZMS and pass the answer on, those that build the
  parameters first, and those that answer from the configuration. The parameters of a request are
  an object.
\<close>

section \<open>Answering with what ZMS answers\<close>

definition responseHandler :: "jsval \<Rightarrow> jsval \<Rightarrow> unit api" where
  "responseHandler err data = (if truthy err then reply_error err else callback JNull data)"

definition forward_to :: "api_env \<Rightarrow> api_call \<Rightarrow> unit api" where
  "forward_to env c = bind_action (ask env c) (\<lambda>(err, data). responseHandler err data)"

definition pass :: "api_env \<Rightarrow> string \<Rightarrow> jsval jsobj \<Rightarrow> unit api" where
  "pass env meth params = forward_to env (zms meth (JObj params))"

definition assertion_create :: "api_env \<Rightarrow> jsval jsobj \<Rightarrow> unit api" where
  "assertion_create env params = pass env ''putAssertion'' params"

definition assertion_delete :: "api_env \<Rightarrow> jsval jsobj \<Rightarrow> unit api" where
  "assertion_delete env params = pass env ''deleteAssertion'' params"

definition assertion_version_create :: "api_env \<Rightarrow> jsval jsobj \<Rightarrow> unit api" where
  "assertion_version_create env params = pass env ''putAssertionPolicyVersion'' params"

definition assertion_version_delete :: "api_env \<Rightarrow> jsval jsobj \<Rightarrow> unit api" where
  "assertion_version_delete env params = pass env ''deleteAssertionPolicyVersion'' params"

definition assertionCondition_delete :: "api_env \<Rightarrow> jsval jsobj \<Rightarrow> unit api" where
  "assertionCondition_delete env params = pass env ''deleteAssertionCondition'' params"

definition domain_read :: "api_env \<Rightarrow> jsval jsobj \<Rightarrow> unit api" where
  "domain_read env params = pass env ''getDomain'' params"

definition domain_delete :: "api_env \<Rightarrow> jsval jsobj \<Rightarrow> unit api" where
  "domain_delete env params = pass env ''deleteSubDomain'' params"

definition domain_templates_read :: "api_env \<Rightarrow> jsval jsobj \<Rightarrow> unit api" where
  "domain_templates_read env params = pass env ''getDomainTemplateList'' params"

definition get_service_host_read :: "api_env \<Rightarrow> jsval jsobj \<Rightarrow> unit api" where
  "get_service_host_read env params = pass env ''getServiceIdentity'' params"

definition pending_member_delete :: "api_env \<Rightarrow> jsval jsobj \<Rightarrow> unit api" where
  "pending_member_delete env params = pass env ''deletePendingMembership'' params"

definition role_members_delete :: "api_env \<Rightarrow> jsval jsobj \<Rightarrow> unit api" where
  "role_members_delete env params = pass env ''deleteDomainRoleMember'' params"

definition policy_read :: "api_env \<Rightarrow> jsval jsobj \<Rightarrow> unit api" where
  "policy_read env params = pass env ''getPolicy'' params"

definition policy_delete :: "api_env \<Rightarrow> jsval jsobj \<Rightarrow> unit api" where
  "policy_delete env params = pass env ''deletePolicy'' params"

definition policy_version_create :: "api_env \<Rightarrow> jsval jsobj \<Rightarrow> unit api" where
  "policy_version_create env params = pass env ''putPolicyVersion'' params"

definition policy_version_read :: "api_env \<Rightarrow> jsval jsobj \<Rightarrow> unit api" where
  "policy_version_read env params = pass env ''getPolicyVersion'' params"

definition policy_version_update :: "api_env \<Rightarrow> jsval jsobj \<Rightarrow> unit api" where
  "policy_version_update env params = pass env ''setActivePolicyVersion'' params"

definition policy_version_delete :: "api_env \<Rightarrow> jsval jsobj \<Rightarrow> unit api" where
  "policy_version_delete env params = pass env ''deletePolicyVersion'' params"

definition provider_create :: "api_env \<Rightarrow> jsval jsobj \<Rightarrow> unit api" where
  "provider_create env params = pass env ''putDomainTemplate'' params"

definition role_create :: "api_env \<Rightarrow> jsval jsobj \<Rightarrow> unit api" where
  "role_create env params = pass env ''putRole'' params"

definition role_delete :: "api_env \<Rightarrow> jsval jsobj \<Rightarrow> unit api" where
  "role_delete env params = pass env ''deleteRole'' params"

definition role_update :: "api_env \<Rightarrow> jsval jsobj \<Rightarrow> unit api" where
  "role_update env params = pass env ''putRoleReview'' params"

definition roles_read :: "api_env \<Rightarrow> jsval jsobj \<Rightarrow> unit api" where
  "roles_read env params = pass env ''getRoles'' params"

definition role_list_read :: "api_env \<Rightarrow> jsval jsobj \<Rightarrow> unit api" where
  "role_list_read env params = pass env ''getRoleList'' params"

definition add_service_host_update :: "api_env \<Rightarrow> jsval jsobj \<Rightarrow> unit api" where
  "add_service_host_update env params = pass env ''putServiceIdentity'' params"

definition service_read :: "api_env \<Rightarrow> jsval jsobj \<Rightarrow> unit api" where
  "service_read env params = pass env ''getServiceIdentity'' params"

definition service_create :: "api_env \<Rightarrow> jsval jsobj \<Rightarrow> unit api" where
  "service_create env params = pass env ''putServiceIdentity'' params"

definition service_delete :: "api_env \<Rightarrow> jsval jsobj \<Rightarrow> unit api" where
  "service_delete env params = pass env ''deleteServiceIdentity'' params"

definition key_create :: "api_env \<Rightarrow> jsval jsobj \<Rightarrow> unit api" where
  "key_create env params = pass env ''putPublicKeyEntry'' params"

definition key_delete :: "api_env \<Rightarrow> jsval jsobj \<Rightarrow> unit api" where
  "key_delete env params = pass env ''deletePublicKeyEntry'' params"

definition group_create :: "api_env \<Rightarrow> jsval jsobj \<Rightarrow> unit api" where
  "group_create env params = pass env ''putGroup'' params"

definition group_delete :: "api_env \<Rightarrow> jsval jsobj \<Rightarrow> unit api" where
  "group_delete env params = pass env ''deleteGroup'' params"

definition group_update :: "api_env \<Rightarrow> jsval jsobj \<Rightarrow> unit api" where
  "group_update env params = pass env ''putGroupReview'' params"

definition authority_read :: "api_env \<Rightarrow> jsval jsobj \<Rightarrow> unit api" where
  "authority_read env params =
     forward_to env \<lparr>ac_client = Zms, ac_method = ''getUserAuthorityAttributeMap'', ac_data = None\<rparr>"

section \<open>Calls with parameters of their own\<close>

text \<open>\<^verbatim>\<open>{ key: params.key, ... }\<close> for the listed members.\<close>

definition pick_params :: "jsval jsobj \<Rightarrow> (string \<times> string) list \<Rightarrow> jsval jsobj" where
  "pick_params params names = map (\<lambda>(target, origin). (target, obj_get params origin)) names"

definition member_create :: "api_env \<Rightarrow> jsval jsobj \<Rightarrow> unit api" where
  "member_create env params =
     (if obj_get params ''category'' = JStr ''group'' then
        pass env ''putGroupMembership''
          (pick_params params [(''domainName'', ''domainName''), (''groupName'', ''collectionName''),
             (''memberName'', ''memberName''), (''auditRef'', ''auditRef''),
             (''membership'', ''membership''), (''category'', ''category'')])
      else if obj_get params ''category'' = JStr ''role'' then
        pass env ''putMembership''
          (pick_params params [(''domainName'', ''domainName''), (''roleName'', ''collectionName''),
             (''memberName'', ''memberName''), (''auditRef'', ''auditRef''),
             (''membership'', ''membership'')])
      else ret ())"

definition member_key :: "string \<Rightarrow> (string \<times> string) list" where
  "member_key name = [(''domainName'', ''domainName''), (name, ''collectionName''),
     (''memberName'', ''memberName''), (''auditRef'', ''auditRef'')]"

definition member_delete :: "api_env \<Rightarrow> jsval jsobj \<Rightarrow> unit api" where
  "member_delete env params =
     (if obj_get params ''category'' = JStr ''group'' then
        (if truthy (obj_get params ''pending'')
         then pass env ''deletePendingGroupMembership'' (pick_params params (member_key ''groupName''))
         else pass env ''deleteGroupMembership'' (pick_params params (member_key ''groupName'')))
      else if obj_get params ''category'' = JStr ''role'' then
        (if truthy (obj_get params ''pending'')
         then pass env ''deletePendingMembership'' (pick_params params (member_key ''roleName''))
         else pass env ''deleteMembership'' (pick_params params (member_key ''roleName'')))
      else ret ())"

definition process_pending_create :: "api_env \<Rightarrow> jsval jsobj \<Rightarrow> unit api" where
  "process_pending_create env params =
     (if obj_get params ''category'' = JStr ''group'' then
        pass env ''putGroupMembershipDecision''
          (pick_params params [(''domainName'', ''domainName''), (''groupName'', ''roleName''),
             (''memberName'', ''memberName''), (''auditRef'', ''auditRef''), (''membership'', ''membership'')])
      else if obj_get params ''category'' = JStr ''role'' then
        pass env ''putMembershipDecision''
          (pick_params params [(''domainName'', ''domainName''), (''roleName'', ''roleName''),
             (''memberName'', ''memberName''), (''auditRef'', ''auditRef''), (''membership'', ''membership'')])
      else ret ())"

definition meta_create :: "api_env \<Rightarrow> jsval jsobj \<Rightarrow> unit api" where
  "meta_create env params =
     (if obj_get params ''category'' = JStr ''group'' then
        pass env ''putGroupMeta''
          (pick_params params [(''domainName'', ''domainName''), (''groupName'', ''collectionName''),
             (''auditRef'', ''auditRef''), (''detail'', ''detail'')])
      else if obj_get params ''category'' = JStr ''role'' then
        pass env ''putRoleMeta''
          (pick_params params [(''domainName'', ''domainName''), (''roleName'', ''collectionName''),
             (''auditRef'', ''auditRef''), (''detail'', ''detail'')])
      else if obj_get params ''category'' = JStr ''domain'' then
        pass env ''putDomainMeta''
          (pick_params params [(''name'', ''domainName''), (''auditRef'', ''auditRef''), (''detail'', ''detail'')])
      else ret ())"

definition meta_read :: "api_env \<Rightarrow> jsval jsobj \<Rightarrow> unit api" where
  "meta_read env params =
     (if obj_get params ''category'' = JStr ''domain''
      then pass env ''getDomainMetaStoreValidValuesList'' params else ret ())"

text \<open>
  \<^verbatim>\<open>condition[key] = { operator: 'EQUALS', value: v }\<close>, where the empty value stands for
  every value.
\<close>

definition condition_data :: "jsval \<Rightarrow> jsval" where
  "condition_data v =
     JObj [(''operator'', JStr ''EQUALS''), (''value'', if v = JStr [] then JStr ''*'' else v)]"

definition conditions_list :: "(string \<Rightarrow> bool) \<Rightarrow> jsval \<Rightarrow> jsval result" where
  "conditions_list keep v =
     bind_result (loop_items v) (\<lambda>items.
     bind_result (map_result (\<lambda>item.
        bind_result (own_members item) (\<lambda>members.
        Inr (JObj [(''conditionsMap'',
          JObj (map (\<lambda>(k, x). (k, condition_data x)) (filter (\<lambda>m. keep (fst m)) members)))]))) items)
       (\<lambda>conditions. Inr (JObj [(''conditionsList'', JArr conditions)])))"

definition assertionConditions_create :: "api_env \<Rightarrow> jsval jsobj \<Rightarrow> unit api" where
  "assertionConditions_create env params =
     bind_action (lift_result (conditions_list (\<lambda>_. True) (obj_get params ''assertionConditions''))) (\<lambda>finalData.
     pass env ''putAssertionConditions'' (obj_put ''assertionConditions'' finalData params))"

section \<open>The configuration\<close>

record app_config =
  cf_athenzDomainService :: jsval
  cf_userData :: "jsval \<Rightarrow> jsval"
  cf_headerLinks :: jsval
  cf_allProviders :: jsval
  cf_createDomainMessage :: jsval
  cf_servicePageConfig :: jsval
  cf_productMasterLink :: jsval
  cf_allPrefixes :: jsval
  cf_zmsLoginUrl :: jsval
  cf_featureFlag :: jsval
  cf_pageFeatureFlag :: "jsval jsobj"
  cf_serviceHeaderLinks :: "jsval list"
  cf_templates :: jsval

text \<open>\<^verbatim>\<open>params.detail.templates.templateNames = appConfig.templates\<close>\<close>

definition with_templates :: "app_config \<Rightarrow> jsval jsobj \<Rightarrow> jsval jsobj result" where
  "with_templates app params =
     bind_result (get_prop (obj_get params ''detail'') ''templates'') (\<lambda>templates.
     bind_result (set_prop ''templateNames'' (cf_templates app) templates) (\<lambda>templates'.
     bind_result (set_prop ''templates'' templates' (obj_get params ''detail'')) (\<lambda>detail.
     Inr (obj_put ''detail'' detail params))))"

definition domain_create :: "api_env \<Rightarrow> app_config \<Rightarrow> jsval jsobj \<Rightarrow> unit api" where
  "domain_create env app params =
     (if truthy (obj_get params ''parent'') then pass env ''postSubDomain'' params
      else bind_action (lift_result (with_templates app params)) (\<lambda>params'. pass env ''postUserDomain'' params'))"

definition get_form_read :: "api_env \<Rightarrow> unit api" where
  "get_form_read env = callback JNull (ae_csrfToken env)"

definition auth_options_read :: "app_config \<Rightarrow> unit api" where
  "auth_options_read app =
     callback JNull (JObj [(''zmsLoginUrl'', cf_zmsLoginUrl app),
       (''athenzDomainService'', cf_athenzDomainService app)])"

definition prefix_read :: "app_config \<Rightarrow> unit api" where
  "prefix_read app = callback JNull (JObj [(''allPrefixes'', cf_allPrefixes app)])"

definition api_status_read :: "unit api" where
  "api_status_read = callback JNull (JStr ''ok'')"

definition user_read :: "api_env \<Rightarrow> unit api" where
  "user_read env = callback JNull (JObj [(''userId'', ae_shortId env)])"

definition header_details_read :: "api_env \<Rightarrow> app_config \<Rightarrow> unit api" where
  "header_details_read env app =
     callback JNull (JObj [(''userData'', cf_userData app (ae_shortId env)),
       (''headerLinks'', cf_headerLinks app), (''userId'', ae_shortId env),
       (''createDomainMessage'', cf_createDomainMessage app),
       (''productMasterLink'', cf_productMasterLink app)])"

definition service_header_details_read :: "app_config \<Rightarrow> unit api" where
  "service_header_details_read app =
     (let link = (\<lambda>i. if i < length (cf_serviceHeaderLinks app) then cf_serviceHeaderLinks app ! i else JUndef)
      in callback JNull (JObj [(''static'', link 0), (''dynamic'', link 1)]))"

definition service_page_config_read :: "app_config \<Rightarrow> unit api" where
  "service_page_config_read app = callback JNull (JObj [(''servicePageConfig'', cf_servicePageConfig app)])"

definition feature_flag_read :: "app_config \<Rightarrow> unit api" where
  "feature_flag_read app = callback JNull (cf_featureFlag app)"

definition page_feature_flag_read :: "app_config \<Rightarrow> jsval jsobj \<Rightarrow> unit api" where
  "page_feature_flag_read app params =
     callback JNull (obj_get (cf_pageFeatureFlag app) (js_text (obj_get params ''pageName'')))"

text \<open>\<^verbatim>\<open>handlers/domain-history.js\<close>, which the repository provides as an example.\<close>

definition domainHistoryApi :: "unit api" where
  "domainHistoryApi =
     callback JNull (JArr [JObj [(''action'', JStr ''action''), (''who'', JStr ''principal''),
       (''whoFull'', JStr ''principal full''), (''whatEntity'', JStr ''resource''),
       (''when'', JStr ''2020-01-01T10:00:00.000Z''), (''details'', JStr ''detailed json''),
       (''epoch'', JStr ''epoch timestamp''), (''why'', JStr ''justification'')]])"

definition domain_history_read :: "unit api option \<Rightarrow> unit api" where
  "domain_history_read extension = (case extension of Some api \<Rightarrow> api | None \<Rightarrow> callback JNull (JArr []))"

end
