(* ===== verification/Ui_Api_Lists.thy ===== *)
theory Ui_Api_Lists
  imports Ui_Api
begin

text \<open>
  The services of \<^verbatim>\<open>ui/src/server/handlers/api.js\<close> on domains, templates, policies and
  pending approvals that make several calls or work on the answer.
\<close>

section \<open>Domains\<close>

text \<open>The principal of the session; an identity that has a domain of its own is used as it is.\<close>

definition session_username :: "api_env \<Rightarrow> jsval result" where
  "session_username env =
     bind_result (string_of (ae_shortId env)) (\<lambda>shortId.
       Inr (JStr (if str_includes shortId ''.'' then shortId else ''user.'' @ shortId)))"

definition names_answer :: "jsval \<Rightarrow> jsval \<Rightarrow> promise result" where
  "names_answer err json =
     (if truthy err then Inr (Rejected err)
      else bind_result (get_prop json ''names'') (\<lambda>names.
        Inr (Resolved (if is_array names then names else JArr []))))"

definition domain_templates_create :: "api_env \<Rightarrow> jsval jsobj \<Rightarrow> unit api" where
  "domain_templates_create env params =
     (let template = (\<lambda>t. zms ''putDomainTemplate''
            (JObj [(''name'', obj_get params ''domainName''), (''domainTemplate'', JObj t),
                   (''auditRef'', obj_get params ''auditRef'')]));
          paramsAWS = [(''templateNames'', JArr [JStr ''aws''])];
          paramsBastionService =
            [(''templateNames'', JArr [JStr ''aws_instance_launch_provider'']),
             (''params'', JArr [JObj [(''name'', JStr ''service''), (''value'', JStr ''bastion'')]])]
      in bind_action (promises env settle_answer [template paramsAWS, template paramsBastionService]) (\<lambda>ps.
         bind_action (await_all env ps) (then_catch (callback JNull) reply_error)))"

text \<open>\<^verbatim>\<open>catch\<close> of the services for which a missing object is an empty answer.\<close>

definition empty_if_missing :: "jsval \<Rightarrow> jsval \<Rightarrow> unit api" where
  "empty_if_missing nothing err =
     bind_action (lift_result (get_prop err ''status'')) (\<lambda>status.
       if strict_eq status (JNum (Fin 404)) then callback JNull nothing else reply_error err)"

definition metadata_answer :: "jsval \<Rightarrow> jsval \<Rightarrow> promise result" where
  "metadata_answer err json =
     (if truthy err then Inr (Rejected err)
      else bind_result (get_prop json ''metaData'') (\<lambda>metaData.
        Inr (Resolved (if is_array metaData then metaData else JArr []))))"

definition templates_read :: "api_env \<Rightarrow> jsval \<Rightarrow> unit api" where
  "templates_read env params =
     bind_action
       (one_promise env metadata_answer
          (if truthy params then zms ''getDomainTemplateDetailsList'' params
           else \<lparr>ac_client = Zms, ac_method = ''getServerTemplateDetailsList'', ac_data = None\<rparr>))
       (then_catch (callback JNull) (empty_if_missing (JArr [])))"

definition domain_name :: "jsval \<Rightarrow> jsval result" where
  "domain_name domain = bind_result (get_prop domain ''domain'') (\<lambda>d. get_prop d ''name'')"

definition admin_domains_result :: "api_env \<Rightarrow> jsval \<Rightarrow> jsval \<Rightarrow> jsval result" where
  "admin_domains_result env admin signed =
     bind_result (get_prop signed ''domains'') (\<lambda>domains.
     bind_result (if truthy domains then array_items domains else Inr []) (\<lambda>allDomains.
     bind_result (if truthy admin then array_items admin else Inr []) (\<lambda>adminDomains.
     bind_result (filter_result (\<lambda>d. bind_result (domain_name d) (\<lambda>n. Inr (array_includes adminDomains n))) allDomains)
       (\<lambda>mine. bind_result (js_sort env domain_name mine) (\<lambda>sorted. Inr (JArr sorted))))))"

text \<open>\<^verbatim>\<open>values[i]\<close>\<close>

definition nth_value :: "jsval \<Rightarrow> nat \<Rightarrow> jsval" where
  "nth_value v i = (case v of JArr vs \<Rightarrow> if i < length vs then vs ! i else JUndef | _ \<Rightarrow> JUndef)"

text \<open>The second call settles its promise with the whole answer.\<close>

definition admin_domains_read :: "api_env \<Rightarrow> jsval jsobj \<Rightarrow> unit api" where
  "admin_domains_read env params =
     bind_action (lift_result (session_username env)) (\<lambda>username.
     bind_action (issue_all env
       [zms ''getDomainList'' (JObj [(''roleMember'', username), (''roleName'', JStr ''admin'')]),
        zms ''getSignedDomains'' (JObj [(''metaOnly'', JStr ''true''), (''metaAttr'', JStr ''all'')])]) (\<lambda>as.
     bind_action (lift_result (settle names_answer (as ! 0))) (\<lambda>p.
     bind_action (lift_result (settle settle_answer (as ! 1))) (\<lambda>q.
     bind_action (await_all env [p, q])
       (then_catch
          (\<lambda>values. bind_action (lift_result (admin_domains_result env (nth_value values 0) (nth_value values 1)))
             (callback JNull))
          reply_error)))))"

definition domain_list_result :: "api_env \<Rightarrow> jsval list \<Rightarrow> jsval list \<Rightarrow> jsval list result" where
  "domain_list_result env memberDomains adminDomains =
     js_sort env (\<lambda>d. get_prop d ''name'')
       (map (\<lambda>n. JObj [(''name'', n), (''adminDomain'', JBool True)]) adminDomains
        @ map (\<lambda>n. JObj [(''name'', n), (''userDomain'', JBool True)])
            (filter (\<lambda>n. \<not> array_includes adminDomains n) memberDomains))"

definition domain_list_read :: "api_env \<Rightarrow> jsval jsobj \<Rightarrow> unit api" where
  "domain_list_read env params =
     bind_action (lift_result (session_username env)) (\<lambda>username.
     bind_action (promises env names_answer
       [zms ''getDomainList'' (JObj [(''roleMember'', username)]),
        zms ''getDomainList'' (JObj [(''roleMember'', username), (''roleName'', JStr ''admin'')])]) (\<lambda>ps.
     bind_action (await_all env ps)
       (then_catch
          (\<lambda>values. bind_action (lift_result (
               bind_result (array_items (nth_value values 0)) (\<lambda>memberDomains.
               bind_result (array_items (nth_value values 1)) (\<lambda>adminDomains.
               domain_list_result env memberDomains adminDomains)))) (\<lambda>l. callback JNull (JArr l)))
          reply_error)))"

definition all_domain_list_read :: "api_env \<Rightarrow> jsval jsobj \<Rightarrow> unit api" where
  "all_domain_list_read env params =
     bind_action (ask env \<lparr>ac_client = Zms, ac_method = ''getDomainList'', ac_data = None\<rparr>) (\<lambda>(err, json).
       if truthy err then reply_error err
       else bind_action (lift_result (array_prop json ''names'')) (\<lambda>names.
         callback JNull (case names of
             Some ns \<Rightarrow> JArr (map (\<lambda>n. JObj [(''name'', n), (''value'', n)]) ns)
           | None \<Rightarrow> JArr [])))"

text \<open>\<^verbatim>\<open>list.find(d => d === name)\<close>, as a condition: the empty string is not true.\<close>

definition found_name :: "jsval list \<Rightarrow> jsval \<Rightarrow> bool" where
  "found_name list name = (array_includes list name \<and> truthy name)"

definition search_data :: "jsval list \<Rightarrow> jsval list \<Rightarrow> jsval \<Rightarrow> jsval" where
  "search_data memberDomains adminDomains name =
     JObj ([(''name'', name)]
       @ (if found_name memberDomains name then [(''userDomain'', JBool True)] else [])
       @ (if found_name adminDomains name then [(''adminDomain'', JBool True)] else []))"

definition search_result :: "jsval \<Rightarrow> jsval list \<Rightarrow> jsval list \<Rightarrow> jsval list \<Rightarrow> jsval list result" where
  "search_result wanted allDomains memberDomains adminDomains =
     bind_result (filter_result (\<lambda>d. bind_result (string_of d) (\<lambda>s. Inr (str_includes s (js_text wanted)))) allDomains)
       (\<lambda>ds. Inr (map (search_data memberDomains adminDomains) ds))"

definition search_domain_read :: "api_env \<Rightarrow> jsval jsobj \<Rightarrow> unit api" where
  "search_domain_read env params =
     bind_action (lift_result (session_username env)) (\<lambda>username.
     bind_action (promises env names_answer
       [zms ''getDomainList'' (JObj []),
        zms ''getDomainList'' (JObj [(''roleMember'', username)]),
        zms ''getDomainList'' (JObj [(''roleName'', JStr ''admin''), (''roleMember'', username)])]) (\<lambda>ps.
     bind_action (await_all env ps)
       (then_catch
          (\<lambda>values. bind_action (lift_result (
               bind_result (array_items (nth_value values 0)) (\<lambda>allDomains.
               bind_result (array_items (nth_value values 1)) (\<lambda>memberDomains.
               bind_result (array_items (nth_value values 2)) (\<lambda>adminDomains.
               search_result (obj_get params ''domainName'') allDomains memberDomains adminDomains)))))
             (\<lambda>l. callback JNull (JArr l)))
          reply_error)))"

section \<open>Policies\<close>

text \<open>The services that answer with a list in the order of its names.\<close>

definition sorted_list_read :: "api_env \<Rightarrow> string \<Rightarrow> jsval jsobj \<Rightarrow> unit api" where
  "sorted_list_read env meth params =
     bind_action (ask env (zms meth (JObj params))) (\<lambda>(err, data).
       bind_action (lift_result (if truthy err then Inr None else array_prop data ''list'')) (\<lambda>list.
         case list of
           Some items \<Rightarrow>
             bind_action (lift_result (js_sort env (\<lambda>x. get_prop x ''name'') items)) (\<lambda>l. callback JNull (JArr l))
         | None \<Rightarrow> reply_error err))"

definition policies_read :: "api_env \<Rightarrow> jsval jsobj \<Rightarrow> unit api" where
  "policies_read env params = sorted_list_read env ''getPolicies'' params"

definition policies_versions_read :: "api_env \<Rightarrow> jsval jsobj \<Rightarrow> unit api" where
  "policies_versions_read env params = sorted_list_read env ''getPolicyVersionList'' params"

definition services_read :: "api_env \<Rightarrow> jsval jsobj \<Rightarrow> unit api" where
  "services_read env params = sorted_list_read env ''getServiceIdentities'' params"

definition policy_exists_error :: "jsval jsobj \<Rightarrow> jsval" where
  "policy_exists_error params =
     JObj [(''status'', JStr ''500''), (''message'', JObj [(''message'', JStr (''Policy ''
       @ js_text (obj_get params ''policyName'') @ '' exists in domain ''
       @ js_text (obj_get params ''domainName'') @ ''.''))])]"

definition policy_create :: "api_env \<Rightarrow> jsval jsobj \<Rightarrow> unit api" where
  "policy_create env params =
     bind_action (ask env (zms ''getPolicy'' (JObj params))) (\<lambda>(err, data).
       if truthy err
       then bind_action (lift_result (get_prop err ''status'')) (\<lambda>status.
              if strict_eq status (JNum (Fin 404)) then pass env ''putPolicy'' params else reply_error err)
       else reply_error (policy_exists_error params))"

text \<open>
  \<^verbatim>\<open>getAssertionId\<close>: the \<^verbatim>\<open>return\<close> inside the loop is that of the loop's body, whose value is
  dropped.
\<close>

definition assertion_matches :: "jsval jsobj \<Rightarrow> jsval \<Rightarrow> bool result" where
  "assertion_matches params assertion =
     bind_result (get_prop assertion ''role'') (\<lambda>role.
     bind_result (get_prop assertion ''resource'') (\<lambda>resource.
     bind_result (get_prop assertion ''action'') (\<lambda>act.
     bind_result (get_prop assertion ''effect'') (\<lambda>effect.
     Inr (role = JStr (js_text (obj_get params ''domainName'') @ '':role.'' @ js_text (obj_get params ''roleName''))
       \<and> resource = JStr (js_text (obj_get params ''domainName'') @ '':'' @ js_text (obj_get params ''resource''))
       \<and> strict_eq act (obj_get params ''action'')
       \<and> strict_eq effect (obj_get params ''effect''))))))"

definition getAssertionId :: "jsval jsobj \<Rightarrow> jsval \<Rightarrow> jsval result" where
  "getAssertionId params data =
     bind_result (get_prop data ''assertions'') (\<lambda>assertions.
     bind_result (array_items assertions) (\<lambda>items.
     bind_result (map_result (\<lambda>a. bind_result (assertion_matches params a) (\<lambda>b.
        if b then get_prop a ''id'' else Inr JUndef)) items) (\<lambda>dropped.
     Inr (JNum (Fin (- 1))))))"

definition missing_assertion_error :: "jsval jsobj \<Rightarrow> jsval" where
  "missing_assertion_error params =
     JObj [(''status'', JNum (Fin 404)), (''message'', JObj [(''message'',
       JStr (''Failed to get assertion for policy '' @ js_text (obj_get params ''policyName'') @ ''.''))])]"

definition policy_answer :: "jsval \<Rightarrow> jsval \<Rightarrow> promise result" where
  "policy_answer err data = Inr (if truthy data then Resolved data else Rejected err)"

text \<open>One round of the loop: the error it ends with, if it does. \<open>final\<close> says that no round is left.\<close>

definition policy_round :: "jsval jsobj \<Rightarrow> bool \<Rightarrow> promise \<Rightarrow> jsval option" where
  "policy_round params final p =
     (case p of
        Resolved data \<Rightarrow>
          (case getAssertionId params data of
             Inl e \<Rightarrow> if final then Some (exn_val e) else None
           | Inr assertionId \<Rightarrow>
               if strict_eq assertionId (JNum (Fin (- 1))) \<and> final then Some (missing_assertion_error params) else None)
      | Rejected err \<Rightarrow> if final then Some err else None
      | Pending \<Rightarrow> None)"

fun retryGetPolicy :: "api_env \<Rightarrow> jsval jsobj \<Rightarrow> nat \<Rightarrow> jsval option api" where
  "retryGetPolicy env params 0 = ret None"
| "retryGetPolicy env params (Suc left) =
     bind_action (one_promise env policy_answer
       (zms ''getPolicy'' (JObj (pick_params params [(''policyName'', ''policyName''), (''domainName'', ''domainName'')]))))
       (\<lambda>p. case policy_round params (left = 0) p of
               Some err \<Rightarrow> ret (Some err)
             | None \<Rightarrow> retryGetPolicy env params left)"

definition assertionId_read :: "api_env \<Rightarrow> jsval jsobj \<Rightarrow> unit api" where
  "assertionId_read env params =
     bind_action (retryGetPolicy env params 2) (\<lambda>r.
       case r of Some err \<Rightarrow> reply_error err | None \<Rightarrow> callback JNull JUndef)"

section \<open>Providers\<close>

definition launch_assertion :: "string \<Rightarrow> jsval \<Rightarrow> bool result" where
  "launch_assertion service a =
     bind_result (get_prop a ''resource'') (\<lambda>resource.
     bind_result (get_prop a ''action'') (\<lambda>act.
     Inr (truthy resource \<and> resource = JStr service \<and> truthy act \<and> act = JStr ''launch'')))"

definition allows_launch :: "string \<Rightarrow> jsval \<Rightarrow> bool result" where
  "allows_launch service data =
     (if \<not> truthy data then Inr False
      else bind_result (get_prop data ''assertions'') (\<lambda>assertions.
        if \<not> truthy assertions then Inr False
        else bind_result (array_items assertions) (some_result (launch_assertion service))))"

definition provider_answer :: "string \<Rightarrow> (jsval \<times> jsval) result \<Rightarrow> (promise \<times> jsval option) result" where
  "provider_answer service a =
     (case a of
        Inl e \<Rightarrow> Inr (Rejected (exn_val e), None)
      | Inr (err, data) \<Rightarrow>
          bind_result (if truthy err then get_prop err ''status'' else Inr (JNum (Fin 404))) (\<lambda>status.
          bind_result (allows_launch service data) (\<lambda>allow.
          Inr (if strict_eq status (JNum (Fin 404)) then Resolved JUndef else Rejected err,
               Some (JStr (if allow then ''allow'' else ''not''))))))"

definition provider_map :: "jsval list \<Rightarrow> jsval option list \<Rightarrow> jsval jsobj" where
  "provider_map ids states =
     foldl (\<lambda>m (i, st). case st of Some v \<Rightarrow> obj_put (js_text i) v m | None \<Rightarrow> m) [] (zip ids states)"

definition provider_read :: "api_env \<Rightarrow> app_config \<Rightarrow> jsval jsobj \<Rightarrow> unit api" where
  "provider_read env app params =
     (let service = js_text (obj_get params ''domainName'') @ '':service.'' @ js_text (obj_get params ''serviceName'')
      in bind_action (lift_result (array_items (cf_allProviders app))) (\<lambda>providers.
         bind_action (lift_result (map_result (\<lambda>p. get_prop p ''id'') providers)) (\<lambda>ids.
         bind_action (issue_all env (map (\<lambda>i. zms ''getPolicy''
            (JObj [(''domainName'', obj_get params ''domainName''), (''policyName'', i)])) ids)) (\<lambda>as.
         bind_action (lift_result (map_result (provider_answer service) as)) (\<lambda>rs.
         bind_action (await_all env (map fst rs))
           (then_catch
              (\<lambda>_. callback JNull (JObj [(''provider'', JObj (provider_map ids (map snd rs))),
                 (''allProviders'', cf_allProviders app)]))
              reply_error))))))"

section \<open>Pending approvals\<close>

definition pending_answer :: "jsval \<Rightarrow> jsval \<Rightarrow> promise result" where
  "pending_answer err data =
     Inr (if truthy err then Rejected err else if truthy data then Resolved data else Pending)"

definition getPendingDomainMembersPromise :: "api_env \<Rightarrow> jsval jsobj \<Rightarrow> promise list api" where
  "getPendingDomainMembersPromise env params =
     promises env pending_answer
       [zms ''getPendingDomainGroupMembersList'' (JObj params), zms ''getPendingDomainRoleMembersList'' (JObj params)]"

definition pending_list :: "api_env \<Rightarrow> user_service \<Rightarrow> jsval jsobj \<Rightarrow> unit api" where
  "pending_list env us params =
     bind_action (getPendingDomainMembersPromise env params) (\<lambda>ps.
     bind_action (await_all env ps)
       (then_catch
          (\<lambda>values. bind_action
             (lift_result (getPendingDomainMemberData us (nth_value values 0) (nth_value values 1))) (callback JNull))
          (empty_if_missing (JArr []))))"

definition pending_approval_read :: "api_env \<Rightarrow> user_service \<Rightarrow> jsval jsobj \<Rightarrow> unit api" where
  "pending_approval_read env us params =
     bind_action (lift_result (session_username env)) (\<lambda>username.
       pending_list env us (obj_put ''principal'' username params))"

definition pending_approval_domain_read :: "api_env \<Rightarrow> user_service \<Rightarrow> jsval jsobj \<Rightarrow> unit api" where
  "pending_approval_domain_read env us params =
     (if obj_get params ''domainName'' = JNull then callback JNull (JArr []) else pending_list env us params)"

text \<open>\<^verbatim>\<open>v.length\<close>\<close>

definition length_of :: "jsval \<Rightarrow> jsval result" where
  "length_of v =
     (case v of
        JArr vs \<Rightarrow> Inr (JNum (num_of_int (int (length vs))))
      | JStr s \<Rightarrow> Inr (JNum (num_of_int (int (length s))))
      | _ \<Rightarrow> get_prop v ''length'')"

definition pending_count :: "jsval \<Rightarrow> jsval \<Rightarrow> jsval result" where
  "pending_count groups roles =
     bind_result (get_prop roles ''domainRoleMembersList'') (\<lambda>rl.
     bind_result (length_of rl) (\<lambda>r.
     bind_result (get_prop groups ''domainGroupMembersList'') (\<lambda>gl.
     bind_result (length_of gl) (\<lambda>g.
     Inr (js_add (JNum 0) (js_add r g))))))"

definition pending_approval_domain_count_read :: "api_env \<Rightarrow> jsval jsobj \<Rightarrow> unit api" where
  "pending_approval_domain_count_read env params =
     (if obj_get params ''domainName'' = JNull then callback JNull (JNum 0)
      else bind_action (getPendingDomainMembersPromise env params) (\<lambda>ps.
           bind_action (await_all env ps)
             (then_catch
                (\<lambda>values. bind_action (lift_result (pending_count (nth_value values 0) (nth_value values 1))) (callback JNull))
                (empty_if_missing (JNum 0)))))"

end
