(* ===== verification/Ui_Api_Members.thy ===== *)
theory Ui_Api_Members
  imports Ui_Api_Lists
begin

text \<open>
  The services of \<^verbatim>\<open>ui/src/server/handlers/api.js\<close> on the members of roles and groups, with
  the lookups of full names and of the members of the groups in a role, and the deletion of a
  transport rule.
\<close>

section \<open>Full names\<close>

definition with_full_name :: "user_service \<Rightarrow> string \<Rightarrow> string \<Rightarrow> jsval \<Rightarrow> jsval result" where
  "with_full_name us nameProp fullProp item =
     bind_result (get_prop item nameProp) (\<lambda>name.
     bind_result (getUserFullName us name) (\<lambda>full. set_prop fullProp full item))"

definition named_members :: "user_service \<Rightarrow> jsval \<Rightarrow> jsval result" where
  "named_members us = update_items (with_full_name us ''memberName'' ''memberFullName'')"

definition named_audit_log :: "user_service \<Rightarrow> jsval \<Rightarrow> jsval result" where
  "named_audit_log us =
     update_items (\<lambda>m. bind_result (with_full_name us ''member'' ''memberFullName'' m)
                         (with_full_name us ''admin'' ''adminFullName''))"

section \<open>Members of roles\<close>

definition member_multiple_roles_create :: "api_env \<Rightarrow> jsval jsobj \<Rightarrow> unit api" where
  "member_multiple_roles_create env params =
     bind_action (lift_result (array_items (obj_get params ''roles''))) (\<lambda>roles.
     bind_action (promises env settle_answer
       (map (\<lambda>role. zms ''putMembership''
          (JObj [(''domainName'', obj_get params ''domainName''), (''roleName'', role),
                 (''memberName'', obj_get params ''memberName''), (''membership'', obj_get params ''membership''),
                 (''auditRef'', obj_get params ''auditRef'')])) roles)) (\<lambda>ps.
     bind_action (await_all env ps) (then_catch (callback JNull) reply_error)))"

text \<open>Code that goes on after it has answered with the error.\<close>

definition report_error :: "jsval \<Rightarrow> unit api" where
  "report_error err = (if truthy err then reply_error err else ret ())"

definition role_members_read :: "api_env \<Rightarrow> user_service \<Rightarrow> jsval jsobj \<Rightarrow> unit api" where
  "role_members_read env us params =
     bind_action (ask env (zms ''getDomainRoleMembers'' (JObj params))) (\<lambda>(err, data).
     bind_action (report_error err) (\<lambda>_.
     bind_action (lift_result (if truthy data then update_prop ''members'' (named_members us) data else Inr data))
       (callback JNull)))"

text \<open>\<^verbatim>\<open>s.split(sep)\<close> for a separator that is not empty.\<close>

function split_text :: "string \<Rightarrow> string \<Rightarrow> string list" where
  "split_text sep s =
     (case index_of sep s of
        None \<Rightarrow> [s]
      | Some i \<Rightarrow> if sep = [] then [s] else take i s # split_text sep (drop (i + length sep) s))"
  by pat_completeness auto

termination
proof (relation "measure (\<lambda>(sep, s). length s)", goal_cases)
  case (2 sep s i)
  then have "prefix sep (drop i s)" and "sep \<noteq> []"
    using index_of_Some by auto
  then have "drop i s \<noteq> []"
    by (auto simp: prefix_def)
  then show ?case
    using \<open>sep \<noteq> []\<close> by (cases sep) auto
qed simp

declare split_text.simps [simp del]

text \<open>The call that \<^verbatim>\<open>getGroupMembers\<close> makes for a member that is a group.\<close>

definition group_of :: "jsval \<Rightarrow> api_call option result" where
  "group_of member =
     bind_result (get_prop member ''memberName'') (\<lambda>name.
     bind_result (string_of name) (\<lambda>s.
     Inr (case split_text '':group.'' s of
            domainName # groupName # _ \<Rightarrow>
              Some (zms ''getGroup'' (JObj [(''domainName'', JStr domainName), (''groupName'', JStr groupName)]))
          | _ \<Rightarrow> None)))"

text \<open>Its callback: the promise and the member with the members of the group.\<close>

definition group_members_answer ::
  "user_service \<Rightarrow> jsval \<Rightarrow> (jsval \<times> jsval) result \<Rightarrow> (promise \<times> jsval) result" where
  "group_members_answer us member a =
     (case a of
        Inl e \<Rightarrow> Inr (Rejected (exn_val e), member)
      | Inr (err, data) \<Rightarrow>
          bind_result (if truthy data then get_prop data ''groupMembers'' else Inr JUndef) (\<lambda>groupMembers.
          bind_result (if truthy groupMembers
             then bind_result (named_members us groupMembers) (\<lambda>ms. set_prop ''groupMembers'' ms member)
             else Inr member) (\<lambda>member'.
          Inr (if truthy err then Rejected err else Resolved JUndef, member'))))"

text \<open>The members that are groups, looked up; the others as they are.\<close>

fun fill_groups ::
  "user_service \<Rightarrow> (jsval \<times> api_call option) list \<Rightarrow> (jsval \<times> jsval) result list \<Rightarrow> (promise list \<times> jsval list) result" where
  "fill_groups us [] as = Inr ([], [])"
| "fill_groups us ((m, None) # ms) as =
     bind_result (fill_groups us ms as) (\<lambda>(ps, ms'). Inr (ps, m # ms'))"
| "fill_groups us ((m, Some c) # ms) [] = Inr ([], [])"
| "fill_groups us ((m, Some c) # ms) (a # as) =
     bind_result (group_members_answer us m a) (\<lambda>(p, m').
     bind_result (fill_groups us ms as) (\<lambda>(ps, ms'). Inr (p # ps, m' # ms')))"

definition expand_groups :: "api_env \<Rightarrow> user_service \<Rightarrow> jsval list \<Rightarrow> (promise \<times> jsval list) api" where
  "expand_groups env us members =
     bind_action (lift_result (map_result group_of members)) (\<lambda>calls.
     bind_action (issue_all env (List.map_filter id calls)) (\<lambda>as.
     bind_action (lift_result (fill_groups us (zip members calls) as)) (\<lambda>(ps, members').
     bind_action (await_all env ps) (\<lambda>p. ret (p, members')))))"

text \<open>
  What follows the answer to \<^verbatim>\<open>getRole\<close>: full names of the audit log and of the members, then the
  members of the groups among them. \<open>answer\<close> selects what is handed to the callback and \<open>without\<close> is
  handed to it when the role has no members.
\<close>

definition answer_role ::
  "api_env \<Rightarrow> user_service \<Rightarrow> (jsval \<Rightarrow> jsval \<Rightarrow> jsval) \<Rightarrow> (jsval \<Rightarrow> jsval) \<Rightarrow> jsval \<Rightarrow> unit api" where
  "answer_role env us answer without data0 =
     bind_action (lift_result (update_prop ''auditLog'' (named_audit_log us) data0)) (\<lambda>data.
     bind_action (lift_result (get_prop data ''roleMembers'')) (\<lambda>roleMembers.
     if truthy roleMembers
     then bind_action (lift_result (bind_result (named_members us roleMembers) array_items)) (\<lambda>members.
          bind_action (expand_groups env us members) (\<lambda>(p, members').
          bind_action (lift_result (set_prop ''roleMembers'' (JArr members') data)) (\<lambda>data'.
          then_catch (\<lambda>_. callback JNull (answer data' (JArr members'))) reply_error p)))
     else callback JNull (without data)))"

definition role_read :: "api_env \<Rightarrow> user_service \<Rightarrow> jsval jsobj \<Rightarrow> unit api" where
  "role_read env us params =
     bind_action (ask env (zms ''getRole'' (JObj params))) (\<lambda>(err, data).
     bind_action (report_error err) (\<lambda>_.
     if \<not> truthy data then ret ()
     else bind_action (lift_result (get_prop data ''trust'')) (\<lambda>trust.
       if truthy trust
       then bind_action (ask env (zms ''getRole''
              (JObj [(''domainName'', obj_get params ''domainName''), (''roleName'', obj_get params ''roleName''),
                     (''auditLog'', JBool False), (''expand'', JBool True), (''pending'', JBool False)])))
            (\<lambda>(err', data').
            bind_action (report_error err') (\<lambda>_.
            if truthy data' then answer_role env us (\<lambda>d ms. d) (\<lambda>d. d) data' else ret ()))
       else answer_role env us (\<lambda>d ms. d) (\<lambda>d. d) data)))"

section \<open>Members of groups\<close>

definition groups_read :: "api_env \<Rightarrow> jsval jsobj \<Rightarrow> unit api" where
  "groups_read env params =
     bind_action (ask env (zms ''getGroups'' (JObj params))) (\<lambda>(err, data).
     bind_action (report_error err) (\<lambda>_.
     if truthy (obj_get params ''groupName'')
     then let groupName = JStr (js_text (obj_get params ''domainName'') @ '':group.'' @ js_text (obj_get params ''groupName''))
          in bind_action (lift_result (if truthy data then get_prop data ''list'' else Inr JUndef)) (\<lambda>list.
             if truthy list
             then bind_action (lift_result (bind_result (iterate list)
                    (some_result (\<lambda>item. bind_result (get_prop item ''name'') (\<lambda>n. Inr (n = groupName)))))) (\<lambda>found.
                  if found then callback JNull data else pass env ''getGroups'' params)
             else ret ())
     else callback JNull data))"

definition groups_list_read :: "api_env \<Rightarrow> jsval jsobj \<Rightarrow> unit api" where
  "groups_list_read env params =
     bind_action (ask env (zms ''getGroups'' (JObj params))) (\<lambda>(err, data).
     bind_action (report_error err) (\<lambda>_.
     bind_action (lift_result (if truthy data then get_prop data ''list'' else Inr JUndef)) (\<lambda>list.
     bind_action (lift_result (if truthy list
        then bind_result (array_items list) (map_result (\<lambda>item. get_prop item ''name'')) else Inr [])) (\<lambda>newData.
     callback JNull (JArr newData)))))"

definition group_read :: "api_env \<Rightarrow> user_service \<Rightarrow> jsval jsobj \<Rightarrow> unit api" where
  "group_read env us params =
     bind_action (ask env (zms ''getGroup'' (JObj params))) (\<lambda>(err, data).
     bind_action (if truthy err then empty_if_missing (JArr []) err else ret ()) (\<lambda>_.
     bind_action (lift_result (if truthy data then update_prop ''groupMembers'' (named_members us) data else Inr data)) (\<lambda>data1.
     bind_action (lift_result (update_prop ''auditLog'' (named_audit_log us) data1)) (callback JNull))))"

definition role_members_params :: "jsval jsobj \<Rightarrow> bool \<Rightarrow> jsval" where
  "role_members_params params expand =
     JObj [(''domainName'', obj_get params ''domainName''), (''roleName'', obj_get params ''collectionName''),
           (''auditLog'', JBool False), (''pending'', JBool True), (''expand'', JBool expand)]"

text \<open>The members of a role, with the members of a trusted domain when the role is delegated.\<close>

definition collection_role_read :: "api_env \<Rightarrow> user_service \<Rightarrow> jsval jsobj \<Rightarrow> bool \<Rightarrow> unit api" where
  "collection_role_read env us params expand =
     bind_action (ask env (zms ''getRole'' (role_members_params params expand))) (\<lambda>(err, data).
     bind_action (report_error err) (\<lambda>_.
     if truthy data then answer_role env us (\<lambda>d ms. ms) (\<lambda>d. JArr []) data else ret ()))"

definition collection_group_read :: "api_env \<Rightarrow> user_service \<Rightarrow> jsval jsobj \<Rightarrow> unit api" where
  "collection_group_read env us params =
     bind_action (ask env (zms ''getGroup'' (JObj [(''domainName'', obj_get params ''domainName''),
        (''groupName'', obj_get params ''collectionName''), (''auditLog'', JBool False), (''pending'', JBool True)])))
       (\<lambda>(err, data).
     bind_action (report_error err) (\<lambda>_.
     bind_action (lift_result (if truthy data then update_prop ''groupMembers'' (named_members us) data else Inr data)) (\<lambda>data'.
     bind_action (lift_result (get_prop data' ''groupMembers'')) (callback JNull))))"

definition collection_members_read :: "api_env \<Rightarrow> user_service \<Rightarrow> jsval jsobj \<Rightarrow> unit api" where
  "collection_members_read env us params =
     (if obj_get params ''category'' = JStr ''group'' then collection_group_read env us params
      else if obj_get params ''category'' = JStr ''role''
      then collection_role_read env us params (truthy (obj_get params ''trust''))
      else ret ())"

text \<open>The domains of the roles of a principal, each once and in the order they are met.\<close>

definition domain_role_member_read :: "api_env \<Rightarrow> jsval jsobj \<Rightarrow> unit api" where
  "domain_role_member_read env params =
     bind_action (ask env (zms ''getPrincipalRoles'' (JObj params))) (\<lambda>(err, data).
     if truthy data
     then bind_action (lift_result (get_prop data ''memberRoles'')) (\<lambda>memberRoles.
          bind_action (lift_result (if truthy memberRoles
             then bind_result (array_items memberRoles) (map_result (\<lambda>r. get_prop r ''domainName''))
             else Inr [])) (\<lambda>names.
          bind_action (lift_result (set_prop ''prefix''
             (JArr (foldl (\<lambda>acc n. if array_includes acc n then acc else acc @ [n]) [] names)) data))
             (callback JNull)))
     else reply_error err)"

section \<open>Transport rules\<close>

text \<open>An object that is already gone counts as deleted.\<close>

definition deleted_answer :: "jsval \<Rightarrow> jsval \<Rightarrow> promise result" where
  "deleted_answer err json =
     (if truthy err
      then bind_result (get_prop err ''status'') (\<lambda>status.
        Inr (if strict_eq status (JNum (Fin 404)) then Resolved JUndef else Rejected err))
      else Inr (Resolved JUndef))"

definition deleteAssertion :: "api_env \<Rightarrow> jsval \<Rightarrow> jsval \<Rightarrow> jsval \<Rightarrow> jsval \<Rightarrow> promise api" where
  "deleteAssertion env domainName policyName assertionId auditRef =
     one_promise env deleted_answer
       (zms ''deleteAssertion'' (JObj [(''domainName'', domainName), (''policyName'', policyName),
          (''assertionId'', assertionId), (''auditRef'', auditRef)]))"

definition deleteRole :: "api_env \<Rightarrow> jsval \<Rightarrow> jsval \<Rightarrow> jsval \<Rightarrow> promise api" where
  "deleteRole env domainName roleName auditRef =
     one_promise env deleted_answer
       (zms ''deleteRole'' (JObj [(''domainName'', domainName), (''roleName'', roleName),
          (''auditRef'', auditRef)]))"

definition transport_rule_delete :: "api_env \<Rightarrow> jsval jsobj \<Rightarrow> unit api" where
  "transport_rule_delete env params =
     bind_action (deleteAssertion env (obj_get params ''domainName'') (obj_get params ''policyName'')
        (obj_get params ''assertionId'') (obj_get params ''auditRef'')) (\<lambda>p.
     case p of
       Resolved _ \<Rightarrow>
         bind_action (deleteRole env (obj_get params ''domainName'') (obj_get params ''roleName'')
            (obj_get params ''auditRef''))
           (then_catch (\<lambda>_. callback JNull (JArr [])) reply_error)
     | Rejected err \<Rightarrow> reply_error err
     | Pending \<Rightarrow> ret ())"

end
