(* ===== verification/Ui_Microsegmentation.thy ===== *)
theory Ui_Microsegmentation
  imports Ui_Api_Members
begin

text \<open>
  The services of \<^verbatim>\<open>ui/src/server/handlers/api.js\<close> for micro-segmentation: reading the transport
  rules of a domain out of its policies and roles, changing a rule, checking it with the network
  service, and the instances of a service. \<^verbatim>\<open>localeCompare\<close> is 0 exactly for equal strings,
  which holds for strings of printable characters.
\<close>

section \<open>Reading the rules\<close>

text \<open>A rule on its way to the answer: the list it goes to (none when the name of its policy says
  neither direction), its data and the name of its role.\<close>

record seg_row =
  sr_category :: string
  sr_data :: "jsval jsobj"
  sr_roleName :: string

definition nth_text :: "string list \<Rightarrow> nat \<Rightarrow> jsval" where
  "nth_text parts i = (if i < length parts then JStr (parts ! i) else JUndef)"

definition seg_condition :: "jsval \<Rightarrow> jsval \<Rightarrow> jsval \<Rightarrow> jsval result" where
  "seg_condition assertionId policyName condition =
     bind_result (get_prop condition ''conditionsMap'') (\<lambda>cm.
     bind_result (own_members cm) (\<lambda>members.
     bind_result (map_result (\<lambda>(k, v). bind_result (get_prop v ''value'') (\<lambda>x. Inr (k, x))) members) (\<lambda>kvs.
     bind_result (get_prop condition ''id'') (\<lambda>cid.
     Inr (JObj (obj_put ''policyName'' policyName
       (obj_put ''assertionId'' assertionId (obj_put ''id'' cid kvs))))))))"

definition seg_conditions :: "jsval \<Rightarrow> jsval \<Rightarrow> jsval \<Rightarrow> jsval jsobj result" where
  "seg_conditions assertionId policyName conditions =
     (if \<not> truthy conditions then Inr []
      else bind_result (get_prop conditions ''conditionsList'') (\<lambda>list.
           bind_result (array_items list) (\<lambda>items.
           bind_result (map_result (seg_condition assertionId policyName) items) (\<lambda>cs.
           Inr [(''conditionsList'', JArr cs)]))))"

text \<open>\<^verbatim>\<open>params.domainName.length + 6\<close> as the start of a substring.\<close>

definition role_prefix_length :: "jsval \<Rightarrow> nat result" where
  "role_prefix_length domainName =
     (case domainName of
        JStr s \<Rightarrow> Inr (length s + 6)
      | JArr vs \<Rightarrow> Inr (length vs + 6)
      | JUndef \<Rightarrow> Inl (TypeError ''length'')
      | JNull \<Rightarrow> Inl (TypeError ''length'')
      | _ \<Rightarrow> Inr 0)"

definition seg_category :: "string \<Rightarrow> string" where
  "seg_category name =
     (if str_includes name ''inbound'' then ''inbound''
      else if str_includes name ''outbound'' then ''outbound'' else [])"

definition seg_direction :: "string \<Rightarrow> jsval \<Rightarrow> jsval \<Rightarrow> jsval jsobj" where
  "seg_direction category serviceName assertionId =
     (if category = ''inbound''
      then [(''destination_service'', serviceName), (''source_services'', JArr []), (''assertionIdx'', assertionId)]
      else if category = ''outbound''
      then [(''source_service'', serviceName), (''destination_services'', JArr []), (''assertionIdx'', assertionId)]
      else [])"

definition seg_row_of :: "jsval \<Rightarrow> string \<Rightarrow> jsval \<Rightarrow> seg_row result" where
  "seg_row_of domainName name assertionItem =
     (let temp = split_on CHR ''.'' name; serviceName = nth_text temp (length temp - 2);
          category = seg_category name
      in bind_result (get_prop assertionItem ''action'') (\<lambda>act.
         bind_result (string_of act) (\<lambda>a.
         bind_result (get_prop assertionItem ''conditions'') (\<lambda>conditions.
         bind_result (get_prop assertionItem ''id'') (\<lambda>aid.
         bind_result (seg_conditions aid (JStr name) conditions) (\<lambda>cs.
         bind_result (get_prop assertionItem ''role'') (\<lambda>role.
         bind_result (string_of role) (\<lambda>r.
         bind_result (role_prefix_length domainName) (\<lambda>n.
         Inr \<lparr>sr_category = category,
              sr_data = [(''layer'', nth_text (split_on CHR ''-'' a) 0),
                 (''source_port'', nth_text (split_on CHR '':'' a) 1),
                 (''destination_port'', nth_text (split_on CHR '':'' a) 2)] @ cs
                 @ seg_direction category serviceName aid,
              sr_roleName = substring_from r n\<rparr>)))))))))"

text \<open>The role of a rule; the answer arrives later.\<close>

definition seg_role_call :: "jsval jsobj \<Rightarrow> string \<Rightarrow> api_call" where
  "seg_role_call params roleName =
     zms ''getRole'' (JObj [(''domainName'', obj_get params ''domainName''), (''roleName'', JStr roleName),
       (''auditLog'', JBool False), (''pending'', JBool False), (''expand'', JBool False)])"

fun map_action :: "('x \<Rightarrow> ('s, 'y) action) \<Rightarrow> 'x list \<Rightarrow> ('s, 'y list) action" where
  "map_action f [] = ret []"
| "map_action f (x # xs) = bind_action (f x) (\<lambda>y. bind_action (map_action f xs) (\<lambda>ys. ret (y # ys)))"

definition seg_assertion ::
  "api_env \<Rightarrow> jsval jsobj \<Rightarrow> string \<Rightarrow> jsval \<Rightarrow> (seg_row \<times> (jsval \<times> jsval) result) api" where
  "seg_assertion env params name assertionItem =
     bind_action (lift_result (seg_row_of (obj_get params ''domainName'') name assertionItem)) (\<lambda>row.
     bind_action (issue env (seg_role_call params (sr_roleName row))) (\<lambda>a. ret (row, a)))"

definition seg_policy ::
  "api_env \<Rightarrow> jsval jsobj \<Rightarrow> jsval \<Rightarrow> (seg_row \<times> (jsval \<times> jsval) result) list api" where
  "seg_policy env params item =
     bind_action (lift_result (bind_result (get_prop item ''name'') string_of)) (\<lambda>name.
     if starts_with name (js_text (obj_get params ''domainName'') @ '':policy.acl.'')
     then bind_action (lift_result (get_prop item ''assertions'')) (\<lambda>assertions.
          if truthy assertions
          then bind_action (lift_result (array_items assertions)) (map_action (seg_assertion env params name))
          else ret [])
     else ret [])"

text \<open>\<^verbatim>\<open>getIdentifier\<close>: the text after the direction in the name of the role; without it, the name
  less one character fewer than the separator has.\<close>

definition seg_identifier :: "string \<Rightarrow> string \<Rightarrow> string" where
  "seg_identifier roleName category =
     (let substringPrefix = ''.'' @ category @ ''-''
      in case index_of substringPrefix roleName of
           Some i \<Rightarrow> substring_from roleName (i + length substringPrefix)
         | None \<Rightarrow> substring_from roleName (length substringPrefix - 1))"

definition getIdentifier :: "seg_row \<Rightarrow> promise \<times> seg_row" where
  "getIdentifier row =
     (if sr_category row = [] then (Rejected (exn_val (TypeError ''identifier'')), row)
      else (Resolved JUndef, row\<lparr>sr_data := obj_put ''identifier''
              (JStr (seg_identifier (sr_roleName row) (sr_category row))) (sr_data row)\<rparr>))"

definition services_key :: "string \<Rightarrow> string" where
  "services_key category = (if category = ''inbound'' then ''source_services'' else ''destination_services'')"

definition role_services :: "seg_row \<Rightarrow> jsval \<Rightarrow> seg_row result" where
  "role_services row roleMembers =
     bind_result (array_items roleMembers) (\<lambda>ms.
       if sr_category row = [] then Inr row
       else bind_result (map_result (\<lambda>m. get_prop m ''memberName'') ms) (\<lambda>names.
            Inr (row\<lparr>sr_data := obj_put (services_key (sr_category row)) (JArr names) (sr_data row)\<rparr>)))"

text \<open>The callback of \<^verbatim>\<open>getRole\<close>.\<close>

definition seg_role_answer :: "seg_row \<Rightarrow> (jsval \<times> jsval) result \<Rightarrow> (promise \<times> seg_row) result" where
  "seg_role_answer row a =
     (case a of
        Inl e \<Rightarrow> Inr (Rejected (exn_val e), row)
      | Inr (err, data) \<Rightarrow>
          if truthy data
          then bind_result (get_prop data ''roleMembers'') (\<lambda>roleMembers.
               bind_result (if truthy roleMembers then role_services row roleMembers else Inr row) (\<lambda>row'.
               Inr (Resolved JUndef, row')))
          else Inr (if truthy err then Rejected err else Pending, row))"

definition seg_settle :: "seg_row \<times> (jsval \<times> jsval) result \<Rightarrow> (promise list \<times> seg_row) result" where
  "seg_settle ra =
     (let (q, row) = getIdentifier (fst ra)
      in bind_result (seg_role_answer row (snd ra)) (\<lambda>(p, row'). Inr ([p, q], row')))"

definition seg_json :: "seg_row list \<Rightarrow> jsval" where
  "seg_json rows =
     JObj (map (\<lambda>c. (c, JArr (map (\<lambda>r. JObj (sr_data r)) (filter (\<lambda>r. sr_category r = c) rows))))
       [''inbound'', ''outbound''])"

text \<open>The error of the first call is handed to a property of the service that does not exist.\<close>

definition microsegmentation_read :: "api_env \<Rightarrow> jsval jsobj \<Rightarrow> unit api" where
  "microsegmentation_read env params =
     bind_action (ask env (zms ''getPolicies''
        (JObj [(''domainName'', obj_get params ''domainName''), (''assertions'', JBool True)]))) (\<lambda>(err, data).
     if truthy err then throw (TypeError ''callback'')
     else bind_action (lift_result (array_prop data ''list'')) (\<lambda>list.
          bind_action (map_action (seg_policy env params) (case list of Some items \<Rightarrow> items | None \<Rightarrow> [])) (\<lambda>found.
          bind_action (lift_result (map_result seg_settle (concat found))) (\<lambda>settled.
          bind_action (await_all env (concat (map fst settled)))
            (then_catch (\<lambda>_. callback JNull (seg_json (map snd settled))) reply_error)))))"

section \<open>Changing a rule\<close>

record seg_names =
  sn_roleName :: string
  sn_policyName :: string
  sn_resourceName :: string
  sn_action :: string
  sn_members :: jsval

definition seg_names_of :: "jsval \<Rightarrow> jsval jsobj \<Rightarrow> seg_names" where
  "seg_names_of domainName data =
     (let field = (\<lambda>k. js_text (obj_get data k));
          names = (\<lambda>service members direction mark.
            \<lparr>sn_roleName = ''acl.'' @ field service @ direction @ ''-'' @ field ''identifier'',
             sn_policyName = ''acl.'' @ field service @ direction,
             sn_resourceName = js_text domainName @ '':'' @ field service,
             sn_action = field ''layer'' @ mark @ field ''source_port'' @ '':'' @ field ''destination_port'',
             sn_members = obj_get data members\<rparr>)
      in if obj_get data ''category'' = JStr ''inbound''
         then names ''destination_service'' ''source_services'' ''.inbound'' ''-IN:''
         else names ''source_service'' ''destination_services'' ''.outbound'' ''-OUT:'')"

definition seg_role_put :: "jsval \<Rightarrow> seg_names \<Rightarrow> api_call" where
  "seg_role_put domainName sn =
     zms ''putRole'' (JObj [(''domainName'', domainName), (''roleName'', JStr (sn_roleName sn)),
       (''role'', JObj [(''name'', JStr (sn_roleName sn)), (''members'', sn_members sn)]),
       (''auditRef'', JStr ''Updated using MicroSegmentation UI'')])"

definition seg_policy_key :: "jsval \<Rightarrow> seg_names \<Rightarrow> jsval jsobj" where
  "seg_policy_key domainName sn = [(''domainName'', domainName), (''policyName'', JStr (sn_policyName sn))]"

definition seg_new_assertion :: "jsval \<Rightarrow> seg_names \<Rightarrow> jsval" where
  "seg_new_assertion domainName sn =
     JObj [(''role'', JStr (js_text domainName @ '':role.'' @ sn_roleName sn)),
       (''resource'', JStr (sn_resourceName sn)), (''effect'', JStr ''ALLOW''),
       (''action'', JStr (sn_action sn)), (''caseSensitive'', JBool True)]"

definition assertion_exists_error :: jsval where
  "assertion_exists_error =
     JObj [(''status'', JStr ''500''),
       (''message'', JObj [(''message'', JStr ''Policy with the assertion already exists'')])]"

text \<open>The callback that looks for an assertion with the new action.\<close>

definition seg_policy_answer :: "seg_names \<Rightarrow> jsval \<Rightarrow> jsval \<Rightarrow> promise result" where
  "seg_policy_answer sn err data =
     (if truthy err then Inr (Rejected err)
      else bind_result (get_prop data ''assertions'') (\<lambda>assertions.
           bind_result (array_items assertions) (\<lambda>items.
           bind_result (map_result (\<lambda>el. bind_result (get_prop el ''action'') string_of) items) (\<lambda>actions.
           Inr (if sn_action sn \<in> set actions then Rejected assertion_exists_error else Resolved data)))))"

definition replace_assertion :: "api_env \<Rightarrow> jsval \<Rightarrow> jsval jsobj \<Rightarrow> seg_names \<Rightarrow> jsval \<Rightarrow> promise api" where
  "replace_assertion env domainName data sn finalData =
     bind_action (one_promise env (seg_policy_answer sn) (zms ''getPolicy'' (JObj (seg_policy_key domainName sn))))
     (then_promise (\<lambda>_.
     bind_action (one_promise env settle_answer (zms ''putAssertion''
        (JObj (seg_policy_key domainName sn @ [(''assertion'', seg_new_assertion domainName sn)]))))
     (then_promise (\<lambda>added.
     case get_prop added ''id'' of
       Inl e \<Rightarrow> ret (Rejected (exn_val e))
     | Inr newId \<Rightarrow>
         bind_action (one_promise env settle_answer (zms ''putAssertionConditions''
            (JObj (seg_policy_key domainName sn @ [(''assertionId'', newId), (''assertionConditions'', finalData)]))))
         (then_promise (\<lambda>_.
         one_promise env settle_answer (zms ''deleteAssertion''
            (JObj (seg_policy_key domainName sn @ [(''assertionId'', obj_get data ''assertionIdx'')])))))))))"

definition replace_conditions :: "api_env \<Rightarrow> jsval \<Rightarrow> jsval jsobj \<Rightarrow> seg_names \<Rightarrow> jsval \<Rightarrow> promise api" where
  "replace_conditions env domainName data sn finalData =
     bind_action (one_promise env settle_answer (zms ''deleteAssertionConditions''
        (JObj (seg_policy_key domainName sn @ [(''assertionId'', obj_get data ''assertionIdx'')]))))
     (then_promise (\<lambda>_.
     one_promise env settle_answer (zms ''putAssertionConditions''
        (JObj (seg_policy_key domainName sn
          @ [(''assertionId'', obj_get data ''assertionIdx''), (''assertionConditions'', finalData)])))))"

definition role_put_answer :: "jsval \<Rightarrow> jsval \<Rightarrow> promise result" where
  "role_put_answer err json = Inr (if truthy err then Rejected err else Resolved JUndef)"

definition enforced_key :: "string \<Rightarrow> bool" where
  "enforced_key k \<longleftrightarrow> k = ''enforcementstate'' \<or> k = ''instances''"

text \<open>\<^verbatim>\<open>params.data[k]\<close>: a value that is not an object has none of the members that are read.\<close>

definition params_data :: "jsval jsobj \<Rightarrow> jsval jsobj result" where
  "params_data params =
     (case obj_get params ''data'' of
        JUndef \<Rightarrow> Inl (TypeError ''category'')
      | JNull \<Rightarrow> Inl (TypeError ''category'')
      | JObj kvs \<Rightarrow> Inr kvs
      | _ \<Rightarrow> Inr [])"

definition microsegmentation_update :: "api_env \<Rightarrow> jsval jsobj \<Rightarrow> unit api" where
  "microsegmentation_update env params =
     bind_action (lift_result (params_data params)) (\<lambda>data.
     let domainName = obj_get params ''domainName'';
         sn = seg_names_of domainName data;
         assertionChanged = truthy (obj_get params ''assertionChanged'');
         conditionChanged = truthy (obj_get params ''assertionConditionChanged'')
     in bind_action (lift_result (if assertionChanged \<or> conditionChanged
           then conditions_list enforced_key (obj_get data ''conditionsList'') else Inr JUndef)) (\<lambda>finalData.
        bind_action (if truthy (obj_get params ''roleChanged'')
           then bind_action (one_promise env role_put_answer (seg_role_put domainName sn)) (\<lambda>p. ret [p])
           else ret []) (\<lambda>ps.
        bind_action (if assertionChanged
           then bind_action (replace_assertion env domainName data sn finalData) (\<lambda>p. ret [p])
           else if conditionChanged
           then bind_action (replace_conditions env domainName data sn finalData) (\<lambda>p. ret [p])
           else ret []) (\<lambda>qs.
        bind_action (await_all env (ps @ qs)) (then_catch (callback JNull) reply_error)))))"

section \<open>Checking a rule\<close>

definition port_of :: "jsval \<Rightarrow> string \<Rightarrow> jsval" where
  "port_of protocol ports =
     (let port = split_on CHR ''-'' ports
      in JObj [(''port'', nth_text port 0), (''endPort'', nth_text port 1), (''protocol'', protocol)])"

definition athenz_service :: "jsval \<Rightarrow> jsval result" where
  "athenz_service member =
     bind_result (get_prop member ''memberName'') (\<lambda>name.
     bind_result (string_of name) (\<lambda>memberName.
     Inr (case last_index_of CHR ''.'' memberName of
            Some i \<Rightarrow> JObj [(''domainName'', JStr (substring memberName 0 i)),
              (''serviceName'', JStr (substring_from memberName (i + 1)))]
          | None \<Rightarrow> JObj [(''domainName'', JStr []), (''serviceName'', JStr memberName)])))"

definition transport_policy :: "jsval jsobj \<Rightarrow> jsval result" where
  "transport_policy params =
     (let inbound = (obj_get params ''category'' = JStr ''inbound'');
          ownPort = obj_get params (if inbound then ''destinationPort'' else ''sourcePort'');
          peerPort = obj_get params (if inbound then ''sourcePort'' else ''destinationPort'');
          service = obj_get params (if inbound then ''inboundDestinationService'' else ''outboundSourceService'');
          protocol = obj_get params ''protocol''
      in bind_result (string_of ownPort) (\<lambda>own.
         bind_result (string_of peerPort) (\<lambda>peers.
         bind_result (loop_items (obj_get params ''roleMembers'')) (\<lambda>members.
         bind_result (map_result athenz_service members) (\<lambda>athenzServices.
         Inr (JObj
           [(''entitySelector'', JObj
               [(''match'', JObj [(''athenzService'', JObj [(''domainName'', obj_get params ''domainName''),
                    (''serviceName'', service)]), (''conditions'', JArr [])]),
                (''ports'', JArr [port_of protocol own])]),
            (''peer'', JObj [(''athenzServices'', JArr athenzServices),
               (''ports'', JArr (map (port_of protocol) (split_on CHR '','' peers)))]),
            (''trafficDirection'', JStr (if inbound then ''INGRESS'' else ''EGRESS''))]))))))"

definition validateMicrosegmentation_read :: "api_env \<Rightarrow> jsval jsobj \<Rightarrow> unit api" where
  "validateMicrosegmentation_read env params =
     bind_action (lift_result (transport_policy params)) (\<lambda>transportPolicy.
     bind_action (ask env (msd ''validateTransportPolicy'' (JObj [(''transportPolicy'', transportPolicy)]))) (\<lambda>(err, data).
     if truthy err then reply_error err else callback JNull data))"

section \<open>Instances\<close>

text \<open>An empty \<^verbatim>\<open>Map\<close> is sent as an empty object.\<close>

definition instances_read :: "api_env \<Rightarrow> jsval jsobj \<Rightarrow> unit api" where
  "instances_read env params =
     bind_action (ask env (msd ''getWorkloadsByService''
        (JObj (pick_params params [(''domainName'', ''domainName''), (''serviceName'', ''serviceName'')])))) (\<lambda>(err, data).
     if truthy data
     then bind_action (lift_result (get_prop data ''dynamicWorkloadList'')) (\<lambda>dynamicList.
          bind_action (lift_result (get_prop data ''staticWorkloadList'')) (\<lambda>staticList.
          let static = (obj_get params ''category'' = JStr ''static'')
          in callback JNull
               (if truthy dynamicList \<and> \<not> static then dynamicList
                else if truthy staticList \<and> static then staticList else JObj [])))
     else reply_error err)"

section \<open>The layout of the graph\<close>

definition graph_layout_update :: "api_env \<Rightarrow> jsval jsobj \<Rightarrow> unit api" where
  "graph_layout_update env params =
     bind_action (lift_result (ae_layout env (obj_get params ''elements'') (obj_get params ''style''))) (\<lambda>nodes.
       callback JNull (JObj (fold (\<lambda>(i, position). obj_put i position) nodes [])))"

end
