(* ===== verification/Ui_Services.thy ===== *)
theory Ui_Services
  imports Ui_Microsegmentation
begin

text \<open>
  The services that \<^verbatim>\<open>ui/src/server/handlers/api.js\<close> registers, as one table, and what holds
  of all of them: an operation calls only methods of its kind, and an operation that changes
  something is answered once.
\<close>

section \<open>The table\<close>

datatype operation = Read | Create | Update | Delete

definition service_table ::
  "api_env \<Rightarrow> app_config \<Rightarrow> user_service \<Rightarrow> jsval jsobj \<Rightarrow> (string \<times> operation \<times> unit api) list" where
  "service_table env app us params =
     [(''assertion'', Create, assertion_create env params),
      (''assertion'', Delete, assertion_delete env params),
      (''assertion-version'', Create, assertion_version_create env params),
      (''assertion-version'', Delete, assertion_version_delete env params),
      (''assertionConditions'', Create, assertionConditions_create env params),
      (''assertionCondition'', Delete, assertionCondition_delete env params),
      (''domain'', Read, domain_read env params),
      (''domain'', Create, domain_create env app params),
      (''domain'', Delete, domain_delete env params),
      (''domain-templates'', Read, domain_templates_read env params),
      (''domain-templates'', Create, domain_templates_create env params),
      (''templates'', Read, templates_read env (JObj params)),
      (''admin-domains'', Read, admin_domains_read env params),
      (''domain-list'', Read, domain_list_read env params),
      (''all-domain-list'', Read, all_domain_list_read env params),
      (''get-form'', Read, get_form_read env),
      (''get-service-host'', Read, get_service_host_read env params),
      (''member'', Create, member_create env params),
      (''member'', Delete, member_delete env params),
      (''pending-member'', Delete, pending_member_delete env params),
      (''member-multiple-roles'', Create, member_multiple_roles_create env params),
      (''role-members'', Read, role_members_read env us params),
      (''role-members'', Delete, role_members_delete env params),
      (''policies'', Read, policies_read env params),
      (''policies-versions'', Read, policies_versions_read env params),
      (''policy'', Read, policy_read env params),
      (''policy'', Create, policy_create env params),
      (''policy'', Delete, policy_delete env params),
      (''policy-version'', Create, policy_version_create env params),
      (''policy-version'', Read, policy_version_read env params),
      (''policy-version'', Update, policy_version_update env params),
      (''policy-version'', Delete, policy_version_delete env params),
      (''assertionId'', Read, assertionId_read env params),
      (''process-pending'', Create, process_pending_create env params),
      (''provider'', Read, provider_read env app params),
      (''provider'', Create, provider_create env params),
      (''auth-options'', Read, auth_options_read app),
      (''prefix'', Read, prefix_read app),
      (''role'', Read, role_read env us params),
      (''role'', Create, role_create env params),
      (''role'', Delete, role_delete env params),
      (''role'', Update, role_update env params),
      (''meta'', Create, meta_create env params),
      (''meta'', Read, meta_read env params),
      (''roles'', Read, roles_read env params),
      (''groups'', Read, groups_read env params),
      (''role-list'', Read, role_list_read env params),
      (''groups-list'', Read, groups_list_read env params),
      (''add-service-host'', Update, add_service_host_update env params),
      (''pending-approval'', Read, pending_approval_read env us params),
      (''pending-approval-domain'', Read, pending_approval_domain_read env us params),
      (''pending-approval-domain-count'', Read, pending_approval_domain_count_read env params),
      (''services'', Read, services_read env params),
      (''search-domain'', Read, search_domain_read env params),
      (''service'', Read, service_read env params),
      (''service'', Create, service_create env params),
      (''service'', Delete, service_delete env params),
      (''key'', Create, key_create env params),
      (''key'', Delete, key_delete env params),
      (''status'', Read, api_status_read),
      (''user'', Read, user_read env),
      (''domain-history'', Read, domain_history_read (Some domainHistoryApi)),
      (''group'', Read, group_read env us params),
      (''group'', Create, group_create env params),
      (''group'', Delete, group_delete env params),
      (''group'', Update, group_update env params),
      (''collection-members'', Read, collection_members_read env us params),
      (''domain-role-member'', Read, domain_role_member_read env params),
      (''header-details'', Read, header_details_read env app),
      (''service-header-details'', Read, service_header_details_read app),
      (''service-page-config'', Read, service_page_config_read app),
      (''feature-flag'', Read, feature_flag_read app),
      (''page-feature-flag'', Read, page_feature_flag_read app params),
      (''microsegmentation'', Read, microsegmentation_read env params),
      (''microsegmentation'', Update, microsegmentation_update env params),
      (''validateMicrosegmentation'', Read, validateMicrosegmentation_read env params),
      (''instances'', Read, instances_read env params),
      (''graph-layout'', Update, graph_layout_update env params),
      (''authority'', Read, authority_read env params),
      (''transport-rule'', Delete, transport_rule_delete env params)]"

section \<open>The methods an action calls\<close>

text \<open>An action that only adds calls with a property, whether it returns or throws.\<close>

definition only_calls :: "(api_call \<Rightarrow> bool) \<Rightarrow> api_call list \<Rightarrow> api_world \<Rightarrow> bool" where
  "only_calls P base w \<longleftrightarrow> (\<exists>cs. aw_calls w = base @ cs \<and> (\<forall>c\<in>set cs. P c))"

definition calls :: "(api_call \<Rightarrow> bool) \<Rightarrow> 'a api \<Rightarrow> bool" where
  "calls P m \<longleftrightarrow> (\<forall>base. keeps (only_calls P base) m)"

named_theorems calls_rules "rules that bound the calls of an action"

lemma callsD:
  assumes "calls P m" and "m w = (r, w')"
  shows "\<exists>cs. aw_calls w' = aw_calls w @ cs \<and> (\<forall>c\<in>set cs. P c)"
proof -
  have "only_calls P (aw_calls w) w"
    by (simp add: only_calls_def)
  then have "only_calls P (aw_calls w) w'"
    using assms keepsD unfolding calls_def by metis
  then show ?thesis
    by (simp add: only_calls_def)
qed

lemma calls_prim [calls_rules]:
  "calls P (ret x)" "calls P (throw e)" "calls P (lift_result q)" "calls P (read_state f)"
  by (simp_all add: calls_def keeps_prim)

lemma calls_bind [calls_rules]:
  "calls P m \<Longrightarrow> (\<And>x. calls P (f x)) \<Longrightarrow> calls P (bind_action m f)"
  by (simp add: calls_def keeps_bind)

lemma calls_if [calls_rules]: "calls P m \<Longrightarrow> calls P n \<Longrightarrow> calls P (if b then m else n)"
  by simp

lemma calls_callback [calls_rules]: "calls P (callback e d)"
  unfolding calls_def callback_def by (auto intro!: keeps_update simp: only_calls_def)

lemma calls_issue [calls_rules]: "P c \<Longrightarrow> calls P (issue env c)"
  unfolding calls_def issue_def
  by (intro allI keeps_bind keeps_update keeps_rules) (auto simp: only_calls_def)

lemma calls_let [calls_rules]: "(\<And>x. calls P (f x)) \<Longrightarrow> calls P (Let v f)"
  by simp

lemma calls_cases [calls_rules]:
  "calls P m \<Longrightarrow> (\<And>x. calls P (f x)) \<Longrightarrow> calls P (case v of None \<Rightarrow> m | Some x \<Rightarrow> f x)"
  "(\<And>x y. calls P (p x y)) \<Longrightarrow> calls P (case q of (x, y) \<Rightarrow> p x y)"
  "(\<And>x. calls P (g x)) \<Longrightarrow> (\<And>y. calls P (h y)) \<Longrightarrow> calls P (case s of Inl x \<Rightarrow> g x | Inr y \<Rightarrow> h y)"
  "(\<And>x. calls P (i x)) \<Longrightarrow> (\<And>y. calls P (j y)) \<Longrightarrow> calls P k \<Longrightarrow>
     calls P (case pr of Resolved x \<Rightarrow> i x | Rejected y \<Rightarrow> j y | Pending \<Rightarrow> k)"
  by (simp_all split: option.splits prod.splits sum.splits promise.splits)

lemma calls_catch: 
  assumes "calls P m" and "\<And>e. calls P (g e)"
  shows "calls P (catch_exn g m)"
  unfolding calls_def keeps_def
proof (intro allI impI)
  fix base w r w'
  assume w: "only_calls P base w" "catch_exn g m w = (r, w')"
  obtain q w1 where q: "m w = (q, w1)"
    by force
  have w1: "only_calls P base w1"
    using assms(1) q w(1) unfolding calls_def by (metis keepsD)
  show "only_calls P base w'"
  proof (cases q)
    case (Inl e)
    then have "g (exn_val e) w1 = (r, w')"
      using w(2) q by (simp add: catch_exn_def)
    then show ?thesis
      using assms(2) w1 unfolding calls_def by (metis keepsD)
  next
    case (Inr u)
    then show ?thesis
      using w(2) q w1 by (simp add: catch_exn_def)
  qed
qed

lemma calls_then_catch [calls_rules]:
  "(\<And>v. calls P (f v)) \<Longrightarrow> (\<And>e. calls P (g e)) \<Longrightarrow> calls P (then_catch f g p)"
  unfolding then_catch_def by (intro calls_rules calls_catch)

lemma calls_then_promise [calls_rules]: "(\<And>v. calls P (f v)) \<Longrightarrow> calls P (then_promise f p)"
  unfolding then_promise_def by (intro calls_rules)

lemma calls_map_action [calls_rules]: "(\<And>x. calls P (f x)) \<Longrightarrow> calls P (map_action f xs)"
  by (induction xs) (auto intro!: calls_rules)

lemma calls_issue_all [calls_rules]: "(\<And>c. c \<in> set cs \<Longrightarrow> P c) \<Longrightarrow> calls P (issue_all env cs)"
  by (induction cs) (auto intro!: calls_rules)

lemma calls_ask [calls_rules]: "P c \<Longrightarrow> calls P (ask env c)"
  unfolding ask_def by (intro calls_rules)

lemma calls_promises [calls_rules]: "(\<And>c. c \<in> set cs \<Longrightarrow> P c) \<Longrightarrow> calls P (promises env cb cs)"
  unfolding promises_def by (intro calls_rules) auto

lemma calls_one_promise [calls_rules]: "P c \<Longrightarrow> calls P (one_promise env cb c)"
  unfolding one_promise_def by (intro calls_rules)

lemma calls_replies [calls_rules]:
  "calls P (await_all env ps)" "calls P (reply_error e)" "calls P (responseHandler e d)"
  "calls P (report_error e)" "calls P (empty_if_missing nothing e)"
  unfolding await_all_def reply_error_def responseHandler_def report_error_def empty_if_missing_def
  by (auto intro!: calls_rules)

lemma calls_forward [calls_rules]:
  "P c \<Longrightarrow> calls P (forward_to env c)" "P (zms meth (JObj params)) \<Longrightarrow> calls P (pass env meth params)"
  unfolding pass_def forward_to_def by (intro calls_rules; assumption)+

section \<open>Operations keep to their kind\<close>

definition reading :: "api_call \<Rightarrow> bool" where
  "reading c \<longleftrightarrow> starts_with (ac_method c) ''get''
     \<or> ac_client c = Msd \<and> ac_method c = ''validateTransportPolicy''"

definition deleting :: "api_call \<Rightarrow> bool" where
  "deleting c \<longleftrightarrow> starts_with (ac_method c) ''delete''"

definition kind_of :: "operation \<Rightarrow> api_call \<Rightarrow> bool" where
  "kind_of oper = (if oper = Read then reading else deleting)"

lemma kind_of_call [simp]:
  "reading (zms m d) \<longleftrightarrow> starts_with m ''get''"
  "reading \<lparr>ac_client = Zms, ac_method = m, ac_data = None\<rparr> \<longleftrightarrow> starts_with m ''get''"
  "reading (msd m d) \<longleftrightarrow> starts_with m ''get'' \<or> m = ''validateTransportPolicy''"
  "deleting (zms m d) \<longleftrightarrow> starts_with m ''delete''"
  by (auto simp: reading_def deleting_def zms_def msd_def)

lemma starts_with_Cons [simp]:
  "starts_with (c # s) (d # p) \<longleftrightarrow> c = d \<and> starts_with s p" "starts_with s []"
  by (auto simp: starts_with_def)

lemma calls_bind_result: "(\<And>x. q = Inr x \<Longrightarrow> calls P (f x)) \<Longrightarrow> calls P (bind_action (lift_result q) f)"
  by (cases q) (auto simp: calls_def keeps_def)

lemma calls_pure_reads [calls_rules]:
  "calls P (get_form_read env)" "calls P (auth_options_read app)" "calls P (prefix_read app)"
  "calls P api_status_read" "calls P (user_read env)" "calls P (header_details_read env app)"
  "calls P (service_header_details_read app)" "calls P (service_page_config_read app)"
  "calls P (feature_flag_read app)" "calls P (page_feature_flag_read app params)"
  "calls P (domain_history_read (Some domainHistoryApi))"
  by (auto intro!: calls_rules simp: get_form_read_def auth_options_read_def prefix_read_def
      api_status_read_def user_read_def header_details_read_def service_header_details_read_def
      service_page_config_read_def feature_flag_read_def page_feature_flag_read_def
      domain_history_read_def domainHistoryApi_def Let_def)

lemma reads_passed [calls_rules]:
  "calls reading (domain_read env params)" "calls reading (domain_templates_read env params)"
  "calls reading (get_service_host_read env params)" "calls reading (policy_read env params)"
  "calls reading (policy_version_read env params)" "calls reading (roles_read env params)"
  "calls reading (role_list_read env params)" "calls reading (service_read env params)"
  "calls reading (meta_read env params)" "calls reading (authority_read env params)"
  by (auto intro!: calls_rules simp: domain_read_def domain_templates_read_def get_service_host_read_def
      policy_read_def policy_version_read_def roles_read_def role_list_read_def service_read_def
      meta_read_def authority_read_def)

lemma reads_of_domains [calls_rules]:
  "calls reading (templates_read env v)" "calls reading (admin_domains_read env params)"
  "calls reading (domain_list_read env params)" "calls reading (all_domain_list_read env params)"
  "calls reading (search_domain_read env params)"
  unfolding templates_read_def admin_domains_read_def domain_list_read_def all_domain_list_read_def
    search_domain_read_def
  by (intro calls_rules; auto)+

lemma calls_sorted_list [calls_rules]:
  "starts_with meth ''get'' \<Longrightarrow> calls reading (sorted_list_read env meth params)"
  unfolding sorted_list_read_def by (intro calls_rules; auto)

lemma calls_retry [calls_rules]: "calls reading (retryGetPolicy env params n)"
  by (induction n) (simp_all only: retryGetPolicy.simps, (intro calls_rules; simp)+)

lemma reads_of_policies [calls_rules]:
  "calls reading (policies_read env params)" "calls reading (policies_versions_read env params)"
  "calls reading (services_read env params)" "calls reading (assertionId_read env params)"
  "calls reading (provider_read env app params)"
  unfolding policies_read_def policies_versions_read_def services_read_def assertionId_read_def
    provider_read_def Let_def
  by (intro calls_rules; auto)+

lemma calls_pending [calls_rules]:
  "calls reading (getPendingDomainMembersPromise env params)"
  unfolding getPendingDomainMembersPromise_def by (intro calls_rules) auto

lemma reads_of_approvals [calls_rules]:
  "calls reading (pending_list env us params)"
  "calls reading (pending_approval_read env us params)" "calls reading (pending_approval_domain_read env us params)"
  "calls reading (pending_approval_domain_count_read env params)"
  unfolding pending_approval_read_def pending_approval_domain_read_def pending_approval_domain_count_read_def
    pending_list_def
  by (intro calls_rules)+

lemma group_of_reads: "group_of m = Inr (Some c) \<Longrightarrow> reading c"
  unfolding group_of_def bind_result_Inr_iff by (elim exE conjE) (auto split: list.split_asm)

lemma calls_expand_groups [calls_rules]: "calls reading (expand_groups env us members)"
  unfolding expand_groups_def
proof (rule calls_bind_result, intro calls_rules)
  fix cs c
  assume "map_result group_of members = Inr cs" and "c \<in> set (List.map_filter id cs)"
  then show "reading c"
    using map_result_set group_of_reads by (fastforce simp: List.map_filter_def)
qed

lemma calls_answer_role [calls_rules]: "calls reading (answer_role env us sel without data)"
  unfolding answer_role_def by (intro calls_rules)

lemma reads_of_members [calls_rules]:
  "calls reading (role_members_read env us params)" "calls reading (role_read env us params)"
  "calls reading (groups_read env params)" "calls reading (groups_list_read env params)"
  "calls reading (group_read env us params)" "calls reading (domain_role_member_read env params)"
  unfolding role_members_read_def role_read_def groups_read_def groups_list_read_def group_read_def
    domain_role_member_read_def
  by (intro calls_rules; simp)+

lemma calls_collection [calls_rules]: "calls reading (collection_members_read env us params)"
  unfolding collection_members_read_def collection_group_read_def collection_role_read_def
  by (intro calls_rules; simp)

lemma reads_of_segments [calls_rules]:
  "calls reading (microsegmentation_read env params)" "calls reading (validateMicrosegmentation_read env params)"
  "calls reading (instances_read env params)"
  unfolding microsegmentation_read_def seg_policy_def seg_assertion_def seg_role_call_def
    validateMicrosegmentation_read_def instances_read_def
  by (intro calls_rules; simp)+

lemma deletes_passed [calls_rules]:
  "calls deleting (assertion_delete env params)" "calls deleting (assertion_version_delete env params)"
  "calls deleting (assertionCondition_delete env params)" "calls deleting (domain_delete env params)"
  "calls deleting (pending_member_delete env params)" "calls deleting (role_members_delete env params)"
  "calls deleting (policy_delete env params)" "calls deleting (policy_version_delete env params)"
  "calls deleting (role_delete env params)" "calls deleting (service_delete env params)"
  "calls deleting (key_delete env params)" "calls deleting (group_delete env params)"
  "calls deleting (member_delete env params)"
  by (auto intro!: calls_rules simp: assertion_delete_def assertion_version_delete_def
      assertionCondition_delete_def domain_delete_def pending_member_delete_def role_members_delete_def
      policy_delete_def policy_version_delete_def role_delete_def service_delete_def key_delete_def
      group_delete_def member_delete_def)

lemma delete_of_rule [calls_rules]: "calls deleting (transport_rule_delete env params)"
  unfolding transport_rule_delete_def deleteAssertion_def deleteRole_def
  by (intro calls_rules; simp)

lemma table_kinds:
  "(name, oper, h) \<in> set (service_table env app us params) \<Longrightarrow> oper = Read \<or> oper = Delete \<Longrightarrow> calls (kind_of oper) h"
  unfolding service_table_def kind_of_def
  by (elim disjE; simp only: set_simps insert_iff empty_iff prod.inject operation.distinct simp_thms;
      elim disjE conjE; simp only: if_True if_False operation.distinct simp_thms; intro calls_rules)

text \<open>
  C7. Whatever the back ends answer, a service's read operation calls only methods that read, and
  a delete operation only methods that delete; this covers every service the console's server
  registers, and also a run that ends with an exception.
\<close>

theorem operations_keep_to_their_kind:
  assumes "(name, oper, h) \<in> set (service_table env app us params)"
    and "oper = Read \<or> oper = Delete" and "h w = (r, w')"
  shows "\<exists>cs. aw_calls w' = aw_calls w @ cs \<and> (\<forall>c\<in>set cs. kind_of oper c)"
  using table_kinds [OF assms(1,2)] assms(3) by (rule callsD)

text \<open>A back end for examples: ZMS knows no policy and answers anything else with an empty object.\<close>

definition demo_api :: api_env where
  "demo_api =
     \<lparr>ae_ask = (\<lambda>cs. if ac_method (last cs) = ''getPolicy''
         then Inr (JObj [(''status'', JNum (Fin 404)), (''message'', JObj [(''message'', JStr ''not found'')])], JNull)
         else Inr (JNull, JObj [])),
      ae_first = (\<lambda>cs. 0), ae_sort = (\<lambda>gt vs. vs), ae_shortId = JStr ''jane'', ae_csrfToken = JStr ''token'',
      ae_layout = (\<lambda>elements style. Inr [])\<rparr>"

definition demo_app :: app_config where
  "demo_app = \<lparr>cf_athenzDomainService = JStr ''athenz.ui'', cf_userData = (\<lambda>v. JObj []), cf_headerLinks = JArr [],
     cf_allProviders = JArr [], cf_createDomainMessage = JStr [], cf_servicePageConfig = JObj [],
     cf_productMasterLink = JObj [], cf_allPrefixes = JArr [], cf_zmsLoginUrl = JStr [], cf_featureFlag = JBool True,
     cf_pageFeatureFlag = [], cf_serviceHeaderLinks = [], cf_templates = JArr []\<rparr>"

definition no_world :: api_world where
  "no_world = \<lparr>aw_calls = [], aw_replies = []\<rparr>"

theorem operations_keep_to_their_kind_witness:
  "\<exists>cs. aw_calls (snd (transport_rule_delete demo_api [] no_world)) = aw_calls no_world @ cs
     \<and> (\<forall>c\<in>set cs. kind_of Delete c)"
  by (rule operations_keep_to_their_kind [where name = "''transport-rule''" and oper = Delete
        and env = demo_api and app = demo_app and us = user_service_init and params = "[]"
        and h = "transport_rule_delete demo_api []" and r = "fst (transport_rule_delete demo_api [] no_world)"])
     (simp_all add: service_table_def)

section \<open>Answers\<close>

text \<open>An action that, when it returns, has called the callback a number of times.\<close>

definition answers :: "nat \<Rightarrow> 'a api \<Rightarrow> bool" where
  "answers n m \<longleftrightarrow> (\<forall>w x w'. m w = (Inr x, w') \<longrightarrow> length (aw_replies w') = length (aw_replies w) + n)"

named_theorems answers_rules "rules that count the answers of an action"

lemma answersD: "answers n m \<Longrightarrow> m w = (Inr x, w') \<Longrightarrow> length (aw_replies w') = length (aw_replies w) + n"
  by (simp add: answers_def)

lemma answers_prim [answers_rules]:
  "answers 0 (ret x)" "answers 0 (lift_result q)" "answers 0 (read_state f)" "answers 1 (callback e d)"
  "answers n (throw ex)" "answers 0 (issue env c)"
  by (auto simp: answers_def callback_def issue_def)

lemma answers_bind_post:
  assumes "answers 0 m" and "\<And>w x w'. m w = (Inr x, w') \<Longrightarrow> answers n (f x)"
  shows "answers n (bind_action m f)"
  unfolding answers_def
proof (intro allI impI)
  fix w y w''
  assume "bind_action m f w = (Inr y, w'')"
  then obtain x w' where x: "m w = (Inr x, w')" "f x w' = (Inr y, w'')"
    by (elim bind_action_Inr)
  then show "length (aw_replies w'') = length (aw_replies w) + n"
    using answersD [OF assms(1) x(1)] answersD [OF assms(2) [OF x(1)] x(2)] by simp
qed

lemma answers_bind [answers_rules]:
  "answers 0 m \<Longrightarrow> (\<And>x. answers n (f x)) \<Longrightarrow> answers n (bind_action m f)"
  by (rule answers_bind_post)

lemma answers_if [answers_rules]: "(b \<Longrightarrow> answers n m) \<Longrightarrow> (\<not> b \<Longrightarrow> answers n k) \<Longrightarrow> answers n (if b then m else k)"
  by simp

lemma answers_let [answers_rules]: "(\<And>x. answers n (f x)) \<Longrightarrow> answers n (Let v f)"
  by simp

lemma answers_cases [answers_rules]:
  "(\<And>x y. answers n (p x y)) \<Longrightarrow> answers n (case q of (x, y) \<Rightarrow> p x y)"
  "(\<And>x. answers n (g x)) \<Longrightarrow> (\<And>y. answers n (h y)) \<Longrightarrow> answers n (case s of Inl x \<Rightarrow> g x | Inr y \<Rightarrow> h y)"
  by (simp_all split: prod.splits sum.splits)

lemma answers_calls [answers_rules]:
  "answers 0 (ask env c)" "answers 0 (issue_all env cs)" "answers 0 (await_all env ps)"
  "answers 0 (promises env cb cs)" "answers 0 (one_promise env cb c)"
proof -
  show all: "answers 0 (issue_all env cs)" for cs
    by (induction cs) (simp_all only: issue_all.simps, (intro answers_rules)+)
  show "answers 0 (ask env c)" "answers 0 (await_all env ps)" "answers 0 (promises env cb cs)"
    "answers 0 (one_promise env cb c)"
    unfolding ask_def await_all_def promises_def one_promise_def by (intro answers_rules all)+
qed

lemma answers_then_promise [answers_rules]: "(\<And>v. answers 0 (f v)) \<Longrightarrow> answers 0 (then_promise f p)"
  unfolding then_promise_def by (auto intro: answers_rules split: promise.splits)

lemma answers_replies [answers_rules]:
  "answers 1 (reply_error e)" "answers 1 (responseHandler e d)" "answers 1 (forward_to env c)"
  "answers 1 (pass env meth params)"
  unfolding reply_error_def responseHandler_def forward_to_def pass_def by (intro answers_rules)+

text \<open>A chain whose promise settles and whose first part only answers.\<close>

lemma answers_settled:
  "p \<noteq> Pending \<Longrightarrow> answers 1 (then_catch (\<lambda>v. callback JNull (f v)) reply_error p)"
  using answers_replies(1)
  by (cases p) (auto simp: then_catch_def answers_def catch_exn_def callback_def)

lemma issue_allD: "issue_all env cs w = (Inr as, w') \<Longrightarrow> length as = length cs"
  by (induction cs arbitrary: w as w') (auto elim!: bind_action_Inr)

lemma promise_all_settled: "Pending \<notin> set ps \<Longrightarrow> promise_all n ps \<noteq> Pending"
proof -
  assume "Pending \<notin> set ps"
  then have "rejections ps = [] \<Longrightarrow> resolved_values ps \<noteq> None"
    by (induction ps rule: rejections.induct) auto
  then show ?thesis
    by (auto simp: promise_all_def split: list.splits option.splits)
qed

lemma await_all_settled:
  "await_all env ps w = (Inr p, w') \<Longrightarrow> Pending \<notin> set ps \<Longrightarrow> p \<noteq> Pending"
  using promise_all_settled by (auto simp: await_all_def)

lemma settled_answers:
  "settle settle_answer a \<noteq> Inr Pending" "settle role_put_answer a \<noteq> Inr Pending"
  "settle deleted_answer a \<noteq> Inr Pending" "settle (seg_policy_answer sn) a \<noteq> Inr Pending"
  by (auto simp: settle_def settle_answer_def role_put_answer_def deleted_answer_def seg_policy_answer_def
      bind_result_Inr_iff split: sum.splits if_splits)

text \<open>An action that returns a promise which settles.\<close>

definition settles :: "promise api \<Rightarrow> bool" where
  "settles m \<longleftrightarrow> (\<forall>w p w'. m w = (Inr p, w') \<longrightarrow> p \<noteq> Pending)"

lemma settles_one: "(\<And>a. settle cb a \<noteq> Inr Pending) \<Longrightarrow> settles (one_promise env cb c)"
  unfolding settles_def one_promise_def by (auto elim!: bind_action_Inr)

lemma settles_then:
  assumes "settles m" and "\<And>v. settles (f v)"
  shows "settles (bind_action m (then_promise f))"
  unfolding settles_def
proof (intro allI impI)
  fix w q w''
  assume "bind_action m (then_promise f) w = (Inr q, w'')"
  then obtain p w' where p: "m w = (Inr p, w')" "then_promise f p w' = (Inr q, w'')"
    by (elim bind_action_Inr)
  moreover have "p \<noteq> Pending"
    using assms(1) p(1) unfolding settles_def by blast
  ultimately show "q \<noteq> Pending"
    using assms(2) by (cases p) (auto simp: then_promise_def settles_def)
qed

lemma settlesD: "settles m \<Longrightarrow> m w = (Inr p, w') \<Longrightarrow> p \<noteq> Pending"
  unfolding settles_def by blast

lemma settles_not_pending: "settles m \<Longrightarrow> m w \<noteq> (Inr Pending, w')"
  using settlesD by blast

lemma settles_caught:
  "(\<And>y. settles (h y)) \<Longrightarrow> settles (case q of Inl e \<Rightarrow> ret (Rejected (exn_val e)) | Inr y \<Rightarrow> h y)"
  by (cases q) (auto simp: settles_def)

lemma settles_replace:
  "settles (replace_assertion env d data sn fd)" "settles (replace_conditions env d data sn fd)"
  unfolding replace_assertion_def replace_conditions_def
  by (intro settles_then settles_one settles_caught settled_answers)+

lemma promises_settled:
  "(\<And>a. settle cb a \<noteq> Inr Pending) \<Longrightarrow> promises env cb cs w = (Inr ps, w') \<Longrightarrow> Pending \<notin> set ps"
  unfolding promises_def by (auto elim!: bind_action_Inr dest!: map_result_set)

lemma answers_all_settled:
  assumes "Pending \<notin> set ps"
  shows "answers 1 (bind_action (await_all env ps) (then_catch (callback JNull) reply_error))"
proof (rule answers_bind_post)
  fix w p w'
  assume "await_all env ps w = (Inr p, w')"
  then have "p \<noteq> Pending"
    using assms by (rule await_all_settled)
  then show "answers 1 (then_catch (callback JNull) reply_error p)"
    using answers_settled [of p "\<lambda>v. v"] by simp
qed (rule answers_rules)

lemma answers_gathered [answers_rules]:
  assumes "\<And>a. settle cb a \<noteq> Inr Pending"
  shows "answers 1 (bind_action (promises env cb cs) (\<lambda>ps. bind_action (await_all env ps) (then_catch (callback JNull) reply_error)))"
proof (rule answers_bind_post [OF answers_calls(4)])
  fix w ps w'
  assume "promises env cb cs w = (Inr ps, w')"
  then show "answers 1 (bind_action (await_all env ps) (then_catch (callback JNull) reply_error))"
    using promises_settled [OF assms] by (intro answers_all_settled)
qed

lemma changes_at_once [answers_rules]:
  "answers 1 (domain_templates_create env params)" "answers 1 (member_multiple_roles_create env params)"
  unfolding domain_templates_create_def member_multiple_roles_create_def Let_def
  by (intro answers_gathered answers_bind answers_prim settled_answers)+

text \<open>A promise that is made under a condition.\<close>

lemma optional_settled:
  assumes "settles m" and "(if b then bind_action m (\<lambda>p. ret [p]) else ret []) w = (Inr ps, w')"
  shows "Pending \<notin> set ps"
  using assms(2) by (auto elim!: bind_action_Inr split: if_splits simp: settles_not_pending [OF assms(1)])

lemma change_of_rule [answers_rules]: "answers 1 (transport_rule_delete env params)"
proof -
  have role: "answers 1 (bind_action (deleteRole env d r a) (then_catch (\<lambda>_. callback JNull (JArr [])) reply_error))" for d r a
    unfolding deleteRole_def
  proof (rule answers_bind_post [OF answers_calls(5)])
    fix w p w'
    assume "one_promise env deleted_answer
      (zms ''deleteRole'' (JObj [(''domainName'', d), (''roleName'', r), (''auditRef'', a)])) w = (Inr p, w')"
    then have "p \<noteq> Pending"
      by (rule settlesD [OF settles_one, rotated]) (rule settled_answers)
    then show "answers 1 (then_catch (\<lambda>_. callback JNull (JArr [])) reply_error p)"
      by (rule answers_settled)
  qed
  show ?thesis
    unfolding transport_rule_delete_def deleteAssertion_def
  proof (rule answers_bind_post [OF answers_calls(5)], goal_cases)
    case (1 w p w')
    then have "p \<noteq> Pending"
      by (rule settlesD [OF settles_one, rotated]) (rule settled_answers)
    then show ?case
      using role answers_replies(1) by (cases p) simp_all
  qed
qed

lemma change_of_segment [answers_rules]: "answers 1 (microsegmentation_update env params)"
  unfolding microsegmentation_update_def Let_def
proof (intro answers_bind [OF answers_prim(2)])
  fix data fd
  let ?d = "obj_get params ''domainName''" and ?c = "truthy (obj_get params ''roleChanged'')"
  let ?sn = "seg_names_of ?d data"
  let ?role = "if ?c then bind_action (one_promise env role_put_answer (seg_role_put ?d ?sn)) (\<lambda>p. ret [p]) else ret []"
  let ?rest = "if truthy (obj_get params ''assertionChanged'')
      then bind_action (replace_assertion env ?d data ?sn fd) (\<lambda>p. ret [p])
      else if truthy (obj_get params ''assertionConditionChanged'')
      then bind_action (replace_conditions env ?d data ?sn fd) (\<lambda>p. ret [p]) else ret []"
  show "answers 1 (bind_action ?role (\<lambda>ps. bind_action ?rest (\<lambda>qs.
      bind_action (await_all env (ps @ qs)) (then_catch (callback JNull) reply_error))))"
  proof (rule answers_bind_post)
    show "answers 0 ?role"
      by (intro answers_rules)
    fix w ps w'
    assume "?role w = (Inr ps, w')"
    then have ps: "Pending \<notin> set ps"
      by (rule optional_settled [OF settles_one, rotated]) (rule settled_answers)
    show "answers 1 (bind_action ?rest (\<lambda>qs.
        bind_action (await_all env (ps @ qs)) (then_catch (callback JNull) reply_error)))"
    proof (rule answers_bind_post)
      show "answers 0 ?rest"
        unfolding replace_assertion_def replace_conditions_def by (intro answers_rules)
      fix w qs w'
      assume "?rest w = (Inr qs, w')"
      then have "Pending \<notin> set qs"
        by (auto split: if_splits elim!: bind_action_Inr 
              simp: settles_not_pending [OF settles_replace(1)] settles_not_pending [OF settles_replace(2)])
      then show "answers 1 (bind_action (await_all env (ps @ qs)) (then_catch (callback JNull) reply_error))"
        using ps by (intro answers_all_settled) simp
    qed
  qed
qed

text \<open>Three services do nothing for a category they do not know.\<close>

definition known_category :: "string \<Rightarrow> jsval jsobj \<Rightarrow> bool" where
  "known_category name params \<longleftrightarrow>
     (if name = ''meta'' then obj_get params ''category'' \<in> {JStr ''group'', JStr ''role'', JStr ''domain''}
      else if name \<in> {''member'', ''process-pending''} then obj_get params ''category'' \<in> {JStr ''group'', JStr ''role''}
      else True)"

lemma changes_passed [answers_rules]:
  "answers 1 (assertion_create env params)" "answers 1 (assertion_delete env params)"
  "answers 1 (assertion_version_create env params)" "answers 1 (assertion_version_delete env params)"
  "answers 1 (assertionConditions_create env params)" "answers 1 (assertionCondition_delete env params)"
  "answers 1 (domain_create env app params)" "answers 1 (domain_delete env params)"
  "answers 1 (pending_member_delete env params)" "answers 1 (role_members_delete env params)"
  "answers 1 (policy_create env params)" "answers 1 (policy_delete env params)"
  "answers 1 (policy_version_create env params)" "answers 1 (policy_version_update env params)"
  "answers 1 (policy_version_delete env params)" "answers 1 (provider_create env params)"
  "answers 1 (role_create env params)" "answers 1 (role_delete env params)" "answers 1 (role_update env params)"
  "answers 1 (add_service_host_update env params)" "answers 1 (service_create env params)"
  "answers 1 (service_delete env params)" "answers 1 (key_create env params)" "answers 1 (key_delete env params)"
  "answers 1 (group_create env params)" "answers 1 (group_delete env params)" "answers 1 (group_update env params)"
  "answers 1 (graph_layout_update env params)"
  unfolding assertion_create_def assertion_delete_def assertion_version_create_def assertion_version_delete_def
    assertionConditions_create_def assertionCondition_delete_def domain_create_def domain_delete_def
    pending_member_delete_def role_members_delete_def policy_create_def policy_delete_def
    policy_version_create_def policy_version_update_def policy_version_delete_def provider_create_def
    role_create_def role_delete_def role_update_def add_service_host_update_def service_create_def
    service_delete_def key_create_def key_delete_def group_create_def group_delete_def group_update_def graph_layout_update_def
  by (intro answers_rules)+

lemma changes_by_category [answers_rules]:
  "known_category ''member'' params \<Longrightarrow> answers 1 (member_create env params)"
  "known_category ''member'' params \<Longrightarrow> answers 1 (member_delete env params)"
  "known_category ''process-pending'' params \<Longrightarrow> answers 1 (process_pending_create env params)"
  "known_category ''meta'' params \<Longrightarrow> answers 1 (meta_create env params)"
  unfolding member_create_def member_delete_def process_pending_create_def meta_create_def
  by (intro answers_if answers_replies; simp add: known_category_def)+

lemma table_answers:
  "(name, oper, h) \<in> set (service_table env app us params) \<Longrightarrow> oper \<noteq> Read \<Longrightarrow> known_category name params \<Longrightarrow> answers 1 h"
  unfolding service_table_def set_simps insert_iff empty_iff prod.inject
  by (elim disjE conjE; simp only: simp_thms; intro answers_rules; assumption)

text \<open>
  Every operation of the console's server that changes something, with a category it knows
  where it takes one, calls its callback exactly once when it returns, whatever the back ends
  answer and in whichever order they fail.
\<close>

theorem change_answered_once:
  assumes "(name, oper, h) \<in> set (service_table env app us params)" and "oper \<noteq> Read"
    and "known_category name params" and "h w = (Inr u, w')"
  shows "length (aw_replies w') = length (aw_replies w) + 1"
  using table_answers [OF assms(1-3)] assms(4) by (rule answersD)

theorem change_answered_once_witness:
  "length (aw_replies (snd (transport_rule_delete demo_api [] no_world))) = length (aw_replies no_world) + 1"
proof (rule change_answered_once [where name = "''transport-rule''" and oper = Delete
      and env = demo_api and app = demo_app and us = user_service_init and params = "[]"
      and h = "transport_rule_delete demo_api []" and u = "()"])
  have "fst (transport_rule_delete demo_api [] no_world) = Inr ()"
    by code_simp
  then show "transport_rule_delete demo_api [] no_world = (Inr (), snd (transport_rule_delete demo_api [] no_world))"
    by (simp add: prod_eq_iff)
qed (simp_all add: service_table_def known_category_def)

end
