(* ===== verification/Ui_Safety.thy ===== *)
theory Ui_Safety
  imports Ui_Services
begin

text \<open>
  What single services of the console's server guarantee about the order of their calls: a policy
  is created only where there is none, a transport rule's role is deleted only after its assertion,
  a changed rule replaces the old one only when the new one is in place. Also the service that
  never answers with what it was asked for.
\<close>

section \<open>Answers to a call\<close>

text \<open>The last of a sequence of calls was answered without an error, or the object it names does
  not exist.\<close>

definition ok :: "api_env \<Rightarrow> api_call list \<Rightarrow> bool" where
  "ok env cs = (case ae_ask env cs of Inr (err, data) \<Rightarrow> \<not> truthy err | Inl _ \<Rightarrow> False)"

definition not_found :: "api_env \<Rightarrow> api_call list \<Rightarrow> bool" where
  "not_found env cs =
     (case ae_ask env cs of
        Inr (err, data) \<Rightarrow> truthy err \<and> (case get_prop err ''status'' of Inr st \<Rightarrow> strict_eq st (JNum (Fin 404)) | Inl _ \<Rightarrow> False)
      | Inl _ \<Rightarrow> False)"

lemma issue_run [simp]: "issue env c w = (Inr (ae_ask env (aw_calls w @ [c])), w\<lparr>aw_calls := aw_calls w @ [c]\<rparr>)"
  by (simp add: issue_def)

lemma ask_run [simp]: "ask env c w = (ae_ask env (aw_calls w @ [c]), w\<lparr>aw_calls := aw_calls w @ [c]\<rparr>)"
  by (simp add: ask_def)

lemma one_promise_run:
  "one_promise env cb c w = (settle cb (ae_ask env (aw_calls w @ [c])), w\<lparr>aw_calls := aw_calls w @ [c]\<rparr>)"
  by (simp add: one_promise_def)

lemma calls_after_reply [simp]:
  "aw_calls (snd (callback e d w)) = aw_calls w" "aw_calls (snd (reply_error e w)) = aw_calls w"
  "aw_calls (snd (responseHandler e d w)) = aw_calls w"
  by (auto simp: callback_def reply_error_def responseHandler_def bind_action_def split: sum.splits)

lemma truthy_get_prop: "truthy v \<Longrightarrow> \<exists>x. get_prop v k = Inr x"
  by (cases v) (auto simp: get_prop_def)

section \<open>Policies\<close>

text \<open>
  C15. Creating a policy first asks for it and puts it exactly when ZMS answered that it does not
  exist: an existing policy is never overwritten, and no other call is made.
\<close>

theorem policy_create_never_overwrites:
  "aw_calls (snd (policy_create env params w)) =
     aw_calls w @ [zms ''getPolicy'' (JObj params)]
       @ (if not_found env (aw_calls w @ [zms ''getPolicy'' (JObj params)]) then [zms ''putPolicy'' (JObj params)] else [])"
proof (cases "ae_ask env (aw_calls w @ [zms ''getPolicy'' (JObj params)])")
  case (Inl e)
  then show ?thesis
    by (simp add: policy_create_def not_found_def bind_action_def)
next
  case (Inr a)
  obtain err data where a: "a = (err, data)" by force
  show ?thesis
  proof (cases "truthy err")
    case True
    then obtain st where "get_prop err ''status'' = Inr st"
      using truthy_get_prop by blast
    with True show ?thesis
      using Inr a by (auto simp: policy_create_def not_found_def pass_def forward_to_def bind_action_def
          split: sum.splits prod.splits)
  next
    case False
    then show ?thesis
      using Inr a by (simp add: policy_create_def not_found_def)
  qed
qed

section \<open>Transport rules\<close>

definition deleted :: "api_env \<Rightarrow> api_call list \<Rightarrow> bool" where
  "deleted env cs \<longleftrightarrow> ok env cs \<or> not_found env cs"

lemma settle_deleted:
  obtains e where "truthy e" and
    "settle deleted_answer (ae_ask env cs) = Inr (if deleted env cs then Resolved JUndef else Rejected e)"
proof (cases "ae_ask env cs")
  case (Inl x)
  then show ?thesis
    using that [of "exn_val x"] by (simp add: settle_def deleted_def ok_def not_found_def exn_val_def)
next
  case (Inr a)
  obtain err data where a: "a = (err, data)" by force
  show ?thesis
  proof (cases "truthy err")
    case True
    then obtain st where "get_prop err ''status'' = Inr st"
      using truthy_get_prop by blast
    with True show ?thesis
      using Inr a that [of err] by (auto simp: settle_def deleted_answer_def deleted_def ok_def not_found_def)
  next
    case False
    then show ?thesis
      using Inr a that [of "JBool True"] by (simp add: settle_def deleted_answer_def deleted_def ok_def)
  qed
qed

lemma reply_error_run:
  assumes "truthy e"
  obtains x where "x \<noteq> JNull" and "\<And>w. reply_error e w = (Inr (), w\<lparr>aw_replies := aw_replies w @ [(x, JUndef)]\<rparr>)"
proof -
  obtain st m where m: "get_prop e ''status'' = Inr st" "get_prop e ''message'' = Inr m"
    using truthy_get_prop [OF assms] by metis
  obtain t where "(if truthy m then get_prop m ''message'' else Inr (JStr [])) = Inr t"
    using truthy_get_prop [of m] by fastforce
  with m have "fetcherError e = Inr (JObj [(''statusCode'', st), (''output'', JObj [(''message'', t)])])"
    by (simp add: fetcherError_def)
  then show ?thesis
    by (intro that [of "JObj [(''statusCode'', st), (''output'', JObj [(''message'', t)])]"])
       (simp_all add: reply_error_def callback_def)
qed

definition rule_assertion :: "jsval jsobj \<Rightarrow> api_call" where
  "rule_assertion params = zms ''deleteAssertion'' (JObj (pick_params params
     (map (\<lambda>k. (k, k)) [''domainName'', ''policyName'', ''assertionId'', ''auditRef''])))"

definition rule_role :: "jsval jsobj \<Rightarrow> api_call" where
  "rule_role params = zms ''deleteRole'' (JObj (pick_params params
     (map (\<lambda>k. (k, k)) [''domainName'', ''roleName'', ''auditRef''])))"

text \<open>
  C25. Deleting a transport rule deletes its assertion first and its role only if the assertion is
  gone, so no assertion is left that grants to a role that does not exist; success is answered
  exactly when both are gone.
\<close>

theorem transport_rule_order:
  "let cs = aw_calls w @ [rule_assertion params]; ds = cs @ [rule_role params];
       w' = snd (transport_rule_delete env params w)
   in aw_calls w' = (if deleted env cs then ds else cs)
      \<and> (aw_replies w' = aw_replies w @ [(JNull, JArr [])] \<longleftrightarrow> deleted env cs \<and> deleted env ds)"
proof -
  let ?cs = "aw_calls w @ [rule_assertion params]"
  let ?ds = "?cs @ [rule_role params]"
  obtain e where e: "truthy e"
    "settle deleted_answer (ae_ask env ?cs) = Inr (if deleted env ?cs then Resolved JUndef else Rejected e)"
    by (rule settle_deleted)
  obtain f where f: "truthy f"
    "settle deleted_answer (ae_ask env ?ds) = Inr (if deleted env ?ds then Resolved JUndef else Rejected f)"
    by (rule settle_deleted)
  have run: "transport_rule_delete env params w =
      (if deleted env ?cs
       then then_catch (\<lambda>_. callback JNull (JArr [])) reply_error
              (if deleted env ?ds then Resolved JUndef else Rejected f) (w\<lparr>aw_calls := ?ds\<rparr>)
       else reply_error e (w\<lparr>aw_calls := ?cs\<rparr>))"
    using e(2) f(2)
    by (auto simp: transport_rule_delete_def deleteAssertion_def deleteRole_def one_promise_run
        rule_assertion_def rule_role_def pick_params_def bind_action_def)
  obtain x where x: "x \<noteq> JNull" "\<And>w. reply_error e w = (Inr (), w\<lparr>aw_replies := aw_replies w @ [(x, JUndef)]\<rparr>)"
    using reply_error_run [OF e(1)] by blast
  obtain y where y: "y \<noteq> JNull" "\<And>w. reply_error f w = (Inr (), w\<lparr>aw_replies := aw_replies w @ [(y, JUndef)]\<rparr>)"
    using reply_error_run [OF f(1)] by blast
  show ?thesis
    unfolding Let_def run using x(1) y(1)
    by (simp add: then_catch_def catch_exn_def callback_def x(2) y(2))
qed

section \<open>The identifier of an assertion\<close>

lemma fetcherError_object [simp]: "fetcherError e \<noteq> Inr JNull"
  by (auto simp: fetcherError_def bind_result_Inr_iff)

lemma getAssertionId_minus_one: "getAssertionId params data = Inr v \<Longrightarrow> v = JNum (Fin (- 1))"
  by (auto simp: getAssertionId_def bind_result_Inr_iff)

lemma last_round_fails: "p \<noteq> Pending \<Longrightarrow> policy_round params True p \<noteq> None"
  by (cases p) (auto simp: policy_round_def strict_eq_def num_eq_def dest: getAssertionId_minus_one split: sum.splits)

lemma settle_policy: "settle policy_answer a \<noteq> Inr Pending"
  by (auto simp: settle_def policy_answer_def split: sum.splits)

lemma retry_fails: "retryGetPolicy env params (Suc n) w = (Inr r, w') \<Longrightarrow> r \<noteq> None"
proof (induction n arbitrary: w)
  case 0
  then obtain p w1 where p: "one_promise env policy_answer (zms ''getPolicy''
        (JObj (pick_params params [(''policyName'', ''policyName''), (''domainName'', ''domainName'')]))) w = (Inr p, w1)"
      and round: "(case policy_round params True p of Some err \<Rightarrow> ret (Some err)
        | None \<Rightarrow> retryGetPolicy env params 0) w1 = (Inr r, w')"
    unfolding retryGetPolicy.simps(2) by (elim bind_action_Inr) simp
  have "p \<noteq> Pending"
    by (rule settlesD [OF settles_one p]) (rule settle_policy)
  then show ?case
    using round last_round_fails [of p params] by (cases "policy_round params True p") auto
next
  case (Suc n)
  obtain p w1 where round: "(case policy_round params False p of Some err \<Rightarrow> ret (Some err)
      | None \<Rightarrow> retryGetPolicy env params (Suc n)) w1 = (Inr r, w')"
    using Suc.prems unfolding retryGetPolicy.simps(2) [of env params "Suc n"]
    by (elim bind_action_Inr) (simp del: retryGetPolicy.simps)
  show ?case
  proof (cases "policy_round params False p")
    case None
    then show ?thesis
      using round Suc.IH by (simp del: retryGetPolicy.simps)
  next
    case (Some e)
    with round have "r = Some e"
      by simp
    then show ?thesis
      by simp
  qed
qed

lemma retry_keeps_replies:
  "retryGetPolicy env params n w = (Inr r, w') \<Longrightarrow> aw_replies w' = aw_replies w"
  by (induction n arbitrary: w) (auto simp: one_promise_run elim!: bind_action_Inr split: option.splits)

text \<open>
  C38. The service that looks up the identifier of an assertion never finds one: whatever policy
  ZMS has, when it answers it answers with an error.
\<close>

theorem assertionId_always_fails:
  assumes "assertionId_read env params w = (Inr u, w')"
  shows "\<exists>e. e \<noteq> JNull \<and> aw_replies w' = aw_replies w @ [(e, JUndef)]"
proof -
  obtain r w1 where r: "retryGetPolicy env params (Suc 1) w = (Inr r, w1)"
    and rest: "(case r of Some err \<Rightarrow> reply_error err | None \<Rightarrow> callback JNull JUndef) w1 = (Inr u, w')"
    using assms unfolding assertionId_read_def by (elim bind_action_Inr) (simp add: numeral_2_eq_2)
  obtain err where err: "r = Some err"
    using retry_fails [OF r] by blast
  have same: "aw_replies w1 = aw_replies w"
    using r by (rule retry_keeps_replies)
  show ?thesis
    using rest err same by (auto simp: reply_error_def callback_def elim!: bind_action_Inr)
qed

text \<open>An example: the policy has the assertion that is asked for.\<close>

definition demo_policies :: api_env where
  "demo_policies = demo_api\<lparr>ae_ask := (\<lambda>cs. Inr (JNull, JObj [(''assertions'', JArr
     [JObj [(''id'', JNum (Fin 7)), (''role'', JStr ''d:role.r''), (''resource'', JStr ''d:x''),
            (''action'', JStr ''read''), (''effect'', JStr ''ALLOW'')]])]))\<rparr>"

definition demo_assertion :: "jsval jsobj" where
  "demo_assertion = [(''domainName'', JStr ''d''), (''policyName'', JStr ''p''), (''roleName'', JStr ''r''),
     (''resource'', JStr ''x''), (''action'', JStr ''read''), (''effect'', JStr ''ALLOW'')]"

theorem assertionId_always_fails_witness:
  "\<exists>e. e \<noteq> JNull \<and> aw_replies (snd (assertionId_read demo_policies demo_assertion no_world)) = aw_replies no_world @ [(e, JUndef)]"
proof (rule assertionId_always_fails [where u = "()"])
  have "fst (assertionId_read demo_policies demo_assertion no_world) = Inr ()"
    by code_simp
  then show "assertionId_read demo_policies demo_assertion no_world
      = (Inr (), snd (assertionId_read demo_policies demo_assertion no_world))"
    by (simp add: prod_eq_iff)
qed

section \<open>Changing a transport rule\<close>

text \<open>Every call of \<^verbatim>\<open>deleteAssertion\<close> follows directly on two that put an assertion and its
  conditions, and both were answered without an error.\<close>

definition delete_guarded :: "api_env \<Rightarrow> api_call list \<Rightarrow> api_call list \<Rightarrow> bool" where
  "delete_guarded env base cs \<longleftrightarrow>
     (\<forall>pre c post. cs = pre @ c # post \<and> ac_method c = ''deleteAssertion''
        \<longrightarrow> (\<exists>pre' a b. pre = pre' @ [a, b] \<and> ac_method a = ''putAssertion'' \<and> ac_method b = ''putAssertionConditions''
              \<and> ok env (base @ pre' @ [a]) \<and> ok env (base @ pre' @ [a, b])))"

lemma delete_guarded_none:
  "(\<And>c. c \<in> set cs \<Longrightarrow> ac_method c \<noteq> ''deleteAssertion'') \<Longrightarrow> delete_guarded env base cs"
  by (auto simp: delete_guarded_def)

lemma delete_guarded_append:
  assumes "\<And>c. c \<in> set rs \<Longrightarrow> ac_method c \<noteq> ''deleteAssertion''" and "delete_guarded env (base @ rs) cs"
  shows "delete_guarded env base (rs @ cs)"
  unfolding delete_guarded_def
proof (intro allI impI, elim conjE)
  fix pre c post
  assume eq: "rs @ cs = pre @ c # post" and c: "ac_method c = ''deleteAssertion''"
  then obtain us where us: "pre = rs @ us" "cs = us @ c # post"
    using assms(1) by (fastforce simp: append_eq_append_conv2 append_eq_Cons_conv)
  then obtain pre' a b where "us = pre' @ [a, b]" "ac_method a = ''putAssertion''"
    "ac_method b = ''putAssertionConditions''" "ok env (base @ rs @ pre' @ [a])" "ok env (base @ rs @ pre' @ [a, b])"
    using assms(2) [unfolded delete_guarded_def, rule_format, OF conjI, OF us(2) c] by auto
  then show "\<exists>pre' a b. pre = pre' @ [a, b] \<and> ac_method a = ''putAssertion'' \<and> ac_method b = ''putAssertionConditions''
      \<and> ok env (base @ pre' @ [a]) \<and> ok env (base @ pre' @ [a, b])"
    using us(1) by (intro exI [of _ "rs @ pre'"] exI [of _ a] exI [of _ b]) simp
qed

lemma delete_guarded_chain:
  assumes "ac_method x \<noteq> ''deleteAssertion''" and "ac_method a = ''putAssertion''"
    and "ac_method b = ''putAssertionConditions''" and "ok env (base @ [x, a])" and "ok env (base @ [x, a, b])"
  shows "delete_guarded env base [x, a, b, d]"
  unfolding delete_guarded_def
proof (intro allI impI, elim conjE)
  fix pre c post
  assume "[x, a, b, d] = pre @ c # post" and "ac_method c = ''deleteAssertion''"
  then have "pre = [x] @ [a, b]"
    using assms by (auto simp: Cons_eq_append_conv)
  then show "\<exists>pre' a b. pre = pre' @ [a, b] \<and> ac_method a = ''putAssertion'' \<and> ac_method b = ''putAssertionConditions''
      \<and> ok env (base @ pre' @ [a]) \<and> ok env (base @ pre' @ [a, b])"
    using assms by (intro exI [of _ "[x]"] exI [of _ a] exI [of _ b]) simp
qed

lemma settle_answer_ok:
  "settle settle_answer (ae_ask env cs) = Inr (Resolved v) \<Longrightarrow> ok env cs"
  by (auto simp: settle_def settle_answer_def ok_def split: sum.splits if_splits)

lemma ac_method_simps [simp]: "ac_method (zms m d) = m" "ac_method (msd m d) = m"
  by (simp_all add: zms_def msd_def)

lemma chain_step:
  assumes "bind_action (one_promise env cb c) (then_promise f) w = (r, w')"
  obtains (stop) "aw_calls w' = aw_calls w @ [c]"
    | (go) v where "settle cb (ae_ask env (aw_calls w @ [c])) = Inr (Resolved v)"
        and "f v (w\<lparr>aw_calls := aw_calls w @ [c]\<rparr>) = (r, w')"
proof (cases "settle cb (ae_ask env (aw_calls w @ [c]))")
  case (Inl e)
  then show ?thesis
    using assms stop by (auto simp: one_promise_run bind_action_def)
next
  case (Inr p)
  then show ?thesis
    using assms stop go by (cases p) (auto simp: one_promise_run bind_action_def then_promise_def)
qed

lemma delete_guarded_none_at:
  "aw_calls w' = base @ cs \<Longrightarrow> (\<And>c. c \<in> set cs \<Longrightarrow> ac_method c \<noteq> ''deleteAssertion'') \<Longrightarrow>
     \<exists>cs. aw_calls w' = base @ cs \<and> delete_guarded env base cs"
  using delete_guarded_none by blast

lemma replace_assertion_guarded:
  assumes "replace_assertion env d data sn fd w = (r, w')"
  shows "\<exists>cs. aw_calls w' = aw_calls w @ cs \<and> delete_guarded env (aw_calls w) cs"
  using assms unfolding replace_assertion_def
proof (cases rule: chain_step)
  case stop
  then show ?thesis by (rule delete_guarded_none_at) auto
next
  case get: (go v)
  from get(2) show ?thesis
  proof (cases rule: chain_step)
    case stop
    then show ?thesis
      by (intro delete_guarded_none_at [where cs = "[_, _]"]) auto
  next
    case put: (go added)
    show ?thesis
    proof (cases "get_prop added ''id''")
      case (Inl e)
      then show ?thesis
        using put(2) by (intro delete_guarded_none_at [where cs = "[_, _]"]) auto
    next
      case (Inr newId)
      with put(2) have "bind_action (one_promise env settle_answer (zms ''putAssertionConditions''
          (JObj (seg_policy_key d sn @ [(''assertionId'', newId), (''assertionConditions'', fd)]))))
          (then_promise (\<lambda>_. one_promise env settle_answer (zms ''deleteAssertion''
            (JObj (seg_policy_key d sn @ [(''assertionId'', obj_get data ''assertionIdx'')])))))
          (w\<lparr>aw_calls := aw_calls w @ [zms ''getPolicy'' (JObj (seg_policy_key d sn)),
             zms ''putAssertion'' (JObj (seg_policy_key d sn @ [(''assertion'', seg_new_assertion d sn)]))]\<rparr>) = (r, w')"
        by simp
      then show ?thesis
      proof (cases rule: chain_step)
        case stop
        then show ?thesis
          by (intro delete_guarded_none_at [where cs = "[_, _, _]"]) auto
      next
        case cond: (go x)
        show ?thesis
          using cond(2) put(1) settle_answer_ok [OF cond(1)] settle_answer_ok [OF put(1)]
          by (intro exI [of _ "[_, _, _, _]"] conjI delete_guarded_chain) (auto simp: one_promise_run)
      qed
    qed
  qed
qed

lemma calls_of_answer [simp]:
  "aw_calls (snd (bind_action (await_all env ps) (then_catch (callback JNull) reply_error) w)) = aw_calls w"
  by (auto simp: await_all_def then_catch_def catch_exn_def bind_action_def callback_def
      split: promise.splits sum.splits)

text \<open>The role, when it is put, and the rest of an update.\<close>

lemma role_put_calls:
  assumes "(if b then bind_action (one_promise env role_put_answer (seg_role_put d sn)) (\<lambda>p. ret [p]) else ret []) w = (r, w')"
  shows "aw_calls w' = aw_calls w @ (if b then [seg_role_put d sn] else [])"
  using assms by (auto simp: one_promise_run bind_action_def split: if_splits sum.splits)

lemma replace_rule_calls:
  assumes "(if b then bind_action (replace_assertion env d data sn fd) (\<lambda>p. ret [p])
     else if c then bind_action (replace_conditions env d data sn fd) (\<lambda>p. ret [p]) else ret []) w = (r, w')"
  shows "\<exists>cs. aw_calls w' = aw_calls w @ cs \<and> delete_guarded env (aw_calls w) cs"
proof -
  have keep: "bind_action m (\<lambda>p. ret [p]) w = (r, w') \<Longrightarrow> \<exists>r. m w = (r, w')" for m :: "promise api"
    by (auto simp: bind_action_def split: prod.splits sum.splits)
  show ?thesis
  proof (cases b)
    case True
    then show ?thesis
      using assms keep [of "replace_assertion env d data sn fd"] replace_assertion_guarded by auto
  next
    case False
    have "\<exists>cs. aw_calls w' = aw_calls w @ cs \<and> delete_guarded env (aw_calls w) cs"
      if run: "replace_conditions env d data sn fd w = (r, w')" for r
      using run unfolding replace_conditions_def
    proof (cases rule: chain_step)
      case stop
      then show ?thesis
        by (rule delete_guarded_none_at) auto
    next
      case (go v)
      then show ?thesis
        by (intro delete_guarded_none_at [where cs = "[_, _]"]) (auto simp: one_promise_run)
    qed
    then show ?thesis
      using False assms keep [of "replace_conditions env d data sn fd"]
      by (cases c) (auto intro: delete_guarded_none)
  qed
qed

lemma bind_action_cases:
  assumes "bind_action m f w = (r, w')"
  obtains (stop) e where "m w = (Inl e, w')" | (go) x w1 where "m w = (Inr x, w1)" and "f x w1 = (r, w')"
  using assms by (cases "m w" rule: prod.exhaust; cases "fst (m w)") (auto simp: bind_action_def)

lemma guarded_sequence:
  assumes run: "bind_action m (\<lambda>ps. bind_action k (\<lambda>qs. bind_action (await_all env (ps @ qs))
      (then_catch (callback JNull) reply_error))) w = (r, w')"
    and m: "\<And>w r w'. m w = (r, w') \<Longrightarrow>
      \<exists>rs. aw_calls w' = aw_calls w @ rs \<and> (\<forall>c\<in>set rs. ac_method c \<noteq> ''deleteAssertion'')"
    and k: "\<And>w r w'. k w = (r, w') \<Longrightarrow> \<exists>cs. aw_calls w' = aw_calls w @ cs \<and> delete_guarded env (aw_calls w) cs"
  shows "\<exists>cs. aw_calls w' = aw_calls w @ cs \<and> delete_guarded env (aw_calls w) cs"
  using run
proof (cases rule: bind_action_cases)
  case (stop e)
  then show ?thesis
    using m [OF stop] delete_guarded_none by blast
next
  case (go ps w1)
  obtain rs where rs: "aw_calls w1 = aw_calls w @ rs" "\<forall>c\<in>set rs. ac_method c \<noteq> ''deleteAssertion''"
    using m [OF go(1)] by blast
  have "\<exists>cs. aw_calls w' = aw_calls w1 @ cs \<and> delete_guarded env (aw_calls w1) cs"
    using go(2)
  proof (cases rule: bind_action_cases)
    case (stop e)
    then show ?thesis
      by (rule k)
  next
    case (go qs w2)
    then have "aw_calls w' = aw_calls w2"
      using calls_of_answer [of env "ps @ qs" w2] by simp
    then show ?thesis
      using k [OF go(1)] by simp
  qed
  then show ?thesis
    using rs delete_guarded_append [of rs env "aw_calls w"] by auto
qed

text \<open>
  C11. Changing a transport rule deletes the old assertion only directly after the new assertion
  and its conditions have been put without an error: a change that fails leaves the old rule in
  force.
\<close>

theorem old_rule_kept_until_replaced:
  assumes "microsegmentation_update env params w = (r, w')"
  shows "\<exists>cs. aw_calls w' = aw_calls w @ cs \<and> delete_guarded env (aw_calls w) cs"
  using assms unfolding microsegmentation_update_def Let_def
proof (cases rule: bind_action_cases)
  case (stop e)
  then show ?thesis
    by (intro delete_guarded_none_at [where cs = "[]"]) auto
next
  case (go data w1)
  from go(2) show ?thesis
  proof (cases rule: bind_action_cases)
    case (stop e)
    then show ?thesis
      using go(1) by (intro delete_guarded_none_at [where cs = "[]"]) auto
  next
    case update: (go fd w2)
    have same: "w2 = w"
      using go(1) update(1) by simp
    show ?thesis
      by (rule guarded_sequence [OF update(2) [unfolded same]]) (auto dest!: role_put_calls simp: seg_role_put_def intro: replace_rule_calls)
  qed
qed

text \<open>An example: a rule whose ports change.\<close>

definition demo_rules :: api_env where
  "demo_rules = demo_api\<lparr>ae_ask := (\<lambda>cs. Inr (JNull, if ac_method (last cs) = ''getPolicy''
     then JObj [(''assertions'', JArr [])] else JObj [(''id'', JNum (Fin 8))]))\<rparr>"

definition demo_change :: "jsval jsobj" where
  "demo_change = [(''domainName'', JStr ''d''), (''assertionChanged'', JBool True),
     (''data'', JObj [(''category'', JStr ''inbound''), (''destination_service'', JStr ''api''),
        (''identifier'', JStr ''web''), (''layer'', JStr ''TCP''), (''source_port'', JStr ''1024-65535''),
        (''destination_port'', JStr ''443''), (''assertionIdx'', JNum (Fin 7)), (''conditionsList'', JArr [])])]"

theorem old_rule_kept_until_replaced_witness:
  "(\<exists>cs. aw_calls (snd (microsegmentation_update demo_rules demo_change no_world)) = aw_calls no_world @ cs
      \<and> delete_guarded demo_rules (aw_calls no_world) cs)
   \<and> map ac_method (aw_calls (snd (microsegmentation_update demo_rules demo_change no_world)))
      = [''getPolicy'', ''putAssertion'', ''putAssertionConditions'', ''deleteAssertion'']"
proof -
  have "map ac_method (aw_calls (snd (microsegmentation_update demo_rules demo_change no_world)))
      = [''getPolicy'', ''putAssertion'', ''putAssertionConditions'', ''deleteAssertion'']"
    by code_simp
  moreover have "\<exists>cs. aw_calls (snd (microsegmentation_update demo_rules demo_change no_world)) = aw_calls no_world @ cs
      \<and> delete_guarded demo_rules (aw_calls no_world) cs"
    by (rule old_rule_kept_until_replaced [where r = "fst (microsegmentation_update demo_rules demo_change no_world)"
          and params = demo_change]) simp
  ultimately show ?thesis by (intro conjI)
qed

section \<open>Errors that are answered twice\<close>

text \<open>
  Reading the members of the roles of a domain goes on after it has answered with the error: when
  the error comes with a body, as the errors of ZMS do, the callback is called a second time with
  that body as the data.
\<close>

theorem role_members_error_answered_twice:
  assumes "ae_ask env (aw_calls w @ [zms ''getDomainRoleMembers'' (JObj params)]) = Inr (err, JObj body)"
    and "truthy err" and "\<not> truthy (obj_get body ''members'')"
  shows "\<exists>e. e \<noteq> JNull \<and> aw_replies (snd (role_members_read env us params w))
    = aw_replies w @ [(e, JUndef), (JNull, JObj body)]"
proof -
  obtain e where "e \<noteq> JNull" "\<And>w. reply_error err w = (Inr (), w\<lparr>aw_replies := aw_replies w @ [(e, JUndef)]\<rparr>)"
    using reply_error_run [OF assms(2)] by blast
  then show ?thesis
    using assms by (auto simp: role_members_read_def report_error_def update_prop_def callback_def)
qed

end
