(* ===== verification/Ui_Domains.thy ===== *)
theory Ui_Domains
  imports Ui_Services
begin

text \<open>
  What the list of a user's domains holds: the reference is the sorted set of the names, each with
  the mark of the strongest way in which the user belongs to it.
\<close>

definition domain_entry :: "string list \<Rightarrow> string \<Rightarrow> jsval" where
  "domain_entry adminDomains n =
     JObj [(''name'', JStr n), (if n \<in> set adminDomains then ''adminDomain'' else ''userDomain'', JBool True)]"

definition user_domains :: "string list \<Rightarrow> string list \<Rightarrow> jsval list" where
  "user_domains memberDomains adminDomains =
     map (domain_entry adminDomains) (sorted_list_of_set (set memberDomains \<union> set adminDomains))"

definition names_json :: "string list \<Rightarrow> jsval" where
  "names_json ns = JObj [(''names'', JArr (map JStr ns))]"

lemma array_includes_names: "array_includes (map JStr ns) (JStr n) \<longleftrightarrow> n \<in> set ns"
  by (auto simp: array_includes_def strict_eq_def)

lemma prop_gt_entries [simp]:
  "prop_gt (\<lambda>d. get_prop d ''name'') (domain_entry as m) (domain_entry as n) \<longleftrightarrow> n < m"
  by (simp add: prop_gt_def domain_entry_def js_gt_def)

lemma domain_entry_inj [simp]: "domain_entry as m = domain_entry as n \<longleftrightarrow> m = n"
  by (auto simp: domain_entry_def)

text \<open>Sorting entries with distinct names gives the entries of the sorted names.\<close>

lemma sort_entries:
  assumes "sort_laws srt" and "distinct ns"
  shows "srt (prop_gt (\<lambda>d. get_prop d ''name'')) (map (domain_entry as) ns) = map (domain_entry as) (sorted_list_of_set (set ns))"
proof -
  let ?gt = "prop_gt (\<lambda>d. get_prop d ''name'')" and ?vs = "map (domain_entry as) ns"
  have vs: "distinct ?vs"
    using assms(2) by (simp add: distinct_map inj_on_def)
  have order: "orders ?gt (set ?vs)"
    unfolding orders_def by auto
  note laws = assms(1) [unfolded sort_laws_def, THEN spec, THEN spec, of ?gt ?vs]
  have same: "mset (srt ?gt ?vs) = mset ?vs"
    using laws by (rule conjunct1)
  have sorted: "sorted_wrt (\<lambda>x y. \<not> ?gt x y) (srt ?gt ?vs)"
    by (rule laws [THEN conjunct2, THEN mp]) (intro conjI order vs)
  have "\<exists>ms. srt ?gt ?vs = map (domain_entry as) ms"
    unfolding ex_map_conv mset_eq_setD [OF same] by auto
  then obtain ms where ms: "srt ?gt ?vs = map (domain_entry as) ms"
    by blast
  have "image_mset (domain_entry as) (mset ms) = image_mset (domain_entry as) (mset ns)"
    using same ms by simp
  then have "mset ms = mset ns"
    by (rule multiset.inj_map [THEN injD, rotated]) (simp add: inj_def)
  then have "distinct ms" "set ms = set ns"
    using assms(2) mset_eq_imp_distinct_iff mset_eq_setD by blast+
  moreover have "sorted ms"
    using sorted unfolding ms by (simp add: sorted_wrt_map not_less)
  ultimately have "ms = sorted_list_of_set (set ns)"
    using sorted_list_of_set.idem_if_sorted_distinct by metis
  then show ?thesis
    using ms by simp
qed

lemma domain_list_user_domains:
  assumes "sort_laws (ae_sort env)" and "distinct ms" and "distinct as"
  shows "domain_list_result env (map JStr ms) (map JStr as) = Inr (user_domains ms as)"
proof -
  let ?ns = "as @ filter (\<lambda>n. n \<notin> set as) ms"
  let ?key = "\<lambda>d. get_prop d ''name''"
  have entries: "map (\<lambda>n. JObj [(''name'', n), (''adminDomain'', JBool True)]) (map JStr as)
      @ map (\<lambda>n. JObj [(''name'', n), (''userDomain'', JBool True)])
          (filter (\<lambda>n. \<not> array_includes (map JStr as) n) (map JStr ms)) = map (domain_entry as) ?ns"
    by (auto simp: domain_entry_def filter_map comp_def array_includes_names)
  have set: "set ?ns = set ms \<union> set as" and dist: "distinct ?ns"
    using assms(2,3) by auto
  have keys: "map_result ?key (map (domain_entry as) xs) = Inr (map JStr xs)" for xs
    by (induction xs) (simp_all add: domain_entry_def)
  have sorted: "ae_sort env (prop_gt ?key) (map (domain_entry as) ?ns) = user_domains ms as"
    unfolding user_domains_def set [symmetric] by (rule sort_entries [OF assms(1) dist])
  have short: "length ?ns < 2 \<Longrightarrow> map (domain_entry as) ?ns = user_domains ms as"
  proof -
    assume "length ?ns < 2"
    then have "sorted ?ns"
      by (cases ?ns) (auto simp: numeral_2_eq_2)
    then show ?thesis
      unfolding user_domains_def set [symmetric]
      using sorted_list_of_set.idem_if_sorted_distinct [of ?ns] dist by simp
  qed
  show ?thesis
    unfolding domain_list_result_def js_sort_def entries keys
    using sorted short by simp
qed

definition domains_of :: "jsval \<Rightarrow> api_call" where
  "domains_of username = zms ''getDomainList'' (JObj [(''roleMember'', username)])"

definition admin_domains_of :: "jsval \<Rightarrow> api_call" where
  "admin_domains_of username =
     zms ''getDomainList'' (JObj [(''roleMember'', username), (''roleName'', JStr ''admin'')])"

text \<open>
  C24. The list of a user's domains names every domain in which the user is a member or an
  administrator exactly once, in order, and marks it as one the user administers when he does.
\<close>

theorem domain_list_complete:
  assumes "sort_laws (ae_sort env)" and "session_username env = Inr u" and "distinct ms" and "distinct as"
    and "ae_ask env (aw_calls w @ [domains_of u]) = Inr (JNull, names_json ms)"
    and "ae_ask env (aw_calls w @ [domains_of u, admin_domains_of u]) = Inr (JNull, names_json as)"
  shows "aw_replies (snd (domain_list_read env params w)) = aw_replies w @ [(JNull, JArr (user_domains ms as))]"
proof -
  have answer: "settle names_answer (Inr (JNull, names_json ns)) = Inr (Resolved (JArr (map JStr ns)))" for ns
    by (simp add: settle_def names_answer_def names_json_def is_array_def)
  have "promises env names_answer [domains_of u, admin_domains_of u] w =
      (Inr [Resolved (JArr (map JStr ms)), Resolved (JArr (map JStr as))],
       w\<lparr>aw_calls := aw_calls w @ [domains_of u, admin_domains_of u]\<rparr>)"
    using assms(5,6) by (simp add: promises_def issue_def answer)
  then show ?thesis
    using assms(2) domain_list_user_domains [OF assms(1,3,4)]
    by (simp add: domain_list_read_def domains_of_def admin_domains_of_def await_all_def promise_all_def
        then_catch_def catch_exn_def array_items_def nth_value_def callback_def)
qed

section \<open>A sorting that keeps the laws\<close>

fun insert_by :: "('x \<Rightarrow> 'x \<Rightarrow> bool) \<Rightarrow> 'x \<Rightarrow> 'x list \<Rightarrow> 'x list" where
  "insert_by gt x [] = [x]"
| "insert_by gt x (y # ys) = (if gt x y then y # insert_by gt x ys else x # y # ys)"

definition insertion_sort :: "('x \<Rightarrow> 'x \<Rightarrow> bool) \<Rightarrow> 'x list \<Rightarrow> 'x list" where
  "insertion_sort gt vs = foldr (insert_by gt) vs []"

lemma mset_insert_by [simp]: "mset (insert_by gt x ys) = add_mset x (mset ys)"
  by (induction ys) auto

lemma set_insert_by [simp]: "set (insert_by gt x ys) = insert x (set ys)"
  by (induction ys) auto

lemma insertion_sort_mset: "mset (insertion_sort gt vs) = mset vs"
  unfolding insertion_sort_def by (induction vs) auto

lemma insert_by_sorted:
  assumes "orders gt (set (x # ys))" and "distinct (x # ys)" and "sorted_wrt (\<lambda>y z. \<not> gt y z) ys"
  shows "sorted_wrt (\<lambda>y z. \<not> gt y z) (insert_by gt x ys)"
  using assms
proof (induction ys)
  case (Cons y ys)
  have xy: "gt x y \<noteq> gt y x"
    using Cons.prems(2) by (intro orders_total [OF Cons.prems(1)]) auto
  show ?case
  proof (cases "gt x y")
    case True
    have "sorted_wrt (\<lambda>y z. \<not> gt y z) (insert_by gt x ys)"
      using Cons.prems(2,3) by (intro Cons.IH orders_subset [OF Cons.prems(1)]) auto
    then show ?thesis
      using Cons.prems(3) True xy by simp
  next
    case False
    then have "\<not> gt x z" if "z \<in> set ys" for z
      using orders_trans [OF Cons.prems(1), of y x z] Cons.prems(3) that xy by auto
    then show ?thesis
      using Cons.prems(3) False by simp
  qed
qed simp

lemma insertion_sort_sorted:
  assumes "orders gt (set vs)" and "distinct vs"
  shows "sorted_wrt (\<lambda>x y. \<not> gt x y) (insertion_sort gt vs)"
  using assms
proof (induction vs)
  case (Cons v vs)
  have same: "mset (insertion_sort gt vs) = mset vs"
    by (rule insertion_sort_mset)
  have set: "set (insertion_sort gt vs) = set vs" and dist: "distinct (insertion_sort gt vs)"
    using mset_eq_setD [OF same] mset_eq_imp_distinct_iff [OF same] Cons.prems(2) by auto
  have "sorted_wrt (\<lambda>x y. \<not> gt x y) (insertion_sort gt vs)"
    using Cons.prems(2) by (intro Cons.IH orders_subset [OF Cons.prems(1)]) auto
  then have "sorted_wrt (\<lambda>x y. \<not> gt x y) (insert_by gt v (insertion_sort gt vs))"
    using Cons.prems(2) set dist by (intro insert_by_sorted orders_subset [OF Cons.prems(1)]) auto
  then show ?case
    by (simp add: insertion_sort_def)
qed (simp add: insertion_sort_def)

lemma insertion_sort_laws: "sort_laws insertion_sort"
  unfolding sort_laws_def by (intro allI conjI impI insertion_sort_mset insertion_sort_sorted; elim conjE)

definition demo_domains :: api_env where
  "demo_domains = demo_api\<lparr>ae_sort := insertion_sort, ae_ask := (\<lambda>cs. Inr (JNull,
     if last cs = admin_domains_of (JStr ''user.jane'') then names_json [''sports''] else names_json [''weather'', ''sports'']))\<rparr>"

theorem domain_list_complete_witness:
  "aw_replies (snd (domain_list_read demo_domains [] no_world)) =
     aw_replies no_world @ [(JNull, JArr (user_domains [''weather'', ''sports''] [''sports'']))]"
  by (rule domain_list_complete [where u = "JStr ''user.jane''"])
     (simp_all add: demo_domains_def demo_api_def no_world_def insertion_sort_laws session_username_def
       string_of_def str_includes_def domains_of_def admin_domains_of_def zms_def)

end
