(* ===== verification/Ui_Utils.thy ===== *)
theory Ui_Utils
  imports Name_Syntax YBase64 Ui_Server
begin

text \<open>
  The classes under \<^verbatim>\<open>ui/src/components/utils\<close> that the console's pages and its browser
  API share: names, lists of members, keys, error messages and dates. The lemmas show that a list
  of members is split at exactly the separators and divided by the name check, that the name check
  accepts the dotted names, and that a key entered in the console is what auth_core reads back.
\<close>

section \<open>Names\<close>

text \<open>\<^verbatim>\<open>s.lastIndexOf(p)\<close>\<close>

fun last_index_of_text :: "string \<Rightarrow> string \<Rightarrow> nat option" where
  "last_index_of_text p [] = (if p = [] then Some 0 else None)"
| "last_index_of_text p (x # xs) =
     (case last_index_of_text p xs of
        Some i \<Rightarrow> Some (Suc i)
      | None \<Rightarrow> if prefix p (x # xs) then Some 0 else None)"

definition getShortName :: "string \<Rightarrow> jsval \<Rightarrow> jsval result" where
  "getShortName key name =
     bind_result (string_of name) (\<lambda>s.
       case last_index_of_text key s of
         Some idx \<Rightarrow> Inr (JStr (substring_from s (idx + length key)))
       | None \<Rightarrow> Inr name)"

definition getResourceName :: "jsval \<Rightarrow> jsval \<Rightarrow> jsval result" where
  "getResourceName resource domainId =
     bind_result (string_of resource) (\<lambda>s.
       let r = trim s
       in Inr (JStr (if str_includes r '':'' then r else js_text domainId @ '':'' @ r)))"

text \<open>\<^verbatim>\<open>\W\<close> is a character that is neither a letter nor a digit nor an underscore.\<close>

definition word_char :: "char \<Rightarrow> bool" where
  "word_char c = (name_char c \<and> c \<noteq> CHR ''-'')"

definition getFlatPickrKey :: "string \<Rightarrow> string" where
  "getFlatPickrKey key =
     map (\<lambda>c. if word_char c then c else CHR ''_'') (replace_char CHR ''.'' ''_'' key)"

text \<open>\<^verbatim>\<open>s.replace(/[\r\n\s]+/g, ',')\<close>: each longest run of space becomes one comma.\<close>

fun spaces_to_commas :: "string \<Rightarrow> string" where
  "spaces_to_commas [] = []"
| "spaces_to_commas (c # cs) =
     (if space_char c
      then (case cs of
              d # ds \<Rightarrow> if space_char d then spaces_to_commas cs else CHR '','' # spaces_to_commas cs
            | [] \<Rightarrow> [CHR '',''])
      else c # spaces_to_commas cs)"

definition splitNames :: "jsval \<Rightarrow> string list result" where
  "splitNames names =
     bind_result (string_of (js_or names (JStr []))) (\<lambda>s.
       Inr (filter (\<lambda>n. n \<noteq> []) (map trim (split_on CHR '','' (spaces_to_commas s)))))"

section \<open>Members\<close>

definition RegexUtils_validate :: "regex \<Rightarrow> string \<Rightarrow> bool" where
  "RegexUtils_validate regex name = (exec regex name = Some name)"

text \<open>
  \<^verbatim>\<open>GROUP_NAME_REGEX\<close> and \<^verbatim>\<open>GROUP_MEMBER_NAME_REGEX\<close>:
  \<^verbatim>\<open>([a-zA-Z0-9_][a-zA-Z0-9_-]*\.)*[a-zA-Z0-9_][a-zA-Z0-9_-]*\<close>
\<close>

definition GROUP_NAME_REGEX :: regex where
  "GROUP_NAME_REGEX = re_dotted word_char name_char"

definition GROUP_MEMBER_NAME_REGEX :: regex where
  "GROUP_MEMBER_NAME_REGEX = re_dotted word_char name_char"

record user_names =
  un_invalidUsers :: "string list"
  un_validUsers :: "string list"

definition sort_user :: "regex \<Rightarrow> string \<Rightarrow> user_names \<Rightarrow> user_names" where
  "sort_user regex name un =
     (if RegexUtils_validate regex name
      then un\<lparr>un_validUsers := un_validUsers un @ [name]\<rparr>
      else un\<lparr>un_invalidUsers := un_invalidUsers un @ [name]\<rparr>)"

definition getUserNames :: "jsval \<Rightarrow> regex \<Rightarrow> user_names result" where
  "getUserNames name regex =
     bind_result (string_of (js_or name (JStr []))) (\<lambda>s.
       Inr (fold (sort_user regex) (filter (\<lambda>n. n \<noteq> []) (map trim (split_on CHR '','' (spaces_to_commas s))))
          \<lparr>un_invalidUsers = [], un_validUsers = []\<rparr>))"

section \<open>Keys\<close>

text \<open>
  \<^verbatim>\<open>toString()\<close> of a buffer: sequences of one or two bytes give the code units up to 255; what
  the rest of the encoding gives is an argument.
\<close>

fun utf8_text :: "(byte list \<Rightarrow> string) \<Rightarrow> byte list \<Rightarrow> string" where
  "utf8_text other [] = []"
| "utf8_text other (b # bs) =
     (if unat b < 128 then char_of (unat b) # utf8_text other bs
      else (case bs of
              d # ds \<Rightarrow>
                if unat b \<in> {194, 195} \<and> 128 \<le> unat d \<and> unat d < 192
                then char_of ((unat b - 192) * 64 + (unat d - 128)) # utf8_text other ds
                else other (b # bs)
            | [] \<Rightarrow> other [b]))"

definition y64Decode :: "(string \<Rightarrow> byte list) \<Rightarrow> (byte list \<Rightarrow> string) \<Rightarrow> string \<Rightarrow> string" where
  "y64Decode lenient other key =
     (let b64 = replace_char (CHR ''-'') ''=''
        (replace_char (CHR ''_'') ''/'' (replace_char (CHR ''.'') ''+'' key))
      in utf8_text other (buffer_from_base64 lenient b64))"

definition y64Encode :: "string \<Rightarrow> string" where
  "y64Encode key =
     replace_char (CHR ''='') ''-''
       (replace_char (CHR ''/'') ''_'' (replace_char (CHR ''+'') ''.'' (base64_encode (buffer_from_string key))))"

definition key_begin :: string where
  "key_begin = ''-----BEGIN PUBLIC KEY-----''"

definition key_end :: string where
  "key_end = ''-----END PUBLIC KEY-----''"

definition trimKey :: "string \<Rightarrow> string" where
  "trimKey key =
     (let k = replace_char CHR '' '' [CHR 0x0A] (replace_first key_end [] (replace_first key_begin [] key))
      in key_begin @ k @ key_end)"

section \<open>Errors\<close>

definition errorCheckHelper :: "jsval \<Rightarrow> (bool \<times> jsval) result" where
  "errorCheckHelper err =
     bind_result (get_prop err ''statusCode'') (\<lambda>statusCode.
     bind_result (get_prop err ''output'') (\<lambda>output.
     bind_result (if truthy output
                  then bind_result (get_prop output ''message'') (\<lambda>message.
                         Inr (JObj [(''message'', message), (''statusCode'', statusCode)]))
                  else Inr JNull) (\<lambda>error.
     Inr (strict_eq statusCode (JNum (Fin 0)), error))))"

definition session_expired :: string where
  "session_expired = ''Session expired. Please refresh the page.''"

definition status_message :: "jsval \<Rightarrow> jsval \<Rightarrow> string" where
  "status_message statusCode message = ''Status: '' @ js_text statusCode @ ''. Message: '' @ js_text message"

definition body_message :: "jsval \<Rightarrow> string result" where
  "body_message err =
     bind_result (get_prop err ''statusCode'') (\<lambda>statusCode.
     bind_result (get_prop err ''body'') (\<lambda>body.
     bind_result (get_prop body ''message'') (\<lambda>message. Inr (status_message statusCode message))))"

definition xhrErrorCheckHelper :: "jsval \<Rightarrow> string result" where
  "xhrErrorCheckHelper err =
     bind_result (get_prop err ''statusCode'') (\<lambda>statusCode.
       if truthy err \<and> strict_eq statusCode (JNum (Fin 0)) then Inr session_expired else body_message err)"

definition fetcherErrorCheckHelper :: "jsval \<Rightarrow> string result" where
  "fetcherErrorCheckHelper err =
     bind_result (get_prop err ''statusCode'') (\<lambda>statusCode.
       if truthy err \<and> strict_eq statusCode (JNum (Fin 0)) then Inr session_expired
       else bind_result (get_prop err ''output'') (\<lambda>output.
            bind_result (if truthy output then get_prop output ''message'' else Inr JUndef) (\<lambda>message.
            if truthy message then Inr (status_message statusCode message) else body_message err)))"

section \<open>Dates\<close>

text \<open>
  The package \<^verbatim>\<open>moment-timezone\<close> and the calendar of the local time zone are parameters: how a
  date in a format and a time zone reads in another, and the time seven days before another.
\<close>

datatype js_date = DateValue jsval | DateAt int

record date_env =
  de_moment :: "js_date \<Rightarrow> string \<Rightarrow> string \<Rightarrow> string \<Rightarrow> string \<Rightarrow> string"
  de_weekBefore :: "int \<Rightarrow> int"

definition getLocalDate :: "date_env \<Rightarrow> js_date \<Rightarrow> string \<Rightarrow> string \<Rightarrow> string" where
  "getLocalDate de currentDate currentTimezone newTimezone =
     de_moment de currentDate ''YYYY-MM-DDTHH:mm:ss.SSSZ'' currentTimezone newTimezone ''YYYY-MM-DD HH:mm zz''"

definition getUTCDate :: "date_env \<Rightarrow> js_date \<Rightarrow> string \<Rightarrow> string" where
  "getUTCDate de currentDate currentTimezone = getLocalDate de currentDate currentTimezone ''UTC''"

definition isRefreshedinLastSevenDays :: "date_env \<Rightarrow> int \<Rightarrow> jsval \<Rightarrow> string \<Rightarrow> bool" where
  "isRefreshedinLastSevenDays de now refreshDate currentTimezone =
     (let inputDay = getLocalDate de (DateValue refreshDate) currentTimezone ''UTC'';
          minusSevenDays = getLocalDate de (DateAt (de_weekBefore de now)) currentTimezone ''UTC''
      in minusSevenDays \<le> inputDay)"

section \<open>Splitting a list of members\<close>

definition separator :: "char \<Rightarrow> bool" where
  "separator c \<longleftrightarrow> space_char c \<or> c = CHR '',''"

text \<open>The longest runs of characters that do not separate, in their order.\<close>

function names_of :: "string \<Rightarrow> string list" where
  "names_of s =
     (case dropWhile separator s of
        [] \<Rightarrow> []
      | c # cs \<Rightarrow> takeWhile (\<lambda>x. \<not> separator x) (c # cs) # names_of (dropWhile (\<lambda>x. \<not> separator x) cs))"
  by pat_completeness auto
termination
proof (relation "measure length", simp)
  fix s c cs
  assume "dropWhile separator s = c # cs"
  then have "length (c # cs) \<le> length s"
    by (metis length_dropWhile_le)
  then have "length cs < length s"
    by simp
  then show "(dropWhile (\<lambda>x. \<not> separator x) cs, s) \<in> measure length"
    using length_dropWhile_le [of "\<lambda>x. \<not> separator x" cs] by simp
qed

declare names_of.simps [simp del]

abbreviation pieces :: "string \<Rightarrow> string list" where
  "pieces s \<equiv> filter (\<lambda>n. n \<noteq> []) (split_on CHR '','' (spaces_to_commas s))"

lemma comma_not_space [simp]: "\<not> space_char CHR '',''"
  by (simp add: space_char_def)

lemma spaces_step:
  "\<not> space_char c \<Longrightarrow> spaces_to_commas (c # cs) = c # spaces_to_commas cs"
  "space_char c \<Longrightarrow> cs \<noteq> [] \<Longrightarrow> space_char (hd cs) \<Longrightarrow> spaces_to_commas (c # cs) = spaces_to_commas cs"
  "space_char c \<Longrightarrow> cs = [] \<or> \<not> space_char (hd cs) \<Longrightarrow> spaces_to_commas (c # cs) = CHR '','' # spaces_to_commas cs"
  by (cases cs; simp)+

declare spaces_to_commas.simps(2) [simp del]

lemma spaces_to_commas_cases:
  "spaces_to_commas (c # cs) = c # spaces_to_commas cs \<and> \<not> space_char c
   \<or> spaces_to_commas (c # cs) = spaces_to_commas cs \<and> space_char c \<and> cs \<noteq> [] \<and> space_char (hd cs)
   \<or> spaces_to_commas (c # cs) = CHR '','' # spaces_to_commas cs \<and> space_char c"
  by (cases "space_char c"; cases "cs \<noteq> [] \<and> space_char (hd cs)") (auto simp: spaces_step)

lemma spaces_replaced: "c \<in> set (spaces_to_commas s) \<Longrightarrow> \<not> space_char c"
proof (induction s)
  case (Cons d s)
  then show ?case
    using spaces_to_commas_cases [of d s] by auto
qed simp

lemma separator_run: "separator c \<Longrightarrow> \<exists>x. spaces_to_commas (c # cs) = CHR '','' # x"
proof (induction cs arbitrary: c)
  case Nil
  then show ?case
    by (auto simp: separator_def spaces_step)
next
  case (Cons d ds)
  show ?case
    using spaces_to_commas_cases [of c "d # ds"] Cons.prems Cons.IH [of d]
    by (elim disjE conjE) (simp_all add: separator_def)
qed

lemma pieces_separator: "separator c \<Longrightarrow> pieces (c # cs) = pieces cs"
  using spaces_to_commas_cases [of c cs] by (auto simp: separator_def)

lemma pieces_drop: "pieces (dropWhile separator s) = pieces s"
  by (induction s) (auto simp: pieces_separator)

lemma spaces_kept: "\<forall>c\<in>set w. \<not> separator c \<Longrightarrow> spaces_to_commas (w @ r) = w @ spaces_to_commas r"
  by (induction w) (simp_all add: separator_def spaces_step)

lemma pieces_run:
  assumes "w \<noteq> []" and "\<forall>c\<in>set w. \<not> separator c" and "r = [] \<or> separator (hd r)"
  shows "pieces (w @ r) = w # pieces r"
proof -
  have w: "CHR '','' \<notin> set w"
    using assms(2) by (auto simp: separator_def)
  have "\<exists>x. spaces_to_commas r = CHR '','' # x" if "r \<noteq> []"
    using that assms(3) separator_run by (cases r) auto
  then consider "r = []" | x where "spaces_to_commas r = CHR '','' # x"
    by blast
  then show ?thesis
  proof cases
    case 1
    then show ?thesis
      using assms(1) w spaces_kept [OF assms(2), of "[]"] by (simp add: split_on_clean)
  next
    case 2
    then show ?thesis
      using assms(1) w by (simp add: spaces_kept [OF assms(2)] split_on_append)
  qed
qed

lemma pieces_names_of: "pieces s = names_of s"
proof (induction s rule: names_of.induct)
  case (1 s)
  show ?case
  proof (cases "dropWhile separator s")
    case Nil
    have "pieces s = pieces []"
      by (rule pieces_drop [of s, unfolded Nil, symmetric])
    then show ?thesis
      using Nil by (subst names_of.simps) (simp only: Nil, simp)
  next
    case (Cons c cs)
    let ?w = "takeWhile (\<lambda>x. \<not> separator x) cs" and ?r = "dropWhile (\<lambda>x. \<not> separator x) cs"
    have c: "\<not> separator c"
      using Cons hd_dropWhile [of separator s] by simp
    have "pieces s = pieces ((c # ?w) @ ?r)"
      using pieces_drop [of s] Cons by simp
    also have "\<dots> = (c # ?w) # pieces ?r"
    proof (rule pieces_run)
      show "\<forall>x\<in>set (c # ?w). \<not> separator x"
        using c set_takeWhileD by fastforce
      show "?r = [] \<or> separator (hd ?r)"
        using hd_dropWhile [of "\<lambda>x. \<not> separator x" cs] by blast
    qed simp
    also have "pieces ?r = names_of ?r"
      using "1.IH" Cons by simp
    finally show ?thesis
      using Cons c by (simp add: names_of.simps [of s])
  qed
qed

lemma trimmed_pieces: "map trim (split_on CHR '','' (spaces_to_commas s)) = split_on CHR '','' (spaces_to_commas s)"
proof (rule map_idI)
  fix p
  assume "p \<in> set (split_on CHR '','' (spaces_to_commas s))"
  then have "set p \<subseteq> set (spaces_to_commas s)"
    by (rule split_on_subset)
  then show "trim p = p"
    using spaces_replaced by (intro trim_id) auto
qed

lemma splitNames_eq: "splitNames (JStr s) = Inr (names_of s)"
  by (cases "s = []") (simp_all add: splitNames_def js_or_def string_of_def trimmed_pieces pieces_names_of)

interpretation console_names: name_syntax word_char name_char
  by unfold_locales (auto simp: word_char_def name_char_def name_start_def)

lemma sort_users:
  "fold (sort_user regex) ns un =
     un\<lparr>un_invalidUsers := un_invalidUsers un @ filter (\<lambda>n. \<not> RegexUtils_validate regex n) ns,
        un_validUsers := un_validUsers un @ filter (RegexUtils_validate regex) ns\<rparr>"
  by (induction ns arbitrary: un) (simp_all add: sort_user_def)

lemma valid_member_name:
  "RegexUtils_validate GROUP_MEMBER_NAME_REGEX = dotted_name_of word_char name_char"
  by (rule ext) (simp add: RegexUtils_validate_def GROUP_MEMBER_NAME_REGEX_def exec_whole_iff console_names.domain_first_match_iff)

lemma getUserNames_eq:
  "getUserNames (JStr s) GROUP_MEMBER_NAME_REGEX =
     Inr \<lparr>un_invalidUsers = filter (\<lambda>n. \<not> dotted_name_of word_char name_char n) (names_of s),
          un_validUsers = filter (dotted_name_of word_char name_char) (names_of s)\<rparr>"
  by (cases "s = []") (simp_all add: getUserNames_def js_or_def string_of_def trimmed_pieces pieces_names_of
      sort_users valid_member_name)

text \<open>
  C35. The list of members that a user types is cut at exactly the commas and white space, nothing
  of it is lost, and the parts are divided by the name check into dotted names and the others, each
  in the order they were typed.
\<close>

theorem member_names_divided:
  "getUserNames (JStr s) GROUP_MEMBER_NAME_REGEX =
     Inr \<lparr>un_invalidUsers = filter (\<lambda>n. \<not> dotted_name_of word_char name_char n) (names_of s),
          un_validUsers = filter (dotted_name_of word_char name_char) (names_of s)\<rparr>"
  by (rule getUserNames_eq)

section \<open>Keys read back\<close>

lemma y64Encode_eq: "y64Encode key = ybase64Encode (Text key)"
  by (simp add: y64Encode_def ybase64Encode_def)

lemma ybase64_inverse: "buffer_from_base64 lenient (map yb64_unchar (map yb64_char (base64_encode bs))) = bs"
proof -
  have "map yb64_unchar (map yb64_char (base64_encode bs)) = base64_encode bs"
    by (simp add: yb64_unchar_char map_idI)
  then show ?thesis
    by (simp add: buffer_from_base64_def base64_round_trip)
qed

lemma utf8_text_char: "utf8_text other (utf8_char c @ bs) = c # utf8_text other bs"
proof (cases "(of_char c :: nat) < 128")
  case True
  then show ?thesis
    by (simp add: utf8_char_def unat_of_nat)
next
  case False
  let ?n = "of_char c :: nat"
  have "x div 64 = 2 \<or> x div 64 = 3" if "128 \<le> x" "x < 256" for x :: nat
  proof -
    have "2 \<le> x div 64" "x div 64 < 4"
      using that div_le_mono [of 128 x 64] by (simp_all add: less_mult_imp_div_less)
    then show ?thesis
      by linarith
  qed
  then have d: "?n div 64 = 2 \<or> ?n div 64 = 3" "?n mod 64 < 64"
    using False by simp_all
  have u: "unat (word_of_nat (192 + ?n div 64) :: byte) = 192 + ?n div 64"
    "unat (word_of_nat (128 + ?n mod 64) :: byte) = 128 + ?n mod 64"
  proof -
    have w: "unat (word_of_nat x :: byte) = x" if "x < 256" for x
      using that by (simp add: unat_of_nat)
    show "unat (word_of_nat (192 + ?n div 64) :: byte) = 192 + ?n div 64"
      "unat (word_of_nat (128 + ?n mod 64) :: byte) = 128 + ?n mod 64"
      by (rule w, use d in linarith)+
  qed
  have "(192 + ?n div 64 - 192) * 64 + (128 + ?n mod 64 - 128) = ?n"
    by simp
  then show ?thesis
    using False d u by (auto simp: utf8_char_def Let_def simp del: of_nat_add)
qed

lemma utf8_round_trip: "utf8_text other (buffer_from_string s) = s"
  by (induction s) (simp_all add: buffer_from_string_def utf8_text_char)

lemma y64_round_trip:
  "y64Decode lenient other (y64Encode key) = key
    \<and> ybase64Decode lenient (Val (y64Encode key)) = Inr (buffer_from_string key)"
proof -
  let ?e = "base64_encode (buffer_from_string key)"
  have e: "y64Encode key = map yb64_char ?e"
    using ybase64Encode_Buf [of "buffer_from_string key"] by (simp add: y64Encode_eq ybase64Encode_def)
  then have b: "ybase64Decode lenient (Val (y64Encode key)) = Inr (buffer_from_string key)"
    by (simp only: ybase64Decode_Val ybase64_inverse)
  moreover have "y64Decode lenient other (y64Encode key) = utf8_text other (buffer_from_string key)"
    using b by (simp add: y64Decode_def ybase64Decode_def)
  ultimately show ?thesis
    by (simp add: utf8_round_trip)
qed

text \<open>
  A public key that the console stores in its encoded form is read back unchanged by the console,
  and by the decoder that \<^verbatim>\<open>auth_core\<close> uses for the keys of a service.
\<close>

theorem stored_key_round_trip:
  "y64Decode lenient other (y64Encode key) = key
    \<and> ybase64Decode lenient (Val (y64Encode key)) = Inr (buffer_from_string key)"
  by (rule y64_round_trip)

end
