(* ===== verification/Ui_Browser.thy ===== *)
theory Ui_Browser
  imports Ui_Utils Ui_Services
begin

text \<open>
  The browser API of the console (\<^verbatim>\<open>ui/src/api.js\<close>): one method for each request that a page
  makes to the console's server. A method gives the request (the security token that it puts into
  the options first, if it does, the operation, the service and the parameters) and what becomes of
  the promise when the server has answered.

  The package \<^verbatim>\<open>fetchr\<close> carries requests and answers. In the pages that the server renders it
  calls the service directly.
\<close>

section \<open>Calls\<close>

datatype browser_call =
    Fetch "jsval option" operation string jsval "jsval \<Rightarrow> jsval \<Rightarrow> promise result"
  | Failed exn
  | NoPromise

text \<open>\<^verbatim>\<open>function (x = d)\<close>: a parameter that is not given has its default.\<close>

definition param_default :: "jsval \<Rightarrow> jsval \<Rightarrow> jsval" where
  "param_default d v = (if v = JUndef then d else v)"

text \<open>An exception inside the executor of a promise rejects it and nothing is sent.\<close>

definition fetch_result :: "jsval result \<Rightarrow> (jsval \<Rightarrow> browser_call) \<Rightarrow> browser_call" where
  "fetch_result r f = (case r of Inl e \<Rightarrow> Failed e | Inr v \<Rightarrow> f v)"

text \<open>The callbacks. Most are the one that settles a promise with the answer.\<close>

definition settle_or_empty :: "jsval \<Rightarrow> jsval \<Rightarrow> promise result" where
  "settle_or_empty err data = Inr (if truthy err then Rejected err else Resolved (js_or data (JArr [])))"

definition settle_names :: "jsval \<Rightarrow> jsval \<Rightarrow> promise result" where
  "settle_names err data =
     (if truthy err then Inr (Rejected err)
      else bind_result (if truthy data then get_prop data ''names'' else Inr data) (\<lambda>names.
             Inr (Resolved (js_or names (JArr [])))))"

definition settle_list :: "jsval \<Rightarrow> jsval \<Rightarrow> promise result" where
  "settle_list err data =
     (if truthy err then Inr (Rejected err)
      else bind_result (if truthy data then get_prop data ''list'' else Inr data) (\<lambda>items.
             Inr (Resolved (if truthy items then items else JArr []))))"

definition settle_templates :: "jsval \<Rightarrow> jsval \<Rightarrow> promise result" where
  "settle_templates err data =
     (if truthy err then Inr (Rejected err)
      else if truthy data
      then bind_result (get_prop data ''templateNames'') (\<lambda>names.
             case names of
               JArr vs \<Rightarrow> Inr (Resolved (JBool (array_includes vs (JStr ''aws''))))
             | JStr s \<Rightarrow> Inr (Resolved (JBool (str_includes s ''aws'')))
             | _ \<Rightarrow> Inl (TypeError ''indexOf''))
      else Inr (Resolved (JBool False)))"

text \<open>The instances of a service, counted. A list that is absent leaves the promise as it is.\<close>

definition healthy :: "date_env \<Rightarrow> int \<Rightarrow> jsval \<Rightarrow> bool result" where
  "healthy de now workload =
     bind_result (get_prop workload ''hostname'') (\<lambda>hostname.
       if hostname \<noteq> JStr ''NA''
       then bind_result (get_prop workload ''updateTime'') (\<lambda>updateTime.
              Inr (isRefreshedinLastSevenDays de now updateTime ''UTC''))
       else Inr False)"

definition workload_result :: "jsval list \<Rightarrow> nat \<Rightarrow> nat \<Rightarrow> nat \<Rightarrow> jsval" where
  "workload_result ws totalDynamic totalStatic totalHealthyDynamic =
     (let num = (\<lambda>n. JNum (Fin (of_nat n)))
      in JObj [(''workLoadData'', JArr ws),
               (''workLoadMeta'', JObj [(''totalDynamic'', num totalDynamic), (''totalStatic'', num totalStatic),
                  (''totalRecords'', num (length ws)), (''totalHealthyDynamic'', num totalHealthyDynamic)])])"

definition settle_instances :: "date_env \<Rightarrow> int \<Rightarrow> jsval \<Rightarrow> jsval \<Rightarrow> jsval \<Rightarrow> promise result" where
  "settle_instances de now category err workloadList =
     (if truthy err then Inr (Rejected err)
      else if workloadList = JUndef \<or> workloadList = JNull then Inr Pending
      else bind_result (array_items workloadList) (\<lambda>ws.
             if category = JStr ''static'' then Inr (Resolved (workload_result ws 0 (length ws) 0))
             else bind_result (map_result (healthy de now) ws) (\<lambda>hs.
                    Inr (Resolved (workload_result ws (length ws) 0 (length (filter (\<lambda>h. h) hs)))))))"

text \<open>The assertion of a new rule.\<close>

definition new_assertion :: "jsval \<Rightarrow> jsval \<Rightarrow> jsval \<Rightarrow> jsval \<Rightarrow> jsval \<Rightarrow> jsval \<Rightarrow> jsval result" where
  "new_assertion domainName roleName res act eff caseSensitive =
     bind_result (getResourceName res domainName) (\<lambda>resourceName.
     bind_result (string_of act) (\<lambda>a.
       Inr (JObj [(''role'', JStr (js_text domainName @ '':role.'' @ js_text roleName)),
                  (''resource'', resourceName), (''effect'', eff), (''action'', JStr (trim a)),
                  (''caseSensitive'', caseSensitive)])))"

section \<open>Domains, roles and groups\<close>

definition Api_listUserDomains :: "jsval \<Rightarrow> browser_call" where
  "Api_listUserDomains roleName =
     Fetch None Read ''domain-list'' (JObj [(''roleName'', roleName)]) settle_answer"

definition Api_listAllDomains :: browser_call where
  "Api_listAllDomains = Fetch None Read ''all-domain-list'' JUndef settle_answer"

definition Api_listAdminDomains :: "jsval \<Rightarrow> browser_call" where
  "Api_listAdminDomains roleName =
     Fetch None Read ''admin-domains'' (JObj [(''roleName'', roleName)]) settle_answer"

definition Api_getDomain :: "jsval \<Rightarrow> browser_call" where
  "Api_getDomain domain = Fetch None Read ''domain'' (JObj [(''domain'', domain)]) settle_answer"

definition Api_createSubDomain :: "jsval \<Rightarrow> jsval \<Rightarrow> jsval \<Rightarrow> jsval \<Rightarrow> browser_call" where
  "Api_createSubDomain parent subDomain adminUser csrf =
     (let det = JObj [(''parent'', parent), (''name'', subDomain), (''adminUsers'', JArr [adminUser])]
      in Fetch (Some csrf) Create ''domain'' (JObj [(''parent'', parent),
         (''detail'', det)]) settle_answer)"

definition Api_createUserDomain :: "jsval \<Rightarrow> jsval \<Rightarrow> browser_call" where
  "Api_createUserDomain nam csrf =
     Fetch (Some csrf) Create ''domain''
       (JObj [(''name'', nam), (''detail'', JObj [(''name'', nam),
         (''templates'', JObj [])])]) settle_answer"

definition Api_getRoleMembers :: "jsval \<Rightarrow> browser_call" where
  "Api_getRoleMembers domainName =
     Fetch None Read ''role-members'' (JObj [(''domainName'', domainName)]) settle_or_empty"

definition Api_listRoles :: "jsval \<Rightarrow> browser_call" where
  "Api_listRoles domainName =
     Fetch None Read ''role-list'' (JObj [(''domainName'', domainName)]) settle_names"

definition Api_getRoles :: "jsval \<Rightarrow> browser_call" where
  "Api_getRoles domainName = Fetch None Read ''roles'' (JObj [(''domainName'', domainName)]) settle_list"

definition Api_getGroups :: "jsval \<Rightarrow> browser_call" where
  "Api_getGroups domainName =
     Fetch None Read ''groups'' (JObj [(''domainName'', domainName)]) settle_list"

definition Api_getServiceHost :: "jsval \<Rightarrow> jsval \<Rightarrow> browser_call" where
  "Api_getServiceHost domain service =
     Fetch None Read ''get-service-host''
       (JObj [(''domain'', domain), (''service'', service)]) settle_or_empty"

definition Api_reloadGroups :: "jsval \<Rightarrow> jsval \<Rightarrow> browser_call" where
  "Api_reloadGroups domainName groupName =
     Fetch None Read ''groups'' (JObj [(''domainName'', domainName),
         (''groupName'', groupName)]) settle_list"

definition Api_listGroups :: "jsval \<Rightarrow> browser_call" where
  "Api_listGroups domainName =
     Fetch None Read ''groups-list'' (JObj [(''domainName'', domainName)]) settle_answer"

definition Api_getRole :: "jsval \<Rightarrow> jsval \<Rightarrow> jsval \<Rightarrow> jsval \<Rightarrow> jsval \<Rightarrow> browser_call" where
  "Api_getRole domainName roleName audit expandFlag pendingFlag =
     Fetch None Read ''role''
       (JObj [(''domainName'', domainName), (''roleName'', roleName),
         (''auditLog'', param_default (JBool False) audit),
         (''expand'', param_default (JBool True) expandFlag),
         (''pending'', param_default (JBool False) pendingFlag)]) settle_answer"

definition Api_getCollection :: "jsval \<Rightarrow> jsval \<Rightarrow> jsval \<Rightarrow> jsval \<Rightarrow> jsval \<Rightarrow> jsval \<Rightarrow> browser_call" where
  "Api_getCollection domainName collectionName category audit expandFlag pendingFlag =
     (let flags = [(''auditLog'', param_default (JBool True) audit),
         (''expand'', param_default (JBool False) expandFlag),
                   (''pending'', param_default (JBool False) pendingFlag)]
      in if category = JStr ''group''
         then Fetch None Read ''group''
                (JObj ([(''domainName'', domainName),
         (''groupName'', collectionName)] @ flags)) settle_answer
         else if category = JStr ''role''
         then Fetch None Read ''role''
                (JObj ([(''domainName'', domainName),
         (''roleName'', collectionName)] @ flags)) settle_answer
         else if category = JStr ''domain''
         then Fetch None Read ''domain'' (JObj [(''domain'', collectionName)]) settle_answer
         else NoPromise)"

definition Api_getPendingDomainMembersList :: browser_call where
  "Api_getPendingDomainMembersList = Fetch None Read ''pending-approval'' JUndef settle_answer"

definition Api_getPendingDomainMembersListByDomain :: "jsval \<Rightarrow> browser_call" where
  "Api_getPendingDomainMembersListByDomain domainName =
     Fetch None Read ''pending-approval-domain'' (JObj [(''domainName'', domainName)]) settle_answer"

definition Api_getPendingDomainMembersCountByDomain :: "jsval \<Rightarrow> browser_call" where
  "Api_getPendingDomainMembersCountByDomain domainName =
     Fetch None Read ''pending-approval-domain-count'' (JObj [(''domainName'', domainName)]) settle_answer"

definition Api_processPending :: "jsval \<Rightarrow> jsval \<Rightarrow> jsval \<Rightarrow> jsval \<Rightarrow> jsval \<Rightarrow> jsval \<Rightarrow> jsval \<Rightarrow> browser_call"
    where
  "Api_processPending domainName roleName memberName auditRef category membership csrf =
     Fetch (Some csrf) Create ''process-pending''
       (JObj [(''domainName'', domainName), (''roleName'', roleName), (''memberName'', memberName),
         (''auditRef'', auditRef), (''category'', category), (''membership'', membership)]) settle_answer"

definition Api_addRole :: "jsval \<Rightarrow> jsval \<Rightarrow> jsval \<Rightarrow> jsval \<Rightarrow> jsval \<Rightarrow> browser_call" where
  "Api_addRole domainName roleName rle auditRef csrf =
     Fetch (Some csrf) Create ''role''
       (JObj [(''domainName'', domainName), (''roleName'', roleName), (''role'', rle),
         (''auditRef'', auditRef)]) settle_answer"

definition Api_addGroup :: "jsval \<Rightarrow> jsval \<Rightarrow> jsval \<Rightarrow> jsval \<Rightarrow> jsval \<Rightarrow> browser_call" where
  "Api_addGroup domainName groupName grp auditRef csrf =
     Fetch (Some csrf) Create ''group''
       (JObj [(''domainName'', domainName), (''groupName'', groupName), (''group'', grp),
         (''auditRef'', auditRef)]) settle_answer"

definition Api_deleteRole :: "jsval \<Rightarrow> jsval \<Rightarrow> jsval \<Rightarrow> jsval \<Rightarrow> browser_call" where
  "Api_deleteRole domainName roleName auditRef csrf =
     Fetch (Some csrf) Delete ''role''
       (JObj [(''domainName'', domainName), (''roleName'', roleName),
         (''auditRef'', auditRef)]) settle_answer"

definition Api_deleteGroup :: "jsval \<Rightarrow> jsval \<Rightarrow> jsval \<Rightarrow> jsval \<Rightarrow> browser_call" where
  "Api_deleteGroup domainName groupName auditRef csrf =
     Fetch (Some csrf) Delete ''group''
       (JObj [(''domainName'', domainName), (''groupName'', groupName),
         (''auditRef'', auditRef)]) settle_answer"

definition Api_reviewRole :: "jsval \<Rightarrow> jsval \<Rightarrow> jsval \<Rightarrow> jsval \<Rightarrow> jsval \<Rightarrow> browser_call" where
  "Api_reviewRole domainName roleName rle auditRef csrf =
     Fetch (Some csrf) Update ''role''
       (JObj [(''domainName'', domainName), (''roleName'', roleName), (''role'', rle),
         (''auditRef'', auditRef)]) settle_answer"

definition Api_addServiceHost :: "jsval \<Rightarrow> jsval \<Rightarrow> jsval \<Rightarrow> jsval \<Rightarrow> jsval \<Rightarrow> browser_call" where
  "Api_addServiceHost domainName serviceName workload auditRef csrf =
     Fetch (Some csrf) Update ''add-service-host''
       (JObj [(''domainName'', domainName), (''serviceName'', serviceName),
         (''staticWorkload'', workload), (''auditRef'', auditRef)]) settle_or_empty"

definition Api_reviewGroup :: "jsval \<Rightarrow> jsval \<Rightarrow> jsval \<Rightarrow> jsval \<Rightarrow> jsval \<Rightarrow> browser_call" where
  "Api_reviewGroup domainName groupName grp auditRef csrf =
     Fetch (Some csrf) Update ''group''
       (JObj [(''domainName'', domainName), (''groupName'', groupName), (''group'', grp),
         (''auditRef'', auditRef)]) settle_answer"

definition Api_deleteRoleMember :: "jsval \<Rightarrow> jsval \<Rightarrow> jsval \<Rightarrow> jsval \<Rightarrow> browser_call" where
  "Api_deleteRoleMember domainName memberName auditRef csrf =
     Fetch (Some csrf) Delete ''role-members''
       (JObj [(''domainName'', domainName), (''memberName'', memberName),
         (''auditRef'', auditRef)]) settle_answer"

definition Api_addMember :: "jsval \<Rightarrow> jsval \<Rightarrow> jsval \<Rightarrow> jsval \<Rightarrow> jsval \<Rightarrow> jsval \<Rightarrow> jsval \<Rightarrow> browser_call" where
  "Api_addMember domainName collectionName memberName membership auditRef category csrf =
     Fetch (Some csrf) Create ''member''
       (JObj [(''domainName'', domainName), (''collectionName'', collectionName),
         (''memberName'', memberName), (''auditRef'', auditRef), (''membership'', membership),
         (''category'', category)]) settle_answer"

definition Api_addMemberToRoles :: "jsval \<Rightarrow> jsval \<Rightarrow> jsval \<Rightarrow> jsval \<Rightarrow> jsval \<Rightarrow> jsval \<Rightarrow> browser_call" where
  "Api_addMemberToRoles domainName roles memberName membership auditRef csrf =
     Fetch (Some csrf) Create ''member-multiple-roles''
       (JObj [(''domainName'', domainName), (''roles'', roles), (''memberName'', memberName),
         (''auditRef'', auditRef), (''membership'', membership)]) settle_answer"

definition Api_deleteMember :: "jsval \<Rightarrow> jsval \<Rightarrow> jsval \<Rightarrow> jsval \<Rightarrow> jsval \<Rightarrow> jsval \<Rightarrow> jsval \<Rightarrow> browser_call" where
  "Api_deleteMember domainName collectionName memberName auditRef pendingFlag category csrf =
     Fetch (Some csrf) Delete ''member''
       (JObj [(''domainName'', domainName), (''collectionName'', collectionName),
         (''memberName'', memberName), (''auditRef'', auditRef), (''pending'', pendingFlag),
         (''category'', category)]) settle_answer"

definition Api_deletePendingMember :: "jsval \<Rightarrow> jsval \<Rightarrow> jsval \<Rightarrow> jsval \<Rightarrow> jsval \<Rightarrow> browser_call" where
  "Api_deletePendingMember domainName roleName memberName auditRef csrf =
     Fetch (Some csrf) Delete ''pending-member''
       (JObj [(''domainName'', domainName), (''roleName'', roleName), (''memberName'', memberName),
         (''auditRef'', auditRef)]) settle_answer"

section \<open>Services and keys\<close>

definition Api_getForm :: browser_call where
  "Api_getForm = Fetch None Read ''get-form'' JUndef settle_answer"

definition Api_searchDomains :: "jsval \<Rightarrow> browser_call" where
  "Api_searchDomains domainName =
     Fetch None Read ''search-domain'' (JObj [(''domainName'', domainName)]) settle_answer"

definition Api_getServices :: "jsval \<Rightarrow> browser_call" where
  "Api_getServices domainName =
     Fetch None Read ''services'' (JObj [(''domainName'', domainName)]) settle_or_empty"

definition Api_getService :: "jsval \<Rightarrow> jsval \<Rightarrow> jsval \<Rightarrow> jsval \<Rightarrow> browser_call" where
  "Api_getService domain service expandFlag audit =
     Fetch None Read ''service''
       (JObj [(''domain'', domain), (''service'', service),
         (''expand'', param_default (JBool True) expandFlag),
         (''auditLog'', param_default (JBool True) audit)]) settle_or_empty"

definition Api_addService :: "jsval \<Rightarrow> jsval \<Rightarrow> jsval \<Rightarrow> jsval \<Rightarrow> jsval \<Rightarrow> jsval \<Rightarrow> jsval \<Rightarrow> browser_call" where
  "Api_addService domain service description providerEndpoint keyId keyValue csrf =
     (let publicKeys = (if truthy keyId \<and> truthy keyValue
        then [(''publicKeys'', JArr [JObj [(''id'', keyId), (''key'', keyValue)]])] else [])
      in Fetch (Some csrf) Create ''service''
           (JObj [(''domain'', domain), (''service'', service),
                  (''detail'', JObj ([(''name'', JStr (js_text domain @ ''.'' @ js_text service)),
                     (''description'', description),
         (''providerEndpoint'', providerEndpoint)] @ publicKeys))])
           settle_answer)"

definition Api_deleteService :: "jsval \<Rightarrow> jsval \<Rightarrow> jsval \<Rightarrow> browser_call" where
  "Api_deleteService domain service csrf =
     Fetch (Some csrf) Delete ''service'' (JObj [(''domain'', domain),
         (''service'', service)]) settle_answer"

definition Api_addKey :: "jsval \<Rightarrow> jsval \<Rightarrow> jsval \<Rightarrow> jsval \<Rightarrow> jsval \<Rightarrow> browser_call" where
  "Api_addKey domain service keyId keyValue csrf =
     Fetch (Some csrf) Create ''key''
       (JObj [(''domain'', domain), (''service'', service), (''id'', keyId),
              (''publicKeyEntry'', JObj [(''id'', keyId), (''key'', keyValue)])]) settle_answer"

definition Api_deleteKey :: "jsval \<Rightarrow> jsval \<Rightarrow> jsval \<Rightarrow> jsval \<Rightarrow> browser_call" where
  "Api_deleteKey domain service keyId csrf =
     Fetch (Some csrf) Delete ''key''
       (JObj [(''domain'', domain), (''service'', service), (''id'', keyId)]) settle_answer"

definition Api_allowProviderTemplate :: "jsval \<Rightarrow> jsval \<Rightarrow> jsval \<Rightarrow> jsval \<Rightarrow> browser_call" where
  "Api_allowProviderTemplate domain service templateName csrf =
     Fetch (Some csrf) Create ''provider''
       (JObj [(''name'', domain),
              (''domainTemplate'', JObj [(''templateNames'', JArr [templateName]),
                 (''params'', JArr [JObj [(''name'', JStr ''service''),
         (''value'', service)]])])]) settle_answer"

section \<open>Policies and assertions\<close>

definition Api_getStatus :: browser_call where
  "Api_getStatus = Fetch None Read ''status'' JUndef settle_answer"

definition Api_getPolicy :: "jsval \<Rightarrow> jsval \<Rightarrow> browser_call" where
  "Api_getPolicy domainName policyName =
     Fetch None Read ''policy''
       (JObj [(''domainName'', domainName), (''policyName'', policyName)]) settle_or_empty"

definition Api_getAssertionId :: "jsval \<Rightarrow> jsval \<Rightarrow> jsval \<Rightarrow> jsval \<Rightarrow> jsval \<Rightarrow> jsval \<Rightarrow> browser_call" where
  "Api_getAssertionId domainName policyName roleName res act eff =
     Fetch None Read ''assertionId''
       (JObj [(''domainName'', domainName), (''policyName'', policyName), (''roleName'', roleName),
         (''resource'', res), (''action'', act), (''effect'', eff)]) settle_answer"

definition Api_getProvider :: "jsval \<Rightarrow> jsval \<Rightarrow> browser_call" where
  "Api_getProvider domainName serviceName =
     Fetch None Read ''provider''
       (JObj [(''domainName'', domainName), (''serviceName'', serviceName)]) settle_answer"

definition Api_getRolePrefix :: browser_call where
  "Api_getRolePrefix = Fetch None Read ''prefix'' JUndef settle_answer"

definition Api_getPolicies :: "jsval \<Rightarrow> jsval \<Rightarrow> jsval \<Rightarrow> browser_call" where
  "Api_getPolicies domainName assertions includeNonActive =
     Fetch None Read ''policies''
       (JObj [(''domainName'', domainName), (''assertions'', assertions),
         (''includeNonActive'', includeNonActive)]) settle_or_empty"

definition Api_getPoliciesVersions :: "jsval \<Rightarrow> jsval \<Rightarrow> browser_call" where
  "Api_getPoliciesVersions domainName policyName =
     Fetch None Read ''policies-versions''
       (JObj [(''domainName'', domainName), (''policyName'', policyName)]) settle_or_empty"

definition Api_addPolicy :: "jsval \<Rightarrow> jsval \<Rightarrow> jsval \<Rightarrow> jsval \<Rightarrow> jsval \<Rightarrow> jsval \<Rightarrow> jsval \<Rightarrow> jsval \<Rightarrow>
    browser_call" where
  "Api_addPolicy domainName policyName roleName res act eff caseSensitive csrf =
     fetch_result (new_assertion domainName roleName res act eff caseSensitive) (\<lambda>assertion.
       Fetch (Some csrf) Create ''policy''
         (JObj [(''domainName'', domainName), (''policyName'', policyName),
                (''policy'', JObj [(''name'', JStr (js_text domainName @ '':policy.'' @ js_text policyName)),
                   (''assertions'', JArr [assertion])])]) settle_answer)"

definition Api_duplicatePolicyVersion :: "jsval \<Rightarrow> jsval \<Rightarrow> jsval \<Rightarrow> jsval \<Rightarrow> jsval \<Rightarrow> browser_call" where
  "Api_duplicatePolicyVersion domainName policyName sourceVersionName newVersionName csrf =
     Fetch (Some csrf) Create ''policy-version''
       (JObj [(''domainName'', domainName), (''policyName'', policyName),
              (''policyOptions'', JObj [(''fromVersion'', sourceVersionName),
         (''version'', newVersionName)])])
       settle_answer"

definition Api_setActivePolicyVersion :: "jsval \<Rightarrow> jsval \<Rightarrow> jsval \<Rightarrow> jsval \<Rightarrow> browser_call" where
  "Api_setActivePolicyVersion domainName policyName version csrf =
     Fetch (Some csrf) Update ''policy-version''
       (JObj [(''domainName'', domainName), (''policyName'', policyName),
              (''policyOptions'', JObj [(''version'', version)])]) settle_answer"

definition Api_getPolicyVersion :: "jsval \<Rightarrow> jsval \<Rightarrow> jsval \<Rightarrow> browser_call" where
  "Api_getPolicyVersion domainName policyName version =
     (let versionEscaped = (if version = JStr ''0'' then JStr [CHR 0x22, CHR ''0'', CHR 0x22] else version)
      in Fetch None Read ''policy-version''
           (JObj [(''domainName'', domainName), (''policyName'', policyName),
         (''version'', versionEscaped)])
           settle_or_empty)"

definition Api_deletePolicy :: "jsval \<Rightarrow> jsval \<Rightarrow> jsval \<Rightarrow> browser_call" where
  "Api_deletePolicy domainName policyName csrf =
     Fetch (Some csrf) Delete ''policy''
       (JObj [(''domainName'', domainName), (''policyName'', policyName)]) settle_answer"

definition Api_deletePolicyVersion :: "jsval \<Rightarrow> jsval \<Rightarrow> jsval \<Rightarrow> jsval \<Rightarrow> browser_call" where
  "Api_deletePolicyVersion domainName policyName version csrf =
     Fetch (Some csrf) Delete ''policy-version''
       (JObj [(''domainName'', domainName), (''policyName'', policyName),
         (''version'', version)]) settle_answer"

definition Api_getHistory :: "jsval \<Rightarrow> jsval \<Rightarrow> jsval \<Rightarrow> jsval \<Rightarrow> jsval \<Rightarrow> browser_call" where
  "Api_getHistory domainName roleName startDate endDate csrf =
     Fetch (Some csrf) Read ''domain-history''
       (JObj [(''domainName'', domainName), (''roleName'', roleName), (''startDate'', startDate),
         (''endDate'', endDate)]) settle_or_empty"

definition Api_addAssertion :: "jsval \<Rightarrow> jsval \<Rightarrow> jsval \<Rightarrow> jsval \<Rightarrow> jsval \<Rightarrow> jsval \<Rightarrow> jsval \<Rightarrow> jsval \<Rightarrow>
    browser_call" where
  "Api_addAssertion domainName policyName roleName res act eff caseSensitive csrf =
     fetch_result (new_assertion domainName roleName res act eff caseSensitive) (\<lambda>assertion.
       Fetch (Some csrf) Create ''assertion''
         (JObj [(''domainName'', domainName), (''policyName'', policyName),
         (''assertion'', assertion)]) settle_answer)"

definition Api_addAssertionPolicyVersion :: "jsval \<Rightarrow> jsval \<Rightarrow> jsval \<Rightarrow> jsval \<Rightarrow> jsval \<Rightarrow> jsval \<Rightarrow> jsval \<Rightarrow>
    jsval \<Rightarrow> jsval \<Rightarrow> browser_call" where
  "Api_addAssertionPolicyVersion domainName policyName version roleName res act eff caseSensitive csrf =
     fetch_result (new_assertion domainName roleName res act eff caseSensitive) (\<lambda>assertion.
       Fetch (Some csrf) Create ''assertion-version''
         (JObj [(''domainName'', domainName), (''policyName'', policyName), (''version'', version),
                (''assertion'', assertion)]) settle_answer)"

definition Api_addAssertionConditions :: "jsval \<Rightarrow> jsval \<Rightarrow> jsval \<Rightarrow> jsval \<Rightarrow> jsval \<Rightarrow> jsval \<Rightarrow> browser_call"
    where
  "Api_addAssertionConditions domainName policyName assertionId assertionConditions auditRef csrf =
     Fetch (Some csrf) Create ''assertionConditions''
       (JObj [(''domainName'', domainName), (''assertionId'', assertionId),
         (''assertionConditions'', assertionConditions), (''policyName'', policyName),
         (''auditRef'', auditRef)]) settle_answer"

definition Api_deleteAssertionCondition :: "jsval \<Rightarrow> jsval \<Rightarrow> jsval \<Rightarrow> jsval \<Rightarrow> jsval \<Rightarrow> jsval \<Rightarrow>
    browser_call" where
  "Api_deleteAssertionCondition domainName policyName assertionId conditionId auditRef csrf =
     Fetch (Some csrf) Delete ''assertionCondition''
       (JObj [(''domainName'', domainName), (''policyName'', policyName), (''assertionId'', assertionId),
         (''conditionId'', conditionId), (''auditRef'', auditRef)]) settle_answer"

definition Api_deleteAssertion :: "jsval \<Rightarrow> jsval \<Rightarrow> jsval \<Rightarrow> jsval \<Rightarrow> jsval \<Rightarrow> browser_call" where
  "Api_deleteAssertion domainName policyName assertionId auditRef csrf =
     Fetch (Some csrf) Delete ''assertion''
       (JObj [(''domainName'', domainName), (''policyName'', policyName), (''assertionId'', assertionId),
         (''auditRef'', auditRef)]) settle_answer"

definition Api_deleteAssertionPolicyVersion :: "jsval \<Rightarrow> jsval \<Rightarrow> jsval \<Rightarrow> jsval \<Rightarrow> jsval \<Rightarrow> jsval \<Rightarrow>
    browser_call" where
  "Api_deleteAssertionPolicyVersion domainName policyName version assertionId auditRef csrf =
     Fetch (Some csrf) Delete ''assertion-version''
       (JObj [(''domainName'', domainName), (''policyName'', policyName), (''version'', version),
         (''assertionId'', assertionId), (''auditRef'', auditRef)]) settle_answer"

section \<open>Settings and templates\<close>

definition Api_deleteSubDomain :: "jsval \<Rightarrow> jsval \<Rightarrow> jsval \<Rightarrow> jsval \<Rightarrow> browser_call" where
  "Api_deleteSubDomain parent nam auditRef csrf =
     Fetch (Some csrf) Delete ''domain''
       (JObj [(''parent'', parent), (''name'', nam), (''auditRef'', auditRef)]) settle_answer"

definition Api_putMeta :: "jsval \<Rightarrow> jsval \<Rightarrow> jsval \<Rightarrow> jsval \<Rightarrow> jsval \<Rightarrow> jsval \<Rightarrow> browser_call" where
  "Api_putMeta domainName collectionName det auditRef csrf category =
     Fetch (Some csrf) Create ''meta''
       (JObj [(''domainName'', domainName), (''collectionName'', collectionName), (''detail'', det),
         (''auditRef'', auditRef), (''category'', category)]) settle_answer"

definition Api_getMeta :: "jsval \<Rightarrow> browser_call" where
  "Api_getMeta pars = Fetch None Read ''meta'' pars settle_answer"

definition Api_isAWSTemplateApplied :: "jsval \<Rightarrow> browser_call" where
  "Api_isAWSTemplateApplied domainName =
     Fetch None Read ''domain-templates'' (JObj [(''name'', domainName)]) settle_templates"

definition Api_applyAWSTemplates :: "jsval \<Rightarrow> jsval \<Rightarrow> jsval \<Rightarrow> browser_call" where
  "Api_applyAWSTemplates domainName auditRef csrf =
     Fetch (Some csrf) Create ''domain-templates''
       (JObj [(''domainName'', domainName), (''auditRef'', auditRef)]) settle_answer"

definition Api_getDomainTemplateDetailsList :: "jsval \<Rightarrow> browser_call" where
  "Api_getDomainTemplateDetailsList nam =
     Fetch None Read ''templates'' (JObj [(''name'', nam)]) settle_answer"

definition Api_getServerTemplateDetailsList :: browser_call where
  "Api_getServerTemplateDetailsList = Fetch None Read ''templates'' JUndef settle_answer"

definition Api_getAuthOptions :: browser_call where
  "Api_getAuthOptions = Fetch None Read ''auth-options'' JUndef settle_answer"

definition Api_getHeaderDetails :: browser_call where
  "Api_getHeaderDetails = Fetch None Read ''header-details'' JUndef settle_answer"

definition Api_getServiceHeaderDetails :: browser_call where
  "Api_getServiceHeaderDetails = Fetch None Read ''service-header-details'' JUndef settle_answer"

definition Api_getServicePageConfig :: browser_call where
  "Api_getServicePageConfig = Fetch None Read ''service-page-config'' JUndef settle_answer"

definition Api_updateTemplate :: "jsval \<Rightarrow> jsval \<Rightarrow> browser_call" where
  "Api_updateTemplate pars csrf = Fetch (Some csrf) Create ''provider'' pars settle_answer"

definition Api_getGroup :: "jsval \<Rightarrow> jsval \<Rightarrow> jsval \<Rightarrow> jsval \<Rightarrow> browser_call" where
  "Api_getGroup domainName groupName audit pendingFlag =
     Fetch None Read ''group''
       (JObj [(''domainName'', domainName), (''groupName'', groupName),
         (''auditLog'', param_default (JBool True) audit),
         (''pending'', param_default (JBool True) pendingFlag)]) settle_answer"

definition Api_getCollectionMembers :: "jsval \<Rightarrow> jsval \<Rightarrow> jsval \<Rightarrow> jsval \<Rightarrow> browser_call" where
  "Api_getCollectionMembers domainName collectionName category trust =
     Fetch None Read ''collection-members''
       (JObj [(''domainName'', domainName), (''collectionName'', collectionName),
         (''category'', category), (''trust'', trust)]) settle_answer"

definition Api_getDomainRoleMembers :: "jsval \<Rightarrow> browser_call" where
  "Api_getDomainRoleMembers prin =
     Fetch None Read ''domain-role-member'' (JObj [(''principal'', prin)]) settle_answer"

definition Api_getFeatureFlag :: browser_call where
  "Api_getFeatureFlag = Fetch None Read ''feature-flag'' JUndef settle_answer"

definition Api_getPageFeatureFlag :: "jsval \<Rightarrow> browser_call" where
  "Api_getPageFeatureFlag pageName =
     Fetch None Read ''page-feature-flag'' (JObj [(''pageName'', pageName)]) settle_answer"

section \<open>Instances and microsegmentation\<close>

definition Api_getInstances :: "date_env \<Rightarrow> int \<Rightarrow> jsval \<Rightarrow> jsval \<Rightarrow> jsval \<Rightarrow> browser_call" where
  "Api_getInstances de now domainName serviceName category =
     Fetch None Read ''instances''
       (JObj [(''domainName'', domainName), (''serviceName'', serviceName), (''category'', category)])
       (settle_instances de now category)"

definition Api_getInboundOutbound :: "jsval \<Rightarrow> browser_call" where
  "Api_getInboundOutbound domainName =
     Fetch None Read ''microsegmentation'' (JObj [(''domainName'', domainName)]) settle_answer"

definition Api_getAuthorityAttributes :: browser_call where
  "Api_getAuthorityAttributes = Fetch None Read ''authority'' JUndef settle_answer"

definition Api_editMicrosegmentation :: "jsval \<Rightarrow> jsval \<Rightarrow> jsval \<Rightarrow> jsval \<Rightarrow> jsval \<Rightarrow> jsval \<Rightarrow> browser_call" where
  "Api_editMicrosegmentation domainName roleChanged assertionChanged assertionConditionChanged dat csrf =
     Fetch (Some csrf) Update ''microsegmentation''
       (JObj [(''domainName'', domainName), (''roleChanged'', roleChanged),
         (''assertionChanged'', assertionChanged),
         (''assertionConditionChanged'', assertionConditionChanged), (''data'', dat)]) settle_answer"

definition Api_validateMicrosegmentationPolicy :: "jsval \<Rightarrow> jsval \<Rightarrow> jsval \<Rightarrow> jsval \<Rightarrow> jsval \<Rightarrow> jsval \<Rightarrow> jsval
    \<Rightarrow> jsval \<Rightarrow> jsval \<Rightarrow> browser_call" where
  "Api_validateMicrosegmentationPolicy category roleMembers inboundDestinationService
    outboundSourceService sourcePort destinationPort protocol domainName csrf =
     Fetch (Some csrf) Read ''validateMicrosegmentation''
       (JObj [(''category'', category), (''roleMembers'', roleMembers),
         (''inboundDestinationService'', inboundDestinationService),
         (''outboundSourceService'', outboundSourceService), (''sourcePort'', sourcePort),
         (''destinationPort'', destinationPort), (''protocol'', protocol),
         (''domainName'', domainName)]) settle_answer"

definition Api_updateGraphLayout :: "jsval \<Rightarrow> jsval \<Rightarrow> jsval \<Rightarrow> browser_call" where
  "Api_updateGraphLayout elems style csrf =
     Fetch (Some csrf) Update ''graph-layout''
       (JObj [(''elements'', elems), (''style'', style)]) settle_answer"

definition Api_deleteTransportRule :: "jsval \<Rightarrow> jsval \<Rightarrow> jsval \<Rightarrow> jsval \<Rightarrow> jsval \<Rightarrow> jsval \<Rightarrow> browser_call" where
  "Api_deleteTransportRule domainName policyName assertionId roleName auditRef csrf =
     Fetch (Some csrf) Delete ''transport-rule''
       (JObj [(''domainName'', domainName), (''policyName'', policyName), (''assertionId'', assertionId),
         (''roleName'', roleName), (''auditRef'', auditRef)]) settle_answer"

section \<open>The module\<close>

text \<open>The methods of the module, called with arguments \<open>a 0\<close>, \<open>a 1\<close> and so on.\<close>

definition browser_api :: "date_env \<Rightarrow> int \<Rightarrow> (nat \<Rightarrow> jsval) \<Rightarrow> (string \<times> browser_call) list" where
  "browser_api de now a =
     [(''listUserDomains'', Api_listUserDomains (a 0)),
      (''listAllDomains'', Api_listAllDomains),
      (''listAdminDomains'', Api_listAdminDomains (a 0)),
      (''getDomain'', Api_getDomain (a 0)),
      (''createSubDomain'', Api_createSubDomain (a 0) (a 1) (a 2) (a 3)),
      (''createUserDomain'', Api_createUserDomain (a 0) (a 1)),
      (''getRoleMembers'', Api_getRoleMembers (a 0)),
      (''listRoles'', Api_listRoles (a 0)),
      (''getRoles'', Api_getRoles (a 0)),
      (''getGroups'', Api_getGroups (a 0)),
      (''getServiceHost'', Api_getServiceHost (a 0) (a 1)),
      (''reloadGroups'', Api_reloadGroups (a 0) (a 1)),
      (''listGroups'', Api_listGroups (a 0)),
      (''getRole'', Api_getRole (a 0) (a 1) (a 2) (a 3) (a 4)),
      (''getCollection'', Api_getCollection (a 0) (a 1) (a 2) (a 3) (a 4) (a 5)),
      (''getPendingDomainMembersList'', Api_getPendingDomainMembersList),
      (''getPendingDomainMembersListByDomain'', Api_getPendingDomainMembersListByDomain (a 0)),
      (''getPendingDomainMembersCountByDomain'', Api_getPendingDomainMembersCountByDomain (a 0)),
      (''processPending'', Api_processPending (a 0) (a 1) (a 2) (a 3) (a 4) (a 5) (a 6)),
      (''addRole'', Api_addRole (a 0) (a 1) (a 2) (a 3) (a 4)),
      (''addGroup'', Api_addGroup (a 0) (a 1) (a 2) (a 3) (a 4)),
      (''deleteRole'', Api_deleteRole (a 0) (a 1) (a 2) (a 3)),
      (''deleteGroup'', Api_deleteGroup (a 0) (a 1) (a 2) (a 3)),
      (''reviewRole'', Api_reviewRole (a 0) (a 1) (a 2) (a 3) (a 4)),
      (''addServiceHost'', Api_addServiceHost (a 0) (a 1) (a 2) (a 3) (a 4)),
      (''reviewGroup'', Api_reviewGroup (a 0) (a 1) (a 2) (a 3) (a 4)),
      (''deleteRoleMember'', Api_deleteRoleMember (a 0) (a 1) (a 2) (a 3)),
      (''addMember'', Api_addMember (a 0) (a 1) (a 2) (a 3) (a 4) (a 5) (a 6)),
      (''addMemberToRoles'', Api_addMemberToRoles (a 0) (a 1) (a 2) (a 3) (a 4) (a 5)),
      (''deleteMember'', Api_deleteMember (a 0) (a 1) (a 2) (a 3) (a 4) (a 5) (a 6)),
      (''deletePendingMember'', Api_deletePendingMember (a 0) (a 1) (a 2) (a 3) (a 4)),
      (''getForm'', Api_getForm),
      (''searchDomains'', Api_searchDomains (a 0)),
      (''getServices'', Api_getServices (a 0)),
      (''getService'', Api_getService (a 0) (a 1) (a 2) (a 3)),
      (''addService'', Api_addService (a 0) (a 1) (a 2) (a 3) (a 4) (a 5) (a 6)),
      (''deleteService'', Api_deleteService (a 0) (a 1) (a 2)),
      (''addKey'', Api_addKey (a 0) (a 1) (a 2) (a 3) (a 4)),
      (''deleteKey'', Api_deleteKey (a 0) (a 1) (a 2) (a 3)),
      (''allowProviderTemplate'', Api_allowProviderTemplate (a 0) (a 1) (a 2) (a 3)),
      (''getStatus'', Api_getStatus),
      (''getPolicy'', Api_getPolicy (a 0) (a 1)),
      (''getAssertionId'', Api_getAssertionId (a 0) (a 1) (a 2) (a 3) (a 4) (a 5)),
      (''getProvider'', Api_getProvider (a 0) (a 1)),
      (''getRolePrefix'', Api_getRolePrefix),
      (''getPolicies'', Api_getPolicies (a 0) (a 1) (a 2)),
      (''getPoliciesVersions'', Api_getPoliciesVersions (a 0) (a 1)),
      (''addPolicy'', Api_addPolicy (a 0) (a 1) (a 2) (a 3) (a 4) (a 5) (a 6) (a 7)),
      (''duplicatePolicyVersion'', Api_duplicatePolicyVersion (a 0) (a 1) (a 2) (a 3) (a 4)),
      (''setActivePolicyVersion'', Api_setActivePolicyVersion (a 0) (a 1) (a 2) (a 3)),
      (''getPolicyVersion'', Api_getPolicyVersion (a 0) (a 1) (a 2)),
      (''deletePolicy'', Api_deletePolicy (a 0) (a 1) (a 2)),
      (''deletePolicyVersion'', Api_deletePolicyVersion (a 0) (a 1) (a 2) (a 3)),
      (''getHistory'', Api_getHistory (a 0) (a 1) (a 2) (a 3) (a 4)),
      (''addAssertion'', Api_addAssertion (a 0) (a 1) (a 2) (a 3) (a 4) (a 5) (a 6) (a 7)),
      (''addAssertionPolicyVersion'', Api_addAssertionPolicyVersion (a 0) (a 1) (a 2) (a 3) (a 4) (a 5) (a 6) (a 7) (a 8)),
      (''addAssertionConditions'', Api_addAssertionConditions (a 0) (a 1) (a 2) (a 3) (a 4) (a 5)),
      (''deleteAssertionCondition'', Api_deleteAssertionCondition (a 0) (a 1) (a 2) (a 3) (a 4) (a 5)),
      (''deleteAssertion'', Api_deleteAssertion (a 0) (a 1) (a 2) (a 3) (a 4)),
      (''deleteAssertionPolicyVersion'', Api_deleteAssertionPolicyVersion (a 0) (a 1) (a 2) (a 3) (a 4) (a 5)),
      (''deleteSubDomain'', Api_deleteSubDomain (a 0) (a 1) (a 2) (a 3)),
      (''putMeta'', Api_putMeta (a 0) (a 1) (a 2) (a 3) (a 4) (a 5)),
      (''getMeta'', Api_getMeta (a 0)),
      (''isAWSTemplateApplied'', Api_isAWSTemplateApplied (a 0)),
      (''applyAWSTemplates'', Api_applyAWSTemplates (a 0) (a 1) (a 2)),
      (''getDomainTemplateDetailsList'', Api_getDomainTemplateDetailsList (a 0)),
      (''getServerTemplateDetailsList'', Api_getServerTemplateDetailsList),
      (''getAuthOptions'', Api_getAuthOptions),
      (''getHeaderDetails'', Api_getHeaderDetails),
      (''getServiceHeaderDetails'', Api_getServiceHeaderDetails),
      (''getServicePageConfig'', Api_getServicePageConfig),
      (''updateTemplate'', Api_updateTemplate (a 0) (a 1)),
      (''getGroup'', Api_getGroup (a 0) (a 1) (a 2) (a 3)),
      (''getCollectionMembers'', Api_getCollectionMembers (a 0) (a 1) (a 2) (a 3)),
      (''getDomainRoleMembers'', Api_getDomainRoleMembers (a 0)),
      (''getFeatureFlag'', Api_getFeatureFlag),
      (''getPageFeatureFlag'', Api_getPageFeatureFlag (a 0)),
      (''getInstances'', Api_getInstances de now (a 0) (a 1) (a 2)),
      (''getInboundOutbound'', Api_getInboundOutbound (a 0)),
      (''getAuthorityAttributes'', Api_getAuthorityAttributes),
      (''editMicrosegmentation'', Api_editMicrosegmentation (a 0) (a 1) (a 2) (a 3) (a 4) (a 5)),
      (''validateMicrosegmentationPolicy'', Api_validateMicrosegmentationPolicy (a 0) (a 1) (a 2) (a 3) (a 4) (a 5) (a 6) (a 7) (a 8)),
      (''updateGraphLayout'', Api_updateGraphLayout (a 0) (a 1) (a 2)),
      (''deleteTransportRule'', Api_deleteTransportRule (a 0) (a 1) (a 2) (a 3) (a 4) (a 5))]"

end
