(* ===== verification/Ui_Console.thy ===== *)
theory Ui_Console
  imports Ui_Browser
begin

text \<open>
  The browser API and the server of the console together: every request of a page has a service
  that handles it, every request that changes something carries the token that protects it and
  settles its promise with the answer of the server, and what a page asks for is what reaches ZMS.
\<close>

section \<open>Requests and services\<close>

definition operations_served :: "(string \<times> operation) list" where
  "operations_served =
     [(''assertion'', Create), (''assertion'', Delete), (''assertion-version'', Create),
      (''assertion-version'', Delete), (''assertionConditions'', Create),
      (''assertionCondition'', Delete), (''domain'', Read), (''domain'', Create),
      (''domain'', Delete), (''domain-templates'', Read), (''domain-templates'', Create),
      (''templates'', Read), (''admin-domains'', Read), (''domain-list'', Read),
      (''all-domain-list'', Read), (''get-form'', Read), (''get-service-host'', Read),
      (''member'', Create), (''member'', Delete), (''pending-member'', Delete),
      (''member-multiple-roles'', Create), (''role-members'', Read), (''role-members'', Delete),
      (''policies'', Read), (''policies-versions'', Read), (''policy'', Read), (''policy'', Create),
      (''policy'', Delete), (''policy-version'', Create), (''policy-version'', Read),
      (''policy-version'', Update), (''policy-version'', Delete), (''assertionId'', Read),
      (''process-pending'', Create), (''provider'', Read), (''provider'', Create),
      (''auth-options'', Read), (''prefix'', Read), (''role'', Read), (''role'', Create),
      (''role'', Delete), (''role'', Update), (''meta'', Create), (''meta'', Read),
      (''roles'', Read), (''groups'', Read), (''role-list'', Read), (''groups-list'', Read),
      (''add-service-host'', Update), (''pending-approval'', Read),
      (''pending-approval-domain'', Read), (''pending-approval-domain-count'', Read),
      (''services'', Read), (''search-domain'', Read), (''service'', Read), (''service'', Create),
      (''service'', Delete), (''key'', Create), (''key'', Delete), (''status'', Read),
      (''user'', Read), (''domain-history'', Read), (''group'', Read), (''group'', Create),
      (''group'', Delete), (''group'', Update), (''collection-members'', Read),
      (''domain-role-member'', Read), (''header-details'', Read), (''service-header-details'', Read),
      (''service-page-config'', Read), (''feature-flag'', Read), (''page-feature-flag'', Read),
      (''microsegmentation'', Read), (''microsegmentation'', Update),
      (''validateMicrosegmentation'', Read), (''instances'', Read), (''graph-layout'', Update),
      (''authority'', Read), (''transport-rule'', Delete)]"

lemma table_operations:
  "map (\<lambda>(name, oper, h). (name, oper)) (service_table env app us params) = operations_served"
  by (simp add: service_table_def operations_served_def)

lemma served_iff:
  "(\<exists>h. (name, oper, h) \<in> set (service_table env app us params)) \<longleftrightarrow> (name, oper) \<in> set operations_served"
  unfolding table_operations [of env app us params, symmetric] by force

lemmas browser_defs =
  Api_listUserDomains_def Api_listAllDomains_def Api_listAdminDomains_def Api_getDomain_def
  Api_createSubDomain_def Api_createUserDomain_def Api_getRoleMembers_def Api_listRoles_def
  Api_getRoles_def Api_getGroups_def Api_getServiceHost_def Api_reloadGroups_def Api_listGroups_def
  Api_getRole_def Api_getCollection_def Api_getPendingDomainMembersList_def
  Api_getPendingDomainMembersListByDomain_def Api_getPendingDomainMembersCountByDomain_def
  Api_processPending_def Api_addRole_def Api_addGroup_def Api_deleteRole_def Api_deleteGroup_def
  Api_reviewRole_def Api_addServiceHost_def Api_reviewGroup_def Api_deleteRoleMember_def
  Api_addMember_def Api_addMemberToRoles_def Api_deleteMember_def Api_deletePendingMember_def
  Api_getForm_def Api_searchDomains_def Api_getServices_def Api_getService_def Api_addService_def
  Api_deleteService_def Api_addKey_def Api_deleteKey_def Api_allowProviderTemplate_def
  Api_getStatus_def Api_getPolicy_def Api_getAssertionId_def Api_getProvider_def Api_getRolePrefix_def
  Api_getPolicies_def Api_getPoliciesVersions_def Api_addPolicy_def Api_duplicatePolicyVersion_def
  Api_setActivePolicyVersion_def Api_getPolicyVersion_def Api_deletePolicy_def
  Api_deletePolicyVersion_def Api_getHistory_def Api_addAssertion_def Api_addAssertionPolicyVersion_def
  Api_addAssertionConditions_def Api_deleteAssertionCondition_def Api_deleteAssertion_def
  Api_deleteAssertionPolicyVersion_def Api_deleteSubDomain_def Api_putMeta_def Api_getMeta_def
  Api_isAWSTemplateApplied_def Api_applyAWSTemplates_def Api_getDomainTemplateDetailsList_def
  Api_getServerTemplateDetailsList_def Api_getAuthOptions_def Api_getHeaderDetails_def
  Api_getServiceHeaderDetails_def Api_getServicePageConfig_def Api_updateTemplate_def Api_getGroup_def
  Api_getCollectionMembers_def Api_getDomainRoleMembers_def Api_getFeatureFlag_def
  Api_getPageFeatureFlag_def Api_getInstances_def Api_getInboundOutbound_def
  Api_getAuthorityAttributes_def Api_editMicrosegmentation_def Api_validateMicrosegmentationPolicy_def
  Api_updateGraphLayout_def Api_deleteTransportRule_def

text \<open>What is to be shown of a call, for all methods at once.\<close>

definition served :: "string \<Rightarrow> operation \<Rightarrow> bool" where
  "served service oper \<longleftrightarrow> (service, oper) \<in> set operations_served"

lemma served_all: "list_all (\<lambda>(service, oper). served service oper) operations_served"
  by (auto simp: served_def list_all_iff)

lemmas served_simps = served_all [unfolded operations_served_def list.pred_inject simp_thms prod.case]

definition change_settles :: "string \<Rightarrow> jsval \<Rightarrow> jsval \<Rightarrow> promise result" where
  "change_settles name = (if name = ''addServiceHost'' then settle_or_empty else settle_answer)"

definition well_called :: "string \<times> browser_call \<Rightarrow> bool" where
  "well_called m =
     (case snd m of
        Fetch csrf oper service params s \<Rightarrow>
          served service oper \<and> service \<noteq> ''user''
          \<and> (oper \<noteq> Read \<longrightarrow> csrf \<noteq> None \<and> s = change_settles (fst m))
      | _ \<Rightarrow> True)"

lemma well_called_read:
  "served service Read \<Longrightarrow> service \<noteq> ''user'' \<Longrightarrow> well_called (name, Fetch csrf Read service params s)"
  by (simp add: well_called_def)

lemma well_called_change:
  "served service oper \<Longrightarrow> service \<noteq> ''user'' \<Longrightarrow> s = change_settles name \<Longrightarrow>
     well_called (name, Fetch (Some csrf) oper service params s)"
  by (simp add: well_called_def)

lemma well_called_if:
  "well_called (name, c) \<Longrightarrow> well_called (name, d) \<Longrightarrow> well_called (name, if b then c else d)"
  by simp

lemma well_called_result:
  "(\<And>v. well_called (name, f v)) \<Longrightarrow> well_called (name, fetch_result r f)"
  by (auto simp: fetch_result_def well_called_def split: sum.splits)

lemma well_called_none: "well_called (name, NoPromise)"
  by (simp add: well_called_def)

lemmas well_called_rules = well_called_read well_called_change well_called_if well_called_result well_called_none

lemma browser_api_well_called: "list_all well_called (browser_api de now a)"
  unfolding browser_api_def list.pred_inject simp_thms browser_defs Let_def
  by (intro conjI well_called_rules; simp add: served_simps change_settles_def)

lemma browser_callD:
  "(name, Fetch csrf oper service ps s) \<in> set (browser_api de now a) \<Longrightarrow>
     served service oper \<and> service \<noteq> ''user'' \<and> (oper \<noteq> Read \<longrightarrow> csrf \<noteq> None \<and> s = change_settles name)"
  using browser_api_well_called [of de now a] by (auto simp: list_all_iff well_called_def)

fun call_key :: "browser_call \<Rightarrow> (string \<times> operation) option" where
  "call_key (Fetch csrf oper service ps s) = Some (service, oper)"
| "call_key c = None"

text \<open>With texts for all arguments every method sends a request, but the one that looks at a category.\<close>

lemma text_assertion:
  "fetch_result (new_assertion (JStr []) (JStr []) (JStr []) (JStr []) (JStr []) (JStr [])) f =
     f (JObj [(''role'', JStr '':role.''), (''resource'', JStr '':''), (''effect'', JStr []), (''action'', JStr []),
       (''caseSensitive'', JStr [])])"
proof -
  have "new_assertion (JStr []) (JStr []) (JStr []) (JStr []) (JStr []) (JStr []) =
    Inr (JObj [(''role'', JStr '':role.''), (''resource'', JStr '':''), (''effect'', JStr []), (''action'', JStr []),
      (''caseSensitive'', JStr [])])"
    by code_simp
  then show ?thesis
    by (simp add: fetch_result_def)
qed

definition text_called :: "date_env \<Rightarrow> int \<Rightarrow> string \<Rightarrow> operation \<Rightarrow> bool" where
  "text_called de now service oper \<longleftrightarrow>
     (\<exists>name csrf ps s. (name, Fetch csrf oper service ps s) \<in> set (browser_api de now (\<lambda>i. JStr [])))"

lemma text_called_all:
  "list_all (\<lambda>(name, c). \<forall>service oper. call_key c = Some (service, oper) \<longrightarrow> text_called de now service oper)
     (browser_api de now (\<lambda>i. JStr []))"
proof -
  have "\<exists>csrf ps s. c = Fetch csrf oper service ps s" if "call_key c = Some (service, oper)" for c service oper
    using that by (cases c) auto
  then show ?thesis
    by (fastforce simp: list_all_iff text_called_def)
qed

lemma text_called_step:
  "(\<forall>service oper. call_key (Fetch csrf oper' service' ps s) = Some (service, oper) \<longrightarrow> text_called de now service oper)
     \<longleftrightarrow> text_called de now service' oper'"
  by simp

lemmas text_called_simps =
  text_called_all [unfolded browser_api_def browser_defs list.pred_inject prod.case Let_def text_assertion text_called_step]

lemma all_called:
  "(service, oper) \<in> set operations_served \<Longrightarrow> service \<noteq> ''user'' \<Longrightarrow> text_called de now service oper"
proof -
  have "list_all (\<lambda>(service, oper). service = ''user'' \<or> text_called de now service oper) operations_served"
    unfolding operations_served_def list.pred_inject prod.case by (simp add: text_called_simps [of de now])
  then show "(service, oper) \<in> set operations_served \<Longrightarrow> service \<noteq> ''user'' \<Longrightarrow> text_called de now service oper"
    by (auto simp: list_all_iff)
qed

text \<open>
  C23. The browser API and the server agree on their interface: the operations that the methods of
  the API ask for are exactly the operations that the server has registered, except for reading the
  user, which no method asks for.
\<close>

theorem browser_and_server_agree:
  "{(service, oper). \<exists>a name csrf ps s. (name, Fetch csrf oper service ps s) \<in> set (browser_api de now a)} =
   {(service, oper). \<exists>h. (service, oper, h) \<in> set (service_table env app us params)} - {(''user'', Read)}"
proof -
  have "(\<exists>a name csrf ps s. (name, Fetch csrf oper service ps s) \<in> set (browser_api de now a)) \<longleftrightarrow>
      (\<exists>h. (service, oper, h) \<in> set (service_table env app us params)) \<and> service \<noteq> ''user''" for service oper
    using browser_callD [where oper = oper and service = service] all_called [of service oper de now]
    unfolding served_iff served_def text_called_def by meson
  moreover have "oper = Read" if "(''user'', oper, h) \<in> set (service_table env app us params)" for oper h
    using that by (auto simp: service_table_def)
  ultimately show ?thesis
    by auto
qed

section \<open>Changes\<close>

lemma change_settles_answer:
  "change_settles name err data =
     Inr (if truthy err then Rejected err
          else Resolved (if name = ''addServiceHost'' then js_or data (JArr []) else data))"
  by (simp add: change_settles_def settle_or_empty_def settle_answer_def)

text \<open>
  C10. A request of the browser that changes something carries the security token of the page. When
  the service that handles it returns without an exception, its promise is settled by the one answer
  of the server: rejected with the error, or resolved with the data. For the services of members and of
  pending requests this needs the category role or group, for the service of meta data one of role,
  group and domain: with any other category these three never answer.
\<close>

theorem browser_change_settled:
  assumes "(name, Fetch csrf oper service ps s) \<in> set (browser_api de now a)" and "oper \<noteq> Read"
    and "(service, oper, h) \<in> set (service_table env app us params)" and "known_category service params"
    and "h w = (Inr u, w')" and "aw_replies w = []"
  shows "csrf \<noteq> None \<and> (\<exists>err data. aw_replies w' = [(err, data)]
    \<and> s err data = Inr (if truthy err then Rejected err
        else Resolved (if name = ''addServiceHost'' then js_or data (JArr []) else data)))"
proof -
  have "length (aw_replies w') = 1"
    using answersD [OF table_answers [OF assms(3,2,4)] assms(5)] assms(6) by simp
  then obtain err data where "aw_replies w' = [(err, data)]"
    by (auto simp: length_Suc_conv)
  then show ?thesis
    using browser_callD [OF assms(1)] assms(2) change_settles_answer by auto
qed

definition demo_dates :: date_env where
  "demo_dates = \<lparr>de_moment = (\<lambda>d f z z' g. []), de_weekBefore = (\<lambda>t. t - 604800000)\<rparr>"

theorem browser_change_settled_witness:
  "\<exists>err data. aw_replies (snd (transport_rule_delete demo_api [] no_world)) = [(err, data)]
     \<and> settle_answer err data = Inr (if truthy err then Rejected err else Resolved data)"
proof -
  let ?a = "\<lambda>i :: nat. JUndef"
  have call: "(''deleteTransportRule'', Fetch (Some JUndef) Delete ''transport-rule''
      (JObj [(''domainName'', JUndef), (''policyName'', JUndef), (''assertionId'', JUndef), (''roleName'', JUndef),
         (''auditRef'', JUndef)]) settle_answer) \<in> set (browser_api demo_dates 0 ?a)"
    by (simp add: browser_api_def Api_deleteTransportRule_def)
  have "fst (transport_rule_delete demo_api [] no_world) = Inr ()"
    by code_simp
  then have run: "transport_rule_delete demo_api [] no_world = (Inr (), snd (transport_rule_delete demo_api [] no_world))"
    by (simp add: prod_eq_iff)
  have "(''transport-rule'', Delete, transport_rule_delete demo_api [])
      \<in> set (service_table demo_api demo_app user_service_init [])"
    by (simp add: service_table_def)
  from browser_change_settled [OF call _ this _ run]
  have "\<exists>err data. aw_replies (snd (transport_rule_delete demo_api [] no_world)) = [(err, data)]
     \<and> settle_answer err data = Inr (if truthy err then Rejected err
         else Resolved (if ''deleteTransportRule'' = ''addServiceHost'' then js_or data (JArr []) else data))"
    by (simp add: known_category_def no_world_def)
  then show ?thesis
    by (simp only: list.inject char.inject simp_thms if_False)
qed

section \<open>A new policy\<close>

text \<open>The rule that a new policy should have: names of the domain, and a resource of the domain unless it names another.\<close>

definition rule_of :: "string \<Rightarrow> string \<Rightarrow> string \<Rightarrow> string \<Rightarrow> jsval \<Rightarrow> jsval \<Rightarrow> jsval" where
  "rule_of d r res act eff caseSensitive =
     JObj [(''role'', JStr (d @ '':role.'' @ r)),
           (''resource'', JStr (if CHR '':'' \<in> set (trim res) then trim res else d @ '':'' @ trim res)),
           (''effect'', eff), (''action'', JStr (trim act)), (''caseSensitive'', caseSensitive)]"

definition policy_params :: "string \<Rightarrow> string \<Rightarrow> jsval \<Rightarrow> jsval jsobj" where
  "policy_params d p rule =
     [(''domainName'', JStr d), (''policyName'', JStr p),
      (''policy'', JObj [(''name'', JStr (d @ '':policy.'' @ p)), (''assertions'', JArr [rule])])]"

lemma new_assertion_text:
  "new_assertion (JStr d) (JStr r) (JStr res) (JStr act) eff caseSensitive = Inr (rule_of d r res act eff caseSensitive)"
  by (simp add: new_assertion_def rule_of_def getResourceName_def string_of_def str_includes_def Let_def)

text \<open>
  C12. The policy that a page adds is the policy that ZMS is asked to store: with a policy of that
  name absent, the request of the page makes the server put exactly one policy, named in the domain,
  with the role and the resource qualified by the domain, and the promise has the answer of ZMS.
\<close>

theorem added_policy_stored:
  assumes "ae_ask env (aw_calls w @ [zms ''getPolicy'' (JObj params)]) = Inr (err, x)"
    and "truthy err" and "get_prop err ''status'' = Inr (JNum (Fin 404))"
    and "ae_ask env (aw_calls w @ [zms ''getPolicy'' (JObj params), zms ''putPolicy'' (JObj params)]) = Inr (JNull, answer)"
    and "params = policy_params d p (rule_of d r res act eff caseSensitive)"
  shows "\<exists>s. Api_addPolicy (JStr d) (JStr p) (JStr r) (JStr res) (JStr act) eff caseSensitive csrf =
        Fetch (Some csrf) Create ''policy'' (JObj params) s
    \<and> policy_create env params w =
        (Inr (), w\<lparr>aw_calls := aw_calls w @ [zms ''getPolicy'' (JObj params), zms ''putPolicy'' (JObj params)],
                   aw_replies := aw_replies w @ [(JNull, answer)]\<rparr>)
    \<and> s JNull answer = Inr (Resolved answer)"
proof (intro exI conjI)
  show "Api_addPolicy (JStr d) (JStr p) (JStr r) (JStr res) (JStr act) eff caseSensitive csrf =
      Fetch (Some csrf) Create ''policy'' (JObj params) settle_answer"
    by (simp add: Api_addPolicy_def fetch_result_def new_assertion_text assms(5) policy_params_def)
  show "policy_create env params w =
      (Inr (), w\<lparr>aw_calls := aw_calls w @ [zms ''getPolicy'' (JObj params), zms ''putPolicy'' (JObj params)],
                 aw_replies := aw_replies w @ [(JNull, answer)]\<rparr>)"
    using assms(1-4) by (simp add: policy_create_def strict_eq_def num_eq_def pass_def forward_to_def
        responseHandler_def ask_def issue_def callback_def bind_action_def)
  show "settle_answer JNull answer = Inr (Resolved answer)"
    by (simp add: settle_answer_def)
qed

theorem added_policy_stored_witness:
  "\<exists>s. Api_addPolicy (JStr ''sports'') (JStr ''editors'') (JStr ''writer'') (JStr '' article.* '') (JStr ''write'')
       (JStr ''ALLOW'') (JBool False) (JStr ''token'') =
     Fetch (Some (JStr ''token'')) Create ''policy''
       (JObj (policy_params ''sports'' ''editors'' (rule_of ''sports'' ''writer'' '' article.* '' ''write'' (JStr ''ALLOW'') (JBool False)))) s
     \<and> rule_of ''sports'' ''writer'' '' article.* '' ''write'' (JStr ''ALLOW'') (JBool False) =
         JObj [(''role'', JStr ''sports:role.writer''), (''resource'', JStr ''sports:article.*''), (''effect'', JStr ''ALLOW''),
               (''action'', JStr ''write''), (''caseSensitive'', JBool False)]"
proof -
  let ?rule = "rule_of ''sports'' ''writer'' '' article.* '' ''write'' (JStr ''ALLOW'') (JBool False)"
  let ?err = "JObj [(''status'', JNum (Fin 404)), (''message'', JObj [(''message'', JStr ''not found'')])]"
  have "?rule = JObj [(''role'', JStr ''sports:role.writer''), (''resource'', JStr ''sports:article.*''), (''effect'', JStr ''ALLOW''),
               (''action'', JStr ''write''), (''caseSensitive'', JBool False)]"
    by code_simp
  moreover have "get_prop ?err ''status'' = Inr (JNum (Fin 404))"
    by code_simp
  ultimately show ?thesis
    using added_policy_stored [of demo_api no_world "policy_params ''sports'' ''editors'' ?rule" ?err JNull "JObj []"
        "''sports''" "''editors''" "''writer''" "'' article.* ''" "''write''" "JStr ''ALLOW''" "JBool False" "JStr ''token''"]
    by (auto simp: demo_api_def no_world_def zms_def)
qed

section \<open>Instances\<close>

text \<open>
  When the back end knows a service but has no list of the kind that is asked for, the server
  answers with an empty object; the callback of the browser throws on it, and the promise of the
  page is never settled.
\<close>

lemma missing_instances_throw:
  assumes "ae_ask env (aw_calls w @ [msd ''getWorkloadsByService'' (JObj [(''domainName'', d), (''serviceName'', v)])]) = Inr (err, JObj [])"
  shows "\<exists>w'. instances_read env [(''domainName'', d), (''serviceName'', v), (''category'', c)] w = (Inr (), w')
    \<and> aw_replies w' = aw_replies w @ [(JNull, JObj [])]
    \<and> settle_instances de now c JNull (JObj []) = Inl (TypeError ''array'')"
  using assms by (simp add: instances_read_def ask_def issue_def callback_def bind_action_def settle_instances_def
      array_items_def pick_params_def obj_get_def)

end
