(* ===== verification/Ui_Page.thy ===== *)
theory Ui_Page
  imports Ui_Browser
begin

text \<open>
  Handlers of a page that make several requests one after the other. A handler is an action on the
  state of the form, the requests it has sent and what it has told the page around it. The server
  and the user are parameters: the answer to a request, if there is one, may depend on all requests
  before it, and while a request is under way the form may change in any way.
\<close>

datatype told = Submitted | Cancelled

record 'f page =
  pg_form :: 'f
  pg_sent :: "browser_call list"
  pg_told :: "told list"

record 'f page_env =
  pe_reply :: "browser_call list \<Rightarrow> (jsval \<times> jsval) option"
  pe_meanwhile :: "browser_call list \<Rightarrow> 'f \<Rightarrow> 'f"

type_synonym ('f, 'a) page_action = "('f page, 'a) action"

definition fresh_page :: "'f \<Rightarrow> 'f page" where
  "fresh_page st = \<lparr>pg_form = st, pg_sent = [], pg_told = []\<rparr>"

definition form :: "('f \<Rightarrow> 'a) \<Rightarrow> ('f, 'a) page_action" where
  "form g = read_state (\<lambda>p. g (pg_form p))"

definition set_form :: "('f \<Rightarrow> 'f) \<Rightarrow> ('f, unit) page_action" where
  "set_form g = update_state (\<lambda>p. p\<lparr>pg_form := g (pg_form p)\<rparr>)"

definition tell :: "told \<Rightarrow> ('f, unit) page_action" where
  "tell t = update_state (\<lambda>p. p\<lparr>pg_told := pg_told p @ [t]\<rparr>)"

text \<open>What becomes of the promise of a request: a callback that throws leaves it as it is.\<close>

definition settled :: "(jsval \<Rightarrow> jsval \<Rightarrow> promise result) \<Rightarrow> (jsval \<times> jsval) option \<Rightarrow> promise" where
  "settled cb reply =
     (case reply of
        None \<Rightarrow> Pending
      | Some (err, data) \<Rightarrow> (case cb err data of Inl _ \<Rightarrow> Pending | Inr p \<Rightarrow> p))"

definition request :: "'f page_env \<Rightarrow> browser_call \<Rightarrow> ('f, promise) page_action" where
  "request env c =
     (case c of
        Fetch _ _ _ _ cb \<Rightarrow>
          bind_action (update_state (\<lambda>p. p\<lparr>pg_sent := pg_sent p @ [c],
            pg_form := pe_meanwhile env (pg_sent p @ [c]) (pg_form p)\<rparr>)) (\<lambda>_.
          bind_action (read_state pg_sent) (\<lambda>sent. ret (settled cb (pe_reply env sent))))
      | Failed e \<Rightarrow> ret (Rejected (exn_val e))
      | NoPromise \<Rightarrow> throw (TypeError ''then''))"

text \<open>\<^verbatim>\<open>p.then(f)\<close> where \<open>f\<close> returns a promise.\<close>

definition page_then :: "(jsval \<Rightarrow> ('f, promise) page_action) \<Rightarrow> promise \<Rightarrow> ('f, promise) page_action" where
  "page_then f p = (case p of Resolved v \<Rightarrow> f v | _ \<Rightarrow> ret p)"

text \<open>\<^verbatim>\<open>p.then(f).catch(g)\<close>: \<open>g\<close> also has what \<open>f\<close> throws. Both settle a promise that is already given out.\<close>

definition page_catch :: "(jsval \<Rightarrow> ('f, promise) page_action) \<Rightarrow> ('f, promise) page_action \<Rightarrow> ('f, promise) page_action" where
  "page_catch g m p = (case m p of (Inl e, p') \<Rightarrow> g (exn_val e) p' | (Inr q, p') \<Rightarrow> (Inr q, p'))"

definition page_settle ::
  "(jsval \<Rightarrow> ('f, promise) page_action) \<Rightarrow> (jsval \<Rightarrow> ('f, promise) page_action) \<Rightarrow> promise \<Rightarrow> ('f, promise) page_action" where
  "page_settle f g p =
     (case p of Resolved v \<Rightarrow> page_catch g (f v) | Rejected e \<Rightarrow> g e | Pending \<Rightarrow> ret Pending)"

text \<open>\<^verbatim>\<open>reject(message)\<close>; when the message cannot be made, the promise stays as it is.\<close>

definition reject_with :: "string result \<Rightarrow> ('f, promise) page_action" where
  "reject_with r = ret (case r of Inl _ \<Rightarrow> Pending | Inr m \<Rightarrow> Rejected (JStr m))"

section \<open>Evaluation\<close>

lemma page_prims [simp]:
  "form g p = (Inr (g (pg_form p)), p)"
  "set_form h p = (Inr (), p\<lparr>pg_form := h (pg_form p)\<rparr>)"
  "tell t p = (Inr (), p\<lparr>pg_told := pg_told p @ [t]\<rparr>)"
  "page_then f (Resolved v) = f v" "page_then f (Rejected e) = ret (Rejected e)" "page_then f Pending = ret Pending"
  "page_settle f' g' (Resolved v) = page_catch g' (f' v)" "page_settle f' g' (Rejected e) = g' e"
  "page_settle f' g' Pending = ret Pending"
  "reject_with (Inr m) p = (Inr (Rejected (JStr m)), p)" "reject_with (Inl x) p = (Inr Pending, p)"
  by (simp_all add: form_def set_form_def tell_def page_then_def page_settle_def reject_with_def)

lemma request_simps [simp]:
  "request env (Fetch csrf op service params cb) p =
     (let c = Fetch csrf op service params cb; sent = pg_sent p @ [c]
      in (Inr (settled cb (pe_reply env sent)), p\<lparr>pg_sent := sent, pg_form := pe_meanwhile env sent (pg_form p)\<rparr>))"
  "request env (Failed e) p = (Inr (Rejected (exn_val e)), p)"
  by (simp_all add: request_def Let_def)

lemma page_catch_simps [simp]:
  "m p = (Inr q, p') \<Longrightarrow> page_catch g m p = (Inr q, p')"
  "m p = (Inl e, p') \<Longrightarrow> page_catch g m p = g (exn_val e) p'"
  by (simp_all add: page_catch_def)

lemma bind_form [simp]:
  "bind_action (form g) f p = f (g (pg_form p)) p"
  "bind_action (set_form h) f' p = f' () (p\<lparr>pg_form := h (pg_form p)\<rparr>)"
  "bind_action (tell t) f' p = f' () (p\<lparr>pg_told := pg_told p @ [t]\<rparr>)"
  by (simp_all add: bind_action_def)

end
