(* ===== verification/Ui_Forms.thy ===== *)
theory Ui_Forms
  imports Ui_Browser
begin

text \<open>
  What the forms of the console share, and the form that adds a group
  (\<^verbatim>\<open>ui/src/components/group/AddGroup.js\<close>).

  A form is the state of a React component with one definition for each of its handlers. A handler
  that waits for the server is split at the request: the first part gives what is sent and what the
  callback remembers, the second is run with the answer on the state of that time. The steps of a
  form are its handlers in any order, with any number of requests under way.
\<close>

section \<open>What forms share\<close>

record form_props =
  fp_domain :: jsval
  fp_csrf :: jsval
  fp_justificationRequired :: bool

text \<open>\<^verbatim>\<open>justification === undefined || justification.trim() === ''\<close>\<close>

definition blank :: "string option \<Rightarrow> bool" where
  "blank justification = (case justification of None \<Rightarrow> True | Some s \<Rightarrow> trim s = [])"

definition missing_justification :: "'p form_props_scheme \<Rightarrow> string option \<Rightarrow> bool" where
  "missing_justification props justification \<longleftrightarrow> fp_justificationRequired props \<and> blank justification"

text \<open>\<^verbatim>\<open>justification ? justification : d\<close>\<close>

definition audit_ref :: "string option \<Rightarrow> string \<Rightarrow> jsval" where
  "audit_ref justification d = JStr (case justification of None \<Rightarrow> d | Some s \<Rightarrow> if s = [] then d else s)"

text \<open>The message of a failed request in the two forms that have their own.\<close>

definition expired_message :: "jsval \<Rightarrow> string result" where
  "expired_message err =
     bind_result (get_prop err ''statusCode'') (\<lambda>statusCode.
       if strict_eq statusCode (JNum (Fin 0)) then Inr ''Okta expired. Please refresh the page'' else body_message err)"

definition member_regex_message :: string where
  "member_regex_message = ''Member name doesn't match regex: ([a-zA-Z0-9_][a-zA-Z0-9_-]*'' @ [CHR 0x5C]
     @ ''.)*[a-zA-Z0-9_][a-zA-Z0-9_-]*''"

definition group_regex_message :: string where
  "group_regex_message = ''Group name doesn't match regex: ([a-zA-Z0-9_][a-zA-Z0-9_-]*'' @ [CHR 0x5C]
     @ ''.)*[a-zA-Z0-9_][a-zA-Z0-9_-]*''"

text \<open>Rendering marks the members of a list: \<^verbatim>\<open>item.approved = true\<close>. A hole of the array is passed over.\<close>

definition approve :: "jsval \<Rightarrow> jsval" where
  "approve m = (case m of JObj kvs \<Rightarrow> JObj (obj_put ''approved'' (JBool True) kvs) | _ \<Rightarrow> m)"

section \<open>The form\<close>

text \<open>The list of members is \<^verbatim>\<open>null\<close> after its only member was removed; a removed member leaves a hole.\<close>

record add_group =
  ag_name :: string
  ag_newMemberName :: string
  ag_members :: "jsval list option"
  ag_justification :: string
  ag_errorMessage :: "string option"

definition AddGroup_new :: add_group where
  "AddGroup_new = \<lparr>ag_name = [], ag_newMemberName = [], ag_members = Some [], ag_justification = [], ag_errorMessage = None\<rparr>"

datatype group_input = GroupName | GroupMember | GroupJustification

definition AddGroup_inputChanged :: "group_input \<Rightarrow> string \<Rightarrow> add_group \<Rightarrow> add_group" where
  "AddGroup_inputChanged key v st =
     (case key of
        GroupName \<Rightarrow> st\<lparr>ag_name := v\<rparr>
      | GroupMember \<Rightarrow> st\<lparr>ag_newMemberName := v\<rparr>
      | GroupJustification \<Rightarrow> st\<lparr>ag_justification := v\<rparr>)"

definition member_of_name :: "string \<Rightarrow> jsval" where
  "member_of_name n = JObj [(''memberName'', JStr n)]"

text \<open>\<^verbatim>\<open>members.push(\<dots>)\<close> for each of some items: nothing happens without items.\<close>

definition push_all :: "jsval list \<Rightarrow> jsval list option \<Rightarrow> jsval list option result" where
  "push_all ms members =
     (case members of
        Some vs \<Rightarrow> Inr (Some (vs @ ms))
      | None \<Rightarrow> if ms = [] then Inr None else Inl (TypeError ''push''))"

definition AddGroup_addMember :: "add_group \<Rightarrow> add_group result" where
  "AddGroup_addMember st =
     (if ag_newMemberName st = [] then Inr st
      else bind_result (getUserNames (JStr (ag_newMemberName st)) GROUP_MEMBER_NAME_REGEX) (\<lambda>names.
           bind_result (push_all (map member_of_name (un_validUsers names)) (ag_members st)) (\<lambda>members.
             Inr (if un_invalidUsers names \<noteq> []
                  then st\<lparr>ag_members := members, ag_newMemberName := join_with '','' (un_invalidUsers names),
                          ag_errorMessage := Some member_regex_message\<rparr>
                  else st\<lparr>ag_members := members, ag_newMemberName := [], ag_errorMessage := Some []\<rparr>))))"

definition AddGroup_deleteMember :: "nat \<Rightarrow> add_group \<Rightarrow> add_group result" where
  "AddGroup_deleteMember idx st =
     (case ag_members st of
        None \<Rightarrow> Inl (TypeError ''length'')
      | Some vs \<Rightarrow> Inr (st\<lparr>ag_members := (if length vs = 1 then None else Some (vs[idx := JUndef]))\<rparr>))"

definition AddGroup_render :: "add_group \<Rightarrow> add_group" where
  "AddGroup_render st = st\<lparr>ag_members := map_option (map approve) (ag_members st)\<rparr>"

text \<open>\<^verbatim>\<open>members.filter((member) => member != null || member != undefined)\<close>\<close>

definition real_members :: "jsval list \<Rightarrow> jsval list" where
  "real_members vs = filter (\<lambda>v. v \<noteq> JUndef \<and> v \<noteq> JNull) vs"

text \<open>Submitting, up to the request for the groups: the name and the group that the callback remembers.\<close>

definition AddGroup_onSubmit :: "form_props \<Rightarrow> add_group \<Rightarrow> ((string \<times> jsval) option \<times> add_group) result" where
  "AddGroup_onSubmit props st =
     (let groupName = ag_name st; refuse = (\<lambda>m s. Inr (None, s\<lparr>ag_errorMessage := Some m\<rparr>))
      in if groupName = [] then refuse ''Group name is required.'' st
         else if \<not> RegexUtils_validate GROUP_NAME_REGEX groupName then refuse group_regex_message st
         else case ag_members st of
                None \<Rightarrow> Inl (TypeError ''filter'')
              | Some vs \<Rightarrow>
                  bind_result (getUserNames (JStr (ag_newMemberName st)) GROUP_MEMBER_NAME_REGEX) (\<lambda>names.
                    let members = real_members vs @ map member_of_name (un_validUsers names)
                    in if un_invalidUsers names \<noteq> []
                       then refuse member_regex_message (st\<lparr>ag_newMemberName := join_with '','' (un_invalidUsers names)\<rparr>)
                       else if missing_justification props (Some (ag_justification st))
                       then refuse ''Justification is required to add a group.'' st
                       else Inr (Some (groupName, JObj [(''name'', JStr groupName), (''groupMembers'', JArr members)]), st)))"

definition AddGroup_failed :: "jsval \<Rightarrow> add_group \<Rightarrow> add_group result" where
  "AddGroup_failed err st = bind_result (xhrErrorCheckHelper err) (\<lambda>m. Inr (st\<lparr>ag_errorMessage := Some m\<rparr>))"

text \<open>The answer to the request for the groups; an exception of the callback is caught as an error.\<close>

definition AddGroup_listed ::
  "form_props \<Rightarrow> string \<times> jsval \<Rightarrow> promise \<Rightarrow> add_group \<Rightarrow> (browser_call option \<times> add_group) result" where
  "AddGroup_listed props sub answer st =
     (let failed = (\<lambda>err. bind_result (AddGroup_failed err st) (\<lambda>st'. Inr (None, st')))
      in case answer of
           Pending \<Rightarrow> Inr (None, st)
         | Rejected err \<Rightarrow> failed err
         | Resolved groups \<Rightarrow>
             (case array_items groups of
                Inl e \<Rightarrow> failed (exn_val e)
              | Inr gs \<Rightarrow>
                  if array_includes gs (JStr (js_text (fp_domain props) @ '':group.'' @ fst sub))
                  then Inr (None, st\<lparr>ag_errorMessage := Some ''Group already exists.''\<rparr>)
                  else Inr (Some (Api_addGroup (fp_domain props) (JStr (fst sub)) (snd sub)
                              (audit_ref (Some (ag_justification st)) []) (fp_csrf props)), st)))"

text \<open>The answer to adding the group: \<open>True\<close> when the page is told that it is done.\<close>

definition AddGroup_added :: "promise \<Rightarrow> add_group \<Rightarrow> (bool \<times> add_group) result" where
  "AddGroup_added answer st =
     (case answer of
        Resolved _ \<Rightarrow> Inr (True, st)
      | Rejected err \<Rightarrow> bind_result (expired_message err) (\<lambda>m. Inr (False, st\<lparr>ag_errorMessage := Some m\<rparr>))
      | Pending \<Rightarrow> Inr (False, st))"

section \<open>The steps of the form\<close>

text \<open>The form, the submissions that wait for the groups, the number that wait to be added, and what was sent.\<close>

record group_run =
  gr_form :: add_group
  gr_listing :: "(string \<times> jsval) list"
  gr_adding :: nat
  gr_sent :: "browser_call list"

definition group_start :: group_run where
  "group_start = \<lparr>gr_form = AddGroup_new, gr_listing = [], gr_adding = 0, gr_sent = []\<rparr>"

inductive group_step :: "form_props \<Rightarrow> group_run \<Rightarrow> group_run \<Rightarrow> bool" for props where
  typed: "group_step props r (r\<lparr>gr_form := AddGroup_inputChanged key v (gr_form r)\<rparr>)"
| rendered: "group_step props r (r\<lparr>gr_form := AddGroup_render (gr_form r)\<rparr>)"
| member_added: "AddGroup_addMember (gr_form r) = Inr st \<Longrightarrow> group_step props r (r\<lparr>gr_form := st\<rparr>)"
| member_deleted: "AddGroup_deleteMember idx (gr_form r) = Inr st \<Longrightarrow> group_step props r (r\<lparr>gr_form := st\<rparr>)"
| refused: "AddGroup_onSubmit props (gr_form r) = Inr (None, st) \<Longrightarrow> group_step props r (r\<lparr>gr_form := st\<rparr>)"
| submitted: "AddGroup_onSubmit props (gr_form r) = Inr (Some sub, st) \<Longrightarrow>
    group_step props r (r\<lparr>gr_form := st, gr_listing := sub # gr_listing r,
      gr_sent := gr_sent r @ [Api_listGroups (fp_domain props)]\<rparr>)"
| not_listed: "sub \<in> set (gr_listing r) \<Longrightarrow> AddGroup_listed props sub answer (gr_form r) = Inr (None, st) \<Longrightarrow>
    group_step props r (r\<lparr>gr_form := st, gr_listing := remove1 sub (gr_listing r)\<rparr>)"
| listed: "sub \<in> set (gr_listing r) \<Longrightarrow> AddGroup_listed props sub answer (gr_form r) = Inr (Some call, st) \<Longrightarrow>
    group_step props r (r\<lparr>gr_form := st, gr_listing := remove1 sub (gr_listing r), gr_adding := Suc (gr_adding r),
      gr_sent := gr_sent r @ [call]\<rparr>)"
| added: "0 < gr_adding r \<Longrightarrow> AddGroup_added answer (gr_form r) = Inr (ok, st) \<Longrightarrow>
    group_step props r (r\<lparr>gr_form := st, gr_adding := gr_adding r - 1\<rparr>)"

abbreviation group_reachable :: "form_props \<Rightarrow> group_run \<Rightarrow> bool" where
  "group_reachable props \<equiv> (group_step props)\<^sup>*\<^sup>* group_start"

section \<open>What the form sends\<close>

abbreviation good_name :: "string \<Rightarrow> bool" where
  "good_name \<equiv> dotted_name_of word_char name_char"

text \<open>An item of the list of members: a hole, or an object with a good name.\<close>

definition good_member :: "jsval \<Rightarrow> bool" where
  "good_member m \<longleftrightarrow> (\<exists>kvs n. m = JObj kvs \<and> obj_get kvs ''memberName'' = JStr n \<and> good_name n)"

definition good_group :: "string \<times> jsval \<Rightarrow> bool" where
  "good_group sub \<longleftrightarrow> good_name (fst sub)
     \<and> (\<exists>ms. snd sub = JObj [(''name'', JStr (fst sub)), (''groupMembers'', JArr ms)] \<and> (\<forall>m\<in>set ms. good_member m))"

definition good_call :: "form_props \<Rightarrow> browser_call \<Rightarrow> bool" where
  "good_call props c \<longleftrightarrow> c = Api_listGroups (fp_domain props)
     \<or> (\<exists>sub ref. good_group sub \<and> c = Api_addGroup (fp_domain props) (JStr (fst sub)) (snd sub) ref (fp_csrf props))"

definition good_form :: "add_group \<Rightarrow> bool" where
  "good_form st \<longleftrightarrow> (\<forall>vs. ag_members st = Some vs \<longrightarrow> (\<forall>m\<in>set vs. m = JUndef \<or> good_member m))"

definition group_inv :: "form_props \<Rightarrow> group_run \<Rightarrow> bool" where
  "group_inv props r \<longleftrightarrow>
     good_form (gr_form r)
     \<and> (\<forall>sub\<in>set (gr_listing r). good_group sub)
     \<and> (\<forall>c\<in>set (gr_sent r). good_call props c)"

lemma good_member_of_name: "good_name n \<Longrightarrow> good_member (member_of_name n)"
  by (auto simp: good_member_def member_of_name_def)

lemma good_member_approve: "good_member m \<Longrightarrow> good_member (approve m)"
  by (auto simp: good_member_def approve_def)

lemma valid_users_good:
  "getUserNames (JStr s) GROUP_MEMBER_NAME_REGEX = Inr names \<Longrightarrow> n \<in> set (un_validUsers names) \<Longrightarrow> good_name n"
  by (auto simp: getUserNames_eq)

lemma valid_group_name: "RegexUtils_validate GROUP_NAME_REGEX n \<longleftrightarrow> good_name n"
  using valid_member_name by (simp add: GROUP_NAME_REGEX_def GROUP_MEMBER_NAME_REGEX_def)

lemma push_all_good:
  "push_all ms members = Inr (Some ws) \<Longrightarrow> m \<in> set ws \<Longrightarrow> m \<in> set ms \<or> (\<exists>vs. members = Some vs \<and> m \<in> set vs)"
  by (auto simp: push_all_def split: option.splits if_splits)

lemma addMember_good:
  assumes "AddGroup_addMember st = Inr st'" and "good_form st"
  shows "good_form st'"
proof (cases "ag_newMemberName st = []")
  case True
  then show ?thesis
    using assms by (simp add: AddGroup_addMember_def)
next
  case False
  then obtain names members where n: "getUserNames (JStr (ag_newMemberName st)) GROUP_MEMBER_NAME_REGEX = Inr names"
      "push_all (map member_of_name (un_validUsers names)) (ag_members st) = Inr members" "ag_members st' = members"
    using assms(1) by (auto simp: AddGroup_addMember_def bind_result_Inr_iff split: if_splits)
  have "m = JUndef \<or> good_member m" if m: "members = Some ws" "m \<in> set ws" for ws m
  proof -
    consider "m \<in> set (map member_of_name (un_validUsers names))" | vs where "ag_members st = Some vs" "m \<in> set vs"
      using push_all_good n(2) m by blast
    then show ?thesis
      using valid_users_good [OF n(1)] good_member_of_name assms(2) by cases (auto simp: good_form_def)
  qed
  then show ?thesis
    using n(3) by (simp add: good_form_def)
qed

lemma render_good: "good_form st \<Longrightarrow> good_form (AddGroup_render st)"
proof -
  assume st: "good_form st"
  have "approve v = JUndef \<or> good_member (approve v)" if "v = JUndef \<or> good_member v" for v
    using that good_member_approve by (auto simp: approve_def)
  then show ?thesis
    using st unfolding good_form_def AddGroup_render_def by (auto, metis)
qed

lemma deleteMember_good:
  assumes "AddGroup_deleteMember idx st = Inr st'" and "good_form st"
  shows "good_form st'"
proof -
  obtain vs where vs: "ag_members st = Some vs" "ag_members st' = (if length vs = 1 then None else Some (vs[idx := JUndef]))"
    using assms(1) by (auto simp: AddGroup_deleteMember_def split: option.splits)
  have "set (vs[idx := JUndef]) \<subseteq> insert JUndef (set vs)"
    by (rule set_update_subset_insert)
  then show ?thesis
    using assms(2) vs by (auto simp: good_form_def)
qed

lemma submitted_good:
  assumes "AddGroup_onSubmit props st = Inr (Some sub, st')" and "good_form st"
  shows "good_group sub \<and> st' = st"
  using assms good_member_of_name
  by (auto simp: AddGroup_onSubmit_def Let_def getUserNames_eq valid_group_name good_group_def real_members_def good_form_def
      split: if_splits option.splits)

lemma submit_refused: "AddGroup_onSubmit props st = Inr (None, st') \<Longrightarrow> ag_members st' = ag_members st"
  by (auto simp: AddGroup_onSubmit_def Let_def bind_result_Inr_iff split: if_splits option.splits)

lemma listed_keeps: "AddGroup_listed props sub answer st = Inr (c, st') \<Longrightarrow> ag_members st' = ag_members st"
  by (auto simp: AddGroup_listed_def AddGroup_failed_def Let_def bind_result_Inr_iff split: promise.splits sum.splits if_splits)

lemma listed_call:
  "AddGroup_listed props sub answer st = Inr (Some c, st') \<Longrightarrow>
     \<exists>gs ref. answer = Resolved (JArr gs) \<and> \<not> array_includes gs (JStr (js_text (fp_domain props) @ '':group.'' @ fst sub))
       \<and> c = Api_addGroup (fp_domain props) (JStr (fst sub)) (snd sub) ref (fp_csrf props)"
  by (auto simp: AddGroup_listed_def AddGroup_failed_def Let_def bind_result_Inr_iff array_items_def
      split: promise.splits sum.splits if_splits jsval.splits)

lemma added_keeps: "AddGroup_added answer st = Inr (ok, st') \<Longrightarrow> ag_members st' = ag_members st"
  by (auto simp: AddGroup_added_def bind_result_Inr_iff split: promise.splits)

lemma good_form_same: "ag_members st' = ag_members st \<Longrightarrow> good_form st' = good_form st"
  by (simp add: good_form_def)

lemma good_calls:
  "good_call props (Api_listGroups (fp_domain props))"
  "good_group sub \<Longrightarrow> good_call props (Api_addGroup (fp_domain props) (JStr (fst sub)) (snd sub) ref (fp_csrf props))"
  unfolding good_call_def by blast+

lemma group_step_inv: "group_step props r r' \<Longrightarrow> group_inv props r \<Longrightarrow> group_inv props r'"
proof (induction rule: group_step.induct)
  case (typed r key v)
  then show ?case
    by (cases key) (simp_all add: group_inv_def good_form_def AddGroup_inputChanged_def)
next
  case (submitted r sub st)
  then show ?case
    using submitted_good [OF submitted(1)] good_calls by (auto simp: group_inv_def)
next
  case (listed sub r answer call st)
  then have "good_call props call"
    using listed_call [OF listed(2)] good_calls(2) by (auto simp: group_inv_def)
  then show ?case
    using listed good_form_same [OF listed_keeps [OF listed(2)]] by (auto simp: group_inv_def dest: notin_set_remove1)
next
  case (not_listed sub r answer st)
  then show ?case
    using good_form_same [OF listed_keeps [OF not_listed(2)]] by (auto simp: group_inv_def dest: notin_set_remove1)
qed (simp_all add: group_inv_def render_good addMember_good deleteMember_good
  good_form_same [OF submit_refused] good_form_same [OF added_keeps])

text \<open>
  C31. Whatever a user types, adds, removes and submits, in any order and with any answers of the
  server, the form for groups sends only two kinds of requests: for the list of groups, and for
  adding a group whose name and whose members all have names that pass the check.
\<close>

theorem group_form_sends_valid:
  assumes "group_reachable props r" and "c \<in> set (gr_sent r)"
  shows "c = Api_listGroups (fp_domain props)
    \<or> (\<exists>n ms ref. c = Api_addGroup (fp_domain props) (JStr n) (JObj [(''name'', JStr n), (''groupMembers'', JArr ms)]) ref (fp_csrf props)
        \<and> good_name n \<and> (\<forall>m\<in>set ms. good_member m))"
proof -
  have "group_inv props r"
    using assms(1)
  proof (induction rule: rtranclp_induct)
    case base
    show ?case
      by (simp add: group_inv_def good_form_def group_start_def AddGroup_new_def)
  next
    case (step r r')
    then show ?case
      by (blast intro: group_step_inv)
  qed
  then show ?thesis
    using assms(2) by (force simp: group_inv_def good_call_def good_group_def)
qed

definition demo_props :: form_props where
  "demo_props = \<lparr>fp_domain = JStr ''sports'', fp_csrf = JStr ''token'', fp_justificationRequired = False\<rparr>"

theorem group_form_sends_valid_witness:
  "\<exists>r. group_reachable demo_props r
     \<and> (\<exists>n ms ref. Api_addGroup (JStr ''sports'') (JStr ''editors'')
           (JObj [(''name'', JStr ''editors''), (''groupMembers'', JArr [])]) (JStr []) (JStr ''token'') \<in> set (gr_sent r)
         \<and> Api_addGroup (JStr ''sports'') (JStr ''editors'')
             (JObj [(''name'', JStr ''editors''), (''groupMembers'', JArr [])]) (JStr []) (JStr ''token'')
           = Api_addGroup (fp_domain demo_props) (JStr n) (JObj [(''name'', JStr n), (''groupMembers'', JArr ms)]) ref (fp_csrf demo_props)
         \<and> good_name n)"
proof -
  let ?sub = "(''editors'', JObj [(''name'', JStr ''editors''), (''groupMembers'', JArr [])])"
  let ?call = "Api_addGroup (JStr ''sports'') (JStr ''editors'') (snd ?sub) (JStr []) (JStr ''token'')"
  define r1 where "r1 = group_start\<lparr>gr_form := AddGroup_inputChanged GroupName ''editors'' (gr_form group_start)\<rparr>"
  define r2 where "r2 = r1\<lparr>gr_form := gr_form r1, gr_listing := ?sub # gr_listing r1,
      gr_sent := gr_sent r1 @ [Api_listGroups (fp_domain demo_props)]\<rparr>"
  define r3 where "r3 = r2\<lparr>gr_form := gr_form r2, gr_listing := remove1 ?sub (gr_listing r2), gr_adding := Suc (gr_adding r2),
      gr_sent := gr_sent r2 @ [?call]\<rparr>"
  have "good_name ''editors''"
    by code_simp
  moreover have "names_of [] = []"
    by (simp add: names_of.simps)
  ultimately have "AddGroup_onSubmit demo_props (gr_form r1) = Inr (Some ?sub, gr_form r1)"
    by (simp add: r1_def group_start_def AddGroup_new_def AddGroup_inputChanged_def AddGroup_onSubmit_def valid_group_name
        getUserNames_eq real_members_def missing_justification_def demo_props_def Let_def)
  then have "group_step demo_props r1 r2"
    unfolding r2_def by (rule submitted)
  moreover have "AddGroup_listed demo_props ?sub (Resolved (JArr [])) (gr_form r2) = Inr (Some ?call, gr_form r2)"
    by (simp add: AddGroup_listed_def array_items_def array_includes_def demo_props_def audit_ref_def r2_def r1_def
        group_start_def AddGroup_new_def AddGroup_inputChanged_def)
  then have "group_step demo_props r2 r3"
    unfolding r3_def by (rule listed [rotated]) (simp add: r2_def)
  moreover have "group_step demo_props group_start r1"
    unfolding r1_def by (rule typed)
  ultimately have reach: "group_reachable demo_props r3"
    by (meson converse_rtranclp_into_rtranclp rtranclp.rtrancl_refl)
  have sent: "?call \<in> set (gr_sent r3)"
    by (simp add: r3_def)
  have "?call \<noteq> Api_listGroups (fp_domain demo_props)"
    by (simp add: Api_addGroup_def Api_listGroups_def)
  then show ?thesis
    using group_form_sends_valid [OF reach sent] reach sent by fastforce
qed

text \<open>
  When the only member of the list is removed, the list becomes \<^verbatim>\<open>null\<close>, and the form can neither
  take another member nor be submitted.
\<close>

lemma only_member_removed_blocks:
  assumes "ag_members st = Some [m]"
  shows "\<exists>st'. AddGroup_deleteMember 0 st = Inr st'
    \<and> (\<forall>n. good_name n \<longrightarrow> AddGroup_onSubmit props (st'\<lparr>ag_name := n\<rparr>) = Inl (TypeError ''filter''))
    \<and> (\<forall>s. filter good_name (names_of s) \<noteq> [] \<longrightarrow>
         AddGroup_addMember (st'\<lparr>ag_newMemberName := s\<rparr>) = Inl (TypeError ''push''))"
proof -
  have "\<not> good_name []"
    by code_simp
  moreover have "names_of [] = []"
    by (simp add: names_of.simps)
  ultimately show ?thesis
    using assms by (auto simp: AddGroup_deleteMember_def AddGroup_onSubmit_def AddGroup_addMember_def valid_group_name
        getUserNames_eq push_all_def Let_def)
qed

end
