(* ===== verification/Ui_Segmentation.thy ===== *)
theory Ui_Segmentation
  imports Ui_Page Ui_Forms Rdl_Rest
begin

text \<open>
  The form that adds and changes the transport rules of a service
  (\<^verbatim>\<open>ui/src/components/microsegmentation/AddSegmentation.js\<close>): its state, one definition for each
  handler, the requests it sends for a rule, and what its check of ports accepts.
\<close>

section \<open>State\<close>

record seg_props = form_props +
  sp_editMode :: bool
  sp_data :: jsval

record add_segmentation =
  as_category :: jsval
  as_isCategory :: bool
  as_inboundDestinationService :: jsval
  as_outboundSourceService :: jsval
  as_destinationPort :: jsval
  as_sourceServiceMembers :: string
  as_destinationServiceMembers :: string
  as_sourcePort :: jsval
  as_protocol :: jsval
  as_members :: "jsval list"
  as_protocolValid :: bool
  as_destinationServiceList :: jsval
  as_identifier :: jsval
  as_justification :: string
  as_PESList :: jsval
  as_validationCheckbox :: bool
  as_saving :: string
  as_validationError :: string
  as_validationStatus :: jsval
  as_errorMessage :: jsval

type_synonym 'a seg = "(add_segmentation, 'a) page_action"
type_synonym seg_env = "add_segmentation page_env"

text \<open>\<^verbatim>\<open>editMode ? data[k] : d\<close>\<close>

definition edited :: "seg_props \<Rightarrow> string \<Rightarrow> jsval \<Rightarrow> jsval result" where
  "edited props k d = (if sp_editMode props then get_prop (sp_data props) k else Inr d)"

definition edited_if :: "bool \<Rightarrow> seg_props \<Rightarrow> string \<Rightarrow> jsval result" where
  "edited_if b props k = (if b then edited props k (JStr []) else Inr (JStr []))"

definition edited_member :: "jsval \<Rightarrow> jsval" where
  "edited_member str = JObj [(''memberName'', str), (''approved'', JBool True)]"

definition own_services :: "jsval \<Rightarrow> string" where
  "own_services category = (if category = JStr ''inbound'' then ''source_services'' else ''destination_services'')"

definition edited_members :: "seg_props \<Rightarrow> jsval \<Rightarrow> jsval list result" where
  "edited_members props category =
     (if sp_editMode props
      then bind_result (get_prop (sp_data props) (own_services category)) (\<lambda>services.
           bind_result (array_items services) (\<lambda>names. Inr (map edited_member names)))
      else Inr [])"

definition enforcement :: "string \<Rightarrow> nat \<Rightarrow> jsval" where
  "enforcement state n =
     JObj [(''enforcementstate'', JStr state), (''instances'', JStr []), (''id'', JNum (Fin (of_nat n)))]"

definition AddSegmentation_new :: "seg_props \<Rightarrow> add_segmentation result" where
  "AddSegmentation_new props =
     bind_result (edited props ''category'' (JStr ''inbound'')) (\<lambda>category.
     bind_result (edited_if (category = JStr ''inbound'') props ''destination_service'') (\<lambda>inboundDestinationService.
     bind_result (edited_if (category = JStr ''outbound'') props ''source_service'') (\<lambda>outboundSourceService.
     bind_result (edited props ''destination_port'' (JStr [])) (\<lambda>destinationPort.
     bind_result (edited props ''source_port'' (JStr ''1024-65535'')) (\<lambda>sourcePort.
     bind_result (edited props ''layer'' (JStr [])) (\<lambda>protocol.
     bind_result (edited_members props category) (\<lambda>members.
     bind_result (edited props ''identifier'' (JStr [])) (\<lambda>identifier.
     bind_result (edited props ''conditionsList'' JUndef) (\<lambda>conditionsList.
     Inr \<lparr>as_category = category, as_isCategory = (category = JStr ''inbound''),
          as_inboundDestinationService = inboundDestinationService, as_outboundSourceService = outboundSourceService,
          as_destinationPort = destinationPort, as_sourceServiceMembers = [], as_destinationServiceMembers = [],
          as_sourcePort = sourcePort, as_protocol = protocol, as_members = members, as_protocolValid = True,
          as_destinationServiceList = JArr [], as_identifier = identifier, as_justification = [],
          as_PESList = (if truthy conditionsList then json_clone conditionsList else JArr [enforcement ''report'' 1]),
          as_validationCheckbox = False, as_saving = ''todo'', as_validationError = ''none'',
          as_validationStatus = JStr ''valid'', as_errorMessage = JUndef\<rparr>)))))))))"

section \<open>Changes of the form\<close>

text \<open>The buttons call the handler only for a category that is not selected.\<close>

definition categoryChanged :: "seg_props \<Rightarrow> string \<Rightarrow> unit seg" where
  "categoryChanged props name =
     (if sp_editMode props then ret ()
      else set_form (\<lambda>st. st\<lparr>as_category := JStr name, as_isCategory := \<not> as_isCategory st,
             as_errorMessage := JStr [], as_saving := ''todo''\<rparr>))"

definition protocolChanged :: "jsval \<Rightarrow> unit seg" where
  "protocolChanged chosen =
     bind_action (lift_result (if truthy chosen then get_prop chosen ''value'' else Inr JNull)) (\<lambda>v.
       if v \<noteq> JNull \<and> v \<noteq> JUndef then set_form (\<lambda>st. st\<lparr>as_protocol := v, as_protocolValid := True\<rparr>)
       else set_form (\<lambda>st. st\<lparr>as_protocolValid := False\<rparr>))"

datatype seg_input =
    Identifier string | DestinationPort string | SourcePort string | SourceServiceMembers string
  | DestinationServiceMembers string | Justification string | ValidationCheckbox bool

definition seg_inputChanged :: "seg_input \<Rightarrow> unit seg" where
  "seg_inputChanged i = set_form (\<lambda>st.
     case i of
       Identifier s \<Rightarrow> st\<lparr>as_identifier := JStr s\<rparr>
     | DestinationPort s \<Rightarrow> st\<lparr>as_destinationPort := JStr s\<rparr>
     | SourcePort s \<Rightarrow> st\<lparr>as_sourcePort := JStr s\<rparr>
     | SourceServiceMembers s \<Rightarrow> st\<lparr>as_sourceServiceMembers := s\<rparr>
     | DestinationServiceMembers s \<Rightarrow> st\<lparr>as_destinationServiceMembers := s\<rparr>
     | Justification s \<Rightarrow> st\<lparr>as_justification := s\<rparr>
     | ValidationCheckbox b \<Rightarrow> st\<lparr>as_validationCheckbox := b\<rparr>)"

definition editValidationPolicy :: "unit seg" where
  "editValidationPolicy = set_form (\<lambda>st. st\<lparr>as_validationStatus := JStr [], as_validationError := ''none''\<rparr>)"

definition seg_addMember :: "unit seg" where
  "seg_addMember =
     bind_action (form (\<lambda>st. if as_isCategory st then as_sourceServiceMembers st else as_destinationServiceMembers st)) (\<lambda>typed.
       if typed = [] then ret ()
       else bind_action (lift_result (splitNames (JStr typed))) (\<lambda>names.
            set_form (\<lambda>st.
              let st' = (if as_isCategory st then st\<lparr>as_sourceServiceMembers := []\<rparr> else st\<lparr>as_destinationServiceMembers := []\<rparr>)
              in st'\<lparr>as_members := as_members st @ map member_of_name names\<rparr>)))"

text \<open>\<^verbatim>\<open>list.splice(index, 1)\<close>\<close>

definition remove_at :: "nat \<Rightarrow> 'x list \<Rightarrow> 'x list" where
  "remove_at i xs = take i xs @ drop (Suc i) xs"

definition seg_deleteMember :: "nat \<Rightarrow> unit seg" where
  "seg_deleteMember idx = set_form (\<lambda>st.
     st\<lparr>as_members := (if length (as_members st) = 1 then [] else remove_at idx (as_members st))\<rparr>)"

definition service_option :: "jsval \<Rightarrow> jsval result" where
  "service_option service =
     bind_result (get_prop service ''name'') (\<lambda>n.
     bind_result (getShortName ''.'' n) (\<lambda>name.
     bind_result (set_prop ''name'' name service) (\<lambda>s1.
     bind_result (set_prop ''value'' name s1) (\<lambda>s2.
     Inr (case s2 of JObj kvs \<Rightarrow> JObj (obj_del ''modified'' kvs) | _ \<Rightarrow> s2)))))"

definition seg_failed :: "string result \<Rightarrow> unit seg" where
  "seg_failed r = bind_action (lift_result r) (\<lambda>m. set_form (\<lambda>st. st\<lparr>as_errorMessage := JStr m, as_saving := ''todo''\<rparr>))"

definition loadServices :: "seg_env \<Rightarrow> seg_props \<Rightarrow> unit seg" where
  "loadServices env props =
     bind_action (request env (Api_getServices (fp_domain props))) (\<lambda>p.
       case p of
         Pending \<Rightarrow> ret ()
       | Rejected err \<Rightarrow> seg_failed (fetcherErrorCheckHelper err)
       | Resolved data \<Rightarrow>
           (case bind_result (loop_items data) (map_result service_option) of
              Inl e \<Rightarrow> seg_failed (fetcherErrorCheckHelper (exn_val e))
            | Inr options \<Rightarrow>
                set_form (\<lambda>st. st\<lparr>as_destinationServiceList := (if is_array data then JArr options else data)\<rparr>)))"

datatype service_key = InboundDestinationService | OutboundSourceService

definition changeService :: "jsval \<Rightarrow> service_key \<Rightarrow> unit seg" where
  "changeService chosen key =
     bind_action (lift_result (if truthy chosen then get_prop chosen ''name'' else Inr JNull)) (\<lambda>n.
       if n \<noteq> JNull \<and> n \<noteq> JUndef
       then set_form (\<lambda>st. case key of
              InboundDestinationService \<Rightarrow> st\<lparr>as_inboundDestinationService := n\<rparr>
            | OutboundSourceService \<Rightarrow> st\<lparr>as_outboundSourceService := n\<rparr>)
       else ret ())"

text \<open>\<^verbatim>\<open>list[i]\<close>, and \<^verbatim>\<open>list[i][k] = v\<close>\<close>

definition item_at :: "jsval list \<Rightarrow> nat \<Rightarrow> jsval" where
  "item_at xs i = (if i < length xs then xs ! i else JUndef)"

definition set_at :: "nat \<Rightarrow> string \<Rightarrow> jsval \<Rightarrow> jsval list \<Rightarrow> jsval list result" where
  "set_at i k v xs = bind_result (set_prop k v (item_at xs i)) (\<lambda>x. Inr (xs[i := x]))"

definition changed_conditions :: "string \<Rightarrow> string \<Rightarrow> nat \<Rightarrow> jsval list \<Rightarrow> jsval list result" where
  "changed_conditions name v index list =
     (if str_includes name ''enforcementStateRadioButton''
      then bind_result (set_at index ''enforcementstate'' (JStr v) list) (\<lambda>list'.
             if length list' = 2
             then set_at 1 ''enforcementstate'' (JStr (if v = ''report'' then ''enforce'' else ''report'')) list'
             else Inr list')
      else set_at index ''instances'' (JStr v) list)"

definition handleInputChange :: "string \<Rightarrow> string \<Rightarrow> nat \<Rightarrow> unit seg" where
  "handleInputChange name v index =
     bind_action (form as_PESList) (\<lambda>pes.
     bind_action (lift_result (bind_result (iterate pes) (changed_conditions name v index))) (\<lambda>list.
     set_form (\<lambda>st. st\<lparr>as_PESList := JArr list\<rparr>)))"

definition added_condition :: "jsval list \<Rightarrow> jsval list result" where
  "added_condition list =
     bind_result (get_prop (item_at list 0) ''enforcementstate'') (\<lambda>state.
     Inr (list @ [enforcement (if state = JStr ''report'' then ''enforce'' else ''report'') 2]))"

definition handleAddClick :: "unit seg" where
  "handleAddClick =
     bind_action (form as_PESList) (\<lambda>pes.
     bind_action (lift_result (bind_result (iterate pes) added_condition)) (\<lambda>list.
     set_form (\<lambda>st. st\<lparr>as_PESList := JArr list\<rparr>)))"

definition handleRemoveClick :: "nat \<Rightarrow> unit seg" where
  "handleRemoveClick index =
     bind_action (form as_PESList) (\<lambda>pes.
     bind_action (lift_result (bind_result (iterate pes) (\<lambda>list. set_at 0 ''id'' (JNum (Fin 1)) (remove_at index list)))) (\<lambda>list.
     set_form (\<lambda>st. st\<lparr>as_PESList := JArr list\<rparr>)))"

section \<open>Checking the fields\<close>

text \<open>\<^verbatim>\<open>parseInt(s)\<close>\<close>

definition parse_digits :: "nat \<Rightarrow> (char \<Rightarrow> bool) \<Rightarrow> string \<Rightarrow> jsnum" where
  "parse_digits base digit s =
     (let ds = takeWhile digit s in if ds = [] then NaN else Fin (of_nat (digits_val base ds)))"

definition hex_char :: "char \<Rightarrow> bool" where
  "hex_char c \<longleftrightarrow> digit_char c \<or> lower_char c \<in> set ''abcdef''"

definition parse_int :: "string \<Rightarrow> jsnum" where
  "parse_int s =
     (let t = dropWhile space_char s;
          u = (if t \<noteq> [] \<and> hd t \<in> {CHR ''-'', CHR ''+''} then tl t else t);
          n = (if starts_with u ''0x'' \<or> starts_with u ''0X'' then parse_digits 16 hex_char (drop 2 u)
               else parse_digits 10 digit_char u)
      in if t \<noteq> [] \<and> hd t = CHR ''-'' then 0 - n else n)"

definition port_char :: "char \<Rightarrow> bool" where
  "port_char c \<longleftrightarrow> digit_char c \<or> c = CHR ''-'' \<or> c = CHR '',''"

definition PORT_REGEX :: regex where
  "PORT_REGEX = Cat Bol (Cat (Star (Cls port_char)) Eol)"

definition port_regex_message :: string where
  "port_regex_message = ''Port can only contain numbers, '-' and '' @ [CHR 0x27, CHR '','', CHR 0x27]"

text \<open>One item of the list of ports: an error message, or the item as a range.\<close>

definition port_item :: "string \<Rightarrow> string + string" where
  "port_item p =
     (if CHR ''-'' \<in> set p
      then let range = split_on CHR ''-'' p; start = parse_int (range ! 0); end = parse_int (range ! 1)
           in if length range \<noteq> 2 \<or> start = NaN \<or> end = NaN \<or> start < Fin 1 \<or> end < Fin 1 \<or> start > end
                 \<or> start > Fin 65535 \<or> end > Fin 65535
              then Inl (''Invalid port: '' @ p @ ''. Valid range of port numbers: 1-65535'')
              else Inr p
      else if string_to_number p < Fin 0 \<and> string_to_number p > Fin 65535
      then Inl (''Invalid port: '' @ p @ ''Valid range of port numbers: 1-65535'')
      else Inr (p @ ''-'' @ p))"

fun port_items :: "string list \<Rightarrow> string + string list" where
  "port_items [] = Inr []"
| "port_items (p # ps) =
     (case port_item p of
        Inl m \<Rightarrow> Inl m
      | Inr q \<Rightarrow> (case port_items ps of Inl m \<Rightarrow> Inl m | Inr qs \<Rightarrow> Inr (q # qs)))"

definition port_text :: "string \<Rightarrow> string + string" where
  "port_text port =
     (if exec PORT_REGEX port = None then Inl port_regex_message
      else case port_items (split_on CHR '','' port) of Inl m \<Rightarrow> Inl m | Inr ps \<Rightarrow> Inr (join_with '','' ps))"

text \<open>\<open>None\<close> is an error.\<close>

definition validatePort :: "jsval \<Rightarrow> string option seg" where
  "validatePort port =
     (case port of
        JStr s \<Rightarrow>
          (case port_text s of
             Inl m \<Rightarrow> bind_action (set_form (\<lambda>st. st\<lparr>as_errorMessage := JStr m, as_saving := ''todo''\<rparr>)) (\<lambda>_. ret None)
           | Inr t \<Rightarrow> ret (Some t))
      | _ \<Rightarrow>
          if exec PORT_REGEX (js_text port) = None
          then bind_action (set_form (\<lambda>st. st\<lparr>as_errorMessage := JStr port_regex_message,
                 as_saving := ''todo''\<rparr>)) (\<lambda>_. ret None)
          else throw (TypeError ''split''))"

text \<open>The message of the first field that is missing.\<close>

definition missing_field :: "seg_props \<Rightarrow> add_segmentation \<Rightarrow> string option" where
  "missing_field props st =
     (if as_isCategory st
      then (if \<not> truthy (as_inboundDestinationService st) then Some ''Destination service is required.''
            else if \<not> truthy (as_destinationPort st) then Some ''Destination Port is required.''
            else if as_sourceServiceMembers st = [] \<and> as_members st = [] then Some ''At least one source service is required.''
            else if \<not> truthy (as_sourcePort st) then Some ''Source port is required.''
            else if \<not> truthy (as_protocol st) then Some ''Protocol is required.''
            else if missing_justification props (Some (as_justification st)) then Some ''Justification is required to add a member.''
            else None)
      else (if \<not> truthy (as_outboundSourceService st) then Some ''Source service is required.''
            else if \<not> truthy (as_sourcePort st) then Some ''Source port is required.''
            else if as_destinationServiceMembers st = [] \<and> as_members st = []
            then Some ''At least one destination service is required.''
            else if \<not> truthy (as_destinationPort st) then Some ''Destination Port is required.''
            else if \<not> truthy (as_protocol st) then Some ''Protocol is required.''
            else if missing_justification props (Some (as_justification st)) then Some ''Justification is required to add a member.''
            else None))"

text \<open>\<open>True\<close> when a field is missing.\<close>

definition validateFields :: "seg_props \<Rightarrow> bool seg" where
  "validateFields props =
     bind_action (form (missing_field props)) (\<lambda>missing.
       case missing of
         None \<Rightarrow> ret False
       | Some m \<Rightarrow> bind_action (set_form (\<lambda>st. st\<lparr>as_errorMessage := JStr m, as_saving := ''todo''\<rparr>)) (\<lambda>_. ret True))"

section \<open>The requests for a rule\<close>

text \<open>\<^verbatim>\<open>data.errors.join('\r\n')\<close>\<close>

definition lines_of :: "jsval \<Rightarrow> string result" where
  "lines_of v = bind_result (array_items v) (\<lambda>vs.
     Inr (join_with [CHR 0x0D, CHR 0x0A] (map (\<lambda>x. if x = JUndef \<or> x = JNull then [] else js_text x) vs)))"

definition validation_answer :: "jsval \<Rightarrow> promise seg" where
  "validation_answer data =
     bind_action (lift_result (get_prop data ''status'')) (\<lambda>status.
       if status = JStr ''VALID'' then ret (Resolved JUndef)
       else bind_action (lift_result (bind_result (get_prop data ''errors'') lines_of)) (\<lambda>errors.
            bind_action (set_form (\<lambda>st. st\<lparr>as_validationError := errors, as_validationStatus := status, as_saving := ''todo''\<rparr>))
              (\<lambda>_. ret (Rejected JUndef))))"

definition validateMicrosegmentationPolicy ::
  "seg_env \<Rightarrow> seg_props \<Rightarrow> jsval \<Rightarrow> string \<Rightarrow> string \<Rightarrow> bool \<Rightarrow> promise seg" where
  "validateMicrosegmentationPolicy env props roleMembers sourcePort destinationPort skipValidation =
     bind_action (form (\<lambda>st. st)) (\<lambda>st.
       if as_validationCheckbox st \<and> \<not> skipValidation
       then bind_action (request env (Api_validateMicrosegmentationPolicy (as_category st) roleMembers
               (as_inboundDestinationService st) (as_outboundSourceService st) (JStr sourcePort) (JStr destinationPort)
               (as_protocol st) (fp_domain props) (fp_csrf props)))
             (page_settle validation_answer (\<lambda>err. reject_with (fetcherErrorCheckHelper err)))
       else ret (Resolved JUndef))"

definition not_there :: "jsval \<Rightarrow> bool" where
  "not_there err \<longleftrightarrow> truthy err \<and> get_prop err ''statusCode'' = Inr (JNum (Fin 404))"

definition seg_auditRef :: "string \<Rightarrow> jsval seg" where
  "seg_auditRef d = form (\<lambda>st. audit_ref (Some (as_justification st)) d)"

definition put_role :: "seg_env \<Rightarrow> seg_props \<Rightarrow> string \<Rightarrow> jsval \<Rightarrow> promise seg" where
  "put_role env props roleName role =
     bind_action (seg_auditRef ''Microsegmentaion Role creation'') (\<lambda>auditRef.
     bind_action (request env (Api_addRole (fp_domain props) (JStr roleName) role auditRef (fp_csrf props)))
       (page_settle (\<lambda>data. ret (Resolved JUndef)) (\<lambda>err. reject_with (xhrErrorCheckHelper err))))"

definition createRole :: "seg_env \<Rightarrow> seg_props \<Rightarrow> string \<Rightarrow> jsval \<Rightarrow> promise seg" where
  "createRole env props roleName role =
     bind_action (request env (Api_getRole (fp_domain props) (JStr roleName) JUndef JUndef JUndef))
       (page_settle
          (\<lambda>existingRole. ret (Rejected (JStr
             ''The identifier is already being used for this service. Please use a new identifier.'')))
          (\<lambda>err. if not_there err then put_role env props roleName role
                 else reject_with (fetcherErrorCheckHelper err)))"

text \<open>The names that make up a rule.\<close>

record rule_names =
  ru_role :: string
  ru_action :: string
  ru_policy :: string
  ru_resource :: jsval

definition rule_names_of :: "add_segmentation \<Rightarrow> string \<Rightarrow> string \<Rightarrow> rule_names" where
  "rule_names_of st sourcePort destinationPort =
     (let names = (\<lambda>service direction mark.
            \<lparr>ru_role = ''acl.'' @ js_text service @ ''.'' @ direction @ ''-'' @ js_text (as_identifier st),
             ru_action = js_text (as_protocol st) @ ''-'' @ mark @ '':'' @ sourcePort @ '':'' @ destinationPort,
             ru_policy = ''acl.'' @ js_text service @ ''.'' @ direction,
             ru_resource = service\<rparr>)
      in if as_isCategory st then names (as_inboundDestinationService st) ''inbound'' ''IN''
         else names (as_outboundSourceService st) ''outbound'' ''OUT'')"

text \<open>The last request: the page is told when the conditions are stored. The promise is never resolved.\<close>

definition put_conditions :: "seg_env \<Rightarrow> seg_props \<Rightarrow> rule_names \<Rightarrow> jsval \<Rightarrow> promise seg" where
  "put_conditions env props ru assertionId =
     bind_action (form as_PESList) (\<lambda>pes.
     bind_action (seg_auditRef ''Microsegmentaion Assertion Condition using Athenz UI'') (\<lambda>auditRef.
     bind_action (request env (Api_addAssertionConditions (fp_domain props) (JStr (ru_policy ru)) assertionId pes auditRef
         (fp_csrf props)))
       (page_settle (\<lambda>conditionData. bind_action (tell Submitted) (\<lambda>_. ret Pending))
         (\<lambda>err. reject_with (xhrErrorCheckHelper err)))))"

definition drop_role :: "seg_env \<Rightarrow> seg_props \<Rightarrow> rule_names \<Rightarrow> promise seg" where
  "drop_role env props ru =
     bind_action (request env (Api_deleteRole (fp_domain props) (JStr (ru_role ru))
         (JStr ''deleted using Microsegmentation UI because of same assertion'') (fp_csrf props)))
       (page_settle (\<lambda>_. ret (Rejected (JStr ''Same policy already exists with a different identifier'')))
         (\<lambda>err. reject_with (xhrErrorCheckHelper err)))"

definition extend_policy :: "seg_env \<Rightarrow> seg_props \<Rightarrow> rule_names \<Rightarrow> promise seg" where
  "extend_policy env props ru =
     bind_action (request env (Api_addAssertion (fp_domain props) (JStr (ru_policy ru)) (JStr (ru_role ru)) (ru_resource ru)
         (JStr (ru_action ru)) (JStr ''ALLOW'') (JBool True) (fp_csrf props)))
       (page_settle
         (\<lambda>data. bind_action (lift_result (get_prop data ''id'')) (put_conditions env props ru))
         (\<lambda>err. reject_with (xhrErrorCheckHelper err)))"

definition new_policy :: "seg_env \<Rightarrow> seg_props \<Rightarrow> rule_names \<Rightarrow> promise seg" where
  "new_policy env props ru =
     bind_action (request env (Api_addPolicy (fp_domain props) (JStr (ru_policy ru)) (JStr (ru_role ru)) (ru_resource ru)
         (JStr (ru_action ru)) (JStr ''ALLOW'') (JBool True) (fp_csrf props)))
       (page_settle
         (\<lambda>_. bind_action (request env (Api_getAssertionId (fp_domain props) (JStr (ru_policy ru)) (JStr (ru_role ru))
                 (ru_resource ru) (JStr (ru_action ru)) (JStr ''ALLOW'')))
                (page_settle (put_conditions env props ru) (\<lambda>err. reject_with (fetcherErrorCheckHelper err))))
         (\<lambda>err. reject_with (fetcherErrorCheckHelper err)))"

definition actions_of :: "jsval \<Rightarrow> string list result" where
  "actions_of data =
     bind_result (get_prop data ''assertions'') (\<lambda>assertions.
     bind_result (array_items assertions) (\<lambda>items.
     map_result (\<lambda>element. bind_result (get_prop element ''action'') string_of) items))"

definition createPolicy :: "seg_env \<Rightarrow> seg_props \<Rightarrow> rule_names \<Rightarrow> promise seg" where
  "createPolicy env props ru =
     bind_action (request env (Api_getPolicy (fp_domain props) (JStr (ru_policy ru))))
       (page_settle
         (\<lambda>data. bind_action (lift_result (actions_of data)) (\<lambda>actions.
            if ru_action ru \<in> set actions then drop_role env props ru else extend_policy env props ru))
         (\<lambda>err. if not_there err then new_policy env props ru else reject_with (xhrErrorCheckHelper err)))"

text \<open>The last \<^verbatim>\<open>catch\<close> of both handlers.\<close>

definition seg_rejected :: "bool \<Rightarrow> promise \<Rightarrow> unit seg" where
  "seg_rejected skipValidation p =
     (case p of
        Rejected err \<Rightarrow> set_form (\<lambda>st.
          let st' = st\<lparr>as_errorMessage := err, as_saving := ''todo''\<rparr>
          in if skipValidation then st'\<lparr>as_validationError := ''none''\<rparr> else st')
      | _ \<Rightarrow> ret ())"

section \<open>Adding a rule\<close>

definition named_member :: "jsval \<Rightarrow> bool result" where
  "named_member m = bind_result (get_prop m ''memberName'') (\<lambda>n. Inr (n \<noteq> JNull \<and> n \<noteq> JUndef))"

definition role_value :: "string \<Rightarrow> jsval list \<Rightarrow> jsval" where
  "role_value roleName members = JObj [(''name'', JStr roleName), (''roleMembers'', JArr members)]"

text \<open>
  What both handlers do first: \<open>None\<close> when a field or a port is refused, otherwise the two ports.
\<close>

definition checked_ports :: "seg_props \<Rightarrow> (string \<times> string) option seg" where
  "checked_ports props =
     bind_action (set_form (\<lambda>st. st\<lparr>as_saving := ''saving''\<rparr>)) (\<lambda>_.
     bind_action (validateFields props) (\<lambda>missing.
       if missing then ret None
       else bind_action seg_addMember (\<lambda>_.
            bind_action (form as_sourcePort) (\<lambda>sp. bind_action (validatePort sp) (\<lambda>source.
            bind_action (form as_destinationPort) (\<lambda>dp. bind_action (validatePort dp) (\<lambda>destination.
              ret (case (source, destination) of (Some s, Some d) \<Rightarrow> Some (s, d) | _ \<Rightarrow> None))))))))"

text \<open>
  The form is rendered when the handler has returned, before anything is answered: rendering marks
  the members, which the role shares with the form.
\<close>

definition submit_rule :: "seg_env \<Rightarrow> seg_props \<Rightarrow> bool \<Rightarrow> rule_names \<Rightarrow> jsval list \<Rightarrow> string \<Rightarrow> string \<Rightarrow> unit seg" where
  "submit_rule env props skipValidation ru roleMembers sourcePort destinationPort =
     bind_action (validateMicrosegmentationPolicy env props (JArr roleMembers) sourcePort destinationPort skipValidation) (\<lambda>p.
     bind_action (page_then (\<lambda>_. createRole env props (ru_role ru) (role_value (ru_role ru) (map approve roleMembers))) p) (\<lambda>q.
     bind_action (page_then (\<lambda>_. createPolicy env props ru) q) (seg_rejected skipValidation)))"

definition seg_onSubmit :: "seg_env \<Rightarrow> seg_props \<Rightarrow> bool \<Rightarrow> unit seg" where
  "seg_onSubmit env props skipValidation =
     bind_action (checked_ports props) (\<lambda>checked.
       case checked of
         None \<Rightarrow> ret ()
       | Some (sourcePort, destinationPort) \<Rightarrow>
           bind_action (form (\<lambda>st. rule_names_of st sourcePort destinationPort)) (\<lambda>ru.
           bind_action (form as_members) (\<lambda>ms.
           bind_action (lift_result (filter_result named_member ms)) (\<lambda>roleMembers.
           submit_rule env props skipValidation ru roleMembers sourcePort destinationPort))))"

section \<open>Changing a rule\<close>

text \<open>
  The items of an array as the keys of an object: one key is not stored, and the keys that every
  object has are found too.
\<close>

definition member_hash :: "jsval list \<Rightarrow> string set" where
  "member_hash names = set (map js_text names) - {''__proto__''}"

definition role_changed :: "jsval list \<Rightarrow> jsval list \<Rightarrow> bool result" where
  "role_changed originalMembers members =
     bind_result (map_result (\<lambda>m. get_prop m ''memberName'') members) (\<lambda>names.
       Inr ((\<exists>n\<in>set names. js_text n \<notin> member_hash originalMembers \<union> set proto_keys)
            \<or> length members \<noteq> card (member_hash originalMembers)))"

definition put_field :: "string \<Rightarrow> jsval \<Rightarrow> jsval \<Rightarrow> jsval" where
  "put_field k v data = (case data of JObj kvs \<Rightarrow> JObj (obj_put k v kvs) | _ \<Rightarrow> data)"

record rule_change =
  rc_role :: bool
  rc_assertion :: bool
  rc_condition :: bool
  rc_data :: jsval

text \<open>
  The comparison of the conditions is never reached: the code asks for \<^verbatim>\<open>conditionList\<close>, a
  property that the rules of the server do not have. With that property the conditions would be
  compared item by item.
\<close>

definition nullish :: "jsval \<Rightarrow> bool" where
  "nullish v \<longleftrightarrow> v = JUndef \<or> v = JNull"

definition is_object :: "jsval \<Rightarrow> bool" where
  "is_object v = (case v of JArr _ \<Rightarrow> True | JObj _ \<Rightarrow> True | _ \<Rightarrow> False)"

text \<open>\<^verbatim>\<open>a == b\<close> for values that are not the same object.\<close>

definition loose_eq :: "jsval \<Rightarrow> jsval \<Rightarrow> bool" where
  "loose_eq a b =
     (let prim = (\<lambda>v. if is_object v then JStr (js_text v) else v)
      in if nullish a \<or> nullish b then nullish a \<and> nullish b
         else if is_object a \<and> is_object b then False
         else case (prim a, prim b) of
                (JStr s, JStr t) \<Rightarrow> s = t
              | (x, y) \<Rightarrow> num_eq (to_number x) (to_number y))"

definition same_condition :: "jsval \<Rightarrow> jsval \<Rightarrow> bool result" where
  "same_condition other current =
     bind_result (map_result (get_prop other) [''instances'', ''enforcementstate'', ''id'']) (\<lambda>xs.
     bind_result (map_result (get_prop current) [''instances'', ''enforcementstate'', ''id'']) (\<lambda>ys.
     Inr (list_all2 loose_eq xs ys)))"

definition conditions_differ :: "jsval list \<Rightarrow> jsval list \<Rightarrow> bool result" where
  "conditions_differ os cs =
     bind_result (filter_result (\<lambda>c. bind_result (filter_result (\<lambda>x. same_condition x c) os) (\<lambda>same. Inr (same = []))) cs)
       (\<lambda>missing. Inr (missing \<noteq> []))"

definition condition_changed :: "jsval \<Rightarrow> jsval \<Rightarrow> bool result" where
  "condition_changed data pes =
     bind_result (get_prop data ''conditionList'') (\<lambda>present_list.
       if truthy present_list
       then bind_result (get_prop data ''conditionsList'') (\<lambda>cl.
            bind_result (array_items cl) (\<lambda>old.
            bind_result (array_items pes) (\<lambda>new.
            bind_result (conditions_differ new old) (\<lambda>x.
            bind_result (conditions_differ old new) (\<lambda>y. Inr (x \<or> y))))))
       else Inr True)"

definition rule_change_of :: "seg_props \<Rightarrow> string \<Rightarrow> string \<Rightarrow> add_segmentation \<Rightarrow> rule_change result" where
  "rule_change_of props source destination st =
     (let data = sp_data props in
      bind_result (get_prop data ''category'') (\<lambda>category.
      bind_result (get_prop data (own_services category)) (\<lambda>services.
      bind_result (array_items services) (\<lambda>originalMembers.
      bind_result (role_changed originalMembers (as_members st)) (\<lambda>roleChanged.
      bind_result (map_result (\<lambda>m. get_prop m ''memberName'') (as_members st)) (\<lambda>newMembers.
      bind_result (get_prop data ''destination_port'') (\<lambda>dp.
      bind_result (get_prop data ''source_port'') (\<lambda>sp.
      bind_result (get_prop data ''layer'') (\<lambda>layer.
      let assertionChanged = (\<not> strict_eq dp (as_destinationPort st) \<or> \<not> strict_eq sp (as_sourcePort st)
            \<or> \<not> strict_eq layer (as_protocol st));
          updatedData = (if roleChanged then put_field (own_services category) (JArr newMembers) (json_clone data)
            else json_clone data)
      in bind_result (if assertionChanged then Inr True else condition_changed data (as_PESList st)) (\<lambda>conditionChanged.
         let updatedPorts = (if assertionChanged
               then put_field ''layer'' (as_protocol st) (put_field ''source_port'' (JStr source)
                      (put_field ''destination_port'' (JStr destination) updatedData))
               else updatedData)
         in Inr \<lparr>rc_role = roleChanged, rc_assertion = assertionChanged, rc_condition = conditionChanged,
              rc_data = (if conditionChanged then put_field ''conditionsList'' (as_PESList st) updatedPorts
                else updatedPorts)\<rparr>))))))))))"

definition edit_rule :: "seg_env \<Rightarrow> seg_props \<Rightarrow> rule_change \<Rightarrow> promise seg" where
  "edit_rule env props rc =
     (if rc_role rc \<or> rc_assertion rc \<or> rc_condition rc
      then bind_action (request env (Api_editMicrosegmentation (fp_domain props) (JBool (rc_role rc)) (JBool (rc_assertion rc))
               (JBool (rc_condition rc)) (rc_data rc) (fp_csrf props)))
             (page_settle (\<lambda>_. bind_action (tell Submitted) (\<lambda>_. ret (Resolved JUndef)))
               (\<lambda>err. bind_action (lift_result (fetcherErrorCheckHelper err)) (\<lambda>m.
                  bind_action (set_form (\<lambda>st. st\<lparr>as_errorMessage := JStr m, as_saving := ''todo'', as_validationError := ''none''\<rparr>))
                    (\<lambda>_. ret (Resolved JUndef)))))
      else bind_action (tell Cancelled) (\<lambda>_. ret (Resolved JUndef)))"

definition onEditSubmit :: "seg_env \<Rightarrow> seg_props \<Rightarrow> bool \<Rightarrow> unit seg" where
  "onEditSubmit env props skipValidation =
     bind_action (checked_ports props) (\<lambda>checked.
       case checked of
         None \<Rightarrow> ret ()
       | Some (source, destination) \<Rightarrow>
           bind_action (form (rule_change_of props source destination)) (\<lambda>r.
           bind_action (lift_result r) (\<lambda>rc.
           bind_action (form as_members) (\<lambda>ms.
           bind_action (validateMicrosegmentationPolicy env props (JArr ms) source destination skipValidation) (\<lambda>p.
           bind_action (page_then (\<lambda>_. edit_rule env props rc) p) (seg_rejected skipValidation))))))"

text \<open>
  Because of the name that is asked for, the conditions of every rule count as changed: a rule that
  is submitted as it is has its conditions deleted and stored again, and the form never cancels.
\<close>

lemma conditions_always_changed:
  assumes "rule_change_of props source destination st = Inr rc" and "get_prop (sp_data props) ''conditionList'' = Inr JUndef"
  shows "rc_condition rc"
proof -
  have "condition_changed (sp_data props) pes = Inr True" for pes
    using assms(2) by (simp add: condition_changed_def)
  then show ?thesis
    using assms(1) by (clarsimp simp: rule_change_of_def Let_def bind_result_Inr_iff) (metis sum.inject(2))
qed

lemma edit_never_cancels:
  assumes "rule_change_of props source destination st = Inr rc" and "get_prop (sp_data props) ''conditionList'' = Inr JUndef"
    and "edit_rule env props rc p = (r, p')" and "Cancelled \<notin> set (pg_told p)"
  shows "Cancelled \<notin> set (pg_told p')"
  using conditions_always_changed [OF assms(1,2)] assms(3,4)
  by (auto simp: edit_rule_def Api_editMicrosegmentation_def Let_def bind_action_def page_settle_def page_catch_def
      split: promise.splits prod.splits sum.splits)

section \<open>What the check of ports accepts\<close>

definition digits :: "string \<Rightarrow> bool" where
  "digits s \<longleftrightarrow> s \<noteq> [] \<and> (\<forall>c\<in>set s. digit_char c)"

definition port_range :: "string \<Rightarrow> bool" where
  "port_range p \<longleftrightarrow> (\<exists>a b. p = a @ ''-'' @ b \<and> digits a \<and> digits b
     \<and> 1 \<le> digits_val 10 a \<and> digits_val 10 a \<le> digits_val 10 b \<and> digits_val 10 b \<le> 65535)"

definition as_range :: "string \<Rightarrow> string" where
  "as_range p = (if CHR ''-'' \<in> set p then p else p @ ''-'' @ p)"

lemma digit_char_not: "digit_char c \<Longrightarrow> c \<noteq> CHR ''-'' \<and> c \<noteq> CHR '','' \<and> c \<noteq> CHR ''x'' \<and> c \<noteq> CHR ''X'' \<and> c \<noteq> CHR ''+''"
  by (auto simp: digit_char_def)

lemma parse_int_digits: "(\<forall>c\<in>set s. digit_char c) \<Longrightarrow> parse_int s = (if s = [] then NaN else Fin (of_nat (digits_val 10 s)))"
proof -
  assume s: "\<forall>c\<in>set s. digit_char c"
  then have "dropWhile space_char s = s"
    using digit_char_not_space by (cases s) auto
  moreover have "\<not> starts_with s ''0x''" "\<not> starts_with s ''0X''"
    using s digit_char_not set_mono_prefix [of "''0x''" s] set_mono_prefix [of "''0X''" s]
    by (fastforce simp: starts_with_def)+
  moreover have "takeWhile digit_char s = s"
    using s by (simp add: takeWhile_eq_all_conv)
  moreover have "s \<noteq> [] \<Longrightarrow> hd s \<noteq> CHR ''-'' \<and> hd s \<noteq> CHR ''+''"
    using s digit_char_not by (cases s) auto
  ultimately show ?thesis
    by (auto simp: parse_int_def parse_digits_def Let_def starts_with_def simp del: takeWhile_eq_all_conv)
qed

lemma port_regex: "exec PORT_REGEX s = None \<longleftrightarrow> \<not> (\<forall>c\<in>set s. port_char c)"
proof -
  have after: "exec_from PORT_REGEX n t = None" if "length t < n" for n t
    using that
  proof (induction t)
    case (Cons c cs)
    then show ?case by (subst exec_from.simps) (simp add: PORT_REGEX_def)
  qed (simp add: exec_from.simps PORT_REGEX_def)
  have "matches PORT_REGEX (length s) s = [] \<longleftrightarrow> [] \<notin> set (matches (Star (Cls port_char)) (length s) s)"
    by (auto simp: PORT_REGEX_def)
  then have "matches PORT_REGEX (length s) s = [] \<longleftrightarrow> \<not> (\<forall>c\<in>set s. port_char c)"
    by (simp add: set_matches_Star_Cls)
  then show ?thesis
    using after by (cases s; cases "matches PORT_REGEX (length s) s")
      (auto simp: exec_def exec_from.simps [of PORT_REGEX _ s] exec_from.simps [of PORT_REGEX 0 "[]"] exec_from.simps [of PORT_REGEX _ "_ # _"] split: list.splits)
qed

definition port_word :: "string \<Rightarrow> bool" where
  "port_word p \<longleftrightarrow> (\<forall>c\<in>set p. digit_char c \<or> c = CHR ''-'')"

lemma split_pieces_digits: "port_word p \<Longrightarrow> q \<in> set (split_on CHR ''-'' p) \<Longrightarrow> \<forall>c\<in>set q. digit_char c"
  using split_on_subset [of q "CHR ''-''" p] split_on_parts_clean [of q "CHR ''-''" p] by (fastforce simp: port_word_def)

lemma split_range:
  assumes "digits a" "digits b"
  shows "split_on CHR ''-'' (a @ ''-'' @ b) = [a, b]"
  using assms digit_char_not split_on_join_with [of "[a, b]" "CHR ''-''"] by (fastforce simp: digits_def)

lemma port_item_range:
  assumes "port_word p" and "CHR ''-'' \<in> set p"
  shows "port_item p = Inr q \<longleftrightarrow> port_range p \<and> q = p"
proof -
  have digits_of: "\<forall>c\<in>set r. digit_char c" if "r \<in> set (split_on CHR ''-'' p)" for r
    using split_pieces_digits assms(1) that by blast
  show ?thesis
  proof (cases "\<exists>a b. split_on CHR ''-'' p = [a, b]")
    case True
    then obtain a b where ab: "split_on CHR ''-'' p = [a, b]"
      by blast
    then have p: "p = a @ ''-'' @ b"
      using join_with_split_on [of "CHR ''-''" p] by simp
    have d: "\<forall>c\<in>set a. digit_char c" "\<forall>c\<in>set b. digit_char c"
      using digits_of ab by auto
    have "port_range p \<longleftrightarrow> digits a \<and> digits b \<and> 1 \<le> digits_val 10 a \<and> digits_val 10 a \<le> digits_val 10 b
        \<and> digits_val 10 b \<le> 65535"
      using ab p split_range unfolding port_range_def by (metis list.inject)
    then show ?thesis
      using assms(2) d ab by (auto simp: port_item_def parse_int_digits digits_def Let_def)
  next
    case False
    then have "length (split_on CHR ''-'' p) \<noteq> 2"
      by (auto simp: length_Suc_conv numeral_2_eq_2)
    moreover have "\<not> port_range p"
      using False split_range by (auto simp: port_range_def)
    ultimately show ?thesis
      using assms(2) by (simp add: port_item_def Let_def)
  qed
qed

lemma port_item_iff:
  assumes "port_word p"
  shows "port_item p = Inr q \<longleftrightarrow> (CHR ''-'' \<in> set p \<longrightarrow> port_range p) \<and> q = as_range p"
proof (cases "CHR ''-'' \<in> set p")
  case True
  then show ?thesis
    using port_item_range [OF assms] by (auto simp: as_range_def)
next
  case False
  have "\<not> (string_to_number p < Fin 0 \<and> string_to_number p > Fin 65535)"
    by (cases "string_to_number p") auto
  then show ?thesis
    using False by (auto simp: port_item_def as_range_def)
qed

lemma port_items_Cons:
  "port_items (p # ps) = Inr qs \<longleftrightarrow> (\<exists>q rs. port_item p = Inr q \<and> port_items ps = Inr rs \<and> qs = q # rs)"
  by (auto split: sum.splits)

lemma port_items_iff:
  "\<forall>p\<in>set ps. port_word p \<Longrightarrow>
     port_items ps = Inr qs \<longleftrightarrow> (\<forall>p\<in>set ps. CHR ''-'' \<in> set p \<longrightarrow> port_range p) \<and> qs = map as_range ps"
proof (induction ps arbitrary: qs)
  case (Cons p ps)
  then show ?case
    using port_item_iff [of p] by (auto simp: port_items_Cons simp del: port_items.simps)
qed auto

lemma port_text_iff:
  "port_text s = Inr t \<longleftrightarrow>
     (\<forall>c\<in>set s. port_char c) \<and> (\<forall>p\<in>set (split_on CHR '','' s). CHR ''-'' \<in> set p \<longrightarrow> port_range p)
     \<and> t = join_with '','' (map as_range (split_on CHR '','' s))"
proof (cases "\<forall>c\<in>set s. port_char c")
  case True
  have "\<forall>p\<in>set (split_on CHR '','' s). port_word p"
    using True split_on_subset [of _ "CHR '',''" s] split_on_parts_clean [of _ "CHR '',''" s]
    by (fastforce simp: port_word_def port_char_def)
  then have items: "port_items (split_on CHR '','' s) = Inr qs \<longleftrightarrow>
      (\<forall>p\<in>set (split_on CHR '','' s). CHR ''-'' \<in> set p \<longrightarrow> port_range p) \<and> qs = map as_range (split_on CHR '','' s)" for qs
    by (rule port_items_iff)
  have "port_text s = Inr t \<longleftrightarrow> (\<exists>qs. port_items (split_on CHR '','' s) = Inr qs \<and> t = join_with '','' qs)"
    using True port_regex [of s] by (auto simp: port_text_def split: sum.splits)
  then show ?thesis
    using True items by simp
next
  case False
  then show ?thesis
    using port_regex [of s] by (simp add: port_text_def)
qed

text \<open>
  C32. The check of ports accepts exactly the lists of digits, commas and hyphens in which every item
  with a hyphen is a range of port numbers with its start not after its end, and gives the list
  back with each single port written as a range. A single port is not checked any further.
\<close>

theorem ports_accepted_iff:
  "port_text s = Inr t \<longleftrightarrow>
     (\<forall>c\<in>set s. port_char c) \<and> (\<forall>p\<in>set (split_on CHR '','' s). CHR ''-'' \<in> set p \<longrightarrow> port_range p)
     \<and> t = join_with '','' (map as_range (split_on CHR '','' s))"
  by (rule port_text_iff)

theorem ports_accepted_iff_witness:
  "port_text ''80,443-445'' = Inr ''80-80,443-445'' \<and> isl (port_text ''0-445'')"
proof -
  have range: "port_range ''443-445''"
    unfolding port_range_def
    by (intro exI [of _ "''443''"] exI [of _ "''445''"])
       (simp add: digits_def digit_char_def digits_val_def digit_val_def)
  have "split_on CHR '','' ''80,443-445'' = [''80'', ''443-445'']"
    by simp
  then have "port_text ''80,443-445'' = Inr ''80-80,443-445''"
    using range by (simp add: ports_accepted_iff as_range_def port_char_def digit_char_def)
  moreover have "isl (port_text ''0-445'')"
    by code_simp
  ultimately show ?thesis
    by simp
qed

text \<open>A single port may be any number, and any text of digits, also none.\<close>

lemma single_port_unchecked:
  assumes "\<forall>c\<in>set s. digit_char c"
  shows "port_text s = Inr (s @ ''-'' @ s)"
proof -
  have "CHR '','' \<notin> set s" "CHR ''-'' \<notin> set s"
    using assms digit_char_not by auto
  then show ?thesis
    using assms by (simp add: port_text_iff split_on_clean as_range_def port_char_def)
qed

text \<open>The ports of a stored rule pass the check unchanged when the rule is edited, if all its single ports were port numbers.\<close>

lemma stored_ports_stable:
  assumes "port_text s = Inr t"
    and "\<forall>p\<in>set (split_on CHR '','' s). CHR ''-'' \<notin> set p \<longrightarrow> digits p \<and> 1 \<le> digits_val 10 p \<and> digits_val 10 p \<le> 65535"
  shows "port_text t = Inr t"
proof -
  let ?ps = "split_on CHR '','' s"
  have s: "\<forall>c\<in>set s. port_char c" "\<forall>p\<in>set ?ps. CHR ''-'' \<in> set p \<longrightarrow> port_range p"
      "t = join_with '','' (map as_range ?ps)"
    using assms(1) by (simp_all add: port_text_iff)
  have pieces: "CHR '','' \<notin> set (as_range p)" "CHR ''-'' \<in> set (as_range p)" "set (as_range p) \<subseteq> insert (CHR ''-'') (set s)"
    if "p \<in> set ?ps" for p
    using split_on_subset [OF that] split_on_parts_clean [OF that] by (auto simp: as_range_def)
  have "port_range (as_range p)" if "p \<in> set ?ps" for p
    using s(2) assms(2) that by (force simp: as_range_def port_range_def)
  moreover have "split_on CHR '','' t = map as_range ?ps"
    unfolding s(3) by (rule split_on_join_with) (use pieces(1) in auto)
  moreover have "map as_range (map as_range ?ps) = map as_range ?ps"
    using pieces(2) by (simp add: as_range_def)
  moreover have "\<forall>c\<in>set t. port_char c"
    using set_join_with [of "'',''" "map as_range ?ps"] pieces(3) s(1,3) by (fastforce simp: port_char_def)
  ultimately show ?thesis
    by (simp add: port_text_iff s(3) o_def cong: map_cong)
qed

end
