(* ===== verification/Ui_Rules.thy ===== *)
theory Ui_Rules
  imports Ui_Segmentation Ui_Safety
begin

text \<open>
  What becomes of a rule that is added with the form of \<open>Ui_Segmentation\<close>: the requests that are
  made and answered before the page is told that the rule is there, and that the console's server
  lists the stored rule with the fields of the form.
\<close>

section \<open>Actions that tell the page\<close>

text \<open>
  An action that tells the page nothing, and one that tells it something only after it sent a
  sequence of requests that satisfies a predicate. The predicate is given the requests sent before.
\<close>

definition quiet :: "('f, 'a) page_action \<Rightarrow> bool" where
  "quiet m \<longleftrightarrow> (\<forall>p r p'. m p = (r, p') \<longrightarrow> pg_told p' = pg_told p)"

definition tells_after :: "(browser_call list \<Rightarrow> browser_call list \<Rightarrow> bool) \<Rightarrow> ('f, 'a) page_action \<Rightarrow> bool" where
  "tells_after Q m \<longleftrightarrow> (\<forall>p r p'. m p = (r, p') \<longrightarrow>
     pg_told p' = pg_told p
     \<or> (\<exists>x calls. r = Inr x \<and> pg_sent p' = pg_sent p @ calls \<and> Q (pg_sent p) calls))"

text \<open>The last of some requests was answered without an error.\<close>

definition accepted :: "'f page_env \<Rightarrow> browser_call list \<Rightarrow> bool" where
  "accepted env sent \<longleftrightarrow> (\<exists>err data. pe_reply env sent = Some (err, data) \<and> \<not> truthy err)"

definition refused_with :: "'f page_env \<Rightarrow> browser_call list \<Rightarrow> (jsval \<Rightarrow> bool) \<Rightarrow> bool" where
  "refused_with env sent P \<longleftrightarrow> (\<exists>err data. pe_reply env sent = Some (err, data) \<and> truthy err \<and> P err)"

lemma quietD: "quiet m \<Longrightarrow> m p = (r, p') \<Longrightarrow> pg_told p' = pg_told p"
  by (auto simp: quiet_def)

lemma tells_afterD:
  "tells_after Q m \<Longrightarrow> m p = (r, p') \<Longrightarrow>
     pg_told p' = pg_told p \<or> (\<exists>x calls. r = Inr x \<and> pg_sent p' = pg_sent p @ calls \<and> Q (pg_sent p) calls)"
  by (auto simp: tells_after_def)

lemma quiet_prims:
  "quiet (ret x)" "quiet (throw e)" "quiet (form g)" "quiet (set_form h)" "quiet (lift_result q)" "quiet (reject_with s)"
  by (auto simp: quiet_def reject_with_def form_def set_form_def)

lemma quiet_request: "quiet (request env c)"
  by (cases c) (auto simp: quiet_def request_def Let_def)

lemma quiet_bind:
  assumes "quiet m" and "\<And>x. quiet (f x)"
  shows "quiet (bind_action m f)"
  unfolding quiet_def
proof (intro allI impI)
  fix p r p'
  assume run: "bind_action m f p = (r, p')"
  obtain q p1 where m: "m p = (q, p1)"
    by force
  then have told: "pg_told p1 = pg_told p"
    using assms(1) by (auto simp: quiet_def)
  show "pg_told p' = pg_told p"
    using run m told assms(2) by (cases q) (auto simp: quiet_def)
qed

lemma quiet_settle: "(\<And>v. quiet (f v)) \<Longrightarrow> (\<And>e. quiet (g e)) \<Longrightarrow> quiet (page_settle f g q)"
  by (cases q) (force simp: quiet_def page_catch_def split: prod.splits sum.splits)+

lemma quiet_if: "quiet m \<Longrightarrow> quiet n \<Longrightarrow> quiet (if b then m else n)"
  by simp

lemmas quiet_rules = quiet_prims quiet_request quiet_bind quiet_settle quiet_if

lemma tells_after_quiet: "quiet m \<Longrightarrow> tells_after Q m"
  by (auto simp: quiet_def tells_after_def)

lemma tells_after_if: "tells_after Q m \<Longrightarrow> tells_after Q n \<Longrightarrow> tells_after Q (if b then m else n)"
  by simp

text \<open>A quiet first action that sends nothing.\<close>

lemma tells_after_pure:
  assumes "\<And>p q p'. m p = (q, p') \<Longrightarrow> pg_told p' = pg_told p \<and> pg_sent p' = pg_sent p" and "\<And>x. tells_after Q (f x)"
  shows "tells_after Q (bind_action m f)"
  unfolding tells_after_def
proof (intro allI impI)
  fix p r p'
  assume run: "bind_action m f p = (r, p')"
  obtain q p1 where m: "m p = (q, p1)"
    by force
  note told = assms(1) [OF m]
  show "pg_told p' = pg_told p \<or> (\<exists>x calls. r = Inr x \<and> pg_sent p' = pg_sent p @ calls \<and> Q (pg_sent p) calls)"
  proof (cases q)
    case (Inr x)
    then show ?thesis
      using tells_afterD [OF assms(2) [of x], of p1 r p'] run m told by simp
  qed (use run m told in simp)
qed

text \<open>A request whose callbacks go on only with an answer that is no error, or only with an error.\<close>

definition settles_on_answer :: "browser_call \<Rightarrow> bool" where
  "settles_on_answer c \<longleftrightarrow> (\<forall>csrf op service params cb err data v.
     c = Fetch csrf op service params cb \<longrightarrow>
       (cb err data = Inr (Resolved v) \<longrightarrow> \<not> truthy err) \<and> (cb err data = Inr (Rejected v) \<longrightarrow> truthy err \<and> v = err))"

lemma request_cases:
  assumes "request env c p = (r, p')" and "settles_on_answer c" and "c \<noteq> NoPromise"
  obtains (answered) v where "r = Inr (Resolved v)" "pg_sent p' = pg_sent p @ [c]" "accepted env (pg_sent p @ [c])"
  | (refused) e where "r = Inr (Rejected e)" "pg_sent p' = pg_sent p @ [c]" "refused_with env (pg_sent p @ [c]) (\<lambda>x. x = e)"
  | (waiting) "r = Inr Pending"
  | (failed) x where "c = Failed x" "r = Inr (Rejected (exn_val x))" "p' = p"
proof (cases c)
  case (Fetch csrf op service params cb)
  then have run: "r = Inr (settled cb (pe_reply env (pg_sent p @ [c])))" "pg_sent p' = pg_sent p @ [c]"
    using assms(1) by (auto simp: Let_def)
  have ok: "(cb err data = Inr (Resolved v) \<longrightarrow> \<not> truthy err) \<and> (cb err data = Inr (Rejected v) \<longrightarrow> truthy err \<and> v = err)" for err data v
    using assms(2) Fetch by (simp add: settles_on_answer_def)
  show ?thesis
  proof (cases "settled cb (pe_reply env (pg_sent p @ [c]))")
    case (Resolved v)
    then show ?thesis
      using answered run ok by (auto simp: settled_def accepted_def split: option.splits sum.splits prod.splits)
  next
    case (Rejected e)
    then show ?thesis
      using refused run ok by (auto simp: settled_def refused_with_def split: option.splits sum.splits prod.splits)
  qed (use waiting run in auto)
qed (use assms failed in auto)

lemma tells_after_request:
  assumes "\<And>v. tells_after Q (f v)" and "\<And>e. tells_after R (g e)" and "settles_on_answer c" and "c \<noteq> NoPromise"
    and "\<And>e p r p'. g e p = (r, p') \<Longrightarrow> (\<exists>x. c = Failed x) \<or> \<not> P e \<Longrightarrow> pg_told p' = pg_told p"
    and "\<And>x. \<not> P (exn_val x)"
  shows "tells_after (\<lambda>sent calls. \<exists>rest. calls = c # rest
      \<and> (accepted env (sent @ [c]) \<and> Q (sent @ [c]) rest \<or> refused_with env (sent @ [c]) P \<and> R (sent @ [c]) rest))
    (bind_action (request env c) (page_settle f g))"
  unfolding tells_after_def
proof (intro allI impI)
  fix p r p'
  assume run: "bind_action (request env c) (page_settle f g) p = (r, p')"
  obtain q p1 where req: "request env c p = (q, p1)"
    by force
  have told: "pg_told p1 = pg_told p"
    by (rule quietD [OF quiet_request req])
  let ?goal = "pg_told p' = pg_told p \<or> (\<exists>x calls. r = Inr x \<and> pg_sent p' = pg_sent p @ calls
      \<and> (\<exists>rest. calls = c # rest \<and> (accepted env (pg_sent p @ [c]) \<and> Q (pg_sent p @ [c]) rest
          \<or> refused_with env (pg_sent p @ [c]) P \<and> R (pg_sent p @ [c]) rest)))"
  from req assms(3,4) show ?goal
  proof (cases rule: request_cases)
    case (answered v)
    obtain s p2 where f: "f v p1 = (s, p2)"
      by force
    have "page_catch g (f v) p1 = (r, p')"
      using run req answered(1) by simp
    then show ?thesis
    proof (cases s)
      case (Inl x)
      then have "pg_told p2 = pg_told p1"
        using tells_afterD [OF assms(1) f] by auto
      moreover have "g (exn_val x) p2 = (r, p')"
        using \<open>page_catch g (f v) p1 = (r, p')\<close> f Inl by simp
      ultimately show ?thesis
        using assms(5,6) told by metis
    next
      case (Inr y)
      then have "r = Inr y" "p' = p2"
        using \<open>page_catch g (f v) p1 = (r, p')\<close> f by simp_all
      then show ?thesis
        using tells_afterD [OF assms(1) f] Inr told answered(2,3) by fastforce
    qed
  next
    case (refused e)
    then have g: "g e p1 = (r, p')"
      using run req by simp
    then consider "pg_told p' = pg_told p1"
      | x rest where "r = Inr x" "pg_sent p' = pg_sent p1 @ rest" "R (pg_sent p1) rest"
      using tells_afterD [OF assms(2)] by blast
    then show ?thesis
    proof cases
      case 2
      show ?thesis
      proof (cases "P e")
        case True
        then show ?thesis
          using 2 refused(2,3) told by (auto simp: refused_with_def)
      next
        case False
        then show ?thesis
          using assms(5) g told by auto
      qed
    qed (use told in simp)
  next
    case waiting
    then show ?thesis
      using run req told by auto
  next
    case (failed x)
    then have "g (exn_val x) p1 = (r, p')"
      using run req by simp
    then show ?thesis
      using assms(5) failed(1) told by auto
  qed
qed

lemma tells_after_mono: "tells_after Q m \<Longrightarrow> (\<And>sent calls. Q sent calls \<Longrightarrow> R sent calls) \<Longrightarrow> tells_after R m"
  unfolding tells_after_def by meson

lemma tells_after_accepted:
  assumes "\<And>v. tells_after Q (f v)" and "\<And>e. quiet (g e)" and "settles_on_answer c" and "c \<noteq> NoPromise"
  shows "tells_after (\<lambda>sent calls. \<exists>rest. calls = c # rest \<and> accepted env (sent @ [c]) \<and> Q (sent @ [c]) rest)
    (bind_action (request env c) (page_settle f g))"
proof (rule tells_after_mono)
  show "tells_after (\<lambda>sent calls. \<exists>rest. calls = c # rest
      \<and> (accepted env (sent @ [c]) \<and> Q (sent @ [c]) rest \<or> refused_with env (sent @ [c]) (\<lambda>_. False) \<and> True))
    (bind_action (request env c) (page_settle f g))"
    by (rule tells_after_request [OF assms(1) tells_after_quiet [OF assms(2)] assms(3,4)]) (auto intro: quietD assms(2))
qed (auto simp: refused_with_def)

lemma settles_calls:
  "settles_on_answer (Fetch csrf op service params settle_answer)"
  "settles_on_answer (Fetch csrf op service params settle_or_empty)"
  "settles_on_answer (Failed x)"
  by (auto simp: settles_on_answer_def settle_answer_def settle_or_empty_def split: if_splits)

lemma fetch_result_call:
  "settles_on_answer (fetch_result q (\<lambda>v. Fetch csrf op service (params v) settle_answer))"
  "fetch_result q (\<lambda>v. Fetch csrf op service (params v) settle_answer) \<noteq> NoPromise"
  by (cases q; simp add: fetch_result_def settles_calls)+

section \<open>The requests of a rule\<close>

definition rule_call :: "(jsval \<Rightarrow> jsval \<Rightarrow> jsval \<Rightarrow> jsval \<Rightarrow> jsval \<Rightarrow> jsval \<Rightarrow> jsval \<Rightarrow> jsval \<Rightarrow> browser_call) \<Rightarrow> seg_props \<Rightarrow> rule_names \<Rightarrow>
    browser_call" where
  "rule_call api props ru = api (fp_domain props) (JStr (ru_policy ru)) (JStr (ru_role ru)) (ru_resource ru)
     (JStr (ru_action ru)) (JStr ''ALLOW'') (JBool True) (fp_csrf props)"

definition id_call :: "seg_props \<Rightarrow> rule_names \<Rightarrow> browser_call" where
  "id_call props ru = Api_getAssertionId (fp_domain props) (JStr (ru_policy ru)) (JStr (ru_role ru)) (ru_resource ru)
     (JStr (ru_action ru)) (JStr ''ALLOW'')"

definition conditions_call :: "seg_props \<Rightarrow> rule_names \<Rightarrow> browser_call \<Rightarrow> bool" where
  "conditions_call props ru c \<longleftrightarrow> (\<exists>aid pes ref.
     c = Api_addAssertionConditions (fp_domain props) (JStr (ru_policy ru)) aid pes ref (fp_csrf props))"

text \<open>Some requests in a row that are all answered without an error.\<close>

fun all_accepted :: "'f page_env \<Rightarrow> browser_call list \<Rightarrow> browser_call list \<Rightarrow> bool" where
  "all_accepted env sent [] = True"
| "all_accepted env sent (c # cs) = (accepted env (sent @ [c]) \<and> all_accepted env (sent @ [c]) cs)"

text \<open>The rule is added to the policy that is there, or a policy that is not there is created.\<close>

definition policy_requests :: "seg_env \<Rightarrow> seg_props \<Rightarrow> rule_names \<Rightarrow> browser_call list \<Rightarrow> browser_call list \<Rightarrow> bool" where
  "policy_requests env props ru sent cs \<longleftrightarrow>
     (let get = Api_getPolicy (fp_domain props) (JStr (ru_policy ru)) in
      \<exists>c. conditions_call props ru c
        \<and> (cs = [get, rule_call Api_addAssertion props ru, c] \<and> accepted env (sent @ [get])
            \<or> cs = [get, rule_call Api_addPolicy props ru, id_call props ru, c] \<and> refused_with env (sent @ [get]) not_there)
        \<and> all_accepted env (sent @ [get]) (tl cs))"

definition role_requests :: "seg_env \<Rightarrow> seg_props \<Rightarrow> rule_names \<Rightarrow> jsval list \<Rightarrow> browser_call list \<Rightarrow> browser_call list \<Rightarrow> bool" where
  "role_requests env props ru ms sent cs \<longleftrightarrow>
     (let get = Api_getRole (fp_domain props) (JStr (ru_role ru)) JUndef JUndef JUndef in
      \<exists>ref. cs = [get, Api_addRole (fp_domain props) (JStr (ru_role ru)) (role_value (ru_role ru) ms) ref (fp_csrf props)]
        \<and> refused_with env (sent @ [get]) not_there \<and> accepted env (sent @ cs))"

lemma put_conditions_tells:
  "tells_after (\<lambda>sent calls. \<exists>c. conditions_call props ru c \<and> calls = [c] \<and> accepted env (sent @ calls))
     (put_conditions env props ru aid)"
proof -
  have told: "tells_after (\<lambda>sent calls. calls = []) (bind_action (tell Submitted) (\<lambda>_. ret Pending))"
    by (auto simp: tells_after_def)
  show ?thesis
    unfolding put_conditions_def seg_auditRef_def
    by (intro tells_after_pure tells_after_mono [OF tells_after_accepted [OF told]])
       (auto simp: Api_addAssertionConditions_def settles_calls quiet_rules conditions_call_def)
qed

lemma extend_policy_tells:
  "tells_after (\<lambda>sent calls. \<exists>c. conditions_call props ru c \<and> calls = [rule_call Api_addAssertion props ru, c]
      \<and> all_accepted env sent calls) (extend_policy env props ru)"
proof -
  have f: "tells_after (\<lambda>sent calls. \<exists>c. conditions_call props ru c \<and> calls = [c] \<and> accepted env (sent @ calls))
     (bind_action (lift_result (get_prop data ''id'')) (put_conditions env props ru))" for data
    by (intro tells_after_pure put_conditions_tells) auto
  show ?thesis
    unfolding extend_policy_def
    by (intro tells_after_mono [OF tells_after_accepted [OF f]])
       (auto simp: Api_addAssertion_def fetch_result_call quiet_rules rule_call_def)
qed

lemma new_policy_tells:
  "tells_after (\<lambda>sent calls. \<exists>c. conditions_call props ru c \<and> calls = [rule_call Api_addPolicy props ru, id_call props ru, c]
      \<and> all_accepted env sent calls) (new_policy env props ru)"
proof -
  have f: "tells_after (\<lambda>sent calls. \<exists>c. conditions_call props ru c \<and> calls = [id_call props ru, c] \<and> all_accepted env sent calls)
     (bind_action (request env (id_call props ru)) (page_settle (put_conditions env props ru)
        (\<lambda>err. reject_with (fetcherErrorCheckHelper err))))"
    by (intro tells_after_mono [OF tells_after_accepted [OF put_conditions_tells]])
       (auto simp: id_call_def Api_getAssertionId_def settles_calls quiet_rules)
  show ?thesis
    unfolding new_policy_def id_call_def [symmetric]
    by (intro tells_after_mono [OF tells_after_accepted [OF f]])
       (auto simp: Api_addPolicy_def fetch_result_call quiet_rules rule_call_def)
qed

lemma drop_role_quiet: "quiet (drop_role env props ru)"
  unfolding drop_role_def by (intro quiet_rules)

lemma createPolicy_tells: "tells_after (policy_requests env props ru) (createPolicy env props ru)"
proof -
  let ?get = "Api_getPolicy (fp_domain props) (JStr (ru_policy ru))"
  let ?E = "\<lambda>sent calls. \<exists>c. conditions_call props ru c \<and> calls = [rule_call Api_addAssertion props ru, c]
      \<and> all_accepted env sent calls"
  let ?N = "\<lambda>sent calls. \<exists>c. conditions_call props ru c \<and> calls = [rule_call Api_addPolicy props ru, id_call props ru, c]
      \<and> all_accepted env sent calls"
  have f: "tells_after ?E (bind_action (lift_result (actions_of data)) (\<lambda>actions.
      if ru_action ru \<in> set actions then drop_role env props ru else extend_policy env props ru))" for data
    by (intro tells_after_pure tells_after_if tells_after_quiet [OF drop_role_quiet] extend_policy_tells) auto
  have g: "tells_after ?N (if not_there err then new_policy env props ru else reject_with (xhrErrorCheckHelper err))" for err
    by (intro tells_after_if new_policy_tells tells_after_quiet quiet_prims)
  have no_get: "?get = Fetch None Read ''policy'' (JObj [(''domainName'', fp_domain props), (''policyName'', JStr (ru_policy ru))])
      settle_or_empty"
    by (simp add: Api_getPolicy_def)
  have "tells_after (\<lambda>sent calls. \<exists>rest. calls = ?get # rest
      \<and> (accepted env (sent @ [?get]) \<and> ?E (sent @ [?get]) rest \<or> refused_with env (sent @ [?get]) not_there \<and> ?N (sent @ [?get]) rest))
    (createPolicy env props ru)"
    unfolding createPolicy_def
    by (rule tells_after_request [OF f g])
       (auto simp: no_get settles_calls not_there_def exn_val_def intro: quietD [OF quiet_prims(6)] split: if_splits)
  then show ?thesis
    by (rule tells_after_mono) (auto simp: policy_requests_def Let_def)
qed

lemma createRole_quiet: "quiet (createRole env props roleName role)"
  unfolding createRole_def put_role_def seg_auditRef_def by (intro quiet_rules)

lemma put_role_resolved:
  assumes "put_role env props roleName role p = (Inr (Resolved v), p')"
  shows "\<exists>ref. pg_sent p' = pg_sent p @ [Api_addRole (fp_domain props) (JStr roleName) role ref (fp_csrf props)]
    \<and> accepted env (pg_sent p')"
  using assms
  by (auto simp: put_role_def seg_auditRef_def Api_addRole_def Let_def settled_def settle_answer_def accepted_def reject_with_def
      bind_action_def page_settle_def page_catch_def split: option.splits prod.splits sum.splits promise.splits if_splits)

lemma createRole_resolved:
  assumes "createRole env props (ru_role ru) (role_value (ru_role ru) ms) p = (Inr (Resolved v), p')"
  shows "\<exists>cs. pg_sent p' = pg_sent p @ cs \<and> role_requests env props ru ms (pg_sent p) cs"
proof -
  let ?get = "Api_getRole (fp_domain props) (JStr (ru_role ru)) JUndef JUndef JUndef"
  obtain q p1 where req: "request env ?get p = (q, p1)"
    by force
  have "settles_on_answer ?get" "?get \<noteq> NoPromise" "\<And>x. ?get \<noteq> Failed x"
    by (simp_all add: Api_getRole_def settles_calls)
  with req show ?thesis
  proof (cases rule: request_cases)
    case (refused e)
    then have e: "(if not_there e then put_role env props (ru_role ru) (role_value (ru_role ru) ms) p1
        else reject_with (fetcherErrorCheckHelper e) p1) = (Inr (Resolved v), p')"
      using assms req by (simp add: createRole_def split: if_splits)
    then have "not_there e"
      by (auto simp: reject_with_def split: sum.splits if_splits)
    then show ?thesis
      using e put_role_resolved [of env props "ru_role ru" "role_value (ru_role ru) ms" p1 v p'] refused(2,3)
      by (auto simp: role_requests_def refused_with_def Let_def)
  qed (use assms req in \<open>auto simp: createRole_def\<close>)
qed

lemma validate_quiet: "quiet (validateMicrosegmentationPolicy env props ms s d skip)"
  unfolding validateMicrosegmentationPolicy_def validation_answer_def by (intro quiet_rules)

lemma validate_sent:
  "validateMicrosegmentationPolicy env props ms s d skip p = (r, p') \<Longrightarrow> \<exists>pre. pg_sent p' = pg_sent p @ pre"
  by (auto simp: validateMicrosegmentationPolicy_def validation_answer_def Api_validateMicrosegmentationPolicy_def Let_def
      bind_action_def page_settle_def page_catch_def reject_with_def split: prod.splits sum.splits promise.splits if_splits)

section \<open>Submitting a rule\<close>

text \<open>The form with the typed services moved to the list of members.\<close>

definition typed_services :: "add_segmentation \<Rightarrow> string" where
  "typed_services st = (if as_isCategory st then as_sourceServiceMembers st else as_destinationServiceMembers st)"

definition all_members :: "add_segmentation \<Rightarrow> jsval list" where
  "all_members st = as_members st @ map member_of_name (names_of (typed_services st))"

lemma names_of_Nil [simp]: "names_of [] = []"
  by (simp add: names_of.simps)

lemma addMember_run:
  "\<exists>st'. seg_addMember p = (Inr (), p\<lparr>pg_form := st'\<rparr>) \<and> as_members st' = all_members (pg_form p)
     \<and> as_sourcePort st' = as_sourcePort (pg_form p) \<and> as_destinationPort st' = as_destinationPort (pg_form p)
     \<and> rule_names_of st' = rule_names_of (pg_form p)"
proof (cases "typed_services (pg_form p) = []")
  case True
  then have "seg_addMember p = (Inr (), p)" "all_members (pg_form p) = as_members (pg_form p)"
    by (simp_all add: seg_addMember_def typed_services_def all_members_def)
  then show ?thesis
    by (intro exI [of _ "pg_form p"]) simp
next
  case False
  then show ?thesis
    by (auto simp: seg_addMember_def typed_services_def all_members_def splitNames_eq rule_names_of_def Let_def fun_eq_iff)
qed

lemma validatePort_run:
  "validatePort v p = (Inr (Some t), p') \<Longrightarrow> \<exists>s. v = JStr s \<and> port_text s = Inr t \<and> p' = p"
  by (auto simp: validatePort_def split: jsval.splits sum.splits if_splits)

lemma validatePort_returns: "validatePort v p = (Inr q, p') \<Longrightarrow> as_destinationPort (pg_form p') = as_destinationPort (pg_form p)"
  by (auto simp: validatePort_def split: jsval.splits sum.splits if_splits)

lemma validateFields_run:
  "validateFields props p =
     (case missing_field props (pg_form p) of
        None \<Rightarrow> (Inr False, p)
      | Some m \<Rightarrow> (Inr True, p\<lparr>pg_form := (pg_form p)\<lparr>as_errorMessage := JStr m, as_saving := ''todo''\<rparr>\<rparr>))"
  by (auto simp: validateFields_def split: option.splits)

lemma checked_ports_run:
  assumes "checked_ports props (fresh_page st) = (Inr (Some (s, d)), p)"
  shows "\<exists>sp dp. missing_field props st = None \<and> as_sourcePort st = JStr sp \<and> port_text sp = Inr s
    \<and> as_destinationPort st = JStr dp \<and> port_text dp = Inr d \<and> pg_sent p = [] \<and> pg_told p = []
    \<and> as_members (pg_form p) = all_members st \<and> rule_names_of (pg_form p) = rule_names_of st"
proof -
  let ?st = "st\<lparr>as_saving := ''saving''\<rparr>"
  let ?p = "fresh_page ?st"
  have same: "missing_field props ?st = missing_field props st" "rule_names_of ?st = rule_names_of st"
      "all_members ?st = all_members st"
    by (simp_all add: missing_field_def rule_names_of_def all_members_def typed_services_def Let_def fun_eq_iff)
  have none: "missing_field props st = None"
    using assms same(1) validateFields_run [of props ?p]
    by (cases "missing_field props st") (auto simp: checked_ports_def fresh_page_def bind_action_def)
  obtain st' where add: "seg_addMember ?p = (Inr (), ?p\<lparr>pg_form := st'\<rparr>)" "as_members st' = all_members ?st"
      "as_sourcePort st' = as_sourcePort ?st" "as_destinationPort st' = as_destinationPort ?st" "rule_names_of st' = rule_names_of ?st"
    using addMember_run [of ?p] by (auto simp: fresh_page_def)
  have rest: "bind_action (validatePort (as_sourcePort st)) (\<lambda>source.
      bind_action (form as_destinationPort) (\<lambda>dp. bind_action (validatePort dp) (\<lambda>destination.
        ret (case (source, destination) of (Some s, Some d) \<Rightarrow> Some (s, d) | _ \<Rightarrow> None)))) (?p\<lparr>pg_form := st'\<rparr>)
      = (Inr (Some (s, d)), p)"
    using assms none same(1) add(1,3) validateFields_run [of props ?p] by (simp add: checked_ports_def fresh_page_def bind_action_def)
  then obtain source p1 where source: "validatePort (as_sourcePort st) (?p\<lparr>pg_form := st'\<rparr>) = (Inr source, p1)"
      "bind_action (validatePort (as_destinationPort (pg_form p1))) (\<lambda>destination.
        ret (case (source, destination) of (Some s, Some d) \<Rightarrow> Some (s, d) | _ \<Rightarrow> None)) p1 = (Inr (Some (s, d)), p)"
    by (rule bind_action_Inr) simp
  from source(2) obtain destination where dest: "validatePort (as_destinationPort (pg_form p1)) p1 = (Inr destination, p)"
      "source = Some s" "destination = Some d"
    by (rule bind_action_Inr) (auto split: option.splits)
  obtain sp where sp: "as_sourcePort st = JStr sp" "port_text sp = Inr s" "p1 = ?p\<lparr>pg_form := st'\<rparr>"
    using source(1) dest(2) validatePort_run by blast
  moreover obtain dp where "as_destinationPort (pg_form p1) = JStr dp" "port_text dp = Inr d" "p = p1"
    using dest(1,3) validatePort_run by blast
  ultimately show ?thesis
    using none add same by (auto simp: fresh_page_def)
qed

lemma validatePort_quiet: "quiet (validatePort v)"
  unfolding validatePort_def by (auto intro!: quiet_rules split: jsval.splits sum.splits)

lemma validateFields_quiet: "quiet (validateFields props)"
  by (auto simp: quiet_def validateFields_run split: option.splits)

lemma checked_ports_quiet: "quiet (checked_ports props)"
  unfolding checked_ports_def seg_addMember_def by (intro quiet_rules validatePort_quiet validateFields_quiet)

lemma seg_rejected_run: "\<exists>st'. seg_rejected b q p = (Inr (), p\<lparr>pg_form := st'\<rparr>)"
proof (cases q)
  case (Rejected e)
  then show ?thesis
    by (auto simp: seg_rejected_def)
qed (auto simp: seg_rejected_def intro: exI [of _ "pg_form p"])

lemma submit_rule_tells:
  "tells_after (\<lambda>sent calls. \<exists>pre cs ds. calls = pre @ cs @ ds
      \<and> role_requests env props ru (map approve ms) (sent @ pre) cs \<and> policy_requests env props ru (sent @ pre @ cs) ds)
    (submit_rule env props skipValidation ru ms s d)"
  unfolding tells_after_def
proof (intro allI impI)
  fix p r p'
  assume run: "submit_rule env props skipValidation ru ms s d p = (r, p')"
  obtain v p1 where v: "validateMicrosegmentationPolicy env props (JArr ms) s d skipValidation p = (v, p1)"
    by force
  obtain w p2 where w: "createRole env props (ru_role ru) (role_value (ru_role ru) (map approve ms)) p1 = (w, p2)"
    by force
  obtain z p3 where z: "createPolicy env props ru p2 = (z, p3)"
    by force
  have told: "pg_told p1 = pg_told p" "pg_told p2 = pg_told p1"
    using quietD [OF validate_quiet v] quietD [OF createRole_quiet w] by simp_all
  obtain pre where pre: "pg_sent p1 = pg_sent p @ pre"
    using validate_sent [OF v] by blast
  have stops: "pg_told (snd (seg_rejected skipValidation x y)) = pg_told y" for x y
    using seg_rejected_run [of skipValidation x y] by auto
  show "pg_told p' = pg_told p \<or> (\<exists>x calls. r = Inr x \<and> pg_sent p' = pg_sent p @ calls \<and> (\<exists>pre cs ds. calls = pre @ cs @ ds
      \<and> role_requests env props ru (map approve ms) (pg_sent p @ pre) cs \<and> policy_requests env props ru (pg_sent p @ pre @ cs) ds))"
  proof (cases "\<exists>x y. v = Inr (Resolved x) \<and> w = Inr (Resolved y)")
    case True
    then obtain x y where xy: "v = Inr (Resolved x)" "w = Inr (Resolved y)"
      by blast
    obtain cs where cs: "pg_sent p2 = pg_sent p1 @ cs" "role_requests env props ru (map approve ms) (pg_sent p1) cs"
      using createRole_resolved w xy(2) by blast
    have r: "bind_action (createPolicy env props ru) (seg_rejected skipValidation) p2 = (r, p')"
      using run v w xy by (simp add: submit_rule_def)
    show ?thesis
    proof (cases z)
      case (Inl e)
      then show ?thesis
        using r z told tells_afterD [OF createPolicy_tells z] by simp
    next
      case (Inr u)
      then obtain st' where "r = Inr ()" "p' = p3\<lparr>pg_form := st'\<rparr>"
        using r z seg_rejected_run [of skipValidation u p3] by auto
      then show ?thesis
        using tells_afterD [OF createPolicy_tells z] cs pre told by fastforce
    qed
  next
    case False
    have "pg_told p' = pg_told p"
    proof (cases v)
      case (Inr a)
      then show ?thesis
        using run v w told False stops
        by (cases a; cases w; (cases "projr w")?) (auto simp: submit_rule_def, (metis snd_conv)+)
    qed (use run v told in \<open>simp add: submit_rule_def\<close>)
    then show ?thesis
      by simp
  qed
qed

lemma submitted_requests:
  assumes "seg_onSubmit env props skipValidation (fresh_page st) = (r, p)" and "Submitted \<in> set (pg_told p)"
  shows "\<exists>sp s dp d ms pre cs ds. missing_field props st = None
    \<and> as_sourcePort st = JStr sp \<and> port_text sp = Inr s \<and> as_destinationPort st = JStr dp \<and> port_text dp = Inr d
    \<and> filter_result named_member (all_members st) = Inr ms
    \<and> pg_sent p = pre @ cs @ ds
    \<and> role_requests env props (rule_names_of st s d) (map approve ms) pre cs
    \<and> policy_requests env props (rule_names_of st s d) (pre @ cs) ds"
proof -
  obtain q p1 where ports: "checked_ports props (fresh_page st) = (q, p1)"
    by force
  have told: "pg_told p1 = []"
    using quietD [OF checked_ports_quiet ports] by (simp add: fresh_page_def)
  show ?thesis
  proof (cases "\<exists>s d. q = Inr (Some (s, d))")
    case False
    then have "p = p1"
      using assms(1) ports by (cases q) (auto simp: seg_onSubmit_def split: option.splits)
    then show ?thesis
      using assms(2) told by simp
  next
    case True
    then obtain s d where q: "q = Inr (Some (s, d))"
      by blast
    note run = checked_ports_run [OF ports [unfolded q]]
    let ?ru = "rule_names_of st s d"
    have "bind_action (lift_result (filter_result named_member (all_members st))) (\<lambda>ms.
        submit_rule env props skipValidation ?ru ms s d) p1 = (r, p)"
      using assms(1) ports q run by (auto simp: seg_onSubmit_def)
    then obtain ms where ms: "filter_result named_member (all_members st) = Inr ms"
        "submit_rule env props skipValidation ?ru ms s d p1 = (r, p)"
      using assms(2) told by (cases "filter_result named_member (all_members st)") auto
    obtain pre cs ds where "pg_sent p = pre @ cs @ ds" "role_requests env props ?ru (map approve ms) pre cs"
        "policy_requests env props ?ru (pre @ cs) ds"
      using tells_afterD [OF submit_rule_tells ms(2)] assms(2) told run by auto
    then show ?thesis
      using run ms(1) by blast
  qed
qed

text \<open>
  C14. When the form for transport rules tells its page that a rule is there, then all fields were
  given and the ports were accepted; the role did not exist and was created with exactly the listed
  and typed services as members; the rule was added to its policy, or to a new policy when there
  was none; and its conditions were stored. Every one of these requests was answered without an error.
\<close>

theorem submitted_rule_stored:
  assumes "seg_onSubmit env props skipValidation (fresh_page st) = (r, p)" and "Submitted \<in> set (pg_told p)"
  shows "\<exists>sp s dp d ms pre cs ds. missing_field props st = None
    \<and> as_sourcePort st = JStr sp \<and> port_text sp = Inr s \<and> as_destinationPort st = JStr dp \<and> port_text dp = Inr d
    \<and> filter_result named_member (all_members st) = Inr ms
    \<and> pg_sent p = pre @ cs @ ds
    \<and> role_requests env props (rule_names_of st s d) (map approve ms) pre cs
    \<and> policy_requests env props (rule_names_of st s d) (pre @ cs) ds"
  using assms by (rule submitted_requests)

definition rule_props :: seg_props where
  "rule_props = \<lparr>fp_domain = JStr ''sports'', fp_csrf = JStr ''token'', fp_justificationRequired = False,
     sp_editMode = False, sp_data = JUndef\<rparr>"

definition rule_form :: add_segmentation where
  "rule_form = \<lparr>as_category = JStr ''inbound'', as_isCategory = True, as_inboundDestinationService = JStr ''api'',
     as_outboundSourceService = JStr [], as_destinationPort = JStr ''80'', as_sourceServiceMembers = ''sports.web'',
     as_destinationServiceMembers = [], as_sourcePort = JStr ''1024-65535'', as_protocol = JStr ''TCP'', as_members = [],
     as_protocolValid = True, as_destinationServiceList = JArr [], as_identifier = JStr ''web'', as_justification = [],
     as_PESList = JArr [enforcement ''report'' 1], as_validationCheckbox = False, as_saving = ''todo'',
     as_validationError = ''none'', as_validationStatus = JStr ''valid'', as_errorMessage = JUndef\<rparr>"

definition rule_env :: seg_env where
  "rule_env = \<lparr>pe_reply = (\<lambda>sent. Some (if length sent = 1 then (JObj [(''statusCode'', JNum (Fin 404))], JUndef)
       else if length sent = 3 then (JNull, JObj [(''assertions'', JArr [])])
       else (JNull, JObj [(''id'', JNum (Fin 7))]))),
     pe_meanwhile = (\<lambda>sent st. st)\<rparr>"

lemma demo_ports:
  "port_text ''80'' = Inr ''80-80''" "port_text ''1024-65535'' = Inr ''1024-65535''"
proof -
  show "port_text ''80'' = Inr ''80-80''"
    using single_port_unchecked [of "''80''"] by (simp add: digit_char_def)
  have "port_range ''1024-65535''"
    unfolding port_range_def
    by (intro exI [of _ "''1024''"] exI [of _ "''65535''"])
       (simp add: digits_def digit_char_def digits_val_def digit_val_def)
  then show "port_text ''1024-65535'' = Inr ''1024-65535''"
    by (simp add: port_text_iff as_range_def port_char_def digit_char_def)
qed

lemma demo_rule_names: "names_of ''sports.web'' = [''sports.web'']"
  by code_simp

lemmas demo_rule_defs = rule_props_def rule_form_def rule_env_def fresh_page_def

lemma demo_checked:
  "checked_ports rule_props (fresh_page rule_form) =
     (Inr (Some (''1024-65535'', ''80-80'')), fresh_page (rule_form\<lparr>as_saving := ''saving'', as_sourceServiceMembers := [],
        as_members := [member_of_name ''sports.web'']\<rparr>))"
  by (simp add: checked_ports_def validateFields_run missing_field_def missing_justification_def seg_addMember_def splitNames_eq
      demo_rule_names validatePort_def demo_ports demo_rule_defs bind_action_def Let_def)

lemma demo_submitted:
  "\<exists>p. seg_onSubmit rule_env rule_props False (fresh_page rule_form) = (Inr (), p) \<and> pg_told p = [Submitted]"
proof -
  let ?st = "rule_form\<lparr>as_saving := ''saving'', as_sourceServiceMembers := [], as_members := [member_of_name ''sports.web'']\<rparr>"
  have "seg_onSubmit rule_env rule_props False (fresh_page rule_form) =
      submit_rule rule_env rule_props False (rule_names_of ?st ''1024-65535'' ''80-80'') [member_of_name ''sports.web'']
        ''1024-65535'' ''80-80'' (fresh_page ?st)"
    unfolding seg_onSubmit_def bind_action_simps(1) [of "checked_ports rule_props" "fresh_page rule_form", OF demo_checked]
    by (simp add: named_member_def member_of_name_def fresh_page_def)
  moreover have "\<exists>p. submit_rule rule_env rule_props False ru ms s d (fresh_page ?st) = (Inr (), p) \<and> pg_told p = [Submitted]"
    if "ru_resource ru = JStr x" for ru ms s d x
    using that
    by (simp add: submit_rule_def
      validateMicrosegmentationPolicy_def createRole_def put_role_def createPolicy_def extend_policy_def put_conditions_def
      seg_auditRef_def not_there_def actions_of_def seg_rejected_def
      Api_getRole_def Api_addRole_def Api_getPolicy_def Api_addAssertion_def Api_addAssertionConditions_def
      fetch_result_def new_assertion_def getResourceName_def string_of_def array_items_def
      settled_def settle_answer_def settle_or_empty_def js_or_def bind_action_def page_catch_def Let_def demo_rule_defs)
  ultimately show ?thesis
    by (simp add: rule_names_of_def rule_form_def)
qed

theorem submitted_rule_stored_witness:
  "\<exists>r p ms pre cs ds. seg_onSubmit rule_env rule_props False (fresh_page rule_form) = (r, p) \<and> Submitted \<in> set (pg_told p)
     \<and> pg_sent p = pre @ cs @ ds
     \<and> role_requests rule_env rule_props (rule_names_of rule_form ''1024-65535'' ''80-80'') ms pre cs
     \<and> policy_requests rule_env rule_props (rule_names_of rule_form ''1024-65535'' ''80-80'') (pre @ cs) ds"
proof -
  obtain p where p: "seg_onSubmit rule_env rule_props False (fresh_page rule_form) = (Inr (), p)" "pg_told p = [Submitted]"
    using demo_submitted by blast
  have "as_sourcePort rule_form = JStr ''1024-65535''" "as_destinationPort rule_form = JStr ''80''"
    by (simp_all add: rule_form_def)
  then show ?thesis
    using submitted_rule_stored [OF p(1)] p demo_ports by auto
qed
section \<open>A stored rule is listed\<close>





















text \<open>An outbound rule of a service or a domain with \<^verbatim>\<open>inbound\<close> in its name is listed as an inbound one.\<close>

lemma inbound_name_misread:
  assumes "sublist ''inbound'' (dn @ '':policy.acl.'' @ svc @ ''.outbound'')"
  shows "seg_category (dn @ '':policy.acl.'' @ svc @ ''.outbound'') = ''inbound''"
  using assms by (simp add: seg_category_def str_includes_def index_of_None_iff)

text \<open>
  The first rule of a service in one direction needs a new policy. Its conditions are put only with
  the identifier that the server finds for it, and the server never finds one: the page is not told
  that the rule is there.
\<close>

lemma first_rule_not_submitted:
  assumes "seg_onSubmit env props skipValidation (fresh_page st) = (r, p)"
    and "\<And>sent ru. \<not> accepted env (sent @ [id_call props ru])"
    and "\<And>sent (ru :: rule_names). \<not> accepted env (sent @ [Api_getPolicy (fp_domain props) (JStr (ru_policy ru))])"
  shows "Submitted \<notin> set (pg_told p)"
proof
  assume "Submitted \<in> set (pg_told p)"
  then obtain ru sent cs where "policy_requests env props ru sent cs"
    using submitted_requests [OF assms(1)] by blast
  then obtain get c where "all_accepted env (sent @ [get]) [rule_call Api_addPolicy props ru, id_call props ru, c]"
    using assms(3) [of sent ru] by (auto simp: policy_requests_def Let_def)
  then show False
    using assms(2) [of "sent @ [get, rule_call Api_addPolicy props ru]"] by simp
qed
end
