(* ===== verification/Ui_Review.thy ===== *)
theory Ui_Review
  imports Ui_Forms "HOL-Library.Multiset"
begin

text \<open>
  The tables in which the members of a role and of a group are reviewed
  (\<^verbatim>\<open>ui/src/components/review/ReviewTable.js\<close> and
  \<^verbatim>\<open>ui/src/components/group/GroupReviewTable.js\<close>): each member is extended, deleted or left alone,
  and a review is submitted with all the decisions. The two tables have the same code but for the
  properties they clear and the requests they make. The rows of both tables
  (\<^verbatim>\<open>ui/src/components/review/ReviewRow.js\<close>) show a choice of their own for each member.
\<close>

section \<open>State\<close>

text \<open>\<open>rv_obj\<close> is the role or the group; its members are objects that submitting a review changes in place.\<close>

record review =
  rv_obj :: jsval
  rv_list :: jsval
  rv_submittedReview :: bool
  rv_extendedMembers :: "jsval set"
  rv_deletedMembers :: "jsval set"
  rv_justification :: "string option"
  rv_errorMessage :: jsval
  rv_showTrustError :: bool

record review_props =
  rp_domain :: jsval
  rp_collection :: jsval
  rp_trust :: jsval
  rp_csrf :: jsval

text \<open>\<^verbatim>\<open>new Set(members && members.map((m) => m.memberName))\<close>\<close>

definition name_set :: "jsval \<Rightarrow> jsval set result" where
  "name_set members =
     (if truthy members
      then bind_result (array_items members) (\<lambda>ms.
           bind_result (map_result (\<lambda>m. get_prop m ''memberName'') ms) (\<lambda>names. Inr (set names)))
      else if members \<in> {JUndef, JNull, JStr []} then Inr {} else Inl (TypeError ''Set''))"

definition review_new :: "jsval \<Rightarrow> jsval \<Rightarrow> review result" where
  "review_new det members =
     bind_result (name_set members) (\<lambda>names.
       Inr \<lparr>rv_obj = det, rv_list = js_or members (JArr []), rv_submittedReview = False, rv_extendedMembers = names,
            rv_deletedMembers = {}, rv_justification = None, rv_errorMessage = JUndef, rv_showTrustError = False\<rparr>)"

definition ReviewTable_new :: "jsval \<Rightarrow> jsval \<Rightarrow> review result" where
  "ReviewTable_new roleDetails members = review_new roleDetails members"

definition GroupReviewTable_new :: "jsval \<Rightarrow> jsval \<Rightarrow> review result" where
  "GroupReviewTable_new groupDetails members = review_new groupDetails members"

section \<open>Decisions\<close>

datatype review_choice = ChooseDelete | ChooseExtend | ChooseNothing

definition review_onUpdate :: "review_choice \<Rightarrow> jsval \<Rightarrow> review \<Rightarrow> review" where
  "review_onUpdate key v st =
     (case key of
        ChooseDelete \<Rightarrow> st\<lparr>rv_deletedMembers := insert v (rv_deletedMembers st), rv_extendedMembers := rv_extendedMembers st - {v}\<rparr>
      | ChooseExtend \<Rightarrow> st\<lparr>rv_extendedMembers := insert v (rv_extendedMembers st), rv_deletedMembers := rv_deletedMembers st - {v}\<rparr>
      | ChooseNothing \<Rightarrow> st\<lparr>rv_extendedMembers := rv_extendedMembers st - {v}, rv_deletedMembers := rv_deletedMembers st - {v}\<rparr>)"

definition review_inputChanged :: "string \<Rightarrow> review \<Rightarrow> review" where
  "review_inputChanged v st = st\<lparr>rv_justification := Some v\<rparr>"

text \<open>What a row shows before it is used: the rows of roles and of groups differ.\<close>

definition ReviewRow_option :: "string \<Rightarrow> review_choice" where
  "ReviewRow_option category = (if category = ''group'' then ChooseNothing else ChooseExtend)"

section \<open>Submitting a review\<close>

text \<open>What the two tables do differently. \<open>rt_what\<close> is also the category of the rows.\<close>

record review_table =
  rt_key :: string
  rt_clear :: "jsval jsobj \<Rightarrow> jsval jsobj"
  rt_call :: "jsval \<Rightarrow> jsval \<Rightarrow> browser_call"
  rt_load :: browser_call
  rt_trust :: bool
  rt_what :: string
  rt_name :: jsval

definition role_clear :: "jsval jsobj \<Rightarrow> jsval jsobj" where
  "role_clear m = obj_del ''memberFullName'' (obj_put ''reviewReminder'' JNull (obj_put ''expiration'' JNull m))"

definition group_clear :: "jsval jsobj \<Rightarrow> jsval jsobj" where
  "group_clear m = obj_del ''memberFullName'' (obj_put ''expiration'' JNull m)"

definition role_table :: "review_props \<Rightarrow> review_table" where
  "role_table props =
     \<lparr>rt_key = ''roleMembers'', rt_clear = role_clear,
      rt_call = (\<lambda>role justification. Api_reviewRole (rp_domain props) (rp_collection props) role justification (rp_csrf props)),
      rt_load = Api_getRole (rp_domain props) (rp_collection props) (JBool False) (JBool (truthy (rp_trust props))) (JBool False),
      rt_trust = True, rt_what = ''role'', rt_name = rp_collection props\<rparr>"

definition group_table :: "review_props \<Rightarrow> review_table" where
  "group_table props =
     \<lparr>rt_key = ''groupMembers'', rt_clear = group_clear,
      rt_call = (\<lambda>group justification. Api_reviewGroup (rp_domain props) (rp_collection props) group justification (rp_csrf props)),
      rt_load = Api_getGroup (rp_domain props) (rp_collection props) JUndef JUndef,
      rt_trust = False, rt_what = ''group'', rt_name = rp_collection props\<rparr>"

definition review_member :: "review_table \<Rightarrow> jsval set \<Rightarrow> jsval \<Rightarrow> jsval result" where
  "review_member t deleted m =
     (case m of
        JObj kvs \<Rightarrow>
          Inr (JObj (rt_clear t (if obj_get kvs ''memberName'' \<in> deleted then obj_put ''active'' (JBool False) kvs else kvs)))
      | _ \<Rightarrow> Inl (TypeError ''memberName''))"

definition decided :: "review \<Rightarrow> jsval \<Rightarrow> bool result" where
  "decided st m = bind_result (get_prop m ''memberName'') (\<lambda>n. Inr (n \<in> rv_deletedMembers st \<or> n \<in> rv_extendedMembers st))"

datatype review_outcome = NothingToReview string | Refused | Sent browser_call

definition send_review :: "review_table \<Rightarrow> string \<Rightarrow> jsval list \<Rightarrow> review \<Rightarrow> (review_outcome \<times> review) result" where
  "send_review t justification members st =
     bind_result (map_result (review_member t (rv_deletedMembers st)) members) (\<lambda>reviewed.
     bind_result (filter_result (decided st) reviewed) (\<lambda>chosen.
     Inr (Sent (rt_call t (JObj [(''name'', rt_name t), (rt_key t, JArr chosen)]) (JStr justification)),
          st\<lparr>rv_obj := (case rv_obj st of JObj kvs \<Rightarrow> JObj (obj_put (rt_key t) (JArr reviewed) kvs) | v \<Rightarrow> v)\<rparr>)))"

definition submit_review :: "review_table \<Rightarrow> review \<Rightarrow> (review_outcome \<times> review) result" where
  "submit_review t st =
     bind_result (get_prop (rv_obj st) (rt_key t)) (\<lambda>members.
       let items = (case members of JArr ms \<Rightarrow> ms | JStr s \<Rightarrow> map (\<lambda>c. JStr [c]) s | _ \<Rightarrow> [])
       in if items = [] then Inr (NothingToReview ''There is nothing to review.'', st)
          else case rv_justification st of
                 None \<Rightarrow> Inr (Refused, st\<lparr>rv_errorMessage := JStr ''Justification is required to submit the review.''\<rparr>)
               | Some j \<Rightarrow>
                   if trim j = [] then Inr (Refused, st\<lparr>rv_errorMessage := JStr ''Justification is required to submit the review.''\<rparr>)
                   else bind_result (array_items members) (\<lambda>ms. send_review t j ms st))"

definition ReviewTable_submitReview :: "review_props \<Rightarrow> review \<Rightarrow> (review_outcome \<times> review) result" where
  "ReviewTable_submitReview props = submit_review (role_table props)"

definition GroupReviewTable_submitReview :: "review_props \<Rightarrow> review \<Rightarrow> (review_outcome \<times> review) result" where
  "GroupReviewTable_submitReview props = submit_review (group_table props)"

text \<open>The answer to a review: the message for the page, and whether the members are loaded again.\<close>

definition review_failed :: "jsval \<Rightarrow> review \<Rightarrow> review result" where
  "review_failed err st = bind_result (xhrErrorCheckHelper err) (\<lambda>m. Inr (st\<lparr>rv_errorMessage := JStr m\<rparr>))"


text \<open>The answer to loading the role or group. A delegated role is not reviewed here.\<close>

definition loaded_members :: "review_table \<Rightarrow> jsval \<Rightarrow> review \<Rightarrow> review result" where
  "loaded_members t obj st =
     bind_result (if rt_trust t then get_prop obj ''trust'' else Inr JUndef) (\<lambda>trust.
       if trust \<noteq> JUndef \<and> trust \<noteq> JNull
       then Inr (st\<lparr>rv_showTrustError := True,
              rv_errorMessage := JStr (''This is a delegated role. It needs to be reviewed in '' @ js_text trust @ '' domain.'')\<rparr>)
       else bind_result (get_prop obj (rt_key t)) (\<lambda>members.
            bind_result (name_set members) (\<lambda>names.
            Inr (st\<lparr>rv_obj := obj, rv_list := js_or members (JArr []), rv_extendedMembers := names, rv_deletedMembers := {},
                    rv_submittedReview := False\<rparr>))))"

definition review_loaded :: "review_table \<Rightarrow> promise \<Rightarrow> review \<Rightarrow> review result" where
  "review_loaded t answer st =
     (case answer of
        Resolved obj \<Rightarrow> (case loaded_members t obj st of Inl e \<Rightarrow> review_failed (exn_val e) st | Inr st' \<Rightarrow> Inr st')
      | Rejected err \<Rightarrow> review_failed err st
      | Pending \<Rightarrow> Inr st)"

definition ReviewTable_loadRole :: "review_props \<Rightarrow> promise \<Rightarrow> review \<Rightarrow> review result" where
  "ReviewTable_loadRole props = review_loaded (role_table props)"

definition GroupReviewTable_loadGroup :: "review_props \<Rightarrow> promise \<Rightarrow> review \<Rightarrow> review result" where
  "GroupReviewTable_loadGroup props = review_loaded (group_table props)"

text \<open>The text that says which defaults the role has.\<close>

definition review_days :: "(string \<times> string) list" where
  "review_days = [(''Member Expiry: '', ''memberExpiryDays''), (''Service Expiry: '', ''serviceExpiryDays''),
     (''Group Expiry: '', ''groupExpiryDays''), (''Member Review: '', ''memberReviewDays''),
     (''Service Review: '', ''serviceReviewDays''), (''Group Review: '', ''groupReviewDays'')]"

definition days_text :: "jsval \<Rightarrow> string \<times> string \<Rightarrow> string result" where
  "days_text obj d =
     (if truthy obj
      then bind_result (get_prop obj (snd d)) (\<lambda>n. Inr (if truthy n then fst d @ js_text n @ '' days. '' else []))
      else Inr [])"

definition getDefaultExpiryText :: "review \<Rightarrow> string result" where
  "getDefaultExpiryText st =
     bind_result (map_result (days_text (rv_obj st)) review_days) (\<lambda>parts.
       Inr (''Current default settings are - '' @ (if concat parts = [] then ''None'' else concat parts)))"

text \<open>The button that changes the settings of the role calls a method that the browser API does not have.\<close>

definition submitRoleMetaExpiry :: "review \<Rightarrow> review result" where
  "submitRoleMetaExpiry st =
     bind_result (get_prop (rv_obj st) ''selfServe'') (\<lambda>_. Inl (TypeError ''putRoleMeta''))"

section \<open>The steps of a table\<close>






definition member_name :: "jsval \<Rightarrow> jsval" where
  "member_name m = (case m of JObj kvs \<Rightarrow> obj_get kvs ''memberName'' | _ \<Rightarrow> JUndef)"

definition members_of :: "review_table \<Rightarrow> jsval \<Rightarrow> jsval list" where
  "members_of t obj = (case obj of JObj kvs \<Rightarrow> (case obj_get kvs (rt_key t) of JArr ms \<Rightarrow> ms | _ \<Rightarrow> []) | _ \<Rightarrow> [])"




section \<open>What a review says\<close>













lemma map_result_image:
  assumes "map_result f xs = Inr ys" and "\<And>x y. f x = Inr y \<Longrightarrow> g y = h x"
  shows "g ` set ys = h ` set xs"
  using assms(1)
proof (induction xs arbitrary: ys)
  case (Cons x xs)
  then show ?case
    using assms(2) by (fastforce simp: bind_result_Inr_iff)
qed simp

lemma name_set_members:
  assumes "get_prop obj (rt_key t) = Inr members" and "name_set members = Inr names"
  shows "member_name ` set (members_of t obj) \<subseteq> names"
proof (cases "\<exists>kvs ms. obj = JObj kvs \<and> members = JArr ms")
  case True
  then obtain ms where ms: "members = JArr ms" "members_of t obj = ms"
    using assms(1) by (auto simp: members_of_def get_prop_def)
  then obtain xs where xs: "map_result (\<lambda>m. get_prop m ''memberName'') ms = Inr xs" "names = set xs"
    using assms(2) by (auto simp: name_set_def array_items_def bind_result_Inr_iff)
  have "x = member_name m" if "get_prop m ''memberName'' = Inr x" for m x
    using that by (cases m) (auto simp: get_prop_def member_name_def)
  then have "(\<lambda>x. x) ` set xs = member_name ` set ms"
    by (rule map_result_image [OF xs(1)])
  then show ?thesis
    using xs ms by simp
next
  case False
  then have "members_of t obj = []"
    using assms(1) by (auto simp: members_of_def get_prop_def split: jsval.splits)
  then show ?thesis
    by simp
qed



lemma obj_del_get: "obj_get (obj_del k kvs) k' = (if k' = k then JUndef else obj_get kvs k')"
  by (simp add: obj_get_def map_of_obj_del)







text \<open>
  A member who was to be deleted in a review that was refused stays marked: when the decision is
  changed to extending him, the next review still has him deleted.
\<close>

lemma changed_decision_ignored:
  assumes "rv_obj st = JObj [(''roleMembers'', JArr [JObj kvs])]" and "obj_get kvs ''memberName'' \<in> rv_deletedMembers st"
    and "rv_justification st = Some j" and "trim j \<noteq> []"
    and "ReviewTable_submitReview props st = Inr (out, st')"
  shows "\<exists>kvs' st''. ReviewTable_submitReview props (review_onUpdate ChooseExtend (obj_get kvs ''memberName'') st') =
      Inr (Sent (Api_reviewRole (rp_domain props) (rp_collection props)
        (JObj [(''name'', rp_collection props), (''roleMembers'', JArr [JObj kvs'])]) (JStr j) (rp_csrf props)), st'')
    \<and> obj_get kvs' ''active'' = JBool False"
  using assms
  by (auto simp: ReviewTable_submitReview_def submit_review_def send_review_def role_table_def review_member_def decided_def
      role_clear_def array_items_def review_onUpdate_def obj_del_get Let_def)

text \<open>
  A review of a group that is submitted untouched extends every member, although each row shows that
  no action is taken.
\<close>

lemma untouched_group_extended:
  assumes "GroupReviewTable_new (JObj kvs) (JArr ms) = Inr st" and "obj_get kvs ''groupMembers'' = JArr ms" and "ms \<noteq> []"
    and "\<forall>m\<in>set ms. \<exists>m'. m = JObj m'" and "trim j \<noteq> []"
  shows "ReviewRow_option (rt_what (group_table props)) = ChooseNothing
    \<and> (\<exists>reviewed st'. GroupReviewTable_submitReview props (review_inputChanged j st) =
        Inr (Sent (Api_reviewGroup (rp_domain props) (rp_collection props)
          (JObj [(''name'', rp_collection props), (''groupMembers'', JArr reviewed)]) (JStr j) (rp_csrf props)), st')
      \<and> map member_name reviewed = map member_name ms)"
proof -
  let ?t = "group_table props"
  let ?st = "review_inputChanged j st"
  have st: "rv_obj st = JObj kvs" "rv_deletedMembers st = {}" "name_set (JArr ms) = Inr (rv_extendedMembers st)"
    using assms(1) by (auto simp: GroupReviewTable_new_def review_new_def bind_result_Inr_iff)
  have key: "get_prop (JObj kvs) (rt_key ?t) = Inr (JArr ms)" "members_of ?t (JObj kvs) = ms"
    using assms(2) by (simp_all add: group_table_def members_of_def)
  have all: "member_name ` set ms \<subseteq> rv_extendedMembers st"
    using name_set_members [OF key(1) st(3)] key(2) by simp
  have "\<exists>ys. map_result (review_member ?t {}) ms = Inr ys \<and> map member_name ys = map member_name ms
      \<and> (\<forall>y\<in>set ys. \<exists>m. y = JObj m)"
    using assms(4)
    by (induction ms) (auto simp: review_member_def group_table_def group_clear_def member_name_def obj_del_get)
  then obtain ys where ys: "map_result (review_member ?t {}) ms = Inr ys" "map member_name ys = map member_name ms"
      "\<forall>y\<in>set ys. \<exists>m. y = JObj m"
    by blast
  have "member_name ` set ys \<subseteq> rv_extendedMembers st"
    using all ys(2) by (metis list.set_map)
  with ys(3) have "filter_result (decided ?st) ys = Inr ys"
    by (induction ys) (auto simp: decided_def member_name_def review_inputChanged_def)
  then have "send_review ?t j ms ?st = Inr (Sent (rt_call ?t (JObj [(''name'', rt_name ?t), (rt_key ?t, JArr ys)]) (JStr j)),
      ?st\<lparr>rv_obj := JObj (obj_put (rt_key ?t) (JArr ys) kvs)\<rparr>)"
    using ys(1) st by (simp add: send_review_def review_inputChanged_def)
  then have "GroupReviewTable_submitReview props ?st =
      Inr (Sent (rt_call ?t (JObj [(''name'', rt_name ?t), (rt_key ?t, JArr ys)]) (JStr j)),
        ?st\<lparr>rv_obj := JObj (obj_put (rt_key ?t) (JArr ys) kvs)\<rparr>)"
    using assms(3,5) st(1) key(1)
    by (simp add: GroupReviewTable_submitReview_def submit_review_def review_inputChanged_def array_items_def)
  moreover have "ReviewRow_option (rt_what ?t) = ChooseNothing"
    by (simp add: group_table_def ReviewRow_option_def)
  moreover have "rt_call ?t (JObj [(''name'', rt_name ?t), (rt_key ?t, JArr ys)]) (JStr j) =
      Api_reviewGroup (rp_domain props) (rp_collection props)
        (JObj [(''name'', rp_collection props), (''groupMembers'', JArr ys)]) (JStr j) (rp_csrf props)"
    by (simp add: group_table_def)
  ultimately show ?thesis
    using ys(2) by auto
qed

end
