(* ===== verification/Ui_Approvals.thy ===== *)
theory Ui_Approvals
  imports Ui_Forms
begin

text \<open>
  The table of pending requests for membership, in which an administrator approves or denies them
  one by one or all that are checked
  (\<^verbatim>\<open>ui/src/components/pending-approval/PendingApprovalTable.js\<close>). The map of the requests is the one
  that the service \<^verbatim>\<open>pending-approval\<close> of the console's server answers.
\<close>

section \<open>State\<close>

record approvals =
  ap_checkedAll :: jsval
  ap_pendingMap :: jsval
  ap_checkedList :: "string list"
  ap_selectAllAudit :: string
  ap_selectAllAuditMissing :: bool
  ap_selectAllDateExpiry :: string
  ap_selectAllDateReviewReminder :: string
  ap_errorMessage :: jsval

definition PendingApprovalTable_new :: "jsval \<Rightarrow> approvals" where
  "PendingApprovalTable_new pendingData =
     \<lparr>ap_checkedAll = JBool False, ap_pendingMap = pendingData, ap_checkedList = [], ap_selectAllAudit = [],
      ap_selectAllAuditMissing = False, ap_selectAllDateExpiry = [], ap_selectAllDateReviewReminder = [],
      ap_errorMessage = JUndef\<rparr>"

text \<open>\<^verbatim>\<open>pendingMap[key].k = v\<close>\<close>

definition set_entry :: "string \<Rightarrow> string \<Rightarrow> jsval \<Rightarrow> approvals \<Rightarrow> approvals result" where
  "set_entry key k v st =
     bind_result (get_prop (ap_pendingMap st) key) (\<lambda>entry.
     bind_result (set_prop k v entry) (\<lambda>entry'.
     bind_result (set_prop key entry' (ap_pendingMap st)) (\<lambda>m. Inr (st\<lparr>ap_pendingMap := m\<rparr>))))"

section \<open>Handlers\<close>

definition auditRefChange :: "string \<Rightarrow> string \<Rightarrow> approvals \<Rightarrow> approvals result" where
  "auditRefChange key v st =
     (if key = ''SelectAll'' then Inr (st\<lparr>ap_selectAllAudit := v\<rparr>) else set_entry key ''auditRef'' (JStr v) st)"

text \<open>The conversion of a date by the language is a parameter.\<close>

datatype date_kind = ExpiryDate | ReminderDate

definition dateChange :: "(string \<Rightarrow> string result) \<Rightarrow> string \<Rightarrow> string \<Rightarrow> date_kind \<Rightarrow> approvals \<Rightarrow> approvals result" where
  "dateChange toISOString key date kind st =
     (if date = [] then Inr st
      else bind_result (toISOString date) (\<lambda>d.
           if key = ''SelectAll''
           then Inr (case kind of ExpiryDate \<Rightarrow> st\<lparr>ap_selectAllDateExpiry := d\<rparr>
                     | ReminderDate \<Rightarrow> st\<lparr>ap_selectAllDateReviewReminder := d\<rparr>)
           else set_entry key (case kind of ExpiryDate \<Rightarrow> ''expiryDate'' | ReminderDate \<Rightarrow> ''reviewReminder'') (JStr d) st))"

definition some_checked :: jsval where
  "some_checked = JNum (Fin 2)"

definition checkedChange :: "string \<Rightarrow> approvals \<Rightarrow> approvals result" where
  "checkedChange key st =
     (if key \<notin> set (ap_checkedList st)
      then let newList = ap_checkedList st @ [key]
           in bind_result (set_entry key ''auditRefMissing'' (JBool False) st) (\<lambda>st'.
              bind_result (own_members (ap_pendingMap st')) (\<lambda>all.
              Inr (st'\<lparr>ap_checkedList := newList,
                       ap_checkedAll := (if length newList = length all then JBool True else some_checked)\<rparr>)))
      else let newList = remove1 key (ap_checkedList st)
           in Inr (if newList = []
                   then st\<lparr>ap_checkedList := [], ap_checkedAll := JBool False, ap_selectAllAuditMissing := False\<rparr>
                   else st\<lparr>ap_checkedList := newList, ap_checkedAll := some_checked\<rparr>))"

definition checkAllBoxOnchange :: "approvals \<Rightarrow> approvals result" where
  "checkAllBoxOnchange st =
     (if truthy (ap_checkedAll st)
      then Inr (st\<lparr>ap_checkedAll := JBool False, ap_checkedList := [], ap_selectAllAuditMissing := False\<rparr>)
      else bind_result (own_members (ap_pendingMap st)) (\<lambda>all.
           Inr (st\<lparr>ap_checkedList := map fst all, ap_checkedAll := JBool True\<rparr>)))"

definition approvals_failed :: "jsval \<Rightarrow> approvals \<Rightarrow> approvals result" where
  "approvals_failed err st = bind_result (xhrErrorCheckHelper err) (\<lambda>m. Inr (st\<lparr>ap_errorMessage := JStr m\<rparr>))"

text \<open>The answer to loading the requests again. The date for the review reminders is not reset.\<close>

definition initialLoad :: "promise \<Rightarrow> approvals \<Rightarrow> approvals result" where
  "initialLoad answer st =
     (case answer of
        Resolved data \<Rightarrow> Inr (st\<lparr>ap_pendingMap := data, ap_checkedList := [], ap_selectAllAuditMissing := False,
                                  ap_selectAllDateExpiry := []\<rparr>)
      | Rejected err \<Rightarrow> approvals_failed err st
      | Pending \<Rightarrow> Inr st)"

definition approvals_didUpdate :: "jsval \<Rightarrow> approvals \<Rightarrow> approvals" where
  "approvals_didUpdate pendingData st = st\<lparr>ap_pendingMap := pendingData\<rparr>"

section \<open>Decisions\<close>

definition decision_call :: "jsval \<Rightarrow> jsval \<Rightarrow> bool \<Rightarrow> jsval \<Rightarrow> jsval \<Rightarrow> jsval \<Rightarrow> browser_call result" where
  "decision_call csrf entry approved auditRef expiration reviewReminder =
     bind_result (get_prop entry ''memberName'') (\<lambda>memberName.
     bind_result (get_prop entry ''domainName'') (\<lambda>domainName.
     bind_result (get_prop entry ''roleName'') (\<lambda>roleName.
     bind_result (get_prop entry ''category'') (\<lambda>category.
     Inr (Api_processPending domainName roleName memberName auditRef category
       (JObj [(''memberName'', memberName), (''approved'', JBool approved), (''expiration'', expiration),
          (''reviewReminder'', reviewReminder)]) csrf)))))"

definition checked_call :: "jsval \<Rightarrow> bool \<Rightarrow> approvals \<Rightarrow> string \<Rightarrow> browser_call result" where
  "checked_call csrf approved st key =
     bind_result (get_prop (ap_pendingMap st) key) (\<lambda>entry.
       decision_call csrf entry approved (JStr (ap_selectAllAudit st)) (JStr (ap_selectAllDateExpiry st))
         (JStr (ap_selectAllDateReviewReminder st)))"

text \<open>The requests for the checked keys, up to the first that throws.\<close>

fun checked_calls :: "(string \<Rightarrow> browser_call result) \<Rightarrow> string list \<Rightarrow> browser_call list \<times> exn option" where
  "checked_calls f [] = ([], None)"
| "checked_calls f (k # ks) =
     (case f k of
        Inl e \<Rightarrow> ([], Some e)
      | Inr c \<Rightarrow> (let (cs, x) = checked_calls f ks in (c # cs, x)))"

text \<open>What is sent, the exception if there is one, and the state.\<close>

definition one_decision :: "jsval \<Rightarrow> string \<Rightarrow> bool \<Rightarrow> approvals \<Rightarrow> (browser_call list \<times> approvals) result" where
  "one_decision csrf key approved st =
     bind_result (get_prop (ap_pendingMap st) key) (\<lambda>entry.
     bind_result (get_prop entry ''auditRef'') (\<lambda>auditRef.
       if auditRef = JStr [] then bind_result (set_entry key ''auditRefMissing'' (JBool True) st) (\<lambda>st'. Inr ([], st'))
       else bind_result (get_prop entry ''expiryDate'') (\<lambda>expiryDate.
            bind_result (get_prop entry ''reviewReminder'') (\<lambda>reviewReminder.
            bind_result (decision_call csrf entry approved auditRef expiryDate reviewReminder) (\<lambda>c. Inr ([c], st))))))"

definition pendingDecision :: "jsval \<Rightarrow> string \<Rightarrow> bool \<Rightarrow> approvals \<Rightarrow> browser_call list \<times> exn option \<times> approvals" where
  "pendingDecision csrf key approved st =
     (if key = ''SelectAll''
      then if ap_selectAllAudit st = [] then ([], None, st\<lparr>ap_selectAllAuditMissing := True\<rparr>)
           else let (cs, x) = checked_calls (checked_call csrf approved st) (ap_checkedList st) in (cs, x, st)
      else case one_decision csrf key approved st of
             Inl e \<Rightarrow> ([], Some e, st)
           | Inr (cs, st') \<Rightarrow> (cs, None, st'))"

text \<open>
  The answers to all requests of a decision: \<open>True\<close> when the requests are loaded again. A request that
  failed is named by the map and the list of checked keys of that time.
\<close>

definition failed_request :: "approvals \<Rightarrow> nat \<Rightarrow> string result" where
  "failed_request st i =
     bind_result (get_prop (ap_pendingMap st)
         (if i < length (ap_checkedList st) then ap_checkedList st ! i else ''undefined'')) (\<lambda>entry.
     bind_result (get_prop entry ''domainName'') (\<lambda>domainName.
     bind_result (get_prop entry ''roleName'') (\<lambda>roleName.
     bind_result (get_prop entry ''memberName'') (\<lambda>memberName.
     Inr (''Couldn't approve/deny request for domain:'' @ js_text domainName @ '', role: '' @ js_text roleName
       @ '', member: '' @ js_text memberName @ [CHR 0x0A])))))"

definition checked_settled :: "promise list \<Rightarrow> approvals \<Rightarrow> (bool \<times> approvals) result" where
  "checked_settled values st =
     (case map_result (failed_request st) (filter (\<lambda>i. case values ! i of Rejected _ \<Rightarrow> True | _ \<Rightarrow> False) [0..<length values]) of
        Inl e \<Rightarrow> bind_result (approvals_failed (exn_val e) st) (\<lambda>st'. Inr (False, st'))
      | Inr errors \<Rightarrow>
          if concat errors \<noteq> [] then Inr (False, st\<lparr>ap_errorMessage := JStr (concat errors)\<rparr>) else Inr (True, st))"

definition one_settled :: "promise \<Rightarrow> approvals \<Rightarrow> (bool \<times> approvals) result" where
  "one_settled answer st =
     (case answer of
        Resolved _ \<Rightarrow> Inr (True, st)
      | Rejected err \<Rightarrow> bind_result (approvals_failed err st) (\<lambda>st'. Inr (False, st'))
      | Pending \<Rightarrow> Inr (False, st))"

section \<open>The steps of the table\<close>

text \<open>The requests are known by the domain, the role or group, the member and the category.\<close>

definition request_of :: "jsval \<Rightarrow> jsval \<times> jsval \<times> jsval \<times> jsval" where
  "request_of entry =
     (case entry of
        JObj kvs \<Rightarrow> (obj_get kvs ''domainName'', obj_get kvs ''roleName'', obj_get kvs ''memberName'', obj_get kvs ''category'')
      | _ \<Rightarrow> (JUndef, JUndef, JUndef, JUndef))"

definition requests_of :: "jsval \<Rightarrow> (jsval \<times> jsval \<times> jsval \<times> jsval) set" where
  "requests_of m = (case m of JObj kvs \<Rightarrow> request_of ` snd ` set kvs | _ \<Rightarrow> {})"

text \<open>What the server answers: a map to entries that have no justification yet.\<close>

definition entry_shape :: "jsval \<Rightarrow> bool" where
  "entry_shape entry \<longleftrightarrow> (\<exists>kvs s. entry = JObj kvs \<and> obj_get kvs ''auditRef'' = JStr s)"

definition map_shape :: "jsval \<Rightarrow> bool" where
  "map_shape m \<longleftrightarrow> (\<exists>kvs. m = JObj kvs \<and> (\<forall>entry\<in>snd ` set kvs. entry_shape entry))"

record approvals_run =
  ar_table :: approvals
  ar_listed :: "(jsval \<times> jsval \<times> jsval \<times> jsval) set"
  ar_sent :: "browser_call list"

definition approvals_start :: "jsval \<Rightarrow> approvals_run" where
  "approvals_start m = \<lparr>ar_table = PendingApprovalTable_new m, ar_listed = requests_of m, ar_sent = []\<rparr>"

inductive approvals_step :: "(string \<Rightarrow> string result) \<Rightarrow> jsval \<Rightarrow> approvals_run \<Rightarrow> approvals_run \<Rightarrow> bool" for toISO csrf where
  justified: "auditRefChange key v (ar_table r) = Inr st \<Longrightarrow> approvals_step toISO csrf r (r\<lparr>ar_table := st\<rparr>)"
| dated: "dateChange toISO key d kind (ar_table r) = Inr st \<Longrightarrow> approvals_step toISO csrf r (r\<lparr>ar_table := st\<rparr>)"
| checked: "checkedChange key (ar_table r) = Inr st \<Longrightarrow> approvals_step toISO csrf r (r\<lparr>ar_table := st\<rparr>)"
| all_checked: "checkAllBoxOnchange (ar_table r) = Inr st \<Longrightarrow> approvals_step toISO csrf r (r\<lparr>ar_table := st\<rparr>)"
| decision: "pendingDecision csrf key approved (ar_table r) = (cs, x, st) \<Longrightarrow>
    approvals_step toISO csrf r (r\<lparr>ar_table := st, ar_sent := ar_sent r @ cs\<rparr>)"
| answered_all: "checked_settled ps (ar_table r) = Inr (again, st) \<Longrightarrow> approvals_step toISO csrf r
    (r\<lparr>ar_table := st, ar_sent := ar_sent r @ (if again then [Api_getPendingDomainMembersList] else [])\<rparr>)"
| answered_one: "one_settled answer (ar_table r) = Inr (again, st) \<Longrightarrow> approvals_step toISO csrf r
    (r\<lparr>ar_table := st, ar_sent := ar_sent r @ (if again then [Api_getPendingDomainMembersList] else [])\<rparr>)"
| not_loaded: "initialLoad (Rejected err) (ar_table r) = Inr st \<Longrightarrow> approvals_step toISO csrf r (r\<lparr>ar_table := st\<rparr>)"
| loaded: "initialLoad (Resolved m) (ar_table r) = Inr st \<Longrightarrow> map_shape m \<Longrightarrow>
    approvals_step toISO csrf r (r\<lparr>ar_table := st, ar_listed := ar_listed r \<union> requests_of m\<rparr>)"
| updated: "map_shape m \<Longrightarrow>
    approvals_step toISO csrf r (r\<lparr>ar_table := approvals_didUpdate m (ar_table r), ar_listed := ar_listed r \<union> requests_of m\<rparr>)"

section \<open>What is decided\<close>

definition good_decision :: "jsval \<Rightarrow> (jsval \<times> jsval \<times> jsval \<times> jsval) set \<Rightarrow> browser_call \<Rightarrow> bool" where
  "good_decision csrf listed c \<longleftrightarrow> c = Api_getPendingDomainMembersList
     \<or> (\<exists>dn rn mn category why approved expiration reminder. (dn, rn, mn, category) \<in> listed \<and> why \<noteq> []
         \<and> c = Api_processPending dn rn mn (JStr why) category
             (JObj [(''memberName'', mn), (''approved'', JBool approved), (''expiration'', expiration),
                (''reviewReminder'', reminder)]) csrf)"

definition approvals_inv :: "jsval \<Rightarrow> approvals_run \<Rightarrow> bool" where
  "approvals_inv csrf r \<longleftrightarrow>
     map_shape (ap_pendingMap (ar_table r)) \<and> requests_of (ap_pendingMap (ar_table r)) \<subseteq> ar_listed r
     \<and> (\<forall>c\<in>set (ar_sent r). good_decision csrf (ar_listed r) c)"

lemma good_decision_mono: "good_decision csrf listed c \<Longrightarrow> listed \<subseteq> listed' \<Longrightarrow> good_decision csrf listed' c"
  unfolding good_decision_def by blast

lemma values_obj_put: "snd ` set (obj_put k v kvs) \<subseteq> insert v (snd ` set kvs)"
  by (induction k v kvs rule: obj_put.induct) auto

lemma obj_get_in: "obj_get kvs k \<noteq> JUndef \<Longrightarrow> obj_get kvs k \<in> snd ` set kvs"
  by (auto simp: obj_get_def split: option.splits dest!: map_of_SomeD intro: rev_image_eqI)

text \<open>Changing another property of an entry.\<close>

lemma set_entry_keeps:
  assumes "set_entry key k v st = Inr st'" and "map_shape (ap_pendingMap st)"
    and "k \<notin> {''domainName'', ''roleName'', ''memberName'', ''category''}" and "k = ''auditRef'' \<longrightarrow> (\<exists>s. v = JStr s)"
  shows "map_shape (ap_pendingMap st') \<and> requests_of (ap_pendingMap st') \<subseteq> requests_of (ap_pendingMap st)"
proof -
  obtain kvs where kvs: "ap_pendingMap st = JObj kvs" "\<forall>entry\<in>snd ` set kvs. entry_shape entry"
    using assms(2) by (auto simp: map_shape_def)
  obtain entry' where e: "set_prop k v (obj_get kvs key) = Inr entry'" "st' = st\<lparr>ap_pendingMap := JObj (obj_put key entry' kvs)\<rparr>"
    using assms(1) kvs(1) by (auto simp: set_entry_def bind_result_Inr_iff set_prop_def)
  then have mem: "obj_get kvs key \<in> snd ` set kvs"
    using obj_get_in by (force simp: set_prop_def)
  then obtain es s where es: "obj_get kvs key = JObj es" "obj_get es ''auditRef'' = JStr s"
    using kvs(2) by (auto simp: entry_shape_def)
  then have entry': "entry' = JObj (obj_put k v es)"
    using e(1) by (simp add: set_prop_def)
  then have ok: "entry_shape entry'" "request_of entry' = request_of (obj_get kvs key)"
    using es assms(3,4) by (auto simp: entry_shape_def request_of_def)
  let ?new = "snd ` set (obj_put key entry' kvs)"
  note new = values_obj_put [of key entry' kvs]
  have "map_shape (JObj (obj_put key entry' kvs))"
    using new kvs(2) ok(1) unfolding map_shape_def by blast
  moreover have "request_of ` ?new \<subseteq> request_of ` insert entry' (snd ` set kvs)"
    by (rule image_mono [OF new])
  then have "request_of ` ?new \<subseteq> request_of ` snd ` set kvs"
    using ok(2) mem by (simp add: insert_absorb)
  ultimately show ?thesis
    using kvs(1) e(2) by (simp add: requests_of_def)
qed

lemma audit_keeps:
  "auditRefChange key v st = Inr st' \<Longrightarrow> map_shape (ap_pendingMap st) \<Longrightarrow>
     map_shape (ap_pendingMap st') \<and> requests_of (ap_pendingMap st') \<subseteq> requests_of (ap_pendingMap st)"
  using set_entry_keeps [of key "''auditRef''" "JStr v" st st'] by (auto simp: auditRefChange_def split: if_splits)

lemma date_keeps:
  assumes "dateChange toISO key d kind st = Inr st'" and "map_shape (ap_pendingMap st)"
  shows "map_shape (ap_pendingMap st') \<and> requests_of (ap_pendingMap st') \<subseteq> requests_of (ap_pendingMap st)"
proof -
  consider "ap_pendingMap st' = ap_pendingMap st"
    | d' k where "k \<in> {''expiryDate'', ''reviewReminder''}" "set_entry key k (JStr d') st = Inr st'"
    using assms(1) by (cases kind) (auto simp: dateChange_def bind_result_Inr_iff split: if_splits)
  then show ?thesis
    using assms(2) set_entry_keeps by cases (force+)
qed

lemma checked_keeps:
  assumes "checkedChange key st = Inr st'" and "map_shape (ap_pendingMap st)"
  shows "map_shape (ap_pendingMap st') \<and> requests_of (ap_pendingMap st') \<subseteq> requests_of (ap_pendingMap st)"
proof (cases "key \<in> set (ap_checkedList st)")
  case True
  then have "ap_pendingMap st' = ap_pendingMap st"
    using assms(1) by (auto simp: checkedChange_def Let_def split: if_splits)
  then show ?thesis
    using assms(2) by simp
next
  case False
  then obtain st1 where "set_entry key ''auditRefMissing'' (JBool False) st = Inr st1" "ap_pendingMap st' = ap_pendingMap st1"
    using assms(1) by (auto simp: checkedChange_def Let_def bind_result_Inr_iff)
  then show ?thesis
    using set_entry_keeps [of key "''auditRefMissing''" "JBool False" st st1] assms(2) by simp
qed

lemma same_map:
  "checkAllBoxOnchange st = Inr st' \<Longrightarrow> ap_pendingMap st' = ap_pendingMap st"
  "checked_settled ps st = Inr (again, st') \<Longrightarrow> ap_pendingMap st' = ap_pendingMap st"
  "one_settled answer st = Inr (again, st') \<Longrightarrow> ap_pendingMap st' = ap_pendingMap st"
  "initialLoad (Rejected err) st = Inr st' \<Longrightarrow> ap_pendingMap st' = ap_pendingMap st"
  by (auto simp: checkAllBoxOnchange_def checked_settled_def one_settled_def initialLoad_def approvals_failed_def bind_result_Inr_iff
      split: if_splits sum.splits promise.splits)

lemma entry_at:
  assumes "map_shape m" and "get_prop m key = Inr entry" and "get_prop entry k = Inr v"
  shows "entry_shape entry \<and> request_of entry \<in> requests_of m"
proof -
  obtain kvs where kvs: "m = JObj kvs" "\<forall>e\<in>snd ` set kvs. entry_shape e"
    using assms(1) by (auto simp: map_shape_def)
  then have "entry = obj_get kvs key" "entry \<noteq> JUndef"
    using assms(2,3) by auto
  then have "entry \<in> snd ` set kvs"
    using obj_get_in by metis
  then show ?thesis
    using kvs by (auto simp: requests_of_def)
qed

lemma listed_entry:
  assumes "map_shape m" and "get_prop m key = Inr entry" and "decision_call csrf entry approved (JStr why) expiration reminder = Inr c"
    and "why \<noteq> []"
  shows "good_decision csrf (requests_of m) c"
proof -
  obtain v where "get_prop entry ''memberName'' = Inr v"
    using assms(3) by (auto simp: decision_call_def bind_result_Inr_iff)
  then have entry: "entry_shape entry" "request_of entry \<in> requests_of m"
    using entry_at [OF assms(1,2)] by blast+
  then obtain es where es: "entry = JObj es"
    by (auto simp: entry_shape_def)
  have "c = Api_processPending (obj_get es ''domainName'') (obj_get es ''roleName'') (obj_get es ''memberName'') (JStr why)
      (obj_get es ''category'') (JObj [(''memberName'', obj_get es ''memberName''), (''approved'', JBool approved),
        (''expiration'', expiration), (''reviewReminder'', reminder)]) csrf"
    using assms(3) es by (simp add: decision_call_def)
  moreover have "(obj_get es ''domainName'', obj_get es ''roleName'', obj_get es ''memberName'', obj_get es ''category'') \<in> requests_of m"
    using entry(2) es by (simp add: request_of_def)
  ultimately show ?thesis
    using assms(4) unfolding good_decision_def by blast
qed

lemma checked_calls_in: "c \<in> set (fst (checked_calls f ks)) \<Longrightarrow> \<exists>k. f k = Inr c"
  by (induction ks) (auto split: sum.splits prod.splits)

lemma decision_ok:
  assumes "pendingDecision csrf key approved st = (cs, x, st')" and "map_shape (ap_pendingMap st)"
  shows "map_shape (ap_pendingMap st') \<and> requests_of (ap_pendingMap st') \<subseteq> requests_of (ap_pendingMap st)
    \<and> (\<forall>c\<in>set cs. good_decision csrf (requests_of (ap_pendingMap st)) c)"
proof (cases "key = ''SelectAll''")
  case True
  have "good_decision csrf (requests_of (ap_pendingMap st)) c" if "c \<in> set cs" for c
  proof -
    have "ap_selectAllAudit st \<noteq> []" "c \<in> set (fst (checked_calls (checked_call csrf approved st) (ap_checkedList st)))"
      using assms(1) True that by (auto simp: pendingDecision_def split: if_splits prod.splits)
    moreover from this obtain k where "checked_call csrf approved st k = Inr c"
      using checked_calls_in by meson
    then obtain entry where "get_prop (ap_pendingMap st) k = Inr entry" "decision_call csrf entry approved (JStr (ap_selectAllAudit st))
        (JStr (ap_selectAllDateExpiry st)) (JStr (ap_selectAllDateReviewReminder st)) = Inr c"
      by (auto simp: checked_call_def bind_result_Inr_iff)
    ultimately show ?thesis
      using listed_entry [OF assms(2)] by blast
  qed
  moreover have "ap_pendingMap st' = ap_pendingMap st"
    using assms(1) True by (auto simp: pendingDecision_def split: if_splits prod.splits)
  ultimately show ?thesis
    using assms(2) by simp
next
  case False
  show ?thesis
  proof (cases "one_decision csrf key approved st")
    case (Inl e)
    then show ?thesis
      using assms False by (simp add: pendingDecision_def)
  next
    case (Inr p)
    then have p: "p = (cs, st')"
      using assms(1) False by (cases p) (simp add: pendingDecision_def)
    obtain entry auditRef where entry: "get_prop (ap_pendingMap st) key = Inr entry" "get_prop entry ''auditRef'' = Inr auditRef"
      using Inr by (auto simp: one_decision_def bind_result_Inr_iff)
    show ?thesis
    proof (cases "auditRef = JStr []")
      case True
      then obtain "cs = []" "set_entry key ''auditRefMissing'' (JBool True) st = Inr st'"
        using Inr p entry by (auto simp: one_decision_def bind_result_Inr_iff)
      then show ?thesis
        using set_entry_keeps [of key "''auditRefMissing''" "JBool True" st st'] assms(2) by simp
    next
      case noted: False
      then obtain c expiration reminder where c: "cs = [c]" "st' = st"
          "decision_call csrf entry approved auditRef expiration reminder = Inr c"
        using Inr p entry by (auto simp: one_decision_def bind_result_Inr_iff)
      obtain why where why: "auditRef = JStr why"
        using entry_at [OF assms(2) entry] entry(2) by (auto simp: entry_shape_def)
      then have "why \<noteq> []"
        using noted by simp
      show ?thesis
        using c listed_entry [OF assms(2) entry(1) c(3) [unfolded why] \<open>why \<noteq> []\<close>] assms(2) by simp
    qed
  qed
qed

lemma approvals_inv_table:
  assumes "approvals_inv csrf r"
    and "map_shape (ap_pendingMap (ar_table r)) \<Longrightarrow>
      map_shape (ap_pendingMap st) \<and> requests_of (ap_pendingMap st) \<subseteq> requests_of (ap_pendingMap (ar_table r))"
  shows "approvals_inv csrf (r\<lparr>ar_table := st\<rparr>)"
  using assms by (auto simp: approvals_inv_def)

lemma approvals_step_inv: "approvals_step toISO csrf r r' \<Longrightarrow> approvals_inv csrf r \<Longrightarrow> approvals_inv csrf r'"
proof (induction rule: approvals_step.induct)
  case (decision key approved r cs x st)
  then show ?case
    using decision_ok [OF decision(1)] good_decision_mono by (auto simp: approvals_inv_def)
next
  case (loaded m r st)
  then show ?case
    using good_decision_mono by (fastforce simp: approvals_inv_def initialLoad_def)
next
  case (updated m r)
  then show ?case
    using good_decision_mono by (fastforce simp: approvals_inv_def approvals_didUpdate_def)
next
  case (answered_all ps r again st)
  then show ?case
    using same_map(2) [OF answered_all(1)] by (auto simp: approvals_inv_def good_decision_def)
next
  case (answered_one answer r again st)
  then show ?case
    using same_map(3) [OF answered_one(1)] by (auto simp: approvals_inv_def good_decision_def)
next
  case (justified key v r st)
  then show ?case
    using approvals_inv_table audit_keeps by blast
next
  case (dated key d kind r st)
  then show ?case
    using approvals_inv_table date_keeps by blast
next
  case (checked key r st)
  then show ?case
    using approvals_inv_table checked_keeps by blast
next
  case (all_checked r st)
  then show ?case
    using same_map(1) [OF all_checked(1)] by (simp add: approvals_inv_def)
next
  case (not_loaded err r st)
  then show ?case
    using same_map(4) [OF not_loaded(1)] by (simp add: approvals_inv_def)
qed

text \<open>
  C34. Whatever an administrator types, checks and decides in the table of pending requests, each
  decision that is sent is about a request that the server listed, with the domain, the role or
  group, the member and the category of one entry, and has a justification.
\<close>

theorem decisions_about_listed_requests:
  assumes "map_shape m" and "(approvals_step toISO csrf)\<^sup>*\<^sup>* (approvals_start m) r" and "c \<in> set (ar_sent r)"
  shows "c = Api_getPendingDomainMembersList
    \<or> (\<exists>dn rn mn category why approved expiration reminder. (dn, rn, mn, category) \<in> ar_listed r \<and> why \<noteq> []
         \<and> c = Api_processPending dn rn mn (JStr why) category
             (JObj [(''memberName'', mn), (''approved'', JBool approved), (''expiration'', expiration),
                (''reviewReminder'', reminder)]) csrf)"
proof -
  have "approvals_inv csrf r"
    using assms(2)
  proof (induction rule: rtranclp_induct)
    case base
    show ?case
      using assms(1) by (simp add: approvals_inv_def approvals_start_def PendingApprovalTable_new_def)
  next
    case (step r r')
    then show ?case
      by (blast intro: approvals_step_inv)
  qed
  then show ?thesis
    using assms(3) by (simp add: approvals_inv_def good_decision_def)
qed

text \<open>The map that the server answers has the shape that the table relies on, and lists exactly the pending requests.\<close>

lemma server_map_shape:
  assumes "getPendingDomainMemberData us (group_answer groups) (role_answer roles) = Inr m"
  shows "map_shape m"
proof -
  let ?es = "map (approval_entry us ''role'') (pending_requests roles) @ map (approval_entry us ''group'') (pending_requests groups)"
  have "snd ` set (obj_assign acc es) \<subseteq> snd ` set acc \<union> snd ` set es" for acc and es :: "jsval jsobj"
  proof (induction es arbitrary: acc)
    case (Cons e es)
    have "snd ` set (obj_put (fst e) (snd e) acc) \<subseteq> insert (snd e) (snd ` set acc)"
      by (rule values_obj_put)
    moreover have "obj_assign acc (e # es) = obj_assign (obj_put (fst e) (snd e) acc) es"
      by (simp add: obj_assign_def case_prod_beta)
    ultimately show ?case
      using Cons.IH [of "obj_put (fst e) (snd e) acc"] unfolding list.set image_insert by (simp only:) blast
  qed (simp add: obj_assign_def)
  from this [of "[]" ?es] have sub: "snd ` set (obj_assign [] ?es) \<subseteq> snd ` set ?es"
    by simp
  have "entry_shape (snd (approval_entry us category q))" for category q
    by (cases q) (simp add: approval_entry_def entry_shape_def)
  then have "\<forall>e\<in>snd ` set ?es. entry_shape e"
    by auto
  then have "\<forall>e\<in>snd ` set (obj_assign [] ?es). entry_shape e"
    using sub by blast
  moreover have "m = JObj (obj_assign [] ?es)"
    using assms by (simp add: pending_data)
  ultimately show ?thesis
    unfolding map_shape_def by blast
qed

definition demo_pending :: "(string \<times> (string \<times> (string \<times> string \<times> jsval jsobj) list) list) list" where
  "demo_pending = [(''sports'', [(''user.jane'', [(''editors'', ''user.joe'', [])])])]"

theorem decisions_about_listed_requests_witness:
  "\<exists>m r c. getPendingDomainMemberData user_service_init (group_answer []) (role_answer demo_pending) = Inr m
     \<and> (approvals_step Inr (JStr ''token''))\<^sup>*\<^sup>* (approvals_start m) r \<and> c \<in> set (ar_sent r)
     \<and> (\<exists>dn rn mn category why approved expiration reminder. (dn, rn, mn, category) \<in> ar_listed r \<and> why \<noteq> []
         \<and> c = Api_processPending dn rn mn (JStr why) category
             (JObj [(''memberName'', mn), (''approved'', JBool approved), (''expiration'', expiration),
                (''reviewReminder'', reminder)]) (JStr ''token''))"
proof -
  let ?q = "(''sports'', ''user.jane'', ''editors'', ''user.joe'', [] :: jsval jsobj)"
  obtain key es where entry: "approval_entry user_service_init ''role'' ?q = (key, JObj es)" "obj_get es ''auditRef'' = JStr []"
      "key = ''sportsuser.janeeditors''"
    by (simp add: approval_entry_def)
  define m where "m = JObj [(key, JObj es)]"
  have m: "getPendingDomainMemberData user_service_init (group_answer []) (role_answer demo_pending) = Inr m"
    using entry by (simp add: pending_data demo_pending_def pending_requests_def obj_assign_def m_def)
  let ?r0 = "approvals_start m"
  define st1 where "st1 = (PendingApprovalTable_new m)\<lparr>ap_pendingMap := JObj [(key, JObj (obj_put ''auditRef'' (JStr ''ok'') es))]\<rparr>"
  have "auditRefChange key ''ok'' (ar_table ?r0) = Inr st1"
    using entry(3) by (simp add: auditRefChange_def set_entry_def set_prop_def approvals_start_def PendingApprovalTable_new_def m_def st1_def)
  then have "approvals_step Inr (JStr ''token'') ?r0 (?r0\<lparr>ar_table := st1\<rparr>)"
    by (rule justified)
  moreover obtain c where "pendingDecision (JStr ''token'') key True st1 = ([c], None, st1)"
    using entry(3) by (simp add: pendingDecision_def one_decision_def decision_call_def st1_def)
  then have "approvals_step Inr (JStr ''token'') (?r0\<lparr>ar_table := st1\<rparr>) (?r0\<lparr>ar_table := st1, ar_sent := [c]\<rparr>)"
    using decision [of "JStr ''token''" key True "?r0\<lparr>ar_table := st1\<rparr>" "[c]" None st1 Inr] by (simp add: approvals_start_def)
  ultimately have reach: "(approvals_step Inr (JStr ''token''))\<^sup>*\<^sup>* ?r0 (?r0\<lparr>ar_table := st1, ar_sent := [c]\<rparr>)"
    by (meson converse_rtranclp_into_rtranclp rtranclp.rtrancl_refl)
  have "c \<noteq> Api_getPendingDomainMembersList"
    using \<open>pendingDecision (JStr ''token'') key True st1 = ([c], None, st1)\<close> entry(3)
    by (auto simp: pendingDecision_def one_decision_def decision_call_def st1_def Api_processPending_def Api_getPendingDomainMembersList_def)
  then show ?thesis
    using decisions_about_listed_requests [OF server_map_shape [OF m] reach, of c] m reach
    by (intro exI [of _ m] exI [of _ "?r0\<lparr>ar_table := st1, ar_sent := [c]\<rparr>"] exI [of _ c]) simp
qed

text \<open>The date for review reminders that was set for one group of requests is sent with the next one too.\<close>

lemma reminder_kept:
  assumes "dateChange toISO ''SelectAll'' d ReminderDate st = Inr st1" and "d \<noteq> []" and "initialLoad (Resolved m) st1 = Inr st2"
    and "checked_call csrf approved st2 key = Inr c"
  shows "\<exists>day dn rn mn category why membership. toISO d = Inr day \<and> obj_get membership ''reviewReminder'' = JStr day
    \<and> c = Api_processPending dn rn mn why category (JObj membership) csrf"
proof -
  obtain day where day: "toISO d = Inr day" "ap_selectAllDateReviewReminder st2 = day"
    using assms(1-3) by (auto simp: dateChange_def initialLoad_def bind_result_Inr_iff)
  obtain dn rn mn category membership where "c = Api_processPending dn rn mn (JStr (ap_selectAllAudit st2)) category (JObj membership) csrf"
      "obj_get membership ''reviewReminder'' = JStr day"
    using assms(4) day(2) by (auto simp: checked_call_def decision_call_def bind_result_Inr_iff)
  then show ?thesis
    using day(1) by blast
qed

end
