(* ===== verification/Ui_Role_Forms.thy ===== *)
theory Ui_Role_Forms
  imports Ui_Segmentation
begin

text \<open>
  The form that adds a role (\<^verbatim>\<open>ui/src/components/role/AddRole.js\<close>) and the one that adds a member to a
  role or a group (\<^verbatim>\<open>ui/src/components/member/AddMember.js\<close>).

  The role that is built is an object of the state which the handlers change in place: what a
  submission writes into it is still there when the submission is refused, and the request for
  adding the role carries what the object holds when the request is sent. A handler is an action on
  the state, so that this is also seen when it throws.
\<close>

section \<open>Adding a role\<close>

record add_role =
  dr_category :: string
  dr_name :: string
  dr_newMemberName :: string
  dr_memberExpiry :: string
  dr_memberReviewReminder :: string
  dr_members :: "jsval list"
  dr_trustDomain :: string
  dr_showSettings :: bool
  dr_role :: "jsval jsobj"
  dr_reviewEnabled :: jsval
  dr_justification :: "string option"
  dr_errorMessage :: jsval

definition AddRole_new :: add_role where
  "AddRole_new = \<lparr>dr_category = ''regular'', dr_name = [], dr_newMemberName = [], dr_memberExpiry = [], dr_memberReviewReminder = [],
     dr_members = [], dr_trustDomain = [], dr_showSettings = False, dr_role = [(''selfServe'', JBool False)],
     dr_reviewEnabled = JUndef, dr_justification = None, dr_errorMessage = JUndef\<rparr>"

definition AddRole_categoryChanged :: "string \<Rightarrow> add_role \<Rightarrow> add_role" where
  "AddRole_categoryChanged name st = st\<lparr>dr_category := name\<rparr>"

datatype role_input =
    RoleName string | NewMemberName string | MemberExpiry string | MemberReviewReminder string
  | RoleJustification string | ReviewEnabled bool

text \<open>A switch that is off gives the empty string.\<close>

definition AddRole_inputChanged :: "role_input \<Rightarrow> add_role \<Rightarrow> add_role" where
  "AddRole_inputChanged i st =
     (case i of
        RoleName s \<Rightarrow> st\<lparr>dr_name := s\<rparr>
      | NewMemberName s \<Rightarrow> st\<lparr>dr_newMemberName := s\<rparr>
      | MemberExpiry s \<Rightarrow> st\<lparr>dr_memberExpiry := s\<rparr>
      | MemberReviewReminder s \<Rightarrow> st\<lparr>dr_memberReviewReminder := s\<rparr>
      | RoleJustification s \<Rightarrow> st\<lparr>dr_justification := Some s\<rparr>
      | ReviewEnabled b \<Rightarrow> st\<lparr>dr_reviewEnabled := (if b then JBool True else JStr [])\<rparr>)"

definition AddRole_advancedSettingsChanged :: "string \<Rightarrow> jsval \<Rightarrow> add_role \<Rightarrow> add_role" where
  "AddRole_advancedSettingsChanged name v st = st\<lparr>dr_role := obj_put name v (dr_role st)\<rparr>"

definition AddRole_delegateChanged :: "string \<Rightarrow> add_role \<Rightarrow> add_role" where
  "AddRole_delegateChanged v st = st\<lparr>dr_trustDomain := v\<rparr>"

definition AddRole_expandSettings :: "add_role \<Rightarrow> add_role" where
  "AddRole_expandSettings st = st\<lparr>dr_showSettings := \<not> dr_showSettings st\<rparr>"

text \<open>\<^verbatim>\<open>uxDatetimeToRDLTimestamp\<close>; the conversion of a date by the language is a parameter.\<close>

definition uxDatetimeToRDLTimestamp :: "(string \<Rightarrow> string result) \<Rightarrow> string \<Rightarrow> string result" where
  "uxDatetimeToRDLTimestamp toISOString ux = (if ux = [] then Inr [] else toISOString ux)"

definition dated_member :: "(string \<Rightarrow> string result) \<Rightarrow> string \<Rightarrow> string \<Rightarrow> string \<Rightarrow> jsval result" where
  "dated_member toISOString expiry reminder name =
     bind_result (uxDatetimeToRDLTimestamp toISOString expiry) (\<lambda>expiration.
     bind_result (uxDatetimeToRDLTimestamp toISOString reminder) (\<lambda>reviewReminder.
     Inr (JObj [(''memberName'', JStr name), (''expiration'', JStr expiration), (''reviewReminder'', JStr reviewReminder)])))"

definition AddRole_addMember :: "(string \<Rightarrow> string result) \<Rightarrow> (add_role, unit) action" where
  "AddRole_addMember toISOString =
     bind_action (read_state (\<lambda>st. st)) (\<lambda>st.
       if dr_newMemberName st = [] then ret ()
       else bind_action (lift_result (splitNames (JStr (dr_newMemberName st)))) (\<lambda>names.
            bind_action (lift_result (map_result (dated_member toISOString (dr_memberExpiry st) (dr_memberReviewReminder st)) names)) (\<lambda>ms.
            update_state (\<lambda>st. st\<lparr>dr_members := dr_members st @ ms, dr_newMemberName := [], dr_memberExpiry := [],
              dr_memberReviewReminder := []\<rparr>))))"

definition AddRole_deleteMember :: "nat \<Rightarrow> add_role \<Rightarrow> add_role" where
  "AddRole_deleteMember idx st =
     st\<lparr>dr_members := (if length (dr_members st) = 1 then [] else remove_at idx (dr_members st))\<rparr>"

definition AddRole_render :: "add_role \<Rightarrow> add_role" where
  "AddRole_render st = st\<lparr>dr_members := map approve (dr_members st)\<rparr>"

definition role_put :: "string \<Rightarrow> jsval \<Rightarrow> (add_role, unit) action" where
  "role_put k v = update_state (\<lambda>st. st\<lparr>dr_role := obj_put k v (dr_role st)\<rparr>)"

definition role_refuse :: "string \<Rightarrow> (add_role, string option) action" where
  "role_refuse m = bind_action (update_state (\<lambda>st. st\<lparr>dr_errorMessage := JStr m\<rparr>)) (\<lambda>_. ret None)"

text \<open>The members are written into the role only when the role is not review enabled.\<close>

definition AddRole_members :: "(string \<Rightarrow> string result) \<Rightarrow> (add_role, unit) action" where
  "AddRole_members toISOString =
     bind_action (read_state (\<lambda>st. st)) (\<lambda>st.
       if dr_category st = ''regular'' \<and> \<not> truthy (dr_reviewEnabled st)
       then bind_action (role_put ''roleMembers'' (JArr (real_members (dr_members st)))) (\<lambda>_.
            if dr_newMemberName st = [] then ret ()
            else bind_action (lift_result (dated_member toISOString (dr_memberExpiry st) (dr_memberReviewReminder st)
                     (dr_newMemberName st))) (\<lambda>m.
                 role_put ''roleMembers'' (JArr (real_members (dr_members st) @ [m]))))
       else ret ())"

text \<open>Submitting, up to the request for the roles: the name that the callback remembers, or \<open>None\<close>.\<close>

definition AddRole_onSubmit :: "(string \<Rightarrow> string result) \<Rightarrow> form_props \<Rightarrow> (add_role, string option) action" where
  "AddRole_onSubmit toISOString props =
     bind_action (read_state (\<lambda>st. st)) (\<lambda>st.
       if dr_name st = [] then role_refuse ''Role name is required.''
       else bind_action (role_put ''name'' (JStr (dr_name st))) (\<lambda>_.
            bind_action (role_put ''reviewEnabled'' (dr_reviewEnabled st)) (\<lambda>_.
            bind_action (AddRole_members toISOString) (\<lambda>_.
            bind_action (if dr_category st = ''delegated'' then role_put ''trust'' (JStr (dr_trustDomain st)) else ret ()) (\<lambda>_.
              if dr_category st = ''delegated'' \<and> dr_trustDomain st = [] then role_refuse ''Delegated role name is required.''
              else if missing_justification props (dr_justification st) then role_refuse ''Justification is required to add a role.''
              else ret (Some (dr_name st)))))))"

definition AddRole_failed :: "jsval \<Rightarrow> add_role \<Rightarrow> add_role result" where
  "AddRole_failed err st = bind_result (xhrErrorCheckHelper err) (\<lambda>m. Inr (st\<lparr>dr_errorMessage := JStr m\<rparr>))"

definition AddRole_listed :: "form_props \<Rightarrow> string \<Rightarrow> promise \<Rightarrow> add_role \<Rightarrow> (browser_call option \<times> add_role) result" where
  "AddRole_listed props roleName answer st =
     (let failed = (\<lambda>err. bind_result (AddRole_failed err st) (\<lambda>st'. Inr (None, st')))
      in case answer of
           Pending \<Rightarrow> Inr (None, st)
         | Rejected err \<Rightarrow> failed err
         | Resolved roles \<Rightarrow>
             (case array_items roles of
                Inl e \<Rightarrow> failed (exn_val e)
              | Inr rs \<Rightarrow>
                  if array_includes rs (JStr roleName)
                  then Inr (None, st\<lparr>dr_errorMessage := JStr ''Role already exists. Please click on Cancel and use the drop down to select the role.''\<rparr>)
                  else Inr (Some (Api_addRole (fp_domain props) (JStr roleName) (JObj (dr_role st))
                              (audit_ref (dr_justification st) []) (fp_csrf props)), st)))"

definition AddRole_added :: "promise \<Rightarrow> add_role \<Rightarrow> (bool \<times> add_role) result" where
  "AddRole_added answer st =
     (case answer of
        Resolved _ \<Rightarrow> Inr (True, st)
      | Rejected err \<Rightarrow> bind_result (expired_message err) (\<lambda>m. Inr (False, st\<lparr>dr_errorMessage := JStr m\<rparr>))
      | Pending \<Rightarrow> Inr (False, st))"

text \<open>
  The first submission writes members into the role only when it is a regular one without review,
  and the trusted domain only when it is delegated.
\<close>

lemma first_submission:
  assumes "AddRole_onSubmit toISOString props st = (Inr (Some n), st')"
    and "obj_get (dr_role st) ''roleMembers'' = JUndef" and "obj_get (dr_role st) ''trust'' = JUndef"
  shows "n = dr_name st \<and> n \<noteq> [] \<and> obj_get (dr_role st') ''name'' = JStr n
    \<and> (obj_get (dr_role st') ''roleMembers'' \<noteq> JUndef \<longleftrightarrow> dr_category st = ''regular'' \<and> \<not> truthy (dr_reviewEnabled st))
    \<and> (obj_get (dr_role st') ''trust'' \<noteq> JUndef \<longleftrightarrow> dr_category st = ''delegated'')"
  using assms
  by (auto simp: AddRole_onSubmit_def AddRole_members_def role_put_def role_refuse_def bind_action_def split: if_splits sum.splits)

text \<open>
  But what a refused submission wrote stays: a role that is then made review enabled is sent with
  the members that should have been reviewed.
\<close>

lemma refused_members_sent:
  assumes "dr_name st \<noteq> []" and "dr_category st = ''regular''" and "\<not> truthy (dr_reviewEnabled st)" and "dr_newMemberName st = []"
    and "fp_justificationRequired props" and "blank (dr_justification st)" and "trim why \<noteq> []"
  shows "\<exists>st1. AddRole_onSubmit toISOString props st = (Inr None, st1)
    \<and> (\<exists>st2. AddRole_onSubmit toISOString props (AddRole_inputChanged (ReviewEnabled True) (AddRole_inputChanged (RoleJustification why) st1))
          = (Inr (Some (dr_name st)), st2)
        \<and> obj_get (dr_role st2) ''reviewEnabled'' = JBool True
        \<and> obj_get (dr_role st2) ''roleMembers'' = JArr (real_members (dr_members st)))"
  using assms
  by (auto simp: AddRole_onSubmit_def AddRole_members_def AddRole_inputChanged_def role_put_def role_refuse_def
      missing_justification_def blank_def bind_action_def)

section \<open>Adding a member\<close>

record add_member =
  am_showModal :: bool
  am_memberName :: "string option"
  am_memberExpiry :: string
  am_memberReviewReminder :: string
  am_justification :: "string option"
  am_errorMessage :: jsval

record member_props = form_props +
  mp_collection :: jsval
  mp_category :: string

definition AddMember_new :: "bool \<Rightarrow> add_member" where
  "AddMember_new showAddMember = \<lparr>am_showModal = showAddMember, am_memberName = None, am_memberExpiry = [],
     am_memberReviewReminder = [], am_justification = None, am_errorMessage = JUndef\<rparr>"

datatype member_input =
    MemberName string | MemberJustification string | MemberExpiryDate string | MemberReminderDate string

definition AddMember_inputChanged :: "member_input \<Rightarrow> add_member \<Rightarrow> add_member" where
  "AddMember_inputChanged i st =
     (case i of
        MemberName s \<Rightarrow> st\<lparr>am_memberName := Some s\<rparr>
      | MemberJustification s \<Rightarrow> st\<lparr>am_justification := Some s\<rparr>
      | MemberExpiryDate s \<Rightarrow> st\<lparr>am_memberExpiry := s\<rparr>
      | MemberReminderDate s \<Rightarrow> st\<lparr>am_memberReviewReminder := s\<rparr>)"

definition AddMember_onSubmit ::
  "(string \<Rightarrow> string result) \<Rightarrow> member_props \<Rightarrow> add_member \<Rightarrow> (browser_call option \<times> add_member) result" where
  "AddMember_onSubmit toISOString props st =
     (let refuse = (\<lambda>m. Inr (None, st\<lparr>am_errorMessage := JStr m\<rparr>)); memberName = (case am_memberName st of None \<Rightarrow> [] | Some n \<Rightarrow> n)
      in if trim memberName = [] then refuse ''Member name is required.''
         else if mp_category props = ''group'' \<and> \<not> RegexUtils_validate GROUP_MEMBER_NAME_REGEX memberName
         then refuse member_regex_message
         else if missing_justification props (am_justification st) then refuse ''Justification is required to add a member.''
         else bind_result (dated_member toISOString (am_memberExpiry st) (am_memberReviewReminder st) memberName) (\<lambda>member.
              Inr (Some (Api_addMember (fp_domain props) (mp_collection props) (JStr memberName) member
                 (audit_ref (am_justification st) ''added using Athenz UI'') (JStr (mp_category props)) (fp_csrf props)), st)))"

definition AddMember_added :: "promise \<Rightarrow> add_member \<Rightarrow> (bool \<times> add_member) result" where
  "AddMember_added answer st =
     (case answer of
        Resolved _ \<Rightarrow> Inr (True, st\<lparr>am_showModal := False, am_justification := Some []\<rparr>)
      | Rejected err \<Rightarrow> bind_result (xhrErrorCheckHelper err) (\<lambda>m. Inr (False, st\<lparr>am_errorMessage := JStr m\<rparr>))
      | Pending \<Rightarrow> Inr (False, st))"

lemma trim_Nil [simp]: "trim [] = []"
  by (simp add: trim_def)

text \<open>A member of a group that the form sends has a good name, and a required justification is not blank.\<close>

lemma added_member_checked:
  assumes "AddMember_onSubmit toISOString props st = Inr (Some c, st')"
  shows "\<exists>n member. am_memberName st = Some n \<and> trim n \<noteq> [] \<and> (mp_category props = ''group'' \<longrightarrow> good_name n)
    \<and> (fp_justificationRequired props \<longrightarrow> (\<exists>j. am_justification st = Some j \<and> trim j \<noteq> []))
    \<and> get_prop member ''memberName'' = Inr (JStr n)
    \<and> c = Api_addMember (fp_domain props) (mp_collection props) (JStr n) member
        (audit_ref (am_justification st) ''added using Athenz UI'') (JStr (mp_category props)) (fp_csrf props)"
proof -
  obtain n where n: "am_memberName st = Some n" "trim n \<noteq> []"
    using assms by (auto simp: AddMember_onSubmit_def Let_def split: option.splits if_splits)
  then obtain member where m: "dated_member toISOString (am_memberExpiry st) (am_memberReviewReminder st) n = Inr member"
      "mp_category props = ''group'' \<longrightarrow> good_name n" "\<not> missing_justification props (am_justification st)"
      "c = Api_addMember (fp_domain props) (mp_collection props) (JStr n) member
        (audit_ref (am_justification st) ''added using Athenz UI'') (JStr (mp_category props)) (fp_csrf props)"
    using assms by (auto simp: AddMember_onSubmit_def Let_def valid_member_name bind_result_Inr_iff split: if_splits)
  have "get_prop member ''memberName'' = Inr (JStr n)"
    using m(1) by (auto simp: dated_member_def bind_result_Inr_iff)
  then show ?thesis
    using n m(2-4) by (auto simp: missing_justification_def blank_def split: option.splits)
qed

end
