(* ===== verification/Ui_Service_Forms.thy ===== *)
theory Ui_Service_Forms
  imports Ui_Forms
begin

text \<open>
  The forms that add a service and a public key of a service
  (\<^verbatim>\<open>ui/src/components/service/AddService.js\<close> and \<^verbatim>\<open>AddKey.js\<close>). Both send keys in the encoded
  form that the services of the system read.
\<close>

section \<open>State\<close>

record service_form =
  sf_showModal :: bool
  sf_name :: "string option"
  sf_description :: "string option"
  sf_providerEndpoint :: "string option"
  sf_keyId :: "string option"
  sf_keyValue :: "string option"
  sf_errorMessage :: jsval

definition AddService_new :: "bool \<Rightarrow> service_form" where
  "AddService_new showAddService = \<lparr>sf_showModal = showAddService, sf_name = None, sf_description = None, sf_providerEndpoint = None,
     sf_keyId = None, sf_keyValue = None, sf_errorMessage = JUndef\<rparr>"

definition AddKey_new :: service_form where
  "AddKey_new = \<lparr>sf_showModal = False, sf_name = None, sf_description = None, sf_providerEndpoint = None, sf_keyId = None,
     sf_keyValue = None, sf_errorMessage = JUndef\<rparr>"

datatype service_field = ServiceName | Description | ProviderEndpoint | KeyId | KeyValue

definition service_onChange :: "service_field \<Rightarrow> string \<Rightarrow> service_form \<Rightarrow> service_form" where
  "service_onChange key v st =
     (case key of
        ServiceName \<Rightarrow> st\<lparr>sf_name := Some v\<rparr>
      | Description \<Rightarrow> st\<lparr>sf_description := Some v\<rparr>
      | ProviderEndpoint \<Rightarrow> st\<lparr>sf_providerEndpoint := Some v\<rparr>
      | KeyId \<Rightarrow> st\<lparr>sf_keyId := Some v\<rparr>
      | KeyValue \<Rightarrow> st\<lparr>sf_keyValue := Some v\<rparr>)"

text \<open>The value of a field: \<^verbatim>\<open>undefined\<close> before anything was typed.\<close>

definition field :: "string option \<Rightarrow> jsval" where
  "field v = (case v of None \<Rightarrow> JUndef | Some s \<Rightarrow> JStr s)"

definition empty_field :: "string option \<Rightarrow> bool" where
  "empty_field v \<longleftrightarrow> \<not> truthy (field v)"

definition encoded_key :: "string \<Rightarrow> string" where
  "encoded_key key = y64Encode (trimKey key)"

definition service_failed :: "jsval \<Rightarrow> service_form \<Rightarrow> service_form result" where
  "service_failed err st = bind_result (xhrErrorCheckHelper err) (\<lambda>m. Inr (st\<lparr>sf_errorMessage := JStr m\<rparr>))"

section \<open>Adding a service\<close>

text \<open>Submitting: the request for the service, and the encoded key that the callback remembers.\<close>

definition AddService_onSubmit :: "form_props \<Rightarrow> service_form \<Rightarrow> ((browser_call \<times> jsval) option \<times> service_form)" where
  "AddService_onSubmit props st =
     (if empty_field (sf_name st) then (None, st\<lparr>sf_errorMessage := JStr ''Service name is required.''\<rparr>)
      else let keyValue = (case sf_keyValue st of None \<Rightarrow> JUndef | Some k \<Rightarrow> if k = [] then JStr k else JStr (encoded_key k))
           in (Some (Api_getService (fp_domain props) (field (sf_name st)) JUndef JUndef, keyValue), st))"

text \<open>The answer: a service that is not there is added with what the form holds then.\<close>

definition AddService_checked :: "form_props \<Rightarrow> jsval \<Rightarrow> promise \<Rightarrow> service_form \<Rightarrow> (browser_call option \<times> service_form) result" where
  "AddService_checked props keyValue answer st =
     (case answer of
        Pending \<Rightarrow> Inr (None, st)
      | Resolved _ \<Rightarrow> Inr (None, st\<lparr>sf_errorMessage := JStr (''Service '' @ js_text (field (sf_name st)) @ '' already exists.'')\<rparr>)
      | Rejected err \<Rightarrow>
          bind_result (get_prop err ''statusCode'') (\<lambda>statusCode.
            if strict_eq statusCode (JNum (Fin 404))
            then Inr (Some (Api_addService (fp_domain props) (field (sf_name st)) (field (sf_description st))
                        (field (sf_providerEndpoint st)) (field (sf_keyId st)) keyValue (fp_csrf props)), st)
            else bind_result (service_failed err st) (\<lambda>st'. Inr (None, st'))))"

definition AddService_added :: "promise \<Rightarrow> service_form \<Rightarrow> (bool \<times> service_form) result" where
  "AddService_added answer st =
     (case answer of
        Resolved _ \<Rightarrow> Inr (True, st\<lparr>sf_showModal := False\<rparr>)
      | Rejected err \<Rightarrow> bind_result (service_failed err st) (\<lambda>st'. Inr (False, st'))
      | Pending \<Rightarrow> Inr (False, st))"

section \<open>Adding a key\<close>

definition AddKey_onSubmit :: "form_props \<Rightarrow> jsval \<Rightarrow> service_form \<Rightarrow> browser_call option \<times> service_form" where
  "AddKey_onSubmit props service st =
     (if empty_field (sf_keyId st) then (None, st\<lparr>sf_errorMessage := JStr ''Key Id is required.''\<rparr>)
      else case sf_keyValue st of
             None \<Rightarrow> (None, st\<lparr>sf_errorMessage := JStr ''Key Value is required.''\<rparr>)
           | Some k \<Rightarrow>
               if k = [] then (None, st\<lparr>sf_errorMessage := JStr ''Key Value is required.''\<rparr>)
               else (Some (Api_addKey (fp_domain props) service (field (sf_keyId st)) (JStr (encoded_key k)) (fp_csrf props)), st))"

definition AddKey_added :: "promise \<Rightarrow> service_form \<Rightarrow> (bool \<times> service_form) result" where
  "AddKey_added answer st =
     (case answer of
        Resolved _ \<Rightarrow> Inr (True, st)
      | Rejected err \<Rightarrow> bind_result (service_failed err st) (\<lambda>st'. Inr (False, st'))
      | Pending \<Rightarrow> Inr (False, st))"

section \<open>Keys are readable\<close>

text \<open>The public keys in a request that adds a key or a service.\<close>

definition sent_keys :: "browser_call \<Rightarrow> jsval list" where
  "sent_keys c =
     (case c of
        Fetch _ _ _ (JObj params) _ \<Rightarrow>
          (case obj_get params ''publicKeyEntry'' of
             JObj e \<Rightarrow> [obj_get e ''key'']
           | _ \<Rightarrow>
             (case obj_get params ''detail'' of
                JObj det \<Rightarrow> (case obj_get det ''publicKeys'' of JArr es \<Rightarrow> map (\<lambda>e. case e of JObj kvs \<Rightarrow> obj_get kvs ''key'' | _ \<Rightarrow> JUndef) es | _ \<Rightarrow> [])
              | _ \<Rightarrow> []))
      | _ \<Rightarrow> [])"

lemma sent_keys_simps [simp]:
  "sent_keys (Api_addKey domain service keyId key csrf) = [key]"
  "sent_keys (Api_addService domain service desc endpoint keyId key csrf) = (if truthy keyId \<and> truthy key then [key] else [])"
  by (simp_all add: sent_keys_def Api_addKey_def Api_addService_def Let_def)

lemma AddService_checked_call:
  "AddService_checked props kv answer st = Inr (Some c, st') \<Longrightarrow>
     \<exists>err. answer = Rejected err \<and> c = Api_addService (fp_domain props) (field (sf_name st)) (field (sf_description st))
       (field (sf_providerEndpoint st)) (field (sf_keyId st)) kv (fp_csrf props)"
  by (auto simp: AddService_checked_def bind_result_Inr_iff split: promise.splits if_splits)

lemma AddService_onSubmit_key:
  "fst (AddService_onSubmit props st) = Some (q, kv) \<Longrightarrow> truthy kv \<Longrightarrow> \<exists>k. sf_keyValue st = Some k \<and> kv = JStr (encoded_key k)"
  by (auto simp: AddService_onSubmit_def Let_def split: option.splits if_splits)

text \<open>
  C26. The public key that a user enters when adding a key or a service is sent in a form from which
  the console and the decoder of \<^verbatim>\<open>auth_core\<close> read the trimmed key back; nothing else is sent as a
  key.
\<close>

theorem entered_key_readable:
  assumes "fst (AddKey_onSubmit props service st) = Some c
    \<or> (\<exists>q kv answer st1 st2. fst (AddService_onSubmit props st) = Some (q, kv)
        \<and> AddService_checked props kv answer st1 = Inr (Some c, st2))"
    and "e \<in> set (sent_keys c)"
  shows "\<exists>key enc. sf_keyValue st = Some key \<and> e = JStr enc \<and> y64Decode lenient other enc = trimKey key
    \<and> ybase64Decode lenient (Val enc) = Inr (buffer_from_string (trimKey key))"
proof -
  have "\<exists>key. sf_keyValue st = Some key \<and> e = JStr (encoded_key key)"
    using assms(1)
  proof
    assume "fst (AddKey_onSubmit props service st) = Some c"
    then show ?thesis
      using assms(2) by (auto simp: AddKey_onSubmit_def split: if_splits option.splits)
  next
    assume "\<exists>q kv answer st1 st2. fst (AddService_onSubmit props st) = Some (q, kv)
        \<and> AddService_checked props kv answer st1 = Inr (Some c, st2)"
    then obtain q kv answer st1 st2 where s: "fst (AddService_onSubmit props st) = Some (q, kv)"
        "AddService_checked props kv answer st1 = Inr (Some c, st2)"
      by blast
    then have "e = kv" "truthy kv"
      using AddService_checked_call [OF s(2)] assms(2) by (auto split: if_splits)
    then show ?thesis
      using AddService_onSubmit_key [OF s(1)] by blast
  qed
  then show ?thesis
    using y64_round_trip by (auto simp: encoded_key_def)
qed

theorem entered_key_readable_witness:
  "\<exists>c e enc. fst (AddKey_onSubmit demo_props (JStr ''api'') (service_onChange KeyValue ''abc'' (service_onChange KeyId ''0'' AddKey_new))) = Some c
     \<and> e \<in> set (sent_keys c) \<and> e = JStr enc \<and> ybase64Decode (\<lambda>_. []) (Val enc) = Inr (buffer_from_string (trimKey ''abc''))"
proof -
  let ?st = "service_onChange KeyValue ''abc'' (service_onChange KeyId ''0'' AddKey_new)"
  let ?c = "Api_addKey (JStr ''sports'') (JStr ''api'') (JStr ''0'') (JStr (encoded_key ''abc'')) (JStr ''token'')"
  have c: "fst (AddKey_onSubmit demo_props (JStr ''api'') ?st) = Some ?c"
    by (simp add: AddKey_onSubmit_def empty_field_def field_def service_onChange_def AddKey_new_def demo_props_def)
  have e: "JStr (encoded_key ''abc'') \<in> set (sent_keys ?c)"
    by (simp add: sent_keys_def Api_addKey_def)
  have "sf_keyValue ?st = Some ''abc''"
    by (simp add: service_onChange_def)
  then show ?thesis
    using entered_key_readable [OF disjI1 [OF c] e, of "\<lambda>_. []" "\<lambda>_. []"] c e by auto
qed

end
