(* ===== verification/Config_Loader.thy ===== *)
theory Config_Loader
  imports Ui_Server Auth_Config
begin

text \<open>
  The files \<^verbatim>\<open>config/config.js\<close> of \<^verbatim>\<open>auth_core\<close>, of the two clients and of the console:
  they put the configuration of a package together from its defaults, an extension, the package that
  uses it and the application. The three of the packages are the same but for two names. The file
  system and \<^verbatim>\<open>require\<close> are parameters; the modules that are loaded form a store in which each
  names the one that required it, and the loop that climbs it is not bounded by the code.
\<close>

section \<open>The module that uses the package\<close>

record node_module =
  md_id :: string
  md_parent :: "nat option"

partial_function (option) outer_module ::
  "(string \<Rightarrow> bool) \<Rightarrow> (nat \<Rightarrow> node_module option) \<Rightarrow> nat option \<Rightarrow> node_module result option" where
  "outer_module inside mods parent =
     (case parent of
        None \<Rightarrow> Some (Inl (TypeError ''id''))
      | Some a \<Rightarrow>
          (case mods a of
             None \<Rightarrow> Some (Inl (TypeError ''id''))
           | Some m \<Rightarrow> if inside (md_id m) then outer_module inside mods (md_parent m) else Some (Inr m)))"

declare outer_module.simps [code]

definition word_char :: "char \<Rightarrow> bool" where
  "word_char c \<longleftrightarrow> digit_char c \<or> c = CHR ''_'' \<or> lower_char c \<noteq> c \<or> upper_char c \<noteq> c"

text \<open>
  \<^verbatim>\<open>id.match(/(.*)(node_modules\/(\w+))/g)\<close> as text: up to the last
  \<^verbatim>\<open>node_modules/\<close> that a word follows, with the word.
\<close>

definition module_path :: "string \<Rightarrow> string" where
  "module_path i =
     (let here = (\<lambda>k. starts_with (drop k i) ''node_modules/''
             \<and> (case drop (k + 13) i of c # _ \<Rightarrow> word_char c | [] \<Rightarrow> False))
      in case filter here (rev [0..<length i]) of
           k # _ \<Rightarrow> take (k + 13) i @ takeWhile word_char (drop (k + 13) i)
         | [] \<Rightarrow> ''null'')"

section \<open>Putting a configuration together\<close>

record loader_env =
  le_dirname :: string
  le_cwd :: string
  le_modules :: "nat \<Rightarrow> node_module option"
  le_parent :: "nat option"
  le_exists :: "string \<Rightarrow> bool"
  le_require :: "string \<Rightarrow> jsval result"

text \<open>One source of \<^verbatim>\<open>Object.assign\<close>.\<close>

definition assign_from :: "jsval jsobj \<Rightarrow> jsval \<Rightarrow> jsval jsobj" where
  "assign_from target source = obj_assign target (case own_members source of Inr kvs \<Rightarrow> kvs | Inl _ \<Rightarrow> [])"

text \<open>A section of a configuration file; when the file is missing or fails, the section is empty.\<close>

definition file_section :: "loader_env \<Rightarrow> string \<Rightarrow> string \<Rightarrow> jsval" where
  "file_section env section directory =
     (let path = directory @ ''/config/config.js''
      in if le_exists env path
         then (case bind_result (le_require env path) (\<lambda>c. get_prop c section) of Inr v \<Rightarrow> v | Inl _ \<Rightarrow> JObj [])
         else JObj [])"

definition load_config ::
  "string \<Rightarrow> string \<Rightarrow> loader_env \<Rightarrow> jsval jsobj result \<Rightarrow> jsval jsobj result option" where
  "load_config package section env defaults =
     (case defaults of
        Inl e \<Rightarrow> Some (Inl e)
      | Inr defaultConfig \<Rightarrow>
          let extended = assign_from defaultConfig
                (case le_require env ''./extended-config.js'' of Inr v \<Rightarrow> v | Inl _ \<Rightarrow> JUndef)
          in if le_dirname env = le_cwd env @ ''/config'' then Some (Inr extended)
             else (case outer_module (\<lambda>i. str_includes i (''node_modules/@athenz/'' @ package @ ''/''))
                          (le_modules env) (le_parent env) of
                     None \<Rightarrow> None
                   | Some (Inl e) \<Rightarrow> Some (Inl e)
                   | Some (Inr m) \<Rightarrow>
                       Some (Inr (assign_from
                         (assign_from extended (file_section env section (module_path (md_id m))))
                         (file_section env section (le_cwd env))))))"

definition auth_core_load_config :: "loader_env \<Rightarrow> jsval jsobj result \<Rightarrow> jsval jsobj result option" where
  "auth_core_load_config = load_config ''auth-core'' ''auth_core''"

definition zpe_load_config :: "loader_env \<Rightarrow> jsval jsobj result \<Rightarrow> jsval jsobj result option" where
  "zpe_load_config = load_config ''zpe-client'' ''zpeClient''"

definition zts_load_config :: "loader_env \<Rightarrow> jsval jsobj result \<Rightarrow> jsval jsobj result option" where
  "zts_load_config = load_config ''zts-client'' ''ztsClient''"

definition ui_load_config :: "loader_env \<Rightarrow> jsval jsobj" where
  "ui_load_config env =
     (let defaultConfig = (case le_require env (le_cwd env @ ''/src/config/default-config.js'') of Inr v \<Rightarrow> v | Inl _ \<Rightarrow> JObj []);
          path = le_cwd env @ ''/src/config/extended-config.js'';
          extendedConfig = (if le_exists env path
            then (case le_require env path of Inr v \<Rightarrow> v | Inl _ \<Rightarrow> JObj []) else JObj [])
      in assign_from (assign_from [] defaultConfig) extendedConfig)"

section \<open>The loop ends\<close>

text \<open>A module is numbered when it is loaded, which the one that requires it was before.\<close>

definition loaded_in_order :: "(nat \<Rightarrow> node_module option) \<Rightarrow> bool" where
  "loaded_in_order mods \<longleftrightarrow> (\<forall>a m p. mods a = Some m \<and> md_parent m = Some p \<longrightarrow> p < a)"

lemma outer_module_returns:
  assumes "loaded_in_order mods"
  shows "\<exists>r. outer_module inside mods (Some a) = Some r
    \<and> (\<forall>m. r = Inr m \<longrightarrow> \<not> inside (md_id m) \<and> m \<in> ran mods)"
proof (induction a rule: less_induct)
  case (less a)
  show ?case
  proof (cases "mods a")
    case None
    then show ?thesis
      by (subst outer_module.simps) simp
  next
    case (Some m)
    show ?thesis
    proof (cases "inside (md_id m)")
      case False
      then show ?thesis
        using Some by (subst outer_module.simps) (auto simp: ran_def)
    next
      case True
      show ?thesis
      proof (cases "md_parent m")
        case None
        then have "outer_module inside mods (md_parent m) = Some (Inl (TypeError ''id''))"
          by (subst outer_module.simps) simp
        then show ?thesis
          using Some True by (subst outer_module.simps) simp
      next
        case (Some p)
        then have "p < a"
          using assms \<open>mods a = Some m\<close> by (auto simp: loaded_in_order_def)
        from less.IH [OF this] show ?thesis
          using Some True \<open>mods a = Some m\<close> by (subst outer_module.simps) simp
      qed
    qed
  qed
qed

lemma outer_module_always_returns:
  assumes "loaded_in_order mods"
  obtains r where "outer_module inside mods parent = Some r"
proof (cases parent)
  case None
  then have "outer_module inside mods parent = Some (Inl (TypeError ''id''))"
    by (subst outer_module.simps) simp
  then show ?thesis by (rule that)
next
  case (Some a)
  then show ?thesis
    using outer_module_returns [OF assms, of inside a] that by auto
qed

lemma assign_from_wins:
  "obj_get (assign_from a (JObj kvs)) k = (case map_of (rev kvs) k of Some v \<Rightarrow> v | None \<Rightarrow> obj_get a k)"
  by (simp add: assign_from_def own_members_def obj_get_assign)

text \<open>
  C17. Loading the configuration of a package ends, however deep the package is nested, when every
  module was loaded after the one that requires it; and a setting of the application's own file is
  the one that counts.
\<close>

theorem config_loading_returns:
  assumes "loaded_in_order (le_modules env)"
  shows "\<exists>r. load_config package section env defaults = Some r
    \<and> (\<forall>c kvs k v. r = Inr c \<and> le_dirname env \<noteq> le_cwd env @ ''/config''
          \<and> file_section env section (le_cwd env) = JObj kvs \<and> map_of (rev kvs) k = Some v
        \<longrightarrow> obj_get c k = v)"
proof (cases defaults)
  case (Inl e)
  then show ?thesis
    by (simp add: load_config_def)
next
  case (Inr d)
  obtain r where "outer_module (\<lambda>i. str_includes i (''node_modules/@athenz/'' @ package @ ''/''))
      (le_modules env) (le_parent env) = Some r"
    using outer_module_always_returns [OF assms] .
  then show ?thesis
    using Inr by (cases r) (auto simp: load_config_def assign_from_wins Let_def)
qed

text \<open>An example: the package is required by another file of its own, which the application requires.\<close>

definition demo_loader :: loader_env where
  "demo_loader = \<lparr>le_dirname = ''/app/node_modules/@athenz/zts-client/config'', le_cwd = ''/app'',
     le_modules = (\<lambda>a. if a = 0 then Some \<lparr>md_id = ''/app/index.js'', md_parent = None\<rparr>
        else if a = 1 then Some \<lparr>md_id = ''/app/node_modules/@athenz/zts-client/index.js'', md_parent = Some 0\<rparr> else None),
     le_parent = Some 1, le_exists = (\<lambda>p. p = ''/app/config/config.js''),
     le_require = (\<lambda>p. if p = ''/app/config/config.js''
        then Inr (JObj [(''ztsClient'', JObj [(''zts'', JStr ''https://zts.example/'')])]) else Inl (Error ''MODULE_NOT_FOUND''))\<rparr>"

theorem config_loading_returns_witness:
  "\<exists>r. zts_load_config demo_loader (Inr [(''zts'', JStr [])]) = Some r
    \<and> (\<forall>c. r = Inr c \<longrightarrow> obj_get c ''zts'' = JStr ''https://zts.example/'')"
proof -
  have "loaded_in_order (le_modules demo_loader)"
    by (auto simp: loaded_in_order_def demo_loader_def split: if_splits)
  moreover have "file_section demo_loader ''ztsClient'' (le_cwd demo_loader) = JObj [(''zts'', JStr ''https://zts.example/'')]"
    by (simp add: file_section_def demo_loader_def)
  moreover have "le_dirname demo_loader \<noteq> le_cwd demo_loader @ ''/config''"
    by (simp add: demo_loader_def)
  ultimately show ?thesis
    unfolding zts_load_config_def
    using config_loading_returns [of demo_loader "''zts-client''" "''ztsClient''" "Inr [(''zts'', JStr [])]"] by fastforce
qed

end
