(* ===== verification/Spec2Isabelle.thy ===== *)
theory Spec2Isabelle
  imports Validate ServiceIdentity ZPE_Safety ZTS_Safety Ui_App Ui_Safety Ui_Domains Ui_Console Ui_Rules Ui_Review Ui_Approvals Ui_Role_Forms
    Ui_Service_Forms Config_Loader
begin

text \<open>
  A verification of the Node.js code of Athenz, a system that issues signed tokens and decides
  access with them.

  \<^bold>\<open>The parts and how they interact.\<close> The library
  \<^verbatim>\<open>libs/nodejs/auth_core\<close> builds, signs, reads and validates principal and role
  tokens, and its authorities turn a valid token into a principal. The policy engine
  \<^verbatim>\<open>clients/nodejs/zpe\<close> loads policy files signed by ZTS and ZMS and decides whether
  the holder of a role token may do something. The client \<^verbatim>\<open>clients/nodejs/zts\<close>
  asks ZTS for role tokens through a REST client generated from an RDL document. The console in
  \<^verbatim>\<open>ui\<close> is a server that authenticates its users with auth_core and offers services to its pages,
  which it carries out with calls to ZMS and MSD in the name of the user; the pages use the
  services through a browser API.

  \<^bold>\<open>How the code is modelled.\<close> \<open>Prelude\<close> holds the error type and loops over it. \<open>Js_Strings\<close>,
  \<open>Js_Numbers\<close>, \<open>Js_Values\<close>, \<open>Js_Regex\<close> and \<open>Js_State\<close> model what the code uses of the
  language: strings as lists of characters, numbers as rationals with \<open>NaN\<close> and the infinities,
  dynamic values, objects as association lists in insertion order, a backtracking matcher for
  regular expressions, and actions on module state that may throw. A thrown exception is the left
  value of a sum. Time is a parameter, in milliseconds. The crypto library, the file system, the
  modules \<^verbatim>\<open>url\<close> and \<^verbatim>\<open>path\<close>, the packages
  \<^verbatim>\<open>memory-cache\<close>, \<^verbatim>\<open>request\<close>, \<^verbatim>\<open>express\<close>, \<^verbatim>\<open>fetchr\<close>,
  \<^verbatim>\<open>moment\<close> and \<^verbatim>\<open>cytoscape\<close>, the back ends ZMS and MSD and the identity provider
  are parameters; \<open>key_pair\<close>, \<open>cache_laws\<close>, \<open>sort_laws\<close> and \<open>express_laws\<close> are what is assumed of
  them. The log calls are left out. Each definition has the name of the function it models, with the class in front where two
  classes have a method of that name.

  \<^item> auth_core: \<open>YBase64\<close>, \<open>Crypto\<close>, \<open>Validate\<close>, \<open>Auth_Config\<close>, \<open>Token\<close>, \<open>PrincipalToken\<close>, \<open>RoleToken\<close>,
    \<open>SimplePrincipal\<close>, \<open>PrincipalAuthority\<close>, \<open>RoleAuthority\<close> and \<open>ServiceIdentity\<close>, each for the file of
    that name under \<^verbatim>\<open>src\<close>; \<open>Token_Validity\<close> has the facts on validation. The lemmas show
    that built tokens read back, what exactly validation accepts, that authentication returns only
    principals with a verified signature, and that issued identities are accepted. The locale
    \<open>token_authority\<close> is the contract of both authorities.
  \<^item> zpe: \<open>ZPEMatch\<close>, \<open>ZPE_Keys\<close>, \<open>ZPEUpdater\<close> and \<open>AuthZPEClient\<close> model the files; \<open>ZPE_Decision\<close> states the
    decision a list of assertions determines and that the check refines it; \<open>ZPE_Safety\<close> has the
    reachable states of the engine and the invariant that only signed policies and tokens are in
    its cache, hence that only those grant access.
  \<^item> zts: \<open>Rdl_Rest\<close> models \<^verbatim>\<open>libs/rdl-rest.js\<close>, \<open>Rdl_Routes\<close> shows what the generated
    methods send; \<open>ZTSClient\<close> models \<^verbatim>\<open>index.js\<close> with calls and replies as separate steps;
    \<open>ZTS_Safety\<close> shows that the cache answers only the question it was asked, within its time limits.
  \<^item> the loaders \<^verbatim>\<open>config/config.js\<close> of all packages: \<open>Config_Loader\<close>; loading ends and the settings of
    the application win.
  \<^item> the console's server: \<open>Ui_Server\<close> has what the handlers share: a handler is an action that records
    its calls to the back ends and the calls of its callback; the back ends may answer anything, also
    depending on all earlier calls, and promises settle in any order. \<open>Ui_Rdl_Rest\<close> models
    \<^verbatim>\<open>rdl-rest.js\<close> and compares it with the one of the ZTS client; the locale \<open>rest_caller\<close> is the
    contract of both. \<open>Ui_Users\<close> models the user directory and the pending approvals, \<open>Ui_Auth\<close> the
    authentication of a request and the clients it is given, \<open>Ui_App\<close> the application that is
    built of the handlers. \<open>Ui_Api\<close>, \<open>Ui_Api_Lists\<close>, \<open>Ui_Api_Members\<close> and \<open>Ui_Microsegmentation\<close>
    model \<^verbatim>\<open>server/handlers/api.js\<close>, one definition for each operation of a service;
    \<open>Ui_Services\<close> has the table of them and what holds of all, \<open>Ui_Safety\<close> and \<open>Ui_Domains\<close> what
    single services do. The lemmas show that no service is reached without a user, that the user's
    verified token and nothing else is forwarded, that operations keep to their kind and answer
    once, and that changes in several steps do not lose what they replace.
  \<^item> the console's pages: \<open>Ui_Utils\<close> models the classes under \<^verbatim>\<open>components/utils\<close>, \<open>Ui_Browser\<close> the
    browser API \<^verbatim>\<open>api.js\<close>; \<open>Ui_Console\<close> shows that the browser API and the server fit together.
    \<open>Ui_Forms\<close> models the form that adds a group: its state, its handlers, and the steps of a user with
    it, in which only checked names are sent. \<open>Ui_Page\<close> has handlers that make several requests,
    \<open>Ui_Segmentation\<close> the form for transport rules, and \<open>Ui_Rules\<close> shows what is stored before the form
    reports a rule as added, and that the server lists it as it was entered. \<open>Ui_Review\<close> models the tables in
    which the members of a role or a group are reviewed, with their rows and the locale \<open>review_rules\<close> for both
    tables: a review of a role says what its rows show, one of a group also extends the members whose rows were
    not used. \<open>Ui_Approvals\<close> models the table of pending requests: what it sends are the decisions that were made.
    \<open>Ui_Role_Forms\<close> and \<open>Ui_Service_Forms\<close> model the forms for roles, members, services and keys; the
    keys that are sent can be read by the decoder of auth_core.
    \<open>Name_Syntax\<close> has the dotted names of auth_core and of the console, the locale \<open>name_syntax\<close>
    what their regular expressions match.
  \<^item> this theory: the path from a service's private key through the ZTS client to an authority
    that accepts its request.

  \<^bold>\<open>Values.\<close> The step relation of the ZPE client is for a fixed configuration. Times of issue and
  expiry are integers, characters have eight bits and only ASCII letters change case, and
  \<^verbatim>\<open>localeCompare\<close> is zero for equal strings only.

  \<^bold>\<open>Bounds.\<close> No operation needs fuel: every loop of the code runs over a list, or over the chain of
  modules in the loaders, which is a partial function that is shown to return. Numbers are exact
  rationals, so rounding of floating point numbers is not modelled; all times in the code are
  integers below the range where it would matter. The text of a fraction is exact up to twenty
  places.

  \<^bold>\<open>What the theorems show to be missing.\<close> Some properties state behaviour that the code should
  not have: a name after the signature of a token overrides the signed one, an expiry that is no number never
  expires, the text over which policies are signed is ambiguous, a cached role token is not
  checked again, the wanted role is not sent to ZTS, an untouched review of a group extends all members, the identifier of an assertion is never found,
  the user directory is never reloaded, and others listed with the definitions they concern.

  \<^bold>\<open>Not modelled.\<close> The other React components and pages of the console, which mostly render what they
  are given; the markup of pages and forms, the start of the https server and the timers that refresh clients
  and users (what they run is modelled); the API documentation under \<^verbatim>\<open>docs\<close>, which is data; the
  servers and clients in other languages.
\<close>

section \<open>From a service's key to an authenticated request\<close>

text \<open>The client sends the credentials of the principal it holds. A new client does, and it stays so.\<close>

definition credentials_current :: "(authority \<Rightarrow> string) \<Rightarrow> zts_client \<Rightarrow> bool" where
  "credentials_current header c \<longleftrightarrow>
     (case zc_principal c of
        None \<Rightarrow> True
      | Some p \<Rightarrow> (\<exists>a. sp_authority p = Val a
          \<and> zc_ztsClient c = Some (credentials_client header (zc_ztsClientFactory c) a p)))"

lemma new_client_current:
  assumes "ZTSClient_new env config params = Inr c"
  shows "credentials_current (zv_header env) c"
proof -
  obtain domain service sia principal prefetch where given: "client_identity params = Inr (domain, service, sia, principal, prefetch)"
    using assms by (auto simp: ZTSClient_new_def bind_result_Inr_iff)
  show ?thesis
  proof (cases principal)
    case None
    then show ?thesis
      using assms given by (auto simp: ZTSClient_new_def bind_result_Inr_iff Let_def credentials_current_def)
  next
    case (Some p)
    then obtain a where "sp_authority p = Val a"
      using given by (cases "sp_authority p") (auto simp: client_identity_def split: option.splits if_splits)
    then show ?thesis
      using assms given Some by (auto simp: ZTSClient_new_def bind_result_Inr_iff Let_def credentials_current_def)
  qed
qed

text \<open>The credentials stay current when the provider is asked again, if it gives principals with an authority.\<close>

lemma update_keeps_current:
  assumes "updateServicePrincipal header now c = (r, c')" and "credentials_current header c"
    and "\<And>sia p. zc_siaProvider c = Some sia \<Longrightarrow> sia now (zc_domain c) (zc_service c) = Inr (Some p) \<Longrightarrow>
      \<exists>a. sp_authority p = Val a"
  shows "credentials_current header c'"
proof (cases "c' = c")
  case False
  then obtain sia p where sia: "zc_siaProvider c = Some sia" "sia now (zc_domain c) (zc_service c) = Inr (Some p)"
      "c' = addPrincipalCredentials header (Some p) False c"
    using assms(1) by (auto simp: updateServicePrincipal_def bind_action_def split: option.splits if_splits sum.splits)
  then show ?thesis
    using assms(3) [OF sia(1,2)] by (auto simp: credentials_current_def addPrincipalCredentials_def)
qed (use assms(2) in simp)

lemma getIdentity_authority:
  "getIdentity nc rand now ip d v = Inr (Some p) \<Longrightarrow> sp_authority p = Val PrincipalAuthorityObj"
  by (auto simp: getIdentity_def createByUserIdentity_PrincipalAuthority simplePrincipal_def SimplePrincipal_new_def
      setUnsignedCreds_def bind_result_def split: sum.splits if_splits)

lemma getIdentity_names:
  "getIdentity nc rand now ip (Val d) (Val v) = Inr (Some p) \<Longrightarrow>
     sp_domain p = Val (to_lower d) \<and> sp_name p = Val (to_lower v)"
  by (auto simp: getIdentity_def createByUserIdentity_PrincipalAuthority simplePrincipal_def SimplePrincipal_new_def
      setUnsignedCreds_def lower_of_def bind_result_def split: sum.splits if_splits)

lemma update_sends_identity:
  assumes "updateServicePrincipal header now c = (Inr r, c')" and "credentials_current header c"
    and "zc_siaProvider c = Some sia" and "sia now (zc_domain c) (zc_service c) = Inr (Some p)"
    and "sp_authority p = Val a" and "\<And>q. zc_principal c = Some q \<Longrightarrow> sp_authority q = Val a"
  shows "\<exists>q. sp_creds q = sp_creds p
    \<and> zc_ztsClient c' = Some (credentials_client header (zc_ztsClientFactory c) a q)"
proof (cases "sameCredentialsAsBefore p c")
  case True
  then obtain q where q: "zc_principal c = Some q" "sp_creds q = sp_creds p"
    by (auto simp: sameCredentialsAsBefore_def split: option.splits if_splits)
  have "c' = c"
    using assms(1,3,4) True by (simp add: updateServicePrincipal_def)
  then show ?thesis
    using q assms(2,6) by (auto simp: credentials_current_def)
next
  case False
  then have "c' = addPrincipalCredentials header (Some p) False c"
    using assms(1,3,4) by (simp add: updateServicePrincipal_def)
  then show ?thesis
    using assms(5) by (auto simp: addPrincipalCredentials_def Let_def)
qed

lemma fold_inputs_headers:
  "\<forall>item\<in>set items. in_header item = [] \<Longrightarrow> ps_headers (fold apply_input items ps) = ps_headers ps"
  by (induction items arbitrary: ps) (auto simp: apply_input_def Let_def)

lemma role_request_header:
  assumes "rest_call nu methods (credentials_client header factory a q) ''getRoleToken'' (DataCallback pars) = Inr opts"
    and "map_of methods ''getRoleToken'' = Some role_token_route"
  shows "obj_get (op_headers opts) (header a) = val_of_ref (sp_creds q)"
  using assms(1)
proof (rule zts_rest.single_header_sent)
  show "rc_headers (credentials_client header factory a q) = HeaderObj [(header a, HVal (val_of_ref (sp_creds q)))]"
    by (simp add: credentials_client_def RDLRest_new_def)
  show "zts_routes_avoid methods ''getRoleToken'' (header a)"
    using assms(2) by (simp add: zts_routes_avoid_def sets_header_def role_token_route_def path_input_def query_input_def)
qed

text \<open>
  C20. End to end: a ZTS client whose identity provider signs for a service sends, with every
  request for a role token, a credential in the header of the principal authority that every
  authority with the service's public key accepts as that service until it expires.
\<close>

theorem zts_request_authenticated:
  assumes "getRoleToken env issued params z = (Inr (Requested key opts), z')"
    and "map_of (rf_methods (zc_ztsClientFactory (zs_client z))) ''getRoleToken'' = Some role_token_route"
    and "zc_siaProvider (zs_client z) = Some (\<lambda>t. getIdentity nc rand t ip)"
    and "zc_domain (zs_client z) = Val d" and "zc_service (zs_client z) = Val v"
    and "credentials_current (zv_header env) (zs_client z)"
    and "\<forall>q. zc_principal (zs_client z) = Some q \<longrightarrow> sp_authority q = Val PrincipalAuthorityObj"
    and "SimpleServiceIdentityProvider_new (Inr host) (Val d) (Val v) priv (Val k) = Inr ip"
    and "clean host" and "clean d" and "clean v" and "clean k"
    and "d \<noteq> []" and "v \<noteq> []" and "k \<noteq> []"
    and "key_pair nc priv pub" and "key_truthy (Val pub)"
    and "ks (Val (to_lower d)) (Val (to_lower v)) (Val (to_lower k)) = Inr (Val pub)"
    and "JStr (to_lower d) \<noteq> pa_userDomain pa"
    and "pa_allowedOffset pa = Fin off" and "0 \<le> off"
    and "tm_MAX_EXPIRY (Token_constructor tm) = Fin maxExpiry" and "3600 \<le> maxExpiry"
    and "issued div 1000 \<le> now div 1000" and "now div 1000 \<le> issued div 1000 + 3600"
  shows "\<exists>creds q. obj_get (op_headers opts) (zv_header env PrincipalAuthorityObj) = val_of_ref creds
    \<and> snd (PrincipalAuthority_authenticate nc tm now (PrincipalAuthority_setKeyStore ks pa) creds addr m)
        = Inr (Some q)
    \<and> sp_domain q = Val (to_lower d) \<and> sp_name q = Val (to_lower v)"
proof -
  let ?c = "zs_client z" and ?h = "zv_header env"
  obtain p q where p: "getIdentity nc rand issued ip (Val d) (Val v) = Inr (Some p)"
      and q: "snd (PrincipalAuthority_authenticate nc tm now (PrincipalAuthority_setKeyStore ks pa)
            (sp_creds p) addr m) = Inr (Some q)" "sp_domain q = sp_domain p" "sp_name q = sp_name p"
    using identity_accepted [where ks = ks, OF assms(8-25)] by blast
  obtain c' where "send_role_request env issued (role_pars params) ?c = (Inr opts, c')"
    using getRoleToken_sent(2) [OF assms(1)] by blast
  then obtain r rc where up: "updateServicePrincipal ?h issued ?c = (Inr r, c')" "zc_ztsClient c' = Some rc"
      and call: "rest_call (zv_url env) (rf_methods (zc_ztsClientFactory c')) rc ''getRoleToken'' (DataCallback (role_pars params)) = Inr opts"
    by (rule send_role_request_call)
  have "\<exists>x. sp_creds x = sp_creds p \<and> zc_ztsClient c' = Some (credentials_client ?h (zc_ztsClientFactory ?c) PrincipalAuthorityObj x)"
    by (rule update_sends_identity [OF up(1) assms(6,3) _ getIdentity_authority [OF p]]) (use p assms(4,5,7) in auto)
  then obtain x where x: "sp_creds x = sp_creds p" "rc = credentials_client ?h (zc_ztsClientFactory ?c) PrincipalAuthorityObj x"
    using up(2) by auto
  have "obj_get (op_headers opts) (?h PrincipalAuthorityObj) = val_of_ref (sp_creds p)"
    using role_request_header [OF call [unfolded x(2)]] assms(2) updateServicePrincipal_keeps(1) [OF up(1)] x(1) by simp
  moreover have "sp_domain p = Val (to_lower d)" "sp_name p = Val (to_lower v)"
    using getIdentity_names [OF p] by simp_all
  ultimately show ?thesis
    using q by auto
qed

lemma demo_role_call:
  "\<exists>opts. rest_call demo_url (rf_methods demo_factory) (credentials_client h f a q) ''getRoleToken''
     (DataCallback (role_pars [(''domainName'', JStr ''weather'')])) = Inr opts"
proof -
  have m: "map_of (rf_methods demo_factory) ''getRoleToken'' = Some role_token_route"
    by code_simp
  have h: "obj_get (clone_obj (role_pars [(''domainName'', JStr ''weather'')])) ''headers'' = JUndef"
    by code_simp
  have "normalizeData role_token_route x = Inr None" for x
    by (simp add: normalizeData_def role_token_inputs)
  then show ?thesis
    by (simp add: rest_call_def m normalizeParts_def h setHeaders_def header_object_def demo_url_def Let_def)
qed

definition demo_provider_client :: "sia_provider \<Rightarrow> jsval alist_cache zts_state" where
  "demo_provider_client sia =
     demo_zts []\<lparr>zs_client := demo_zts_client\<lparr>zc_domain := Val ''Sports'', zc_siaProvider := Some sia,
       zc_principal := None, zc_ztsClient := None\<rparr>\<rparr>"

theorem zts_request_authenticated_witness:
  "\<exists>ip key opts z' creds q.
     SimpleServiceIdentityProvider_new (Inr ''web1'') (Val ''Sports'') (Val ''api'') (KeyText ''priv'') (Val ''0'') = Inr ip
     \<and> getRoleToken demo_zts_env 1000000 [(''domainName'', JStr ''weather'')]
         (demo_provider_client (\<lambda>t. getIdentity demo_crypto [1, 2, 3, 4] t ip)) = (Inr (Requested key opts), z')
     \<and> obj_get (op_headers opts) ''Athenz-Principal-Auth'' = val_of_ref creds
     \<and> snd (PrincipalAuthority_authenticate demo_crypto demo_token_module 1100000
          (PrincipalAuthority_setKeyStore (\<lambda>_ _ _. Inr (Val (KeyText ''pub''))) demo_authority) creds Null (Val ''GET''))
         = Inr (Some q)"
proof -
  obtain ip where ip: "SimpleServiceIdentityProvider_new (Inr ''web1'') (Val ''Sports'') (Val ''api'')
       (KeyText ''priv'') (Val ''0'') = Inr ip"
    by (simp add: SimpleServiceIdentityProvider_new_def lower_of_def)
  note fields = provider_fields [OF ip]
  define sia where "sia = (\<lambda>t. getIdentity demo_crypto [1, 2, 3, 4] t ip)"
  let ?z = "demo_provider_client sia" and ?p = "[(''domainName'', JStr ''weather'')]"
  obtain p where p: "getIdentity demo_crypto [1, 2, 3, 4] 1000000 ip (Val ''Sports'') (Val ''api'') = Inr (Some p)"
    by (rule getIdentity_own [where pub = "KeyText ''pub''" and ip = ip and d = "''Sports''" and v = "''api''"])
       (use fields demo_key_pair(1) in auto)
  have a: "sp_authority p = Val PrincipalAuthorityObj"
    by (rule getIdentity_authority [OF p])
  define c' where "c' = addPrincipalCredentials (zv_header demo_zts_env) (Some p) False (zs_client ?z)"
  have up: "updateServicePrincipal (zv_header demo_zts_env) 1000000 (zs_client ?z) = (Inr True, c')"
    using p by (simp add: updateServicePrincipal_def demo_provider_client_def sia_def demo_zts_client_def
        sameCredentialsAsBefore_def c'_def demo_zts_def)
  have c': "zc_ztsClient c' = Some (credentials_client (zv_header demo_zts_env) demo_factory PrincipalAuthorityObj p)"
      "zc_ztsClientFactory c' = demo_factory"
    using a by (simp_all add: c'_def addPrincipalCredentials_def demo_provider_client_def demo_zts_client_def demo_zts_def)
  obtain opts where "rest_call demo_url (rf_methods demo_factory)
      (credentials_client (zv_header demo_zts_env) demo_factory PrincipalAuthorityObj p) ''getRoleToken'' (DataCallback (role_pars ?p)) = Inr opts"
    using demo_role_call by blast
  then have "send_role_request demo_zts_env 1000000 (role_pars ?p) (zs_client ?z) = (Inr opts, c')"
    using up c' by (simp add: send_role_request_def demo_zts_env_def)
  then obtain key z' where run: "getRoleToken demo_zts_env 1000000 ?p ?z = (Inr (Requested key opts), z')"
    using getRoleToken_miss [of ?p ?z demo_zts_env 1000000 opts c'] demo_key(1)
    by (auto simp: demo_provider_client_def demo_zts_def demo_zts_env_def)
  have m: "map_of (rf_methods demo_factory) ''getRoleToken'' = Some role_token_route"
    by code_simp
  have "JStr (to_lower ''Sports'') \<noteq> pa_userDomain demo_authority"
    by (simp add: to_lower_def)
  from zts_request_authenticated [OF run _ _ _ _ _ _ ip _ _ _ _ _ _ _ demo_key_pair(1) [of _ "''pub''"] _ _ this,
      where off = 300 and ks = "\<lambda>_ _ _. Inr (Val (KeyText ''pub''))" and tm = demo_token_module
      and maxExpiry = 2592000 and now = 1100000 and rand = "[1, 2, 3, 4]"
      and addr = Null and m = "Val ''GET''"]
  have "\<exists>creds q. obj_get (op_headers opts) (zv_header demo_zts_env PrincipalAuthorityObj) = val_of_ref creds
    \<and> snd (PrincipalAuthority_authenticate demo_crypto demo_token_module 1100000
        (PrincipalAuthority_setKeyStore (\<lambda>_ _ _. Inr (Val (KeyText ''pub''))) demo_authority) creds Null (Val ''GET''))
        = Inr (Some q)"
    using m by (auto simp: demo_provider_client_def demo_zts_def demo_zts_client_def sia_def credentials_current_def)
  then show ?thesis
    using ip run by (auto simp: demo_zts_env_def sia_def)
qed

end
